(* ===== verification/Prelude.thy ===== *)
theory Prelude
  imports Main "HOL-Library.Sublist" "HOL-Library.Word" "HOL-Library.AList" "HOL-Library.Multiset"
    "HOL-Library.List_Lexorder" "HOL-Library.Char_ord"
begin

text \<open>
  Shared vocabulary of the development: Go strings and the functions of the Go
  standard library (\<^verbatim>\<open>strings\<close>, \<^verbatim>\<open>fmt\<close>, \<^verbatim>\<open>strconv\<close>) that the operator uses, nil-able
  pointers as options, and generic lemmas on lists and maps.  A Go string is a list of
  bytes, so \<^verbatim>\<open>len\<close> is \<open>length\<close>.  White space and letter case are those of ASCII: the
  non-ASCII white space and letters that \<^verbatim>\<open>strings.TrimSpace\<close> and \<^verbatim>\<open>strings.ToLower\<close>
  also know are left alone.
\<close>

named_theorems go_string "rewrite rules for the string functions"
named_theorems opt_simps "rewrite rules for nil-able flags and fields"

type_synonym i32 = "32 word"
type_synonym str_map = "string \<rightharpoonup> string"

section \<open>Strings\<close>

definition is_space :: "char \<Rightarrow> bool" where
  "is_space c \<longleftrightarrow> (let n = (of_char c :: nat) in n = 32 \<or> (9 \<le> n \<and> n \<le> 13))"

definition trim_space :: "string \<Rightarrow> string" where
  "trim_space s = rev (dropWhile is_space (rev (dropWhile is_space s)))"

definition lower_char :: "char \<Rightarrow> char" where
  "lower_char c = (let n = (of_char c :: nat) in if 65 \<le> n \<and> n \<le> 90 then char_of (n + 32) else c)"

definition to_lower :: "string \<Rightarrow> string" where
  "to_lower = map lower_char"

fun contains_str :: "string \<Rightarrow> string \<Rightarrow> bool" where
  "contains_str [] sub = (sub = [])"
| "contains_str (c # cs) sub = (prefix sub (c # cs) \<or> contains_str cs sub)"

fun join_str :: "string \<Rightarrow> string list \<Rightarrow> string" where
  "join_str sep [] = []"
| "join_str sep [x] = x"
| "join_str sep (x # y # ys) = x @ sep @ join_str sep (y # ys)"

fun string_of_nat :: "nat \<Rightarrow> string" where
  "string_of_nat n =
     (if n < 10 then [char_of (48 + n)] else string_of_nat (n div 10) @ [char_of (48 + n mod 10)])"

declare string_of_nat.simps [simp del]

definition string_of_int :: "int \<Rightarrow> string" where
  "string_of_int i = (if i < 0 then CHR ''-'' # string_of_nat (nat (- i)) else string_of_nat (nat i))"

text \<open>
  The \<^verbatim>\<open>%q\<close> verb: \<^verbatim>\<open>strconv.Quote\<close> on ASCII.  Bytes from 128 on are copied, as they are
  when they spell printable characters.
\<close>

definition hex_digit :: "nat \<Rightarrow> char" where
  "hex_digit n = (if n < 10 then char_of (48 + n) else char_of (87 + n))"

definition quote_char :: "char \<Rightarrow> string" where
  "quote_char c = (let n = (of_char c :: nat) in
     if n = 34 then [char_of (92::nat), c]
     else if n = 92 then [c, c]
     else if n = 7 then [char_of (92::nat), CHR ''a'']
     else if n = 8 then [char_of (92::nat), CHR ''b'']
     else if n = 12 then [char_of (92::nat), CHR ''f'']
     else if n = 10 then [char_of (92::nat), CHR ''n'']
     else if n = 13 then [char_of (92::nat), CHR ''r'']
     else if n = 9 then [char_of (92::nat), CHR ''t'']
     else if n = 11 then [char_of (92::nat), CHR ''v'']
     else if n < 32 \<or> n = 127 then [char_of (92::nat), CHR ''x'', hex_digit (n div 16), hex_digit (n mod 16)]
     else [c])"

definition go_quote :: "string \<Rightarrow> string" where
  "go_quote s = [char_of (34::nat)] @ concat (map quote_char s) @ [char_of (34::nat)]"

lemma trim_space_Nil [simp]: "trim_space [] = []"
  by (simp add: trim_space_def)

lemma dropWhile_hd: "dropWhile P xs \<noteq> [] \<Longrightarrow> \<not> P (hd (dropWhile P xs))"
  by (rule hd_dropWhile)

lemma dropWhile_id: "xs \<noteq> [] \<Longrightarrow> \<not> P (hd xs) \<Longrightarrow> dropWhile P xs = xs"
  by (cases xs) auto

text \<open>A string with no white space at either end is what trimming leaves alone.\<close>

definition is_trimmed :: "string \<Rightarrow> bool" where
  "is_trimmed s \<longleftrightarrow> trim_space s = s"

lemma hd_rev_dropWhile_rev:
  "ys \<noteq> [] \<Longrightarrow> dropWhile P (rev ys) \<noteq> [] \<Longrightarrow> hd (rev (dropWhile P (rev ys))) = hd ys"
proof -
  assume "ys \<noteq> []" "dropWhile P (rev ys) \<noteq> []"
  obtain zs where zs: "rev ys = zs @ dropWhile P (rev ys)"
    by (metis takeWhile_dropWhile_id)
  then have "ys = rev (dropWhile P (rev ys)) @ rev zs"
    by (metis rev_append rev_rev_ident)
  with \<open>dropWhile P (rev ys) \<noteq> []\<close> show ?thesis
    by (metis hd_append2 rev_is_Nil_conv)
qed

lemma trim_space_trimmed [simp]: "is_trimmed (trim_space s)"
proof -
  let ?a = "dropWhile is_space s"
  let ?b = "dropWhile is_space (rev ?a)"
  show ?thesis
  proof (cases "?b = []")
    case True
    then have "trim_space s = []" by (simp only: trim_space_def rev.simps)
    then show ?thesis by (simp add: is_trimmed_def)
  next
    case False
    then have ne: "?a \<noteq> []" by (metis dropWhile.simps(1) rev.simps(1))
    have "hd (rev ?b) = hd ?a"
      using hd_rev_dropWhile_rev [OF ne False] .
    then have "\<not> is_space (hd (rev ?b))"
      using dropWhile_hd [OF ne] by simp
    then have "dropWhile is_space (rev ?b) = rev ?b"
      using False by (simp add: dropWhile_id)
    moreover have "dropWhile is_space ?b = ?b"
      using False dropWhile_hd dropWhile_id by blast
    ultimately show ?thesis by (simp add: is_trimmed_def trim_space_def)
  qed
qed

lemma trim_space_idem [simp]: "trim_space (trim_space s) = trim_space s"
  using trim_space_trimmed by (simp add: is_trimmed_def)

lemma string_of_nat_ne [simp]: "string_of_nat n \<noteq> []"
  by (subst string_of_nat.simps) simp

section \<open>Lists and maps\<close>

lemma distinct_map_filter_fst: "distinct (map fst xs) \<Longrightarrow> distinct (map fst (filter P xs))"
  by (rule distinct_map_filter)

lemma mset_distinct_fst:
  assumes "distinct (map fst xs)" and "mset ys = mset xs"
  shows "distinct (map fst ys)"
proof -
  have "mset (map fst ys) = mset (map fst xs)" using assms(2) by simp
  then show ?thesis using assms(1) by (rule mset_eq_imp_distinct_iff [THEN iffD2])
qed

lemma map_of_perm:
  assumes "distinct (map fst xs)" and "mset ys = mset xs"
  shows "map_of ys = map_of xs"
proof
  fix k
  have "distinct (map fst ys)" using assms by (rule mset_distinct_fst)
  moreover have "set ys = set xs" using assms(2) by (rule mset_eq_setD)
  ultimately have "map_of ys k = Some v \<longleftrightarrow> map_of xs k = Some v" for v
    using assms(1) by (simp add: map_of_eq_Some_iff)
  then show "map_of ys k = map_of xs k"
    by (cases "map_of xs k"; cases "map_of ys k") auto
qed

end
