(* ===== verification/Api_Types.thy ===== *)
theory Api_Types
  imports Prelude
begin

text \<open>
  The custom resources of \<^verbatim>\<open>api/v1beta1\<close>: one record per Go struct, in the order of the
  files, with the fields of the struct.  A pointer is an option, an \<^verbatim>\<open>*int32\<close> a 32-bit
  word, a slice a list, a \<^verbatim>\<open>map[string]string\<close> a map of which nil and empty are the same
  (no code of the operator tells them apart).  \<open>LabelSelector\<close> and \<open>condition\<close> are the
  apimachinery structs the API embeds.
\<close>

section \<open>Metadata of apimachinery that the API embeds\<close>

record LabelSelector =
  matchLabels :: str_map
  matchExpressions :: "(string \<times> string \<times> string list) list"

definition zero_LabelSelector :: LabelSelector where
  "zero_LabelSelector = \<lparr>matchLabels = Map.empty, matchExpressions = []\<rparr>"

record condition =
  con_Type :: string
  con_Status :: string
  con_Reason :: string
  con_Message :: string
  con_LastTransitionTime :: nat

record owner_ref =
  or_kind :: string
  or_name :: string
  or_uid :: string
  or_controller :: bool

record objmeta =
  om_name :: string
  om_namespace :: string
  om_uid :: string
  om_labels :: str_map
  om_annotations :: str_map
  om_ownerRefs :: "owner_ref list"
  om_finalizers :: "string list"
  om_deletionTimestamp :: "nat option"
  om_generation :: int

definition zero_objmeta :: objmeta where
  "zero_objmeta = \<lparr>om_name = [], om_namespace = [], om_uid = [], om_labels = Map.empty,
     om_annotations = Map.empty, om_ownerRefs = [], om_finalizers = [],
     om_deletionTimestamp = None, om_generation = 0\<rparr>"

section \<open>Constants\<close>

definition ProjectOnboardingFinalizer :: string where
  "ProjectOnboardingFinalizer = ''onboarding.stderr.at/finalizer''"
definition ProjectOnboardingLabelKey :: string where
  "ProjectOnboardingLabelKey = ''onboarding.stderr.at/project-onboarding''"
definition ProjectOnboardingNamespaceKey :: string where
  "ProjectOnboardingNamespaceKey = ''onboarding.stderr.at/target-namespace''"
definition ProjectOnboardingManagedByKey :: string where
  "ProjectOnboardingManagedByKey = ''app.kubernetes.io/managed-by''"
definition ProjectOnboardingManagedByVal :: string where
  "ProjectOnboardingManagedByVal = ''project-onboarding-operator''"
definition PhasePending :: string where "PhasePending = ''Pending''"
definition PhaseReady :: string where "PhaseReady = ''Ready''"
definition PhaseFailed :: string where "PhaseFailed = ''Failed''"
definition ConditionReady :: string where "ConditionReady = ''Ready''"
definition ConditionDeletionBlocked :: string where "ConditionDeletionBlocked = ''DeletionBlocked''"

definition ArgoCDManagedByLabel :: string where
  "ArgoCDManagedByLabel = ''argocd.argoproj.io/managed-by''"
definition ArgoCDProjectInheritLabel :: string where
  "ArgoCDProjectInheritLabel = ''argocd.argoproj.io/project-inherit''"

definition TShirtSizePhaseReady :: string where "TShirtSizePhaseReady = ''Ready''"
definition TShirtSizePhaseInvalid :: string where "TShirtSizePhaseInvalid = ''Invalid''"
definition TShirtSizeConditionReady :: string where "TShirtSizeConditionReady = ''Ready''"

lemma label_keys_distinct [simp]:
  "ProjectOnboardingLabelKey \<noteq> ProjectOnboardingNamespaceKey"
  "ProjectOnboardingNamespaceKey \<noteq> ProjectOnboardingLabelKey"
  "ProjectOnboardingLabelKey \<noteq> ProjectOnboardingManagedByKey"
  "ProjectOnboardingManagedByKey \<noteq> ProjectOnboardingLabelKey"
  "ProjectOnboardingNamespaceKey \<noteq> ProjectOnboardingManagedByKey"
  "ProjectOnboardingManagedByKey \<noteq> ProjectOnboardingNamespaceKey"
  "ArgoCDManagedByLabel \<noteq> ProjectOnboardingLabelKey"
  "ArgoCDManagedByLabel \<noteq> ProjectOnboardingNamespaceKey"
  "ArgoCDManagedByLabel \<noteq> ProjectOnboardingManagedByKey"
  "ProjectOnboardingLabelKey \<noteq> ArgoCDManagedByLabel"
  "ProjectOnboardingNamespaceKey \<noteq> ArgoCDManagedByLabel"
  "ProjectOnboardingManagedByKey \<noteq> ArgoCDManagedByLabel"
  "ArgoCDProjectInheritLabel \<noteq> ProjectOnboardingLabelKey"
  "ArgoCDProjectInheritLabel \<noteq> ProjectOnboardingNamespaceKey"
  "ArgoCDProjectInheritLabel \<noteq> ProjectOnboardingManagedByKey"
  "ProjectOnboardingLabelKey \<noteq> ArgoCDProjectInheritLabel"
  "ProjectOnboardingNamespaceKey \<noteq> ArgoCDProjectInheritLabel"
  "ProjectOnboardingManagedByKey \<noteq> ArgoCDProjectInheritLabel"
  by (simp_all add: ProjectOnboardingLabelKey_def ProjectOnboardingNamespaceKey_def
      ProjectOnboardingManagedByKey_def ArgoCDManagedByLabel_def ArgoCDProjectInheritLabel_def)

lemma managed_by_val_ne [simp]: "ProjectOnboardingManagedByVal \<noteq> []" "[] \<noteq> ProjectOnboardingManagedByVal"
  by (simp_all add: ProjectOnboardingManagedByVal_def)

section \<open>gitops\_types.go\<close>

record GitOpsDestinationSpec =
  gd_Name :: string
  gd_Server :: string

record GitOpsSpec =
  go_ApplicationNamespace :: string
  go_Destinations :: "GitOpsDestinationSpec list"
  go_AllowedSourceRepos :: "string list"
  go_AllowedOIDCGroups :: "string list"
  go_AllowedSourceNamespaces :: "string list"

record ArgoCDPolicySpec =
  ap_Resource :: string
  ap_Action :: string
  ap_Object :: string
  ap_AppProjectName :: string
  ap_Permission :: string

record ArgoCDRoleSpec =
  ar_Name :: string
  ar_Description :: string
  ar_OIDCGroups :: "string list"
  ar_FullAccess :: "bool option"
  ar_Policies :: "ArgoCDPolicySpec list"

record ArgoCDProjectSpec =
  ac_Enabled :: "bool option"
  ac_Name :: string
  ac_Description :: string
  ac_SourceRepos :: "string list"
  ac_SourceNamespaces :: "string list"
  ac_Destinations :: "GitOpsDestinationSpec list"
  ac_OIDCGroups :: "string list"
  ac_Roles :: "ArgoCDRoleSpec list"

section \<open>projectonboarding\_types.go\<close>

record NamespaceLabel =
  nl_Key :: string
  nl_Value :: string

record StorageClassQuota =
  sc_Key :: string
  sc_Value :: string

record AdditionalSettingsSpec =
  as_PodSecurityEnforce :: string
  as_PodSecurityWarn :: string
  as_PodSecurityAudit :: string
  as_EnableClusterMonitoring :: "bool option"
  as_AdditionalLabels :: "NamespaceLabel list"

record LocalAdminGroupSpec =
  lag_Enabled :: "bool option"
  lag_GroupName :: string
  lag_ClusterRole :: string
  lag_Users :: "string list"

record EgressIPSpec =
  eip_Enabled :: "bool option"
  eip_IPs :: "string list"

record ResourceQuotaLimitSpec =
  rl_CPU :: "string option"
  rl_Memory :: "string option"
  rl_EphemeralStorage :: "string option"

record ResourceQuotaRequestSpec =
  rr_CPU :: "string option"
  rr_Memory :: "string option"
  rr_Storage :: "string option"
  rr_EphemeralStorage :: "string option"

record ResourceQuotaSpec =
  rq_Enabled :: "bool option"
  rq_CPU :: "string option"
  rq_Memory :: "string option"
  rq_EphemeralStorage :: "string option"
  rq_Pods :: "i32 option"
  rq_ReplicationControllers :: "i32 option"
  rq_ResourceQuotas :: "i32 option"
  rq_Services :: "i32 option"
  rq_Secrets :: "i32 option"
  rq_ConfigMaps :: "i32 option"
  rq_PersistentVolumeClaims :: "i32 option"
  rq_Limits :: "ResourceQuotaLimitSpec option"
  rq_Requests :: "ResourceQuotaRequestSpec option"
  rq_StorageClasses :: "StorageClassQuota list"

record ResourceAmountSpec =
  ra_CPU :: "string option"
  ra_Memory :: "string option"

record StorageAmountSpec =
  sa_Storage :: "string option"

record LimitRangePodSpec =
  lp_Max :: "ResourceAmountSpec option"
  lp_Min :: "ResourceAmountSpec option"

record LimitRangeContainerSpec =
  lc_Max :: "ResourceAmountSpec option"
  lc_Min :: "ResourceAmountSpec option"
  lc_Default :: "ResourceAmountSpec option"
  lc_DefaultRequest :: "ResourceAmountSpec option"

record LimitRangePVCSpec =
  lv_Min :: "StorageAmountSpec option"
  lv_Max :: "StorageAmountSpec option"

record LimitRangeSpec =
  lr_Enabled :: "bool option"
  lr_Pod :: "LimitRangePodSpec option"
  lr_Container :: "LimitRangeContainerSpec option"
  lr_PVC :: "LimitRangePVCSpec option"

record DefaultPoliciesSpec =
  dp_AllowFromIngress :: "bool option"
  dp_AllowFromMonitoring :: "bool option"
  dp_AllowKubeAPIServer :: "bool option"
  dp_AllowToDNS :: "bool option"
  dp_DenyAllEgress :: "bool option"
  dp_DenyAllIngress :: "bool option"
  dp_AllowFromSameNamespace :: "bool option"

record IPBlockSpec =
  ib_CIDR :: string
  ib_Except :: "string list"

record NetworkPolicyPeerSpec =
  npp_PodSelector :: "LabelSelector option"
  npp_NamespaceSelector :: "LabelSelector option"
  npp_IPBlock :: "IPBlockSpec option"

record NetworkPolicyPortSpec =
  npo_Protocol :: "string option"
  npo_Port :: "i32 option"

record NetworkPolicyRuleSpec =
  npr_Selectors :: "NetworkPolicyPeerSpec list"
  npr_Ports :: "NetworkPolicyPortSpec list"

record CustomNetworkPolicySpec =
  cnp_Name :: string
  cnp_Active :: "bool option"
  cnp_PodSelector :: "LabelSelector option"
  cnp_IngressRules :: "NetworkPolicyRuleSpec list"
  cnp_EgressRules :: "NetworkPolicyRuleSpec list"

record NamespaceSpec =
  ns_Name :: string
  ns_Enabled :: "bool option"
  ns_Offboard :: "bool option"
  ns_AdditionalSettings :: "AdditionalSettingsSpec option"
  ns_OverwriteTshirt :: "bool option"
  ns_ResourceQuotas :: "ResourceQuotaSpec option"
  ns_LimitRanges :: "LimitRangeSpec option"
  ns_DefaultPolicies :: "DefaultPoliciesSpec option"
  ns_NetworkPolicies :: "CustomNetworkPolicySpec list"
  ns_LocalAdminGroup :: "LocalAdminGroupSpec option"
  ns_EgressIPs :: "EgressIPSpec option"
  ns_ApplicationGitOpsNamespace :: string
  ns_ArgoCDProjects :: "ArgoCDProjectSpec list"
  ns_ProjectSize :: string
  ns_Labels :: str_map
  ns_Annotations :: str_map

record ProjectOnboardingSpec =
  ps_GitOps :: "GitOpsSpec option"
  ps_Namespaces :: "NamespaceSpec list"

record NamespaceStatus =
  nst_Name :: string
  nst_Ready :: bool
  nst_Message :: string

record ProjectOnboardingStatus =
  pst_ObservedGeneration :: int
  pst_Phase :: string
  pst_Conditions :: "condition list"
  pst_Namespaces :: "NamespaceStatus list"

record ProjectOnboarding =
  po_meta :: objmeta
  po_Spec :: ProjectOnboardingSpec
  po_Status :: ProjectOnboardingStatus

section \<open>tshirtsize\_types.go\<close>

record TShirtSizeSpec =
  ts_Description :: string
  ts_ResourceQuotas :: "ResourceQuotaSpec option"
  ts_LimitRanges :: "LimitRangeSpec option"

record TShirtSizeStatus =
  tst_ObservedGeneration :: int
  tst_Phase :: string
  tst_ReferencedBy :: i32
  tst_Conditions :: "condition list"

record TShirtSize =
  ts_meta :: objmeta
  ts_Spec :: TShirtSizeSpec
  ts_Status :: TShirtSizeStatus

abbreviation po_Name :: "ProjectOnboarding \<Rightarrow> string" where
  "po_Name po \<equiv> om_name (po_meta po)"

abbreviation po_Namespaces :: "ProjectOnboarding \<Rightarrow> NamespaceSpec list" where
  "po_Namespaces po \<equiv> ps_Namespaces (po_Spec po)"

abbreviation ts_Name :: "TShirtSize \<Rightarrow> string" where
  "ts_Name ts \<equiv> om_name (ts_meta ts)"

section \<open>Zero values\<close>

text \<open>What \<^verbatim>\<open>var out T\<close> and \<^verbatim>\<open>T{}\<close> give: every field nil, empty or zero.\<close>

definition zero_ResourceQuotaLimitSpec :: ResourceQuotaLimitSpec where
  "zero_ResourceQuotaLimitSpec = \<lparr>rl_CPU = None, rl_Memory = None, rl_EphemeralStorage = None\<rparr>"

definition zero_ResourceQuotaRequestSpec :: ResourceQuotaRequestSpec where
  "zero_ResourceQuotaRequestSpec =
     \<lparr>rr_CPU = None, rr_Memory = None, rr_Storage = None, rr_EphemeralStorage = None\<rparr>"

definition zero_ResourceQuotaSpec :: ResourceQuotaSpec where
  "zero_ResourceQuotaSpec = \<lparr>rq_Enabled = None, rq_CPU = None, rq_Memory = None,
     rq_EphemeralStorage = None, rq_Pods = None, rq_ReplicationControllers = None,
     rq_ResourceQuotas = None, rq_Services = None, rq_Secrets = None, rq_ConfigMaps = None,
     rq_PersistentVolumeClaims = None, rq_Limits = None, rq_Requests = None, rq_StorageClasses = []\<rparr>"

definition zero_ResourceAmountSpec :: ResourceAmountSpec where
  "zero_ResourceAmountSpec = \<lparr>ra_CPU = None, ra_Memory = None\<rparr>"

definition zero_StorageAmountSpec :: StorageAmountSpec where
  "zero_StorageAmountSpec = \<lparr>sa_Storage = None\<rparr>"

definition zero_LimitRangePodSpec :: LimitRangePodSpec where
  "zero_LimitRangePodSpec = \<lparr>lp_Max = None, lp_Min = None\<rparr>"

definition zero_LimitRangeContainerSpec :: LimitRangeContainerSpec where
  "zero_LimitRangeContainerSpec =
     \<lparr>lc_Max = None, lc_Min = None, lc_Default = None, lc_DefaultRequest = None\<rparr>"

definition zero_LimitRangePVCSpec :: LimitRangePVCSpec where
  "zero_LimitRangePVCSpec = \<lparr>lv_Min = None, lv_Max = None\<rparr>"

definition zero_LimitRangeSpec :: LimitRangeSpec where
  "zero_LimitRangeSpec = \<lparr>lr_Enabled = None, lr_Pod = None, lr_Container = None, lr_PVC = None\<rparr>"

definition zero_NamespaceSpec :: NamespaceSpec where
  "zero_NamespaceSpec = \<lparr>ns_Name = [], ns_Enabled = None, ns_Offboard = None,
     ns_AdditionalSettings = None, ns_OverwriteTshirt = None, ns_ResourceQuotas = None,
     ns_LimitRanges = None, ns_DefaultPolicies = None, ns_NetworkPolicies = [],
     ns_LocalAdminGroup = None, ns_EgressIPs = None, ns_ApplicationGitOpsNamespace = [],
     ns_ArgoCDProjects = [], ns_ProjectSize = [], ns_Labels = Map.empty, ns_Annotations = Map.empty\<rparr>"

definition zero_ProjectOnboardingStatus :: ProjectOnboardingStatus where
  "zero_ProjectOnboardingStatus =
     \<lparr>pst_ObservedGeneration = 0, pst_Phase = [], pst_Conditions = [], pst_Namespaces = []\<rparr>"

definition zero_TShirtSizeStatus :: TShirtSizeStatus where
  "zero_TShirtSizeStatus =
     \<lparr>tst_ObservedGeneration = 0, tst_Phase = [], tst_ReferencedBy = 0, tst_Conditions = []\<rparr>"

lemmas zero_specs [simp] =
  zero_ResourceQuotaLimitSpec_def zero_ResourceQuotaRequestSpec_def zero_ResourceQuotaSpec_def
  zero_ResourceAmountSpec_def zero_StorageAmountSpec_def zero_LimitRangePodSpec_def
  zero_LimitRangeContainerSpec_def zero_LimitRangePVCSpec_def zero_LimitRangeSpec_def

end
