(* ===== verification/Go_Effects.thy ===== *)
theory Go_Effects
  imports Prelude
begin

text \<open>
  Go errors and effectful Go functions.  A function that talks to the cluster takes the
  state of the world and returns an outcome and the next state: a value, an error (Go's
  second result, when it is not nil) or a panic.  \<open>bindE\<close> is the sequence of statements
  with the early return \<^verbatim>\<open>if err != nil { return err }\<close>; \<open>tryE\<close> hands the error to the
  caller instead; \<open>wrapE\<close> is \<^verbatim>\<open>fmt.Errorf("context: %w", err)\<close>.  A panic stops everything.

  The triple \<open>triple P m Q E\<close> is the proof interface of effects: from a state in \<open>P\<close>, \<open>m\<close>
  returns a value and a state in \<open>Q\<close>, or fails in a state in \<open>E\<close>.
\<close>

section \<open>Errors\<close>

datatype status_reason =
  ReasonNotFound | ReasonConflict | ReasonTimeout | ReasonServerTimeout | ReasonTooManyRequests
| ReasonServiceUnavailable | ReasonInternalError | ReasonAlreadyExists | ReasonOther string

datatype go_error =
  StatusError status_reason string
| NoMatchError string
| PlainError string
| WrapError string go_error

text \<open>\<^verbatim>\<open>err.Error()\<close>; a wrapping error prints its context and then the error it wraps.\<close>

primrec error_string :: "go_error \<Rightarrow> string" where
  "error_string (StatusError r m) = m"
| "error_string (NoMatchError m) = m"
| "error_string (PlainError m) = m"
| "error_string (WrapError p e) = p @ error_string e"

text \<open>\<^verbatim>\<open>errors.As\<close>: the classification functions of apimachinery look through wrapping.\<close>

primrec reason_of :: "go_error \<Rightarrow> status_reason option" where
  "reason_of (StatusError r m) = Some r"
| "reason_of (NoMatchError m) = None"
| "reason_of (PlainError m) = None"
| "reason_of (WrapError p e) = reason_of e"

primrec IsNoMatchError :: "go_error \<Rightarrow> bool" where
  "IsNoMatchError (StatusError r m) = False"
| "IsNoMatchError (NoMatchError m) = True"
| "IsNoMatchError (PlainError m) = False"
| "IsNoMatchError (WrapError p e) = IsNoMatchError e"

definition IsNotFound :: "go_error \<Rightarrow> bool" where
  "IsNotFound e \<longleftrightarrow> reason_of e = Some ReasonNotFound"

definition IsConflict :: "go_error \<Rightarrow> bool" where
  "IsConflict e \<longleftrightarrow> reason_of e = Some ReasonConflict"

lemma IsNotFound_simps [simp]:
  "IsNotFound (StatusError r m) = (r = ReasonNotFound)"
  "\<not> IsNotFound (NoMatchError m)" "\<not> IsNotFound (PlainError m)"
  "IsNotFound (WrapError p e) = IsNotFound e"
  by (simp_all add: IsNotFound_def)

lemma IsConflict_simps [simp]:
  "IsConflict (StatusError r m) = (r = ReasonConflict)"
  "\<not> IsConflict (NoMatchError m)" "\<not> IsConflict (PlainError m)"
  "IsConflict (WrapError p e) = IsConflict e"
  by (simp_all add: IsConflict_def)

lemma not_found_not_no_match [simp]: "IsNotFound e \<Longrightarrow> \<not> IsNoMatchError e"
  by (induction e) auto

section \<open>Effects\<close>

datatype 'a result = Ok 'a | Err go_error | Panic string

type_synonym ('s, 'a) eff = "'s \<Rightarrow> 'a result \<times> 's"

definition retE :: "'a \<Rightarrow> ('s, 'a) eff" where
  "retE x s = (Ok x, s)"

definition failE :: "go_error \<Rightarrow> ('s, 'a) eff" where
  "failE e s = (Err e, s)"

definition resE :: "'a result \<Rightarrow> ('s, 'a) eff" where
  "resE r s = (r, s)"

definition bindE :: "('s, 'a) eff \<Rightarrow> ('a \<Rightarrow> ('s, 'b) eff) \<Rightarrow> ('s, 'b) eff" where
  "bindE m f s = (case m s of
     (Ok x, s') \<Rightarrow> f x s' | (Err e, s') \<Rightarrow> (Err e, s') | (Panic p, s') \<Rightarrow> (Panic p, s'))"

definition thenE :: "('s, 'a) eff \<Rightarrow> ('s, 'b) eff \<Rightarrow> ('s, 'b) eff" where
  "thenE m n = bindE m (\<lambda>_. n)"

definition tryE :: "('s, 'a) eff \<Rightarrow> ('s, go_error + 'a) eff" where
  "tryE m s = (case m s of
     (Ok x, s') \<Rightarrow> (Ok (Inr x), s') | (Err e, s') \<Rightarrow> (Ok (Inl e), s') | (Panic p, s') \<Rightarrow> (Panic p, s'))"

definition wrapE :: "string \<Rightarrow> ('s, 'a) eff \<Rightarrow> ('s, 'a) eff" where
  "wrapE ctx m = bindE (tryE m) (\<lambda>r. case r of Inl e \<Rightarrow> failE (WrapError ctx e) | Inr x \<Rightarrow> retE x)"

definition whenE :: "bool \<Rightarrow> ('s, unit) eff \<Rightarrow> ('s, unit) eff" where
  "whenE b m = (if b then m else retE ())"

text \<open>A \<^verbatim>\<open>for _, x := range xs\<close> loop whose body may return an error.\<close>

fun forE :: "'a list \<Rightarrow> ('a \<Rightarrow> ('s, unit) eff) \<Rightarrow> ('s, unit) eff" where
  "forE [] f = retE ()"
| "forE (x # xs) f = bindE (f x) (\<lambda>_. forE xs f)"

lemma bindE_assoc: "bindE (bindE m f) g = bindE m (\<lambda>x. bindE (f x) g)"
  by (auto simp: bindE_def fun_eq_iff split: prod.splits result.splits)

lemma bindE_ret [simp]: "bindE (retE x) f = f x" "bindE m retE = m"
  by (auto simp: bindE_def retE_def fun_eq_iff split: prod.splits result.splits)

lemma bindE_fail [simp]: "bindE (failE e) f = failE e"
  by (auto simp: bindE_def failE_def fun_eq_iff)

lemma forE_append: "forE (xs @ ys) f = thenE (forE xs f) (forE ys f)"
  by (induction xs) (simp_all add: thenE_def bindE_assoc)

lemma forE_filter: "forE (filter P xs) f = forE xs (\<lambda>x. if P x then f x else retE ())"
  by (induction xs) simp_all

lemma forE_map: "forE (map g xs) f = forE xs (\<lambda>x. f (g x))"
  by (induction xs) simp_all

named_theorems eff_run "equations that run an effect on a state"

lemma run_retE [eff_run]: "retE x s = (Ok x, s)"
  by (simp add: retE_def)

lemma run_failE [eff_run]: "failE e s = (Err e, s)"
  by (simp add: failE_def)

lemma run_resE [eff_run]: "resE r s = (r, s)"
  by (simp add: resE_def)

lemma run_bindE [eff_run]:
  "bindE m f s = (case m s of
     (Ok x, s') \<Rightarrow> f x s' | (Err e, s') \<Rightarrow> (Err e, s') | (Panic p, s') \<Rightarrow> (Panic p, s'))"
  by (simp add: bindE_def)

lemma run_thenE [eff_run]:
  "thenE m n s = (case m s of
     (Ok x, s') \<Rightarrow> n s' | (Err e, s') \<Rightarrow> (Err e, s') | (Panic p, s') \<Rightarrow> (Panic p, s'))"
  by (simp add: thenE_def bindE_def)

lemma run_tryE [eff_run]:
  "tryE m s = (case m s of
     (Ok x, s') \<Rightarrow> (Ok (Inr x), s') | (Err e, s') \<Rightarrow> (Ok (Inl e), s') | (Panic p, s') \<Rightarrow> (Panic p, s'))"
  by (simp add: tryE_def)

lemma run_wrapE [eff_run]:
  "wrapE ctx m s = (case m s of
     (Ok x, s') \<Rightarrow> (Ok x, s') | (Err e, s') \<Rightarrow> (Err (WrapError ctx e), s') | (Panic p, s') \<Rightarrow> (Panic p, s'))"
  by (auto simp: wrapE_def bindE_def tryE_def retE_def failE_def split: prod.splits result.splits)

lemma run_whenE [eff_run]: "whenE b m s = (if b then m s else (Ok (), s))"
  by (simp add: whenE_def retE_def)

text \<open>What a successful run of a sequence did.\<close>

lemma Ok_bind:
  "bindE m f s = (Ok x, s') \<Longrightarrow> \<exists>y s1. m s = (Ok y, s1) \<and> f y s1 = (Ok x, s')"
  by (auto simp: run_bindE split: prod.splits result.splits)

lemma Ok_then: "thenE m n s = (Ok x, s') \<Longrightarrow> \<exists>u s1. m s = (Ok u, s1) \<and> n s1 = (Ok x, s')"
  by (auto simp: run_thenE split: prod.splits result.splits)

lemma Ok_wrap: "wrapE ctx m s = (Ok x, s') \<Longrightarrow> m s = (Ok x, s')"
  by (auto simp: run_wrapE split: prod.splits result.splits)

text \<open>A run that returns a value: the form in which concrete runs are evaluated.\<close>

definition succeeds :: "('s, 'a) eff \<Rightarrow> 's \<Rightarrow> bool" where
  "succeeds m s = (case m s of (Ok x, s') \<Rightarrow> True | (Err e, s') \<Rightarrow> False | (Panic p, s') \<Rightarrow> False)"

lemma succeedsE: "succeeds m s \<Longrightarrow> (\<And>x s'. m s = (Ok x, s') \<Longrightarrow> P) \<Longrightarrow> P"
  by (auto simp: succeeds_def split: prod.splits result.splits)

section \<open>Triples\<close>

definition triple :: "('s \<Rightarrow> bool) \<Rightarrow> ('s, 'a) eff \<Rightarrow> ('a \<Rightarrow> 's \<Rightarrow> bool) \<Rightarrow> ('s \<Rightarrow> bool) \<Rightarrow> bool" where
  "triple P m Q E \<longleftrightarrow> (\<forall>s r s'. P s \<longrightarrow> m s = (r, s') \<longrightarrow>
     (case r of Ok x \<Rightarrow> Q x s' | Err e \<Rightarrow> E s' | Panic p \<Rightarrow> E s'))"

definition keeps :: "('s \<Rightarrow> bool) \<Rightarrow> ('s, 'a) eff \<Rightarrow> bool" where
  "keeps I m \<longleftrightarrow> triple I m (\<lambda>_. I) I"

named_theorems keeps_intro "effects that keep an invariant"

lemma keeps_iff:
  fixes m :: "('s, 'a) eff"
  shows "keeps I m \<longleftrightarrow> (\<forall>s r s'. I s \<longrightarrow> m s = (r, s') \<longrightarrow> I s')"
proof -
  have "(case r of Ok x \<Rightarrow> I s' | Err e \<Rightarrow> I s' | Panic p \<Rightarrow> I s') = I s'" for r :: "'a result" and s'
    by (cases r) auto
  then show ?thesis by (simp only: keeps_def triple_def)
qed

lemma keeps_snd: "keeps I m \<longleftrightarrow> (\<forall>s. I s \<longrightarrow> I (snd (m s)))"
  unfolding keeps_iff by (metis prod.collapse snd_conv)

lemma keepsI: "(\<And>s. I s \<Longrightarrow> I (snd (m s))) \<Longrightarrow> keeps I m"
  by (simp add: keeps_snd)

lemma keepsD: "keeps I m \<Longrightarrow> I s \<Longrightarrow> m s = (r, s') \<Longrightarrow> I s'"
  by (simp add: keeps_iff)

lemma keeps_ret [keeps_intro, simp]: "keeps I (retE x)"
  by (simp add: keeps_snd retE_def)

lemma keeps_fail [keeps_intro, simp]: "keeps I (failE e)"
  by (simp add: keeps_snd failE_def)

lemma keeps_res [keeps_intro, simp]: "keeps I (resE r)"
  by (simp add: keeps_snd resE_def)

lemma keeps_bind [keeps_intro]:
  assumes m: "keeps I m" and f: "\<And>x. keeps I (f x)"
  shows "keeps I (bindE m f)"
proof (rule keepsI)
  fix s assume "I s"
  obtain r s' where r: "m s = (r, s')" by fastforce
  then have "I s'" using m \<open>I s\<close> by (blast intro: keepsD)
  then show "I (snd (bindE m f s))"
    using f r by (cases r) (auto simp: bindE_def keeps_snd)
qed

text \<open>What the value of an effect is known to be, if it returns one.\<close>

definition returns :: "('s, 'a) eff \<Rightarrow> ('a \<Rightarrow> bool) \<Rightarrow> bool" where
  "returns m P \<longleftrightarrow> (\<forall>s x s'. m s = (Ok x, s') \<longrightarrow> P x)"

lemma keeps_bind_returns:
  assumes m: "keeps I m" "returns m P" and f: "\<And>x. P x \<Longrightarrow> keeps I (f x)"
  shows "keeps I (bindE m f)"
proof (rule keepsI)
  fix s assume "I s"
  obtain r s' where r: "m s = (r, s')" by fastforce
  then have "I s'" using m(1) \<open>I s\<close> by (blast intro: keepsD)
  moreover have "keeps I (f x)" if "r = Ok x" for x
    using m(2) r that f by (auto simp: returns_def)
  ultimately show "I (snd (bindE m f s))"
    using r by (cases r) (auto simp: bindE_def keeps_snd)
qed

lemma returns_try:
  "returns m P \<Longrightarrow> returns (tryE m) (\<lambda>r. \<forall>x. r = Inr x \<longrightarrow> P x)"
  by (auto simp: returns_def tryE_def split: prod.splits result.splits)

lemma keeps_then [keeps_intro]: "keeps I m \<Longrightarrow> keeps I n \<Longrightarrow> keeps I (thenE m n)"
  unfolding thenE_def by (rule keeps_bind)

lemma keeps_try [keeps_intro]: "keeps I m \<Longrightarrow> keeps I (tryE m)"
  by (auto simp: keeps_iff tryE_def split: prod.splits result.splits)

lemma keeps_bind_try:
  assumes "keeps I m" "returns m P" "\<And>e. keeps I (f (Inl e))" "\<And>x. P x \<Longrightarrow> keeps I (f (Inr x))"
  shows "keeps I (bindE (tryE m) f)"
proof (rule keeps_bind_returns [OF keeps_try [OF assms(1)] returns_try [OF assms(2)]])
  fix r :: "go_error + _" assume "\<forall>x. r = Inr x \<longrightarrow> P x"
  then show "keeps I (f r)" using assms(3,4) by (cases r) auto
qed

lemma keeps_wrap [keeps_intro]: "keeps I m \<Longrightarrow> keeps I (wrapE ctx m)"
  unfolding wrapE_def by (rule keeps_bind) (auto intro: keeps_try split: sum.split)

lemma keeps_when [keeps_intro]: "(b \<Longrightarrow> keeps I m) \<Longrightarrow> keeps I (whenE b m)"
  by (simp add: whenE_def)

lemma keeps_if [keeps_intro]:
  "(b \<Longrightarrow> keeps I m) \<Longrightarrow> (\<not> b \<Longrightarrow> keeps I n) \<Longrightarrow> keeps I (if b then m else n)"
  by simp

lemma keeps_sum [keeps_intro]:
  "(\<And>e. r = Inl e \<Longrightarrow> keeps I (f e)) \<Longrightarrow> (\<And>x. r = Inr x \<Longrightarrow> keeps I (g x)) \<Longrightarrow>
   keeps I (case r of Inl e \<Rightarrow> f e | Inr x \<Rightarrow> g x)"
  by (cases r) auto

lemma keeps_option [keeps_intro]:
  "(r = None \<Longrightarrow> keeps I f) \<Longrightarrow> (\<And>x. r = Some x \<Longrightarrow> keeps I (g x)) \<Longrightarrow>
   keeps I (case r of None \<Rightarrow> f | Some x \<Rightarrow> g x)"
  by (cases r) auto

lemma keeps_for [keeps_intro]:
  "(\<And>x. x \<in> set xs \<Longrightarrow> keeps I (f x)) \<Longrightarrow> keeps I (forE xs f)"
  by (induction xs) (auto intro: keeps_bind)

subsection \<open>Rules for triples\<close>

lemma tripleD_Ok: "triple P m Q E \<Longrightarrow> P s \<Longrightarrow> m s = (Ok x, s') \<Longrightarrow> Q x s'"
  by (force simp: triple_def)

lemma tripleI:
  "(\<And>s x s'. P s \<Longrightarrow> m s = (Ok x, s') \<Longrightarrow> Q x s') \<Longrightarrow>
   (\<And>s e s'. P s \<Longrightarrow> m s = (Err e, s') \<Longrightarrow> E s') \<Longrightarrow>
   (\<And>s p s'. P s \<Longrightarrow> m s = (Panic p, s') \<Longrightarrow> E s') \<Longrightarrow> triple P m Q E"
  by (auto simp: triple_def split: result.splits)

lemma triple_bind:
  assumes m: "triple P m R E" and f: "\<And>x. triple (R x) (f x) Q E"
  shows "triple P (bindE m f) Q E"
  unfolding triple_def
proof (intro allI impI)
  fix s r s' assume "P s" and run: "bindE m f s = (r, s')"
  obtain r1 s1 where r1: "m s = (r1, s1)" by fastforce
  with m \<open>P s\<close> have *: "case r1 of Ok x \<Rightarrow> R x s1 | Err e \<Rightarrow> E s1 | Panic p \<Rightarrow> E s1"
    unfolding triple_def by blast
  show "case r of Ok x \<Rightarrow> Q x s' | Err e \<Rightarrow> E s' | Panic p \<Rightarrow> E s'"
  proof (cases r1)
    case (Ok x)
    with run r1 have "f x s1 = (r, s')" by (simp add: bindE_def)
    moreover from * Ok have "R x s1" by simp
    ultimately show ?thesis using f unfolding triple_def by blast
  qed (use * run r1 in \<open>auto simp: bindE_def\<close>)
qed

lemma triple_weaken:
  "triple P m Q E \<Longrightarrow> (\<And>s. P' s \<Longrightarrow> P s) \<Longrightarrow> (\<And>x s. Q x s \<Longrightarrow> Q' x s) \<Longrightarrow> (\<And>s. E s \<Longrightarrow> E' s) \<Longrightarrow>
   triple P' m Q' E'"
  unfolding triple_def by (fastforce split: result.splits)

text \<open>A loop whose body establishes a fact for its element and keeps those of the others.\<close>

lemma triple_for:
  assumes "\<And>x ys. x \<in> set xs \<Longrightarrow> triple (J ys) (f x) (\<lambda>_. J (insert x ys)) E"
  shows "triple (J ys) (forE xs f) (\<lambda>_. J (set xs \<union> ys)) E"
  using assms
proof (induction xs arbitrary: ys)
  case Nil
  then show ?case by (simp add: triple_def retE_def)
next
  case (Cons x xs)
  have "triple (J (insert x ys)) (forE xs f) (\<lambda>_. J (set xs \<union> insert x ys)) E"
    by (rule Cons.IH) (simp add: Cons.prems)
  moreover have "triple (J ys) (f x) (\<lambda>_. J (insert x ys)) E"
    by (rule Cons.prems) simp
  ultimately show ?case by (auto intro!: triple_bind)
qed

end
