(* ===== verification/Helpers.thy ===== *)
theory Helpers
  imports Api_Types Go_Effects
begin

text \<open>
  \<^verbatim>\<open>internal/onboarding\<close>: helpers.go, errors.go, pause.go, monitoring.go,
  namespace\_settings.go, the pure parts of metrics.go and owners.go.  Nil-able flags,
  names derived from a namespace entry, labels of managed objects, status conditions and
  messages, error classification and the requeue policy.
\<close>

section \<open>Flags (helpers.go)\<close>

definition IsEnabled :: "bool option \<Rightarrow> bool" where
  "IsEnabled enabled = (case enabled of None \<Rightarrow> True | Some b \<Rightarrow> b)"

definition IsOptInEnabled :: "bool option \<Rightarrow> bool" where
  "IsOptInEnabled enabled = (case enabled of None \<Rightarrow> False | Some b \<Rightarrow> b)"

definition IsOffboard :: "bool option \<Rightarrow> bool" where
  "IsOffboard offboard = IsOptInEnabled offboard"

fun ActiveTenantCount :: "NamespaceSpec list \<Rightarrow> nat" where
  "ActiveTenantCount [] = 0"
| "ActiveTenantCount (ns # nss) =
     (if IsEnabled (ns_Enabled ns) \<and> \<not> IsOffboard (ns_Offboard ns) then 1 else 0) + ActiveTenantCount nss"

definition IsDefaultTrue :: "bool option \<Rightarrow> bool" where
  "IsDefaultTrue value = (case value of None \<Rightarrow> True | Some b \<Rightarrow> b)"

lemma flag_simps [opt_simps, simp]:
  "IsEnabled None" "IsEnabled (Some b) = b"
  "\<not> IsOptInEnabled None" "IsOptInEnabled (Some b) = b"
  "IsOffboard x = IsOptInEnabled x"
  by (simp_all add: IsEnabled_def IsOptInEnabled_def IsOffboard_def)

lemma opt_in_enabled: "IsOptInEnabled x \<Longrightarrow> IsEnabled x"
  by (cases x) auto

section \<open>Quantities and names (helpers.go)\<close>

text \<open>
  \<^verbatim>\<open>strings.NewReplacer("gi","Gi","mi","Mi","GI","Gi","MI","Mi")\<close>: one pass from the left,
  replaced text is not looked at again.
\<close>

fun NormalizeQuantity :: "string \<Rightarrow> string" where
  "NormalizeQuantity (c # d # cs) =
     (if (c = CHR ''g'' \<and> d = CHR ''i'') \<or> (c = CHR ''G'' \<and> d = CHR ''I'')
      then CHR ''G'' # CHR ''i'' # NormalizeQuantity cs
      else if (c = CHR ''m'' \<and> d = CHR ''i'') \<or> (c = CHR ''M'' \<and> d = CHR ''I'')
      then CHR ''M'' # CHR ''i'' # NormalizeQuantity cs
      else c # NormalizeQuantity (d # cs))"
| "NormalizeQuantity cs = cs"

definition storageClassQuotasToMap :: "StorageClassQuota list \<Rightarrow> (string \<times> string) list" where
  "storageClassQuotasToMap items =
     foldl (\<lambda>out item. if sc_Key item = [] then out else AList.update (sc_Key item) (sc_Value item) out) [] items"

text \<open>
  A Go map that the code ranges over is an association list with distinct keys.  The order
  in which \<^verbatim>\<open>range\<close> visits it is not specified: it is the parameter \<open>iter\<close>.
\<close>

definition storageClassQuotasFromMap ::
  "((string \<times> string) list \<Rightarrow> (string \<times> string) list) \<Rightarrow> (string \<times> string) list \<Rightarrow> StorageClassQuota list" where
  "storageClassQuotasFromMap iter values =
     (if values = [] then [] else map (\<lambda>(k, v). \<lparr>sc_Key = k, sc_Value = v\<rparr>) (iter values))"

definition map_order :: "('a list \<Rightarrow> 'a list) \<Rightarrow> bool" where
  "map_order iter \<longleftrightarrow> (\<forall>xs. mset (iter xs) = mset xs)"

definition ManagedLabels :: "ProjectOnboarding \<Rightarrow> NamespaceSpec \<Rightarrow> str_map" where
  "ManagedLabels po nsSpec =
     [ProjectOnboardingManagedByKey \<mapsto> ProjectOnboardingManagedByVal,
      ProjectOnboardingLabelKey \<mapsto> po_Name po,
      ProjectOnboardingNamespaceKey \<mapsto> ns_Name nsSpec]"

definition SanitizeName :: "string \<Rightarrow> string" where
  "SanitizeName name = map (\<lambda>c. if c = CHR ''_'' then CHR ''-'' else c) name"

definition GroupName :: "NamespaceSpec \<Rightarrow> string" where
  "GroupName nsSpec = (case ns_LocalAdminGroup nsSpec of
     Some g \<Rightarrow> (if lag_GroupName g \<noteq> [] then SanitizeName (lag_GroupName g)
                else SanitizeName (ns_Name nsSpec) @ ''-admins'')
   | None \<Rightarrow> SanitizeName (ns_Name nsSpec) @ ''-admins'')"

definition RoleBindingName :: "NamespaceSpec \<Rightarrow> string" where
  "RoleBindingName nsSpec = (case ns_LocalAdminGroup nsSpec of
     Some g \<Rightarrow> (if lag_GroupName g \<noteq> [] then SanitizeName (lag_GroupName g)
                else SanitizeName (ns_Name nsSpec) @ ''-rb'')
   | None \<Rightarrow> SanitizeName (ns_Name nsSpec) @ ''-rb'')"

definition ClusterRoleName :: "NamespaceSpec \<Rightarrow> string" where
  "ClusterRoleName nsSpec = (case ns_LocalAdminGroup nsSpec of
     Some g \<Rightarrow> (if lag_ClusterRole g \<noteq> [] then lag_ClusterRole g else ''admin'')
   | None \<Rightarrow> ''admin'')"

definition maxStatusMessageLen :: nat where
  "maxStatusMessageLen = 32000"

definition TruncateStatusMessage :: "string \<Rightarrow> string" where
  "TruncateStatusMessage message =
     (if length message \<le> maxStatusMessageLen then message
      else take (maxStatusMessageLen - 3) message @ ''...'')"

text \<open>The loop of \<^verbatim>\<open>SetCondition\<close>; \<open>now\<close> is the result of \<^verbatim>\<open>metav1.Now()\<close>.\<close>

fun SetCondition :: "nat \<Rightarrow> condition list \<Rightarrow> string \<Rightarrow> string \<Rightarrow> string \<Rightarrow> string \<Rightarrow> condition list" where
  "SetCondition now [] conditionType status reason message =
     [\<lparr>con_Type = conditionType, con_Status = status, con_Reason = reason,
       con_Message = message, con_LastTransitionTime = now\<rparr>]"
| "SetCondition now (c # cs) conditionType status reason message =
     (if con_Type c = conditionType then
        (if con_Status c = status \<and> con_Reason c = reason \<and> con_Message c = message then c # cs
         else c\<lparr>con_Status := status, con_Reason := reason, con_Message := message,
                con_LastTransitionTime := now\<rparr> # cs)
      else c # SetCondition now cs conditionType status reason message)"

section \<open>Error classification and requeueing (errors.go, metrics.go)\<close>

record ctrl_result =
  cr_Requeue :: bool
  cr_RequeueAfter :: int

definition zero_ctrl_result :: ctrl_result where
  "zero_ctrl_result = \<lparr>cr_Requeue = False, cr_RequeueAfter = 0\<rparr>"

definition time_Second :: int where
  "time_Second = 1000000000"

definition RequeueAfterTransient :: int where
  "RequeueAfterTransient = 30 * time_Second"

definition RequeueAfterFailure :: int where
  "RequeueAfterFailure = 5 * (60 * time_Second)"

definition IsTransientError :: "go_error option \<Rightarrow> bool" where
  "IsTransientError err = (case err of None \<Rightarrow> False
   | Some e \<Rightarrow> reason_of e \<in> {Some ReasonConflict, Some ReasonTimeout, Some ReasonServerTimeout,
       Some ReasonTooManyRequests, Some ReasonServiceUnavailable, Some ReasonInternalError})"

definition ReconcileResultForError :: "go_error option \<Rightarrow> ctrl_result \<times> go_error option" where
  "ReconcileResultForError err =
     (if err = None then (zero_ctrl_result, None)
      else if IsTransientError err then (zero_ctrl_result\<lparr>cr_RequeueAfter := RequeueAfterTransient\<rparr>, None)
      else (zero_ctrl_result\<lparr>cr_RequeueAfter := RequeueAfterFailure\<rparr>, err))"

definition ReconcileErrorReason :: "go_error option \<Rightarrow> string" where
  "ReconcileErrorReason err =
     (if err = None then [] else if IsTransientError err then ''transient'' else ''reconcile'')"

section \<open>Pause annotation (pause.go)\<close>

definition PauseReconciliationAnnotation :: string where
  "PauseReconciliationAnnotation = ''onboarding.stderr.at/pause-reconciliation''"

definition IsReconciliationPaused :: "ProjectOnboarding option \<Rightarrow> bool" where
  "IsReconciliationPaused p = (case p of None \<Rightarrow> False
   | Some po \<Rightarrow> (case om_annotations (po_meta po) PauseReconciliationAnnotation of
        None \<Rightarrow> False
      | Some v \<Rightarrow> to_lower (trim_space v) \<in> {''1'', ''true'', ''yes'', ''on''}))"

section \<open>Namespace labels (monitoring.go, namespace\_settings.go)\<close>

definition userMonitoringLabel :: string where
  "userMonitoringLabel = ''openshift.io/user-monitoring''"

definition ApplyUserMonitoringLabel :: "str_map \<Rightarrow> AdditionalSettingsSpec option \<Rightarrow> str_map" where
  "ApplyUserMonitoringLabel labels settings =
     (case settings of None \<Rightarrow> labels(userMonitoringLabel \<mapsto> ''true'')
      | Some st \<Rightarrow> (case as_EnableClusterMonitoring st of
            None \<Rightarrow> labels(userMonitoringLabel \<mapsto> ''true'')
          | Some b \<Rightarrow> if b then labels(userMonitoringLabel \<mapsto> ''true'')
                      else labels(userMonitoringLabel \<mapsto> ''false'')))"

definition podSecurityAuditLabel :: string where
  "podSecurityAuditLabel = ''pod-security.kubernetes.io/audit''"
definition podSecurityWarnLabel :: string where
  "podSecurityWarnLabel = ''pod-security.kubernetes.io/warn''"
definition podSecurityEnforceLabel :: string where
  "podSecurityEnforceLabel = ''pod-security.kubernetes.io/enforce''"

definition set_label_if :: "string \<Rightarrow> string \<Rightarrow> str_map \<Rightarrow> str_map" where
  "set_label_if k v labels = (if v \<noteq> [] then labels(k \<mapsto> v) else labels)"

definition ApplyAdditionalSettingsLabels :: "str_map \<Rightarrow> AdditionalSettingsSpec option \<Rightarrow> str_map" where
  "ApplyAdditionalSettingsLabels labels settings =
     (case settings of None \<Rightarrow> ApplyUserMonitoringLabel labels None
      | Some st \<Rightarrow>
          (let custom = foldl (\<lambda>ls label. if nl_Key label = [] then ls else ls(nl_Key label \<mapsto> nl_Value label))
                          labels (as_AdditionalLabels st);
               pss = set_label_if podSecurityEnforceLabel (as_PodSecurityEnforce st)
                       (set_label_if podSecurityWarnLabel (as_PodSecurityWarn st)
                         (set_label_if podSecurityAuditLabel (as_PodSecurityAudit st) custom))
           in ApplyUserMonitoringLabel pss settings))"

section \<open>Managed objects (owners.go)\<close>

text \<open>Indexing a \<^verbatim>\<open>map[string]string\<close>: the zero value \<^verbatim>\<open>""\<close> for a missing key.\<close>

definition label_at :: "str_map \<Rightarrow> string \<Rightarrow> string" where
  "label_at labels k = (case labels k of None \<Rightarrow> [] | Some v \<Rightarrow> v)"

definition IsManagedResource :: "str_map \<Rightarrow> bool" where
  "IsManagedResource labels \<longleftrightarrow>
     label_at labels ProjectOnboardingManagedByKey = ProjectOnboardingManagedByVal \<and>
     label_at labels ProjectOnboardingLabelKey \<noteq> []"

lemma label_at_upd [simp]: "label_at (m(k \<mapsto> v)) k' = (if k' = k then v else label_at m k')"
  by (simp add: label_at_def)

lemma label_at_empty [simp]: "label_at Map.empty k = []"
  by (simp add: label_at_def)

section \<open>Lemmas\<close>

lemma NormalizeQuantity_length [simp]: "length (NormalizeQuantity s) = length s"
  by (induction s rule: NormalizeQuantity.induct) auto

lemma NormalizeQuantity_Nil [simp]: "NormalizeQuantity s = [] \<longleftrightarrow> s = []"
  by (metis NormalizeQuantity_length length_0_conv)

lemma SanitizeName_idem [simp]: "SanitizeName (SanitizeName n) = SanitizeName n"
  by (simp add: SanitizeName_def)

lemma SanitizeName_id: "CHR ''_'' \<notin> set n \<Longrightarrow> SanitizeName n = n"
  unfolding SanitizeName_def by (rule map_idI) auto

lemma SanitizeName_clean: "CHR ''_'' \<notin> set (SanitizeName n)"
  by (auto simp: SanitizeName_def split: if_splits)

lemma ManagedLabels_at [simp]:
  "label_at (ManagedLabels po ns) ProjectOnboardingManagedByKey = ProjectOnboardingManagedByVal"
  "label_at (ManagedLabels po ns) ProjectOnboardingLabelKey = po_Name po"
  "label_at (ManagedLabels po ns) ProjectOnboardingNamespaceKey = ns_Name ns"
  by (simp_all add: ManagedLabels_def)

lemma ActiveTenantCount_le: "ActiveTenantCount nss \<le> length nss"
  by (induction nss) auto

lemma storageClassQuotasToMap_snoc:
  "storageClassQuotasToMap (items @ [x]) =
     (if sc_Key x = [] then storageClassQuotasToMap items
      else AList.update (sc_Key x) (sc_Value x) (storageClassQuotasToMap items))"
  by (simp add: storageClassQuotasToMap_def)

lemma storageClassQuotasToMap_distinct: "distinct (map fst (storageClassQuotasToMap items))"
  by (induction items rule: rev_induct)
    (simp_all add: storageClassQuotasToMap_snoc, simp add: storageClassQuotasToMap_def, auto intro: distinct_update)

lemma SetCondition_types: "con_Type ` set (SetCondition now cs t st rs msg) = insert t (con_Type ` set cs)"
  by (induction cs) auto

lemma SetCondition_keeps_distinct:
  "distinct (map con_Type cs) \<Longrightarrow> distinct (map con_Type (SetCondition now cs t st rs msg))"
proof (induction cs)
  case (Cons c cs)
  then show ?case using SetCondition_types [of now cs t st rs msg] by auto
qed simp

lemma SetCondition_others:
  "filter (\<lambda>c. con_Type c \<noteq> t) (SetCondition now cs t st rs msg) = filter (\<lambda>c. con_Type c \<noteq> t) cs"
  by (induction cs) auto

lemma SetCondition_set:
  "\<exists>c \<in> set (SetCondition now cs t st rs msg). con_Type c = t \<and> con_Status c = st \<and> con_Reason c = rs \<and> con_Message c = msg"
  by (induction cs) auto

lemma SetCondition_again:
  "SetCondition now' (SetCondition now cs t st rs msg) t st rs msg = SetCondition now cs t st rs msg"
  by (induction cs) auto

end
