(* ===== verification/Quota_Build.thy ===== *)
theory Quota_Build
  imports Helpers
begin

text \<open>
  \<^verbatim>\<open>internal/onboarding/reconcile_quota.go\<close>, the pure builders of the ResourceQuota and
  LimitRange specifications.  \<^verbatim>\<open>resource.ParseQuantity\<close> is apimachinery code: it is the
  parameter \<open>pq\<close>, which gives an error text or a quantity, and a quantity is known only by
  the text it was parsed from.  \<^verbatim>\<open>resource.MustParse\<close> panics where \<open>pq\<close> fails.
\<close>

datatype quantity = Quantity (quantity_text: string)

type_synonym qparser = "string \<Rightarrow> string + quantity"
type_synonym resource_list = "string \<rightharpoonup> quantity"

text \<open>
  What the operator relies on of the quantity grammar (\<^verbatim>\<open>signedNumber suffix\<close>, with the
  suffixes n, u, m, k, Ki, M, Mi, G, Gi and so on, or a decimal exponent): a quantity is not
  empty, has no white space around it, contains none of the misspelt suffixes that
  \<^verbatim>\<open>NormalizeQuantity\<close> rewrites, and every decimal integer is a quantity.
\<close>

definition quantity_grammar :: "qparser \<Rightarrow> bool" where
  "quantity_grammar pq \<longleftrightarrow>
     (\<forall>s q. pq s = Inr q \<longrightarrow> s \<noteq> [] \<and> is_trimmed s \<and> NormalizeQuantity s = s) \<and>
     (\<forall>i. \<exists>q. pq (string_of_int i) = Inr q)"

definition bindR :: "'a result \<Rightarrow> ('a \<Rightarrow> 'b result) \<Rightarrow> 'b result" where
  "bindR r f = (case r of Ok x \<Rightarrow> f x | Err e \<Rightarrow> Err e | Panic p \<Rightarrow> Panic p)"

definition MustParse :: "qparser \<Rightarrow> string \<Rightarrow> quantity result" where
  "MustParse pq s = (case pq s of Inl e \<Rightarrow> Panic e | Inr q \<Rightarrow> Ok q)"

text \<open>Statements that update a local variable one after the other.\<close>

fun run_steps :: "('a \<Rightarrow> 'a result) list \<Rightarrow> 'a \<Rightarrow> 'a result" where
  "run_steps [] x = Ok x"
| "run_steps (f # fs) x = bindR (f x) (run_steps fs)"

lemma bindR_simps [simp]:
  "bindR (Ok x) f = f x" "bindR (Err e) f = Err e" "bindR (Panic p) f = Panic p"
  by (simp_all add: bindR_def)

lemma run_steps_append: "run_steps (fs @ gs) x = bindR (run_steps fs x) (run_steps gs)"
proof (induction fs arbitrary: x)
  case (Cons f fs)
  then show ?case by (cases "f x") simp_all
qed simp

section \<open>ResourceQuota\<close>

definition setQuantity :: "qparser \<Rightarrow> string \<Rightarrow> string option \<Rightarrow> resource_list \<Rightarrow> resource_list result" where
  "setQuantity pq name value hard = (case value of None \<Rightarrow> Ok hard
     | Some v \<Rightarrow> if trim_space v = [] then Ok hard
                 else bindR (MustParse pq (NormalizeQuantity v)) (\<lambda>q. Ok (hard(name \<mapsto> q))))"

definition setCount :: "qparser \<Rightarrow> string \<Rightarrow> i32 option \<Rightarrow> resource_list \<Rightarrow> resource_list result" where
  "setCount pq name value hard = (case value of None \<Rightarrow> Ok hard
     | Some v \<Rightarrow> bindR (MustParse pq (string_of_int (sint v))) (\<lambda>q. Ok (hard(name \<mapsto> q))))"

definition setStorageClass :: "qparser \<Rightarrow> StorageClassQuota \<Rightarrow> resource_list \<Rightarrow> resource_list result" where
  "setStorageClass pq entry hard =
     (if sc_Key entry = [] then Ok hard
      else bindR (MustParse pq (NormalizeQuantity (sc_Value entry))) (\<lambda>q. Ok (hard(sc_Key entry \<mapsto> q))))"

definition buildResourceQuotaHard :: "qparser \<Rightarrow> ResourceQuotaSpec \<Rightarrow> resource_list result" where
  "buildResourceQuotaHard pq spec = run_steps
     ([setCount pq ''pods'' (rq_Pods spec),
       setQuantity pq ''cpu'' (rq_CPU spec),
       setQuantity pq ''memory'' (rq_Memory spec),
       setQuantity pq ''ephemeral-storage'' (rq_EphemeralStorage spec),
       setCount pq ''replicationcontrollers'' (rq_ReplicationControllers spec),
       setCount pq ''resourcequotas'' (rq_ResourceQuotas spec),
       setCount pq ''services'' (rq_Services spec),
       setCount pq ''secrets'' (rq_Secrets spec),
       setCount pq ''configmaps'' (rq_ConfigMaps spec),
       setCount pq ''persistentvolumeclaims'' (rq_PersistentVolumeClaims spec)] @
      (case rq_Limits spec of None \<Rightarrow> [] | Some l \<Rightarrow>
        [setQuantity pq ''limits.cpu'' (rl_CPU l),
         setQuantity pq ''limits.memory'' (rl_Memory l),
         setQuantity pq ''limits.ephemeral-storage'' (rl_EphemeralStorage l)]) @
      (case rq_Requests spec of None \<Rightarrow> [] | Some r \<Rightarrow>
        [setQuantity pq ''requests.cpu'' (rr_CPU r),
         setQuantity pq ''requests.memory'' (rr_Memory r),
         setQuantity pq ''requests.storage'' (rr_Storage r),
         setQuantity pq ''requests.ephemeral-storage'' (rr_EphemeralStorage r)]) @
      map (setStorageClass pq) (rq_StorageClasses spec))
     Map.empty"

section \<open>LimitRange\<close>

record limit_range_item =
  li_Type :: string
  li_Max :: "resource_list option"
  li_Min :: "resource_list option"
  li_Default :: "resource_list option"
  li_DefaultRequest :: "resource_list option"

definition resourceAmount :: "qparser \<Rightarrow> ResourceAmountSpec option \<Rightarrow> resource_list option result" where
  "resourceAmount pq spec = (case spec of None \<Rightarrow> Ok None
     | Some a \<Rightarrow>
        bindR (case ra_CPU a of None \<Rightarrow> Ok Map.empty
               | Some v \<Rightarrow> bindR (MustParse pq v) (\<lambda>q. Ok [''cpu'' \<mapsto> q])) (\<lambda>out.
        bindR (case ra_Memory a of None \<Rightarrow> Ok out
               | Some v \<Rightarrow> bindR (MustParse pq (NormalizeQuantity v)) (\<lambda>q. Ok (out(''memory'' \<mapsto> q)))) (\<lambda>out.
        Ok (if ra_CPU a = None \<and> ra_Memory a = None then None else Some out))))"

definition storageBound :: "qparser \<Rightarrow> StorageAmountSpec option \<Rightarrow> resource_list option result" where
  "storageBound pq spec = (case spec of None \<Rightarrow> Ok None
     | Some a \<Rightarrow> (case sa_Storage a of None \<Rightarrow> Ok None
         | Some v \<Rightarrow> bindR (MustParse pq (NormalizeQuantity v)) (\<lambda>q. Ok (Some [''storage'' \<mapsto> q]))))"

definition buildLimitRangeItems :: "qparser \<Rightarrow> LimitRangeSpec \<Rightarrow> limit_range_item list result" where
  "buildLimitRangeItems pq spec = run_steps
     [\<lambda>items. (case lr_Pod spec of None \<Rightarrow> Ok items | Some p \<Rightarrow>
        bindR (resourceAmount pq (lp_Max p)) (\<lambda>mx.
        bindR (resourceAmount pq (lp_Min p)) (\<lambda>mn.
        Ok (items @ [\<lparr>li_Type = ''Pod'', li_Max = mx, li_Min = mn,
                       li_Default = None, li_DefaultRequest = None\<rparr>])))),
      \<lambda>items. (case lr_Container spec of None \<Rightarrow> Ok items | Some c \<Rightarrow>
        bindR (resourceAmount pq (lc_Max c)) (\<lambda>mx.
        bindR (resourceAmount pq (lc_Min c)) (\<lambda>mn.
        bindR (resourceAmount pq (lc_Default c)) (\<lambda>df.
        bindR (resourceAmount pq (lc_DefaultRequest c)) (\<lambda>dr.
        Ok (items @ [\<lparr>li_Type = ''Container'', li_Max = mx, li_Min = mn,
                       li_Default = df, li_DefaultRequest = dr\<rparr>])))))),
      \<lambda>items. (case lr_PVC spec of None \<Rightarrow> Ok items | Some v \<Rightarrow>
        bindR (storageBound pq (lv_Min v)) (\<lambda>mn.
        bindR (storageBound pq (lv_Max v)) (\<lambda>mx.
        Ok (items @ [\<lparr>li_Type = ''PersistentVolumeClaim'', li_Max = mx, li_Min = mn,
                       li_Default = None, li_DefaultRequest = None\<rparr>]))))]
     []"

section \<open>The quota as a list of requests\<close>

text \<open>
  A reference reading of a quota specification: the resource names it limits with the text
  of each limit, in the order in which the code sets them.
\<close>

definition quantity_request :: "string \<Rightarrow> string option \<Rightarrow> (string \<times> string) list" where
  "quantity_request name value = (case value of None \<Rightarrow> []
     | Some v \<Rightarrow> if trim_space v = [] then [] else [(name, NormalizeQuantity v)])"

definition count_request :: "string \<Rightarrow> i32 option \<Rightarrow> (string \<times> string) list" where
  "count_request name value = (case value of None \<Rightarrow> [] | Some v \<Rightarrow> [(name, string_of_int (sint v))])"

definition class_request :: "StorageClassQuota \<Rightarrow> (string \<times> string) list" where
  "class_request entry = (if sc_Key entry = [] then [] else [(sc_Key entry, NormalizeQuantity (sc_Value entry))])"

definition quota_requests :: "ResourceQuotaSpec \<Rightarrow> (string \<times> string) list" where
  "quota_requests spec =
     count_request ''pods'' (rq_Pods spec) @
     quantity_request ''cpu'' (rq_CPU spec) @
     quantity_request ''memory'' (rq_Memory spec) @
     quantity_request ''ephemeral-storage'' (rq_EphemeralStorage spec) @
     count_request ''replicationcontrollers'' (rq_ReplicationControllers spec) @
     count_request ''resourcequotas'' (rq_ResourceQuotas spec) @
     count_request ''services'' (rq_Services spec) @
     count_request ''secrets'' (rq_Secrets spec) @
     count_request ''configmaps'' (rq_ConfigMaps spec) @
     count_request ''persistentvolumeclaims'' (rq_PersistentVolumeClaims spec) @
     (case rq_Limits spec of None \<Rightarrow> [] | Some l \<Rightarrow>
        quantity_request ''limits.cpu'' (rl_CPU l) @
        quantity_request ''limits.memory'' (rl_Memory l) @
        quantity_request ''limits.ephemeral-storage'' (rl_EphemeralStorage l)) @
     (case rq_Requests spec of None \<Rightarrow> [] | Some r \<Rightarrow>
        quantity_request ''requests.cpu'' (rr_CPU r) @
        quantity_request ''requests.memory'' (rr_Memory r) @
        quantity_request ''requests.storage'' (rr_Storage r) @
        quantity_request ''requests.ephemeral-storage'' (rr_EphemeralStorage r)) @
     concat (map class_request (rq_StorageClasses spec))"

text \<open>The quantity a text stands for; only used where it is one.\<close>

definition quantity_of :: "qparser \<Rightarrow> string \<Rightarrow> quantity" where
  "quantity_of pq s = (case pq s of Inl e \<Rightarrow> Quantity [] | Inr q \<Rightarrow> q)"

definition parses :: "qparser \<Rightarrow> string \<Rightarrow> bool" where
  "parses pq s = (case pq s of Inl e \<Rightarrow> False | Inr q \<Rightarrow> True)"

fun parse_all :: "qparser \<Rightarrow> (string \<times> string) list \<Rightarrow> resource_list \<Rightarrow> resource_list result" where
  "parse_all pq [] hard = Ok hard"
| "parse_all pq ((k, t) # rest) hard = bindR (MustParse pq t) (\<lambda>q. parse_all pq rest (hard(k \<mapsto> q)))"

lemma parse_all_append: "parse_all pq (xs @ ys) h = bindR (parse_all pq xs h) (parse_all pq ys)"
proof (induction xs arbitrary: h)
  case (Cons x xs)
  then show ?case by (cases x; cases "MustParse pq (snd x)") (simp_all add: fun_upd_def)
qed simp

lemma set_steps_parse:
  "setQuantity pq n v = parse_all pq (quantity_request n v)"
  "setCount pq n c = parse_all pq (count_request n c)"
  "setStorageClass pq e = parse_all pq (class_request e)"
  by (auto simp: fun_eq_iff setQuantity_def setCount_def setStorageClass_def quantity_request_def
      count_request_def class_request_def split: option.splits)

lemma run_parse_steps: "run_steps (map (parse_all pq) xss) = parse_all pq (concat xss)"
proof
  fix h show "run_steps (map (parse_all pq) xss) h = parse_all pq (concat xss) h"
  proof (induction xss arbitrary: h)
    case (Cons xs xss)
    then show ?case by (cases "parse_all pq xs h") (simp_all add: parse_all_append)
  qed simp
qed

lemma parse_all_Ok_iff:
  "(\<exists>hard'. parse_all pq rs hard = Ok hard') \<longleftrightarrow> (\<forall>(k, t) \<in> set rs. parses pq t)"
proof (induction rs arbitrary: hard)
  case (Cons x rest)
  then show ?case by (cases x; cases "pq (snd x)") (auto simp: MustParse_def parses_def)
qed simp

lemma parse_all_Ok:
  "parse_all pq rs hard = Ok hard' \<Longrightarrow> hard' = hard ++ map_of (rev (map (\<lambda>(k, t). (k, quantity_of pq t)) rs))"
proof (induction rs arbitrary: hard)
  case (Cons x rest)
  then show ?case by (cases x; cases "pq (snd x)") (auto simp: MustParse_def quantity_of_def map_add_assoc)
qed simp

lemma parse_all_not_Err [simp]: "parse_all pq rs hard \<noteq> Err e"
proof (induction rs arbitrary: hard)
  case (Cons x rest)
  then show ?case by (cases x; cases "pq (snd x)") (auto simp: MustParse_def)
qed simp

lemma buildResourceQuotaHard_parse:
  "buildResourceQuotaHard pq spec = parse_all pq (quota_requests spec) Map.empty"
proof -
  let ?xss = "[count_request ''pods'' (rq_Pods spec),
     quantity_request ''cpu'' (rq_CPU spec),
     quantity_request ''memory'' (rq_Memory spec),
     quantity_request ''ephemeral-storage'' (rq_EphemeralStorage spec),
     count_request ''replicationcontrollers'' (rq_ReplicationControllers spec),
     count_request ''resourcequotas'' (rq_ResourceQuotas spec),
     count_request ''services'' (rq_Services spec),
     count_request ''secrets'' (rq_Secrets spec),
     count_request ''configmaps'' (rq_ConfigMaps spec),
     count_request ''persistentvolumeclaims'' (rq_PersistentVolumeClaims spec)] @
     (case rq_Limits spec of None \<Rightarrow> [] | Some l \<Rightarrow>
        [quantity_request ''limits.cpu'' (rl_CPU l),
         quantity_request ''limits.memory'' (rl_Memory l),
         quantity_request ''limits.ephemeral-storage'' (rl_EphemeralStorage l)]) @
     (case rq_Requests spec of None \<Rightarrow> [] | Some r \<Rightarrow>
        [quantity_request ''requests.cpu'' (rr_CPU r),
         quantity_request ''requests.memory'' (rr_Memory r),
         quantity_request ''requests.storage'' (rr_Storage r),
         quantity_request ''requests.ephemeral-storage'' (rr_EphemeralStorage r)]) @
     map class_request (rq_StorageClasses spec)"
  have "buildResourceQuotaHard pq spec = run_steps (map (parse_all pq) ?xss) Map.empty"
    unfolding buildResourceQuotaHard_def set_steps_parse
    by (cases "rq_Limits spec"; cases "rq_Requests spec") (simp_all add: set_steps_parse comp_def)
  also have "\<dots> = parse_all pq (concat ?xss) Map.empty"
    by (simp only: run_parse_steps)
  also have "concat ?xss = quota_requests spec"
    unfolding quota_requests_def by (cases "rq_Limits spec"; cases "rq_Requests spec") simp_all
  finally show ?thesis .
qed

end
