(* ===== verification/Netpol_Build.thy ===== *)
theory Netpol_Build
  imports Helpers
begin

text \<open>
  \<^verbatim>\<open>internal/onboarding/reconcile_netpol.go\<close>, the pure builders: the standard policy set
  that a namespace entry switches on, and a custom policy from its specification.  The
  records are the fields of \<^verbatim>\<open>networkingv1.NetworkPolicy\<close> that the code sets.
\<close>

record np_peer =
  peer_PodSelector :: "LabelSelector option"
  peer_NamespaceSelector :: "LabelSelector option"
  peer_IPBlock :: "IPBlockSpec option"

record np_port =
  port_Protocol :: "string option"
  port_Port :: "i32 option"

record np_rule =
  rule_Peers :: "np_peer list"
  rule_Ports :: "np_port list"

record np_spec =
  np_PodSelector :: LabelSelector
  np_Ingress :: "np_rule list"
  np_Egress :: "np_rule list"
  np_PolicyTypes :: "string list"

record network_policy =
  pol_Name :: string
  pol_Namespace :: string
  pol_Labels :: str_map
  pol_Spec :: np_spec

definition zero_np_peer :: np_peer where
  "zero_np_peer = \<lparr>peer_PodSelector = None, peer_NamespaceSelector = None, peer_IPBlock = None\<rparr>"

definition zero_np_spec :: np_spec where
  "zero_np_spec = \<lparr>np_PodSelector = zero_LabelSelector, np_Ingress = [], np_Egress = [], np_PolicyTypes = []\<rparr>"

definition select_labels :: "string \<Rightarrow> string \<Rightarrow> LabelSelector" where
  "select_labels k v = zero_LabelSelector\<lparr>matchLabels := [k \<mapsto> v]\<rparr>"

definition dns_port :: "string \<Rightarrow> i32 \<Rightarrow> np_port" where
  "dns_port proto p = \<lparr>port_Protocol = Some proto, port_Port = Some p\<rparr>"

definition default_policy :: "string \<Rightarrow> str_map \<Rightarrow> string \<Rightarrow> np_spec \<Rightarrow> network_policy" where
  "default_policy nsName labels name spec =
     \<lparr>pol_Name = name, pol_Namespace = nsName, pol_Labels = labels, pol_Spec = spec\<rparr>"

definition if_opted :: "bool option \<Rightarrow> 'a \<Rightarrow> 'a list" where
  "if_opted flag x = (if IsOptInEnabled flag then [x] else [])"

definition defaultNetworkPolicies :: "NamespaceSpec \<Rightarrow> string \<Rightarrow> str_map \<Rightarrow> network_policy list" where
  "defaultNetworkPolicies nsSpec nsName labels = (case ns_DefaultPolicies nsSpec of None \<Rightarrow> []
   | Some defaults \<Rightarrow>
      if_opted (dp_AllowFromIngress defaults)
        (default_policy nsName labels ''allow-from-openshift-ingress'' (zero_np_spec\<lparr>
           np_Ingress := [\<lparr>rule_Peers = [zero_np_peer\<lparr>peer_NamespaceSelector :=
             Some (select_labels ''policy-group.network.openshift.io/ingress'' [])\<rparr>], rule_Ports = []\<rparr>],
           np_PolicyTypes := [''Ingress'']\<rparr>)) @
      if_opted (dp_AllowFromMonitoring defaults)
        (default_policy nsName labels ''allow-from-openshift-monitoring'' (zero_np_spec\<lparr>
           np_Ingress := [\<lparr>rule_Peers = [zero_np_peer\<lparr>peer_NamespaceSelector :=
             Some (select_labels ''network.openshift.io/policy-group'' ''monitoring'')\<rparr>], rule_Ports = []\<rparr>],
           np_PolicyTypes := [''Ingress'']\<rparr>)) @
      if_opted (dp_AllowToDNS defaults)
        (default_policy nsName labels ''allow-to-openshift-dns'' (zero_np_spec\<lparr>
           np_Egress := [\<lparr>rule_Peers = [zero_np_peer\<lparr>peer_NamespaceSelector :=
             Some (select_labels ''kubernetes.io/metadata.name'' ''openshift-dns'')\<rparr>],
             rule_Ports = [dns_port ''TCP'' 5353, dns_port ''TCP'' 53, dns_port ''UDP'' 53, dns_port ''UDP'' 5353]\<rparr>],
           np_PolicyTypes := [''Egress'']\<rparr>)) @
      if_opted (dp_AllowKubeAPIServer defaults)
        (default_policy nsName labels ''allow-from-kube-apiserver-operator'' (zero_np_spec\<lparr>
           np_Ingress := [\<lparr>rule_Peers = [zero_np_peer\<lparr>
             peer_NamespaceSelector := Some (select_labels ''kubernetes.io/metadata.name'' ''openshift-kube-apiserver-operator''),
             peer_PodSelector := Some (select_labels ''app'' ''kube-apiserver-operator'')\<rparr>], rule_Ports = []\<rparr>],
           np_PolicyTypes := [''Ingress'']\<rparr>)) @
      if_opted (dp_DenyAllEgress defaults)
        (default_policy nsName labels ''deny-all-egress'' (zero_np_spec\<lparr>np_PolicyTypes := [''Egress'']\<rparr>)) @
      if_opted (dp_DenyAllIngress defaults)
        (default_policy nsName labels ''deny-all-ingress'' (zero_np_spec\<lparr>np_PolicyTypes := [''Ingress'']\<rparr>)) @
      if_opted (dp_AllowFromSameNamespace defaults)
        (default_policy nsName labels ''allow-same-namespace'' (zero_np_spec\<lparr>
           np_Ingress := [\<lparr>rule_Peers = [zero_np_peer\<lparr>peer_PodSelector := Some zero_LabelSelector\<rparr>], rule_Ports = []\<rparr>],
           np_PolicyTypes := [''Ingress'']\<rparr>)))"

definition buildNetworkPolicyPeers :: "NetworkPolicyPeerSpec list \<Rightarrow> np_peer list" where
  "buildNetworkPolicyPeers = map (\<lambda>sel. \<lparr>peer_PodSelector = npp_PodSelector sel,
     peer_NamespaceSelector = npp_NamespaceSelector sel, peer_IPBlock = npp_IPBlock sel\<rparr>)"

definition buildNetworkPolicyPorts :: "NetworkPolicyPortSpec list \<Rightarrow> np_port list" where
  "buildNetworkPolicyPorts = map (\<lambda>p. \<lparr>port_Protocol = npo_Protocol p, port_Port = npo_Port p\<rparr>)"

definition build_rule :: "NetworkPolicyRuleSpec \<Rightarrow> np_rule" where
  "build_rule rule = \<lparr>rule_Peers = buildNetworkPolicyPeers (npr_Selectors rule),
                      rule_Ports = buildNetworkPolicyPorts (npr_Ports rule)\<rparr>"

definition buildCustomNetworkPolicy :: "CustomNetworkPolicySpec \<Rightarrow> string \<Rightarrow> str_map \<Rightarrow> network_policy" where
  "buildCustomNetworkPolicy spec nsName labels =
     (let ingress = map build_rule (cnp_IngressRules spec);
          egress = map build_rule (cnp_EgressRules spec)
      in \<lparr>pol_Name = SanitizeName (cnp_Name spec), pol_Namespace = nsName, pol_Labels = labels,
          pol_Spec = \<lparr>np_PodSelector = (case cnp_PodSelector spec of None \<Rightarrow> zero_LabelSelector | Some s \<Rightarrow> s),
            np_Ingress = ingress, np_Egress = egress,
            np_PolicyTypes = (if ingress \<noteq> [] then [''Ingress''] else []) @
                             (if egress \<noteq> [] then [''Egress''] else [])\<rparr>\<rparr>)"

section \<open>Lemmas\<close>

lemma if_opted_None [simp]: "if_opted None x = []"
  by (simp add: if_opted_def)

lemma if_opted_Some [simp]: "if_opted (Some b) x = (if b then [x] else [])"
  by (simp add: if_opted_def)

lemma map_if_opted [simp]: "map f (if_opted flag x) = if_opted flag (f x)"
  by (simp add: if_opted_def)

lemma in_if_opted [simp]: "y \<in> set (if_opted flag x) \<longleftrightarrow> IsOptInEnabled flag \<and> y = x"
  unfolding if_opted_def by (cases "IsOptInEnabled flag") auto

lemma default_policy_sel [simp]:
  "pol_Name (default_policy n l nm sp) = nm" "pol_Namespace (default_policy n l nm sp) = n"
  "pol_Labels (default_policy n l nm sp) = l" "pol_Spec (default_policy n l nm sp) = sp"
  by (simp_all add: default_policy_def)

lemma defaultNetworkPolicies_names:
  "map pol_Name (defaultNetworkPolicies nsSpec nsName labels) = (case ns_DefaultPolicies nsSpec of None \<Rightarrow> []
   | Some d \<Rightarrow> if_opted (dp_AllowFromIngress d) ''allow-from-openshift-ingress'' @
       if_opted (dp_AllowFromMonitoring d) ''allow-from-openshift-monitoring'' @
       if_opted (dp_AllowToDNS d) ''allow-to-openshift-dns'' @
       if_opted (dp_AllowKubeAPIServer d) ''allow-from-kube-apiserver-operator'' @
       if_opted (dp_DenyAllEgress d) ''deny-all-egress'' @
       if_opted (dp_DenyAllIngress d) ''deny-all-ingress'' @
       if_opted (dp_AllowFromSameNamespace d) ''allow-same-namespace'')"
  by (cases "ns_DefaultPolicies nsSpec") (simp_all add: defaultNetworkPolicies_def)

lemma defaultNetworkPolicies_meta:
  "p \<in> set (defaultNetworkPolicies nsSpec nsName labels) \<Longrightarrow> pol_Labels p = labels \<and> pol_Namespace p = nsName"
  by (cases "ns_DefaultPolicies nsSpec") (auto simp: defaultNetworkPolicies_def)

end
