(* ===== verification/Gitops.thy ===== *)
theory Gitops
  imports Helpers
begin

text \<open>
  \<^verbatim>\<open>internal/onboarding/argocd.go\<close> and \<^verbatim>\<open>defaults.go\<close>, the pure parts: the AppProject
  specification with its destinations, source lists and Casbin policies, the Argo CD
  namespace of an entry, and the merge of the cluster-wide defaults into a resource.
\<close>

section \<open>defaults.go\<close>

definition DefaultsConfigMapName :: string where
  "DefaultsConfigMapName = ''onboarding-defaults''"
definition DefaultsConfigMapKey :: string where
  "DefaultsConfigMapKey = ''defaults.yaml''"
definition DefaultOperatorNamespace :: string where
  "DefaultOperatorNamespace = ''project-onboarding-operator''"

text \<open>The loop returns at the first destination with neither name nor server.\<close>

fun validate_destinations :: "nat \<Rightarrow> GitOpsDestinationSpec list \<Rightarrow> unit result" where
  "validate_destinations i [] = Ok ()"
| "validate_destinations i (d # ds) =
     (if trim_space (gd_Name d) = [] \<and> trim_space (gd_Server d) = []
      then Err (PlainError (''gitOps.destinations['' @ string_of_nat i @ ''] requires name or server''))
      else validate_destinations (Suc i) ds)"

definition validateGitOpsDefaults :: "GitOpsSpec option \<Rightarrow> unit result" where
  "validateGitOpsDefaults spec = (case spec of None \<Rightarrow> Ok ()
     | Some g \<Rightarrow> validate_destinations 0 (go_Destinations g))"

definition mergeGitOpsDefaults :: "GitOpsSpec \<Rightarrow> GitOpsSpec \<Rightarrow> GitOpsSpec" where
  "mergeGitOpsDefaults target defaults =
     \<lparr>go_ApplicationNamespace = (if trim_space (go_ApplicationNamespace target) = []
        then go_ApplicationNamespace defaults else go_ApplicationNamespace target),
      go_Destinations = (if go_Destinations target = []
        then go_Destinations defaults else go_Destinations target),
      go_AllowedSourceRepos = (if go_AllowedSourceRepos target = []
        then go_AllowedSourceRepos defaults else go_AllowedSourceRepos target),
      go_AllowedOIDCGroups = (if go_AllowedOIDCGroups target = []
        then go_AllowedOIDCGroups defaults else go_AllowedOIDCGroups target),
      go_AllowedSourceNamespaces = (if go_AllowedSourceNamespaces target = []
        then go_AllowedSourceNamespaces defaults else go_AllowedSourceNamespaces target)\<rparr>"

definition MergeClusterDefaults :: "GitOpsSpec option \<Rightarrow> ProjectOnboarding \<Rightarrow> ProjectOnboarding" where
  "MergeClusterDefaults defaults po = (case defaults of None \<Rightarrow> po
     | Some d \<Rightarrow> (case ps_GitOps (po_Spec po) of
          None \<Rightarrow> po\<lparr>po_Spec := (po_Spec po)\<lparr>ps_GitOps := Some d\<rparr>\<rparr>
        | Some g \<Rightarrow> po\<lparr>po_Spec := (po_Spec po)\<lparr>ps_GitOps := Some (mergeGitOpsDefaults g d)\<rparr>\<rparr>))"

section \<open>argocd.go\<close>

definition ResolveApplicationGitOpsNamespace :: "ProjectOnboarding \<Rightarrow> NamespaceSpec \<Rightarrow> string" where
  "ResolveApplicationGitOpsNamespace po nsSpec =
     (let ns = trim_space (ns_ApplicationGitOpsNamespace nsSpec) in
      if ns \<noteq> [] then ns
      else (case ps_GitOps (po_Spec po) of None \<Rightarrow> []
            | Some g \<Rightarrow> trim_space (go_ApplicationNamespace g)))"

definition gitOpsManagedByLabel :: "ProjectOnboarding \<Rightarrow> NamespaceSpec \<Rightarrow> string" where
  "gitOpsManagedByLabel po nsSpec = ResolveApplicationGitOpsNamespace po nsSpec"

record app_destination =
  ad_name :: string
  ad_namespace :: string
  ad_server :: string

record app_role =
  aro_name :: string
  aro_description :: string
  aro_groups :: "string list"
  aro_policies :: "string list"

record app_project_spec =
  aps_description :: string
  aps_clusterResourceWhitelist :: "string list"
  aps_roles :: "app_role list"
  aps_sourceNamespaces :: "string list"
  aps_sourceRepos :: "string list"
  aps_destinations :: "app_destination list"

definition buildDestinations :: "ProjectOnboarding \<Rightarrow> ArgoCDProjectSpec \<Rightarrow> string \<Rightarrow> app_destination list" where
  "buildDestinations po projectSpec tenantNS =
     (let destinations =
        (if ac_Destinations projectSpec = [] then
           (case ps_GitOps (po_Spec po) of None \<Rightarrow> [] | Some g \<Rightarrow> go_Destinations g)
         else ac_Destinations projectSpec)
      in map (\<lambda>d. \<lparr>ad_name = gd_Name d, ad_namespace = tenantNS, ad_server = gd_Server d\<rparr>) destinations)"

definition resolveSourceRepos :: "ProjectOnboarding \<Rightarrow> ArgoCDProjectSpec \<Rightarrow> string list" where
  "resolveSourceRepos po projectSpec =
     (if ac_SourceRepos projectSpec \<noteq> [] then ac_SourceRepos projectSpec
      else case ps_GitOps (po_Spec po) of
        Some g \<Rightarrow> (if go_AllowedSourceRepos g \<noteq> [] then go_AllowedSourceRepos g else [''*''])
      | None \<Rightarrow> [''*''])"

definition resolveSourceNamespaces :: "ProjectOnboarding \<Rightarrow> ArgoCDProjectSpec \<Rightarrow> string list" where
  "resolveSourceNamespaces po projectSpec =
     (if ac_SourceNamespaces projectSpec \<noteq> [] then ac_SourceNamespaces projectSpec
      else case ps_GitOps (po_Spec po) of
        Some g \<Rightarrow> (if go_AllowedSourceNamespaces g \<noteq> [] then go_AllowedSourceNamespaces g else [''*''])
      | None \<Rightarrow> [''*''])"

definition resolveRoleGroups :: "ProjectOnboarding \<Rightarrow> ArgoCDProjectSpec \<Rightarrow> ArgoCDRoleSpec \<Rightarrow> string list" where
  "resolveRoleGroups po projectSpec role =
     (if ar_OIDCGroups role \<noteq> [] then ar_OIDCGroups role
      else if ac_OIDCGroups projectSpec \<noteq> [] then ac_OIDCGroups projectSpec
      else case ps_GitOps (po_Spec po) of
        Some g \<Rightarrow> (if go_AllowedOIDCGroups g \<noteq> [] then go_AllowedOIDCGroups g else [''dummy-group''])
      | None \<Rightarrow> [''dummy-group''])"

definition casbinProjectPrefix :: "string \<Rightarrow> ArgoCDPolicySpec \<Rightarrow> string" where
  "casbinProjectPrefix tenantName policy = (let name = trim_space (ap_AppProjectName policy) in
     if name \<noteq> [] then SanitizeName name else tenantName)"

definition policy_line :: "string \<Rightarrow> string \<Rightarrow> string \<Rightarrow> string \<Rightarrow> string \<Rightarrow> string \<Rightarrow> string" where
  "policy_line pre role resource action object permission =
     ''p, proj:'' @ pre @ '':'' @ role @ '', '' @ resource @ '', '' @ action @ '', '' @ object @ '', '' @ permission"

definition buildRolePolicies :: "string \<Rightarrow> string \<Rightarrow> ArgoCDRoleSpec \<Rightarrow> string list" where
  "buildRolePolicies projectName tenantName role =
     (if IsOptInEnabled (ar_FullAccess role) then
        map (\<lambda>action. policy_line tenantName (ar_Name role) ''applications'' action (projectName @ ''/*'') ''allow'')
          [''get'', ''create'', ''update'', ''delete'', ''sync'', ''override''] @
        map (\<lambda>action. policy_line tenantName (ar_Name role) ''repositories'' action ''*'' ''allow'')
          [''create'', ''get'', ''update'', ''delete'']
      else
        map (\<lambda>policy.
          let resource = (if ap_Resource policy = [] then ''applications'' else ap_Resource policy);
              object = (if ap_Object policy = [] then ''*'' else ap_Object policy);
              permission = (if ap_Permission policy = [] then ''allow'' else ap_Permission policy)
          in policy_line (casbinProjectPrefix tenantName policy) (ar_Name role) resource (ap_Action policy)
               (projectName @ ''/'' @ object) permission)
          (ar_Policies role))"

definition buildArgoCDRoles :: "ProjectOnboarding \<Rightarrow> ArgoCDProjectSpec \<Rightarrow> string \<Rightarrow> app_role list" where
  "buildArgoCDRoles po projectSpec tenantNS =
     (let projectName = SanitizeName (ac_Name projectSpec); tenantName = SanitizeName tenantNS
      in map (\<lambda>role. \<lparr>aro_name = ar_Name role, aro_description = ar_Description role,
                     aro_groups = resolveRoleGroups po projectSpec role,
                     aro_policies = buildRolePolicies projectName tenantName role\<rparr>) (ac_Roles projectSpec))"

text \<open>The \<^verbatim>\<open>spec\<close> map and the labels that \<^verbatim>\<open>reconcileAppProject\<close> builds.\<close>

definition app_project_of :: "ProjectOnboarding \<Rightarrow> ArgoCDProjectSpec \<Rightarrow> string \<Rightarrow> app_project_spec" where
  "app_project_of po projectSpec tenantNS =
     \<lparr>aps_description = (if ac_Description projectSpec = []
        then SanitizeName (ac_Name projectSpec) @ '' GitOps Project'' else ac_Description projectSpec),
      aps_clusterResourceWhitelist = [],
      aps_roles = buildArgoCDRoles po projectSpec tenantNS,
      aps_sourceNamespaces = resolveSourceNamespaces po projectSpec,
      aps_sourceRepos = resolveSourceRepos po projectSpec,
      aps_destinations = buildDestinations po projectSpec tenantNS\<rparr>"

definition project_labels :: "ProjectOnboarding \<Rightarrow> string \<Rightarrow> str_map \<Rightarrow> str_map" where
  "project_labels po tenantNS labels =
     [ProjectOnboardingManagedByKey \<mapsto> ProjectOnboardingManagedByVal,
      ProjectOnboardingLabelKey \<mapsto> po_Name po,
      ProjectOnboardingNamespaceKey \<mapsto> tenantNS,
      ArgoCDProjectInheritLabel \<mapsto> ''global''] ++ labels"

section \<open>Lemmas\<close>

lemma MergeClusterDefaults_frame [simp]:
  "po_meta (MergeClusterDefaults d po) = po_meta po"
  "po_Namespaces (MergeClusterDefaults d po) = po_Namespaces po"
  "po_Status (MergeClusterDefaults d po) = po_Status po"
  by (simp_all add: MergeClusterDefaults_def split: option.splits)

lemma mergeGitOpsDefaults_absorb: "mergeGitOpsDefaults (mergeGitOpsDefaults g d) d = mergeGitOpsDefaults g d"
  by (simp add: mergeGitOpsDefaults_def)

lemma mergeGitOpsDefaults_self: "mergeGitOpsDefaults g g = g"
  by (simp add: mergeGitOpsDefaults_def)

lemma validate_destinations_Ok:
  "validate_destinations i ds = Ok () \<longleftrightarrow>
     (\<forall>d \<in> set ds. trim_space (gd_Name d) \<noteq> [] \<or> trim_space (gd_Server d) \<noteq> [])"
  by (induction i ds rule: validate_destinations.induct) auto

end
