(* ===== verification/Kube.thy ===== *)
theory Kube
  imports Quota_Build Netpol_Build Gitops
begin

text \<open>
  The cluster as the operator sees it.  The API server, the client library and the owner
  reference helpers of controller-runtime are not part of the repository: they are the
  argument \<open>c\<close> (a \<open>client\<close>, as every Go function takes a \<^verbatim>\<open>client.Client\<close>) and the argument
  \<open>scheme\<close>.  What the operator relies on of them are the locales \<open>selecting_client\<close> (a list
  returns only objects that its options select) and \<open>store_client\<close> (calls read and write
  one store of objects); \<open>Resource_Life\<close> extends the latter.  \<open>logged\<close> turns any client into one that also records the calls.
\<close>

section \<open>Objects\<close>

datatype kind = KNamespace | KResourceQuota | KLimitRange | KNetworkPolicy
  | KRoleBinding | KGroup | KEgressIP | KAppProject

record rbac_subject =
  su_Kind :: string
  su_APIGroup :: string
  su_Name :: string

record rbac_role_ref =
  rf_APIGroup :: string
  rf_Kind :: string
  rf_Name :: string

text \<open>The part of an object that the operator sets, beside the metadata.\<close>

datatype payload =
  PNamespace
| PResourceQuota resource_list
| PLimitRange "limit_range_item list"
| PNetworkPolicy np_spec
| PRoleBinding "rbac_subject list" rbac_role_ref
| PGroup "string list"
| PEgressIP "string list" str_map
| PAppProject app_project_spec

primrec kind_of_payload :: "payload \<Rightarrow> kind" where
  "kind_of_payload PNamespace = KNamespace"
| "kind_of_payload (PResourceQuota h) = KResourceQuota"
| "kind_of_payload (PLimitRange l) = KLimitRange"
| "kind_of_payload (PNetworkPolicy p) = KNetworkPolicy"
| "kind_of_payload (PRoleBinding s r) = KRoleBinding"
| "kind_of_payload (PGroup u) = KGroup"
| "kind_of_payload (PEgressIP i n) = KEgressIP"
| "kind_of_payload (PAppProject a) = KAppProject"

record kobj =
  ko_meta :: objmeta
  ko_payload :: payload

type_synonym objkey = "string \<times> string"

abbreviation ko_labels :: "kobj \<Rightarrow> str_map" where
  "ko_labels obj \<equiv> om_labels (ko_meta obj)"

definition kind_of :: "kobj \<Rightarrow> kind" where
  "kind_of obj = kind_of_payload (ko_payload obj)"

definition key_of :: "kobj \<Rightarrow> objkey" where
  "key_of obj = (om_namespace (ko_meta obj), om_name (ko_meta obj))"

definition new_object :: "string \<Rightarrow> string \<Rightarrow> str_map \<Rightarrow> payload \<Rightarrow> kobj" where
  "new_object nsName name labels p =
     \<lparr>ko_meta = zero_objmeta\<lparr>om_namespace := nsName, om_name := name, om_labels := labels\<rparr>, ko_payload = p\<rparr>"

definition set_labels :: "str_map \<Rightarrow> kobj \<Rightarrow> kobj" where
  "set_labels labels obj = obj\<lparr>ko_meta := (ko_meta obj)\<lparr>om_labels := labels\<rparr>\<rparr>"

definition set_payload :: "payload \<Rightarrow> kobj \<Rightarrow> kobj" where
  "set_payload p obj = obj\<lparr>ko_payload := p\<rparr>"

definition is_deleting :: "kobj \<Rightarrow> bool" where
  "is_deleting obj \<longleftrightarrow> om_deletionTimestamp (ko_meta obj) \<noteq> None"

lemma new_object_simps [simp]:
  "ko_labels (new_object n nm l p) = l" "ko_payload (new_object n nm l p) = p"
  "om_name (ko_meta (new_object n nm l p)) = nm" "om_namespace (ko_meta (new_object n nm l p)) = n"
  "om_deletionTimestamp (ko_meta (new_object n nm l p)) = None"
  "kind_of (new_object n nm l p) = kind_of_payload p" "key_of (new_object n nm l p) = (n, nm)"
  by (simp_all add: new_object_def kind_of_def key_of_def zero_objmeta_def)

lemma set_simps [simp]:
  "ko_labels (set_labels l obj) = l" "ko_payload (set_labels l obj) = ko_payload obj"
  "key_of (set_labels l obj) = key_of obj" "kind_of (set_labels l obj) = kind_of obj"
  "ko_labels (set_payload p obj) = ko_labels obj" "ko_payload (set_payload p obj) = p"
  "ko_meta (set_payload p obj) = ko_meta obj"
  "key_of (set_payload p obj) = key_of obj" "kind_of (set_payload p obj) = kind_of_payload p"
  "om_deletionTimestamp (ko_meta (set_labels l obj)) = om_deletionTimestamp (ko_meta obj)"
  "om_name (ko_meta (set_labels l obj)) = om_name (ko_meta obj)"
  by (simp_all add: set_labels_def set_payload_def key_of_def kind_of_def)

section \<open>The client\<close>

record list_options =
  lo_Namespace :: "string option"
  lo_MatchingLabels :: "(string \<times> string) list"

definition selected :: "list_options \<Rightarrow> kobj \<Rightarrow> bool" where
  "selected opts obj \<longleftrightarrow>
     (case lo_Namespace opts of None \<Rightarrow> True | Some n \<Rightarrow> om_namespace (ko_meta obj) = n) \<and>
     (\<forall>(k, v) \<in> set (lo_MatchingLabels opts). ko_labels obj k = Some v)"

record 's client =
  cl_Get :: "kind \<Rightarrow> objkey \<Rightarrow> ('s, kobj) eff"
  cl_List :: "kind \<Rightarrow> list_options \<Rightarrow> ('s, kobj list) eff"
  cl_Create :: "kobj \<Rightarrow> ('s, kobj) eff"
  cl_Patch :: "kobj \<Rightarrow> kobj \<Rightarrow> ('s, kobj) eff"
  cl_Delete :: "kobj \<Rightarrow> ('s, unit) eff"
  cl_GetPO :: "string \<Rightarrow> ('s, ProjectOnboarding) eff"
  cl_ListPO :: "('s, ProjectOnboarding list) eff"
  cl_UpdatePO :: "ProjectOnboarding \<Rightarrow> ('s, ProjectOnboarding) eff"
  cl_StatusPO :: "ProjectOnboarding \<Rightarrow> ('s, unit) eff"
  cl_GetTS :: "string \<Rightarrow> ('s, TShirtSize) eff"
  cl_StatusTS :: "TShirtSize \<Rightarrow> ('s, unit) eff"
  cl_GetConfigMap :: "objkey \<Rightarrow> ('s, str_map) eff"

text \<open>
  \<^verbatim>\<open>runtime.Scheme\<close> with the helpers that need it: \<^verbatim>\<open>controllerutil.SetControllerReference\<close>
  and \<^verbatim>\<open>SetOwnerReference\<close> (the owner, the object, the object with the reference added) and
  \<^verbatim>\<open>metav1.IsControlledBy\<close>.
\<close>

record scheme =
  sch_SetControllerReference :: "objmeta \<Rightarrow> kobj \<Rightarrow> kobj result"
  sch_SetOwnerReference :: "objmeta \<Rightarrow> kobj \<Rightarrow> kobj result"
  sch_IsControlledBy :: "kobj \<Rightarrow> objmeta \<Rightarrow> bool"

text \<open>
  Pure library code outside the repository: \<^verbatim>\<open>resource.ParseQuantity\<close>; the order in which
  \<^verbatim>\<open>range\<close> visits a map; whether \<^verbatim>\<open>GetLabels()\<close> of an unstructured object is the object's own
  map, so that writing into the result changes the object; the clock; \<^verbatim>\<open>yaml.Unmarshal\<close> of
  the defaults document; \<^verbatim>\<open>IsDNS1123Subdomain\<close>; \<^verbatim>\<open>os.Getenv\<close>.
\<close>

record libs =
  lb_ParseQuantity :: qparser
  lb_RangePairs :: "(string \<times> string) list \<Rightarrow> (string \<times> string) list"
  lb_RangeNames :: "string list \<Rightarrow> string list"
  lb_LabelsAlias :: bool
  lb_Now :: nat
  lb_UnmarshalDefaults :: "string \<Rightarrow> string + GitOpsSpec option"
  lb_IsDNS1123Subdomain :: "string \<Rightarrow> string list"
  lb_Getenv :: "string \<Rightarrow> string"

text \<open>Owner reference helpers change nothing of the object but its owner references.\<close>

definition same_but_owners :: "kobj \<Rightarrow> kobj \<Rightarrow> bool" where
  "same_but_owners a b \<longleftrightarrow> ko_payload b = ko_payload a \<and>
     ko_meta b = (ko_meta a)\<lparr>om_ownerRefs := om_ownerRefs (ko_meta b)\<rparr>"

definition owner_scheme :: "scheme \<Rightarrow> bool" where
  "owner_scheme sch \<longleftrightarrow> (\<forall>ow a b.
     (sch_SetControllerReference sch ow a = Ok b \<longrightarrow> same_but_owners a b) \<and>
     (sch_SetOwnerReference sch ow a = Ok b \<longrightarrow> same_but_owners a b))"

lemma same_but_owners_simps:
  assumes "same_but_owners a b"
  shows "ko_labels b = ko_labels a" "ko_payload b = ko_payload a" "key_of b = key_of a" "kind_of b = kind_of a"
    "om_deletionTimestamp (ko_meta b) = om_deletionTimestamp (ko_meta a)"
proof -
  from assms have p: "ko_payload b = ko_payload a"
    and m: "ko_meta b = (ko_meta a)\<lparr>om_ownerRefs := om_ownerRefs (ko_meta b)\<rparr>"
    by (simp_all add: same_but_owners_def)
  from m have "ko_labels b = ko_labels a \<and> om_namespace (ko_meta b) = om_namespace (ko_meta a) \<and>
    om_name (ko_meta b) = om_name (ko_meta a) \<and> om_deletionTimestamp (ko_meta b) = om_deletionTimestamp (ko_meta a)"
    by (metis objmeta.ext_inject objmeta.surjective objmeta.update_convs(6))
  with p show "ko_labels b = ko_labels a" "ko_payload b = ko_payload a" "key_of b = key_of a" "kind_of b = kind_of a"
    "om_deletionTimestamp (ko_meta b) = om_deletionTimestamp (ko_meta a)"
    by (simp_all add: key_of_def kind_of_def)
qed

lemma same_but_owners_refl [simp]: "same_but_owners a a"
  by (simp add: same_but_owners_def)

text \<open>The scheme of a run, nil or one whose owner helpers change nothing else.\<close>

definition owners_only :: "scheme option \<Rightarrow> bool" where
  "owners_only sch \<longleftrightarrow> (case sch of None \<Rightarrow> True | Some sc \<Rightarrow> owner_scheme sc)"

section \<open>Recorder and metrics\<close>

record 's recorder =
  rec_Event :: "string \<Rightarrow> string \<Rightarrow> string \<Rightarrow> string \<Rightarrow> 's \<Rightarrow> 's"

record 's metrics =
  m_IncReconcileErrors :: "string \<Rightarrow> 's \<Rightarrow> 's"
  m_SetTenants :: "string \<Rightarrow> nat \<Rightarrow> 's \<Rightarrow> 's"
  m_DeleteTenants :: "string \<Rightarrow> 's \<Rightarrow> 's"

definition effectE :: "('s \<Rightarrow> 's) \<Rightarrow> ('s, unit) eff" where
  "effectE f s = (Ok (), f s)"

lemma run_effectE [eff_run]: "effectE f s = (Ok (), f s)"
  by (simp add: effectE_def)

lemma keeps_effect: "(\<And>s. I s \<Longrightarrow> I (f s)) \<Longrightarrow> keeps I (effectE f)"
  by (simp add: keeps_snd effectE_def)

section \<open>Calls\<close>

text \<open>What a run asks for, with the events and error counts that it records.\<close>

datatype api_call =
  CallGet kind objkey
| CallList kind list_options
| CallCreate kobj
| CallPatch kobj kobj
| CallDelete kobj
| CallGetPO string
| CallListPO
| CallUpdatePO ProjectOnboarding
| CallStatusPO ProjectOnboarding
| CallGetTS string
| CallStatusTS TShirtSize
| CallGetConfigMap objkey
| RecordEvent string string
| CountError string

text \<open>Calls that change nothing in the cluster.\<close>

definition harmless :: "api_call \<Rightarrow> bool" where
  "harmless call = (case call of CallCreate obj \<Rightarrow> False | CallPatch b obj \<Rightarrow> False | CallDelete obj \<Rightarrow> False
     | CallUpdatePO po \<Rightarrow> False | CallStatusPO po \<Rightarrow> False | CallStatusTS t \<Rightarrow> False
     | CountError reason \<Rightarrow> False | _ \<Rightarrow> True)"

lemma harmless_simps [simp]:
  "harmless (CallGet k key)" "harmless (CallList k opts)" "harmless (CallGetPO n)" "harmless CallListPO"
  "harmless (CallGetTS n)" "harmless (CallGetConfigMap key)" "harmless (RecordEvent ty reason)"
  "\<not> harmless (CallCreate obj)" "\<not> harmless (CallPatch b obj)" "\<not> harmless (CallDelete obj)"
  "\<not> harmless (CallUpdatePO po)" "\<not> harmless (CallStatusPO po)" "\<not> harmless (CallStatusTS t)"
  "\<not> harmless (CountError reason)"
  by (simp_all add: harmless_def)

section \<open>What the operator relies on of the client\<close>

text \<open>
  The typed client: a read returns an object of the kind and the name that was asked for,
  a list only objects of the kind that its options select.
\<close>

locale selecting_client =
  fixes c :: "'s client"
  assumes got: "returns (cl_Get c k key) (\<lambda>x. kind_of x = k \<and> key_of x = key)"
    and listed: "returns (cl_List c k opts) (\<lambda>xs. \<forall>x \<in> set xs. selected opts x \<and> kind_of x = k)"

text \<open>
  Reads keep \<open>I\<close>, and so do the writes that \<open>W\<close> allows: the interface under which an
  invariant of the world is carried through a run of the operator that stays within \<open>W\<close>.
\<close>

locale guarded_client = selecting_client c for c :: "'s client" +
  fixes I :: "'s \<Rightarrow> bool" and W :: "api_call \<Rightarrow> bool"
  assumes get_keeps: "keeps I (cl_Get c k key)"
    and list_keeps: "keeps I (cl_List c k opts)"
    and getpo_keeps: "keeps I (cl_GetPO c name)"
    and listpo_keeps: "keeps I (cl_ListPO c)"
    and getts_keeps: "keeps I (cl_GetTS c name)"
    and getcm_keeps: "keeps I (cl_GetConfigMap c key)"
    and create_keeps: "W (CallCreate obj) \<Longrightarrow> keeps I (cl_Create c obj)"
    and patch_keeps: "W (CallPatch base obj) \<Longrightarrow> keeps I (cl_Patch c base obj)"
    and delete_keeps: "W (CallDelete obj) \<Longrightarrow> keeps I (cl_Delete c obj)"
    and updatepo_keeps: "W (CallUpdatePO po) \<Longrightarrow> keeps I (cl_UpdatePO c po)"
    and statuspo_keeps: "W (CallStatusPO po) \<Longrightarrow> keeps I (cl_StatusPO c po)"
    and statusts_keeps: "W (CallStatusTS tshirt) \<Longrightarrow> keeps I (cl_StatusTS c tshirt)"
begin

lemmas read_keeps = get_keeps list_keeps getpo_keeps listpo_keeps getts_keeps getcm_keeps

lemma list_then_keeps:
  "(\<And>xs. \<forall>x \<in> set xs. selected opts x \<and> kind_of x = k \<Longrightarrow> keeps I (f xs)) \<Longrightarrow>
   keeps I (bindE (cl_List c k opts) f)"
  by (rule keeps_bind_returns [OF list_keeps listed])

text \<open>The error of a read or a list may be looked at before the objects are.\<close>

lemma try_list_then_keeps:
  "(\<And>e. keeps I (f (Inl e))) \<Longrightarrow>
   (\<And>xs. \<forall>x \<in> set xs. selected opts x \<and> kind_of x = k \<Longrightarrow> keeps I (f (Inr xs))) \<Longrightarrow>
   keeps I (bindE (tryE (cl_List c k opts)) f)"
  by (rule keeps_bind_try [OF list_keeps listed])

lemma try_get_then_keeps:
  "(\<And>e. keeps I (f (Inl e))) \<Longrightarrow>
   (\<And>x. kind_of x = k \<and> key_of x = key \<Longrightarrow> keeps I (f (Inr x))) \<Longrightarrow>
   keeps I (bindE (tryE (cl_Get c k key)) f)"
  by (rule keeps_bind_try [OF get_keeps got])

end

section \<open>A client that records the calls\<close>

definition log_call :: "api_call \<Rightarrow> ('s, 'a) eff \<Rightarrow> ('s \<times> api_call list, 'a) eff" where
  "log_call call m sl = (case m (fst sl) of (r, s') \<Rightarrow> (r, (s', snd sl @ [call])))"

definition logged :: "'s client \<Rightarrow> ('s \<times> api_call list) client" where
  "logged c = \<lparr>cl_Get = (\<lambda>k key. log_call (CallGet k key) (cl_Get c k key)),
     cl_List = (\<lambda>k opts. log_call (CallList k opts) (cl_List c k opts)),
     cl_Create = (\<lambda>obj. log_call (CallCreate obj) (cl_Create c obj)),
     cl_Patch = (\<lambda>b obj. log_call (CallPatch b obj) (cl_Patch c b obj)),
     cl_Delete = (\<lambda>obj. log_call (CallDelete obj) (cl_Delete c obj)),
     cl_GetPO = (\<lambda>n. log_call (CallGetPO n) (cl_GetPO c n)),
     cl_ListPO = log_call CallListPO (cl_ListPO c),
     cl_UpdatePO = (\<lambda>po. log_call (CallUpdatePO po) (cl_UpdatePO c po)),
     cl_StatusPO = (\<lambda>po. log_call (CallStatusPO po) (cl_StatusPO c po)),
     cl_GetTS = (\<lambda>n. log_call (CallGetTS n) (cl_GetTS c n)),
     cl_StatusTS = (\<lambda>ts. log_call (CallStatusTS ts) (cl_StatusTS c ts)),
     cl_GetConfigMap = (\<lambda>key. log_call (CallGetConfigMap key) (cl_GetConfigMap c key))\<rparr>"

text \<open>All that was asked for is harmless or allowed by \<open>W\<close>.\<close>

definition calls_ok :: "(api_call \<Rightarrow> bool) \<Rightarrow> 's \<times> api_call list \<Rightarrow> bool" where
  "calls_ok W sl \<longleftrightarrow> (\<forall>call \<in> set (snd sl). harmless call \<or> W call)"

lemma calls_okD: "calls_ok W (s, calls) \<Longrightarrow> call \<in> set calls \<Longrightarrow> \<not> harmless call \<Longrightarrow> W call"
  by (auto simp: calls_ok_def)

lemma calls_ok_start [simp]: "calls_ok W (s, [])"
  by (simp add: calls_ok_def)

lemma keeps_log_call: "harmless call \<or> W call \<Longrightarrow> keeps (calls_ok W) (log_call call m)"
  by (auto simp: keeps_snd log_call_def calls_ok_def split: prod.splits)

lemma returns_log_call: "returns m P \<Longrightarrow> returns (log_call call m) P"
  by (auto simp: returns_def log_call_def split: prod.splits)

lemma logged_guarded:
  assumes "selecting_client c"
  shows "guarded_client (logged c) (calls_ok W) W"
  by unfold_locales
    (auto simp: logged_def intro!: keeps_log_call returns_log_call selecting_client.listed [OF assms]
      selecting_client.got [OF assms])

end
