(* ===== verification/Cleanup.thy ===== *)
theory Cleanup
  imports Kube
begin

text \<open>
  \<^verbatim>\<open>internal/onboarding/cleanup.go\<close> and the deletions of \<^verbatim>\<open>argocd.go\<close>: teardown of the
  objects of one namespace entry.  Each operation is the sequence of client calls of the Go
  function with its early returns.  The lemmas say which deletions a run may ask for,
  whatever the client answers.
\<close>

section \<open>Ownership\<close>

definition managedLabelsSelector :: "ProjectOnboarding \<Rightarrow> (string \<times> string) list" where
  "managedLabelsSelector po =
     [(ProjectOnboardingManagedByKey, ProjectOnboardingManagedByVal), (ProjectOnboardingLabelKey, po_Name po)]"

definition managedListOptions :: "string option \<Rightarrow> ProjectOnboarding \<Rightarrow> list_options" where
  "managedListOptions ns po = \<lparr>lo_Namespace = ns, lo_MatchingLabels = managedLabelsSelector po\<rparr>"

definition isManagedByProjectOnboarding :: "str_map \<Rightarrow> ProjectOnboarding \<Rightarrow> bool" where
  "isManagedByProjectOnboarding labels po \<longleftrightarrow>
     label_at labels ProjectOnboardingManagedByKey = ProjectOnboardingManagedByVal \<and>
     label_at labels ProjectOnboardingLabelKey = po_Name po"

section \<open>Deletions\<close>

text \<open>\<^verbatim>\<open>if err := c.Delete(...); err != nil && !IsNotFound(err) { return err }\<close>\<close>

definition ignoreNotFound :: "('s, unit) eff \<Rightarrow> ('s, unit) eff" where
  "ignoreNotFound m = bindE (tryE m) (\<lambda>r. case r of
     Inl e \<Rightarrow> if IsNotFound e then retE () else failE e | Inr _ \<Rightarrow> retE ())"

definition deleteIfManaged :: "'s client \<Rightarrow> kobj \<Rightarrow> ProjectOnboarding \<Rightarrow> ('s, unit) eff" where
  "deleteIfManaged c obj po =
     (if \<not> isManagedByProjectOnboarding (ko_labels obj) po then retE ()
      else ignoreNotFound (cl_Delete c obj))"

definition deleteManagedNetworkPolicies :: "'s client \<Rightarrow> ProjectOnboarding \<Rightarrow> string \<Rightarrow> ('s, unit) eff" where
  "deleteManagedNetworkPolicies c po nsName =
     bindE (cl_List c KNetworkPolicy (managedListOptions (Some nsName) po)) (\<lambda>items.
     forE items (\<lambda>item. ignoreNotFound (cl_Delete c item)))"

definition deleteManagedRoleBinding ::
  "'s client \<Rightarrow> ProjectOnboarding \<Rightarrow> NamespaceSpec \<Rightarrow> string \<Rightarrow> ('s, unit) eff" where
  "deleteManagedRoleBinding c po nsSpec nsName =
     bindE (tryE (cl_Get c KRoleBinding (nsName, RoleBindingName nsSpec))) (\<lambda>r. case r of
       Inl err \<Rightarrow> if IsNotFound err then retE () else failE err
     | Inr rb \<Rightarrow> deleteIfManaged c rb po)"

definition deleteManagedLimitRange :: "'s client \<Rightarrow> ProjectOnboarding \<Rightarrow> string \<Rightarrow> ('s, unit) eff" where
  "deleteManagedLimitRange c po nsName =
     bindE (tryE (cl_Get c KLimitRange (nsName, nsName @ ''-limitrange''))) (\<lambda>r. case r of
       Inl err \<Rightarrow> if IsNotFound err then retE () else failE err
     | Inr lr \<Rightarrow> deleteIfManaged c lr po)"

definition deleteManagedResourceQuota :: "'s client \<Rightarrow> ProjectOnboarding \<Rightarrow> string \<Rightarrow> ('s, unit) eff" where
  "deleteManagedResourceQuota c po nsName =
     bindE (tryE (cl_Get c KResourceQuota (nsName, nsName @ ''-quota''))) (\<lambda>r. case r of
       Inl err \<Rightarrow> if IsNotFound err then retE () else failE err
     | Inr quota \<Rightarrow> deleteIfManaged c quota po)"

definition deleteManagedEgressIP :: "'s client \<Rightarrow> ProjectOnboarding \<Rightarrow> string \<Rightarrow> ('s, unit) eff" where
  "deleteManagedEgressIP c po nsName =
     bindE (tryE (cl_Get c KEgressIP ([], nsName))) (\<lambda>r. case r of
       Inl err \<Rightarrow> if IsNotFound err \<or> IsNoMatchError err then retE () else failE err
     | Inr egress \<Rightarrow> deleteIfManaged c egress po)"

definition deleteManagedGroup :: "'s client \<Rightarrow> ProjectOnboarding \<Rightarrow> NamespaceSpec \<Rightarrow> ('s, unit) eff" where
  "deleteManagedGroup c po nsSpec =
     bindE (tryE (cl_Get c KGroup ([], GroupName nsSpec))) (\<lambda>r. case r of
       Inl err \<Rightarrow> if IsNotFound err \<or> IsNoMatchError err then retE () else failE err
     | Inr grp \<Rightarrow> deleteIfManaged c grp po)"

definition deleteManagedNamespace :: "'s client \<Rightarrow> ProjectOnboarding \<Rightarrow> string \<Rightarrow> ('s, unit) eff" where
  "deleteManagedNamespace c po nsName =
     bindE (tryE (cl_Get c KNamespace ([], nsName))) (\<lambda>r. case r of
       Inl err \<Rightarrow> if IsNotFound err then retE () else failE err
     | Inr ns \<Rightarrow> if \<not> isManagedByProjectOnboarding (ko_labels ns) po then retE ()
                else ignoreNotFound (cl_Delete c ns))"

text \<open>
  \<^verbatim>\<open>deleteAppProjectsForNamespace\<close>: \<open>keep\<close> is the \<^verbatim>\<open>map[string]struct{}\<close> argument, a nil map
  being \<open>None\<close>.  A cluster without the AppProject API answers the list with a no-match error.
\<close>

definition deleteAppProjectsForNamespace ::
  "'s client \<Rightarrow> ProjectOnboarding \<Rightarrow> string \<Rightarrow> string list option \<Rightarrow> ('s, unit) eff" where
  "deleteAppProjectsForNamespace c po nsName keep =
     bindE (tryE (cl_List c KAppProject \<lparr>lo_Namespace = None, lo_MatchingLabels =
         [(ProjectOnboardingLabelKey, po_Name po), (ProjectOnboardingNamespaceKey, nsName)]\<rparr>)) (\<lambda>r. case r of
       Inl err \<Rightarrow> if IsNoMatchError err then retE () else failE err
     | Inr items \<Rightarrow> forE items (\<lambda>item.
         if (case keep of None \<Rightarrow> False | Some names \<Rightarrow> om_name (ko_meta item) \<in> set names)
         then retE () else ignoreNotFound (cl_Delete c item)))"

definition deleteManagedAppProjects :: "'s client \<Rightarrow> ProjectOnboarding \<Rightarrow> NamespaceSpec \<Rightarrow> ('s, unit) eff" where
  "deleteManagedAppProjects c po nsSpec =
     deleteAppProjectsForNamespace c po (SanitizeName (ns_Name nsSpec)) None"

definition CleanupNamespace :: "'s client \<Rightarrow> ProjectOnboarding \<Rightarrow> NamespaceSpec \<Rightarrow> ('s, unit) eff" where
  "CleanupNamespace c po nsSpec = (let nsName = SanitizeName (ns_Name nsSpec) in
     thenE (wrapE ''network policies: '' (deleteManagedNetworkPolicies c po nsName)) (
     thenE (wrapE ''role binding: '' (deleteManagedRoleBinding c po nsSpec nsName)) (
     thenE (wrapE ''limit range: '' (deleteManagedLimitRange c po nsName)) (
     thenE (wrapE ''resource quota: '' (deleteManagedResourceQuota c po nsName)) (
     thenE (whenE (case ns_EgressIPs nsSpec of None \<Rightarrow> False | Some e \<Rightarrow> IsOptInEnabled (eip_Enabled e))
              (wrapE ''egress IP: '' (deleteManagedEgressIP c po nsName))) (
     thenE (whenE (case ns_LocalAdminGroup nsSpec of None \<Rightarrow> False | Some g \<Rightarrow> IsOptInEnabled (lag_Enabled g))
              (wrapE ''local admin group: '' (deleteManagedGroup c po nsSpec))) (
     thenE (wrapE ''argo cd app project: '' (deleteManagedAppProjects c po nsSpec))
     (wrapE ''namespace: '' (deleteManagedNamespace c po nsName)))))))))"

section \<open>Which deletions are asked for\<close>

text \<open>
  The objects that a \<^verbatim>\<open>ProjectOnboarding\<close> of this name may delete: those labelled as its own,
  of which AppProjects are recognised by the owner label alone, and of the namespaces only
  those named in \<open>N\<close>.
\<close>

definition deletable :: "string \<Rightarrow> string set \<Rightarrow> kobj \<Rightarrow> bool" where
  "deletable poName N obj \<longleftrightarrow> label_at (ko_labels obj) ProjectOnboardingLabelKey = poName \<and>
     (kind_of obj \<noteq> KAppProject \<longrightarrow>
        label_at (ko_labels obj) ProjectOnboardingManagedByKey = ProjectOnboardingManagedByVal) \<and>
     (kind_of obj = KNamespace \<longrightarrow> om_name (ko_meta obj) \<in> N)"

lemma managed_deletable:
  "isManagedByProjectOnboarding (ko_labels obj) po \<Longrightarrow> kind_of obj = KNamespace \<longrightarrow> om_name (ko_meta obj) \<in> N \<Longrightarrow>
   deletable (po_Name po) N obj"
  by (simp add: isManagedByProjectOnboarding_def deletable_def)

lemma selected_managed:
  "selected (managedListOptions ns po) obj \<Longrightarrow> isManagedByProjectOnboarding (ko_labels obj) po"
  by (simp add: selected_def managedListOptions_def managedLabelsSelector_def isManagedByProjectOnboarding_def label_at_def)

lemma selected_app_project:
  "selected \<lparr>lo_Namespace = n, lo_MatchingLabels = [(ProjectOnboardingLabelKey, po_Name po), kv]\<rparr> obj \<Longrightarrow>
   kind_of obj = KAppProject \<Longrightarrow> deletable (po_Name po) N obj"
  by (simp add: selected_def deletable_def label_at_def)

lemma keeps_ignoreNotFound [keeps_intro]: "keeps I m \<Longrightarrow> keeps I (ignoreNotFound m)"
  unfolding ignoreNotFound_def by (intro keeps_bind keeps_try) (auto intro: keeps_intro split: sum.split)

context guarded_client
begin

lemma get_then_delete_keeps:
  assumes "\<And>obj. deletable (po_Name po) N obj \<Longrightarrow> W (CallDelete obj)" and "k = KNamespace \<longrightarrow> snd key \<in> N"
  shows "keeps I (bindE (tryE (cl_Get c k key)) (\<lambda>r. case r of
     Inl err \<Rightarrow> if b err then retE () else failE err | Inr obj \<Rightarrow> deleteIfManaged c obj po))"
proof (rule try_get_then_keeps)
  fix x assume "kind_of x = k \<and> key_of x = key"
  then have "deletable (po_Name po) N x" if "isManagedByProjectOnboarding (ko_labels x) po"
    using that assms(2) by (auto intro: managed_deletable simp: key_of_def)
  then show "keeps I (case Inr x of Inl err \<Rightarrow> if b err then retE () else failE err | Inr obj \<Rightarrow> deleteIfManaged c obj po)"
    unfolding deleteIfManaged_def by (simp, intro conjI impI keeps_intro delete_keeps assms(1)) simp_all
qed simp

lemma deleteManagedNetworkPolicies_keeps:
  assumes "\<And>obj. deletable (po_Name po) N obj \<Longrightarrow> W (CallDelete obj)"
  shows "keeps I (deleteManagedNetworkPolicies c po n)"
  unfolding deleteManagedNetworkPolicies_def
  by (intro list_then_keeps keeps_intro delete_keeps assms managed_deletable) (auto dest: selected_managed)

lemma deleteAppProjectsForNamespace_keeps:
  assumes "\<And>obj. deletable (po_Name po) N obj \<Longrightarrow> W (CallDelete obj)"
  shows "keeps I (deleteAppProjectsForNamespace c po n keep)"
  unfolding deleteAppProjectsForNamespace_def
  by (rule try_list_then_keeps)
    (auto intro!: keeps_intro delete_keeps assms intro: selected_app_project)

lemma deleteManagedNamespace_keeps:
  assumes "\<And>obj. deletable (po_Name po) N obj \<Longrightarrow> W (CallDelete obj)" and "n \<in> N"
  shows "keeps I (deleteManagedNamespace c po n)"
  using get_then_delete_keeps [where k = KNamespace and key = "([], n)" and b = IsNotFound, OF assms(1)] assms(2)
  unfolding deleteManagedNamespace_def deleteIfManaged_def by simp

lemma delete_parts_keep:
  assumes "\<And>obj. deletable (po_Name po) N obj \<Longrightarrow> W (CallDelete obj)"
  shows "keeps I (deleteManagedRoleBinding c po nsSpec n)" "keeps I (deleteManagedLimitRange c po n)"
    "keeps I (deleteManagedResourceQuota c po n)" "keeps I (deleteManagedEgressIP c po n)"
    "keeps I (deleteManagedGroup c po nsSpec)" "keeps I (deleteManagedAppProjects c po nsSpec)"
  unfolding deleteManagedRoleBinding_def deleteManagedLimitRange_def deleteManagedResourceQuota_def
    deleteManagedEgressIP_def deleteManagedGroup_def deleteManagedAppProjects_def
  by (rule get_then_delete_keeps deleteAppProjectsForNamespace_keeps; (rule assms, assumption)?; simp)+

lemma CleanupNamespace_keeps:
  assumes "\<And>obj. deletable (po_Name po) N obj \<Longrightarrow> W (CallDelete obj)" and "SanitizeName (ns_Name nsSpec) \<in> N"
  shows "keeps I (CleanupNamespace c po nsSpec)"
  unfolding CleanupNamespace_def Let_def
  by (intro keeps_then keeps_wrap keeps_when) (rule delete_parts_keep deleteManagedNetworkPolicies_keeps
      deleteManagedNamespace_keeps; (rule assms, assumption)?; simp add: assms(2))+

end

end
