(* ===== verification/Tshirt_Merge.thy ===== *)
theory Tshirt_Merge
  imports Helpers
begin

text \<open>
  \<^verbatim>\<open>internal/onboarding/tshirt_merge.go\<close>: T-shirt sizing.  The merge functions lay the
  override of a namespace entry over the catalogue entry, pointer by pointer.  Their
  contract is the locale \<open>overlay\<close>: nil is neutral on either side, laying the same
  values on again changes nothing, and layers associate.  Every pointer merge of the
  file is an interpretation.  A \<^verbatim>\<open>DeepCopy\<close> is the value itself; \<open>Deep_Merge\<close>
  has the same functions on memory.
\<close>

section \<open>Interface of a pointer merge\<close>

locale overlay =
  fixes merge :: "'a option \<Rightarrow> 'a option \<Rightarrow> 'a option"
  assumes nil_base: "merge None y = y"
    and nil_override: "merge x None = x"
    and self: "merge x x = x"
    and layers: "merge (merge x y) z = merge x (merge y z)"
begin

lemma override_again: "merge (merge x y) y = merge x y"
  by (simp add: layers self)

lemma base_again: "merge x (merge x y) = merge x y"
  by (simp add: layers [symmetric] self)

lemma nil_iff_both: "merge x y = None \<Longrightarrow> merge y x = None \<Longrightarrow> x = None \<and> y = None"
  by (metis base_again nil_override override_again self)

lemma fold_layers: "foldl merge (merge x y) zs = merge x (foldl merge y zs)"
  by (induction zs arbitrary: y) (simp_all add: layers)

end

section \<open>Merging (tshirt\_merge.go)\<close>

definition or_else :: "'a option \<Rightarrow> 'a option \<Rightarrow> 'a option" where
  "or_else override base = (case override of None \<Rightarrow> base | Some v \<Rightarrow> Some v)"

lemma or_else_simps [opt_simps, simp]:
  "or_else None b = b" "or_else (Some v) b = Some v" "or_else x None = x" "or_else x x = x"
  "or_else z (or_else y x) = or_else (or_else z y) x"
  by (auto simp: or_else_def split: option.splits)

definition mergeResourceAmount ::
  "ResourceAmountSpec option \<Rightarrow> ResourceAmountSpec option \<Rightarrow> ResourceAmountSpec option" where
  "mergeResourceAmount base override =
     (if base = None \<and> override = None then None
      else let out = (case base of None \<Rightarrow> zero_ResourceAmountSpec | Some b \<Rightarrow> b)
      in case override of None \<Rightarrow> (if base = None then None else Some out)
       | Some ov \<Rightarrow> Some (out\<lparr>ra_CPU := or_else (ra_CPU ov) (ra_CPU out),
                              ra_Memory := or_else (ra_Memory ov) (ra_Memory out)\<rparr>))"

definition mergeResourceQuotaLimits ::
  "ResourceQuotaLimitSpec option \<Rightarrow> ResourceQuotaLimitSpec option \<Rightarrow> ResourceQuotaLimitSpec option" where
  "mergeResourceQuotaLimits base override =
     (if base = None \<and> override = None then None
      else let out = (case base of None \<Rightarrow> zero_ResourceQuotaLimitSpec | Some b \<Rightarrow> b)
      in case override of None \<Rightarrow> (if base = None then None else Some out)
       | Some ov \<Rightarrow> Some (out\<lparr>rl_CPU := or_else (rl_CPU ov) (rl_CPU out),
                              rl_Memory := or_else (rl_Memory ov) (rl_Memory out),
                              rl_EphemeralStorage := or_else (rl_EphemeralStorage ov) (rl_EphemeralStorage out)\<rparr>))"

definition mergeResourceQuotaRequests ::
  "ResourceQuotaRequestSpec option \<Rightarrow> ResourceQuotaRequestSpec option \<Rightarrow> ResourceQuotaRequestSpec option" where
  "mergeResourceQuotaRequests base override =
     (if base = None \<and> override = None then None
      else let out = (case base of None \<Rightarrow> zero_ResourceQuotaRequestSpec | Some b \<Rightarrow> b)
      in case override of None \<Rightarrow> (if base = None then None else Some out)
       | Some ov \<Rightarrow> Some (out\<lparr>rr_CPU := or_else (rr_CPU ov) (rr_CPU out),
                              rr_Memory := or_else (rr_Memory ov) (rr_Memory out),
                              rr_Storage := or_else (rr_Storage ov) (rr_Storage out),
                              rr_EphemeralStorage := or_else (rr_EphemeralStorage ov) (rr_EphemeralStorage out)\<rparr>))"

definition mergeLimitRangePod ::
  "LimitRangePodSpec option \<Rightarrow> LimitRangePodSpec option \<Rightarrow> LimitRangePodSpec option" where
  "mergeLimitRangePod base override =
     (if base = None \<and> override = None then None
      else let out = (case base of None \<Rightarrow> zero_LimitRangePodSpec | Some b \<Rightarrow> b)
      in case override of None \<Rightarrow> (if base = None then None else Some out)
       | Some ov \<Rightarrow> Some (out\<lparr>lp_Max := mergeResourceAmount (lp_Max out) (lp_Max ov),
                              lp_Min := mergeResourceAmount (lp_Min out) (lp_Min ov)\<rparr>))"

definition mergeLimitRangeContainer ::
  "LimitRangeContainerSpec option \<Rightarrow> LimitRangeContainerSpec option \<Rightarrow> LimitRangeContainerSpec option" where
  "mergeLimitRangeContainer base override =
     (if base = None \<and> override = None then None
      else let out = (case base of None \<Rightarrow> zero_LimitRangeContainerSpec | Some b \<Rightarrow> b)
      in case override of None \<Rightarrow> (if base = None then None else Some out)
       | Some ov \<Rightarrow> Some (out\<lparr>lc_Max := mergeResourceAmount (lc_Max out) (lc_Max ov),
                              lc_Min := mergeResourceAmount (lc_Min out) (lc_Min ov),
                              lc_Default := mergeResourceAmount (lc_Default out) (lc_Default ov),
                              lc_DefaultRequest := mergeResourceAmount (lc_DefaultRequest out) (lc_DefaultRequest ov)\<rparr>))"

text \<open>One storage bound of \<^verbatim>\<open>mergeLimitRangePVC\<close>: the same block for \<^verbatim>\<open>Min\<close> and \<^verbatim>\<open>Max\<close>.\<close>

definition merge_pvc_bound ::
  "StorageAmountSpec option \<Rightarrow> StorageAmountSpec option \<Rightarrow> StorageAmountSpec option" where
  "merge_pvc_bound out override = (case override of None \<Rightarrow> out
     | Some ov \<Rightarrow> (let cur = (case out of None \<Rightarrow> zero_StorageAmountSpec | Some o' \<Rightarrow> o')
                   in Some (cur\<lparr>sa_Storage := or_else (sa_Storage ov) (sa_Storage cur)\<rparr>)))"

definition mergeLimitRangePVC ::
  "LimitRangePVCSpec option \<Rightarrow> LimitRangePVCSpec option \<Rightarrow> LimitRangePVCSpec option" where
  "mergeLimitRangePVC base override =
     (if base = None \<and> override = None then None
      else let out = (case base of None \<Rightarrow> zero_LimitRangePVCSpec | Some b \<Rightarrow> b)
      in case override of None \<Rightarrow> (if base = None then None else Some out)
       | Some ov \<Rightarrow> Some (out\<lparr>lv_Min := merge_pvc_bound (lv_Min out) (lv_Min ov),
                              lv_Max := merge_pvc_bound (lv_Max out) (lv_Max ov)\<rparr>))"

definition ensureQuotaEnabled :: "ResourceQuotaSpec option \<Rightarrow> ResourceQuotaSpec option" where
  "ensureQuotaEnabled q = (case q of None \<Rightarrow> None
     | Some out \<Rightarrow> Some (if rq_Enabled out = None then out\<lparr>rq_Enabled := Some True\<rparr> else out))"

definition ensureLimitRangeEnabled :: "LimitRangeSpec option \<Rightarrow> LimitRangeSpec option" where
  "ensureLimitRangeEnabled lr = (case lr of None \<Rightarrow> None
     | Some out \<Rightarrow> Some (if lr_Enabled out = None then out\<lparr>lr_Enabled := Some True\<rparr> else out))"

definition merge_storage_classes ::
  "((string \<times> string) list \<Rightarrow> (string \<times> string) list) \<Rightarrow>
   StorageClassQuota list \<Rightarrow> StorageClassQuota list \<Rightarrow> StorageClassQuota list" where
  "merge_storage_classes iter out override =
     (if override = [] then out
      else storageClassQuotasFromMap iter
        (foldl (\<lambda>m entry. if sc_Key entry = [] then m else AList.update (sc_Key entry) (sc_Value entry) m)
           (storageClassQuotasToMap out) override))"

definition mergeResourceQuotaSpec ::
  "((string \<times> string) list \<Rightarrow> (string \<times> string) list) \<Rightarrow>
   ResourceQuotaSpec option \<Rightarrow> ResourceQuotaSpec option \<Rightarrow> ResourceQuotaSpec option" where
  "mergeResourceQuotaSpec iter base override =
     (if base = None \<and> override = None then None
      else let out = (case base of None \<Rightarrow> zero_ResourceQuotaSpec | Some b \<Rightarrow> b)
      in case override of None \<Rightarrow> ensureQuotaEnabled (Some out)
       | Some ov \<Rightarrow> ensureQuotaEnabled (Some
          \<lparr>rq_Enabled = or_else (rq_Enabled ov) (rq_Enabled out),
           rq_CPU = or_else (rq_CPU ov) (rq_CPU out),
           rq_Memory = or_else (rq_Memory ov) (rq_Memory out),
           rq_EphemeralStorage = or_else (rq_EphemeralStorage ov) (rq_EphemeralStorage out),
           rq_Pods = or_else (rq_Pods ov) (rq_Pods out),
           rq_ReplicationControllers = or_else (rq_ReplicationControllers ov) (rq_ReplicationControllers out),
           rq_ResourceQuotas = or_else (rq_ResourceQuotas ov) (rq_ResourceQuotas out),
           rq_Services = or_else (rq_Services ov) (rq_Services out),
           rq_Secrets = or_else (rq_Secrets ov) (rq_Secrets out),
           rq_ConfigMaps = or_else (rq_ConfigMaps ov) (rq_ConfigMaps out),
           rq_PersistentVolumeClaims = or_else (rq_PersistentVolumeClaims ov) (rq_PersistentVolumeClaims out),
           rq_Limits = mergeResourceQuotaLimits (rq_Limits out) (rq_Limits ov),
           rq_Requests = mergeResourceQuotaRequests (rq_Requests out) (rq_Requests ov),
           rq_StorageClasses = merge_storage_classes iter (rq_StorageClasses out) (rq_StorageClasses ov)\<rparr>))"

definition mergeLimitRangeSpec ::
  "LimitRangeSpec option \<Rightarrow> LimitRangeSpec option \<Rightarrow> LimitRangeSpec option" where
  "mergeLimitRangeSpec base override =
     (if base = None \<and> override = None then None
      else let out = (case base of None \<Rightarrow> zero_LimitRangeSpec | Some b \<Rightarrow> b)
      in case override of None \<Rightarrow> ensureLimitRangeEnabled (Some out)
       | Some ov \<Rightarrow> ensureLimitRangeEnabled (Some
          \<lparr>lr_Enabled = or_else (lr_Enabled ov) (lr_Enabled out),
           lr_Pod = mergeLimitRangePod (lr_Pod out) (lr_Pod ov),
           lr_Container = mergeLimitRangeContainer (lr_Container out) (lr_Container ov),
           lr_PVC = mergeLimitRangePVC (lr_PVC out) (lr_PVC ov)\<rparr>))"

section \<open>Which blocks the catalogue supplies\<close>

definition isExplicitlyEnabled :: "bool option \<Rightarrow> bool" where
  "isExplicitlyEnabled enabled = (case enabled of None \<Rightarrow> False | Some b \<Rightarrow> b)"

definition shouldApplyTshirtResourceQuotas :: "NamespaceSpec \<Rightarrow> bool" where
  "shouldApplyTshirtResourceQuotas nsSpec \<longleftrightarrow> ns_ProjectSize nsSpec \<noteq> [] \<and>
     (case ns_ResourceQuotas nsSpec of None \<Rightarrow> False | Some q \<Rightarrow> isExplicitlyEnabled (rq_Enabled q))"

definition shouldApplyTshirtLimitRanges :: "NamespaceSpec \<Rightarrow> bool" where
  "shouldApplyTshirtLimitRanges nsSpec \<longleftrightarrow> ns_ProjectSize nsSpec \<noteq> [] \<and>
     (case ns_LimitRanges nsSpec of None \<Rightarrow> False | Some l \<Rightarrow> isExplicitlyEnabled (lr_Enabled l))"

definition IsOverwriteTshirt :: "bool option \<Rightarrow> bool" where
  "IsOverwriteTshirt overwrite = (case overwrite of None \<Rightarrow> False | Some b \<Rightarrow> b)"

definition shouldMergeTshirtOverrides :: "NamespaceSpec \<Rightarrow> bool" where
  "shouldMergeTshirtOverrides nsSpec = IsOverwriteTshirt (ns_OverwriteTshirt nsSpec)"

text \<open>
  \<^verbatim>\<open>ResolveNamespaceSpec\<close> after the lookup: what becomes of the entry once the catalogue
  entry \<open>tshirt\<close> has been read.
\<close>

definition resolve_with ::
  "((string \<times> string) list \<Rightarrow> (string \<times> string) list) \<Rightarrow> NamespaceSpec \<Rightarrow> TShirtSizeSpec \<Rightarrow> NamespaceSpec" where
  "resolve_with iter nsSpec tshirt =
     (let applyTshirtQuota = shouldApplyTshirtResourceQuotas nsSpec;
          applyTshirtLimits = shouldApplyTshirtLimitRanges nsSpec
      in if shouldMergeTshirtOverrides nsSpec then
           nsSpec\<lparr>ns_ResourceQuotas := (if applyTshirtQuota
                     then mergeResourceQuotaSpec iter (ts_ResourceQuotas tshirt) (ns_ResourceQuotas nsSpec) else None),
                  ns_LimitRanges := (if applyTshirtLimits
                     then mergeLimitRangeSpec (ts_LimitRanges tshirt) (ns_LimitRanges nsSpec) else None)\<rparr>
         else
           nsSpec\<lparr>ns_ResourceQuotas := (if applyTshirtQuota
                     then ensureQuotaEnabled (ts_ResourceQuotas tshirt) else None),
                  ns_LimitRanges := (if applyTshirtLimits
                     then ensureLimitRangeEnabled (ts_LimitRanges tshirt) else None)\<rparr>)"

section \<open>The merges are overlays\<close>

lemma mergeResourceAmount_eqs:
  "mergeResourceAmount None y = y" "mergeResourceAmount x None = x"
  "mergeResourceAmount (Some b) (Some v) = Some \<lparr>ra_CPU = or_else (ra_CPU v) (ra_CPU b), ra_Memory = or_else (ra_Memory v) (ra_Memory b)\<rparr>"
  by (cases y; simp add: mergeResourceAmount_def Let_def) (cases x; simp add: mergeResourceAmount_def Let_def)+

interpretation amount: overlay mergeResourceAmount
proof unfold_locales
  show "mergeResourceAmount x x = x" for x by (cases x) (simp_all add: mergeResourceAmount_eqs)
  show "mergeResourceAmount (mergeResourceAmount x y) z = mergeResourceAmount x (mergeResourceAmount y z)" for x y z
    by (cases x; cases y; cases z) (simp_all add: mergeResourceAmount_eqs)
qed (simp_all add: mergeResourceAmount_eqs)

lemma mergeResourceQuotaLimits_eqs:
  "mergeResourceQuotaLimits None y = y" "mergeResourceQuotaLimits x None = x"
  "mergeResourceQuotaLimits (Some b) (Some v) = Some \<lparr>rl_CPU = or_else (rl_CPU v) (rl_CPU b), rl_Memory = or_else (rl_Memory v) (rl_Memory b), rl_EphemeralStorage = or_else (rl_EphemeralStorage v) (rl_EphemeralStorage b)\<rparr>"
  by (cases y; simp add: mergeResourceQuotaLimits_def Let_def) (cases x; simp add: mergeResourceQuotaLimits_def Let_def)+

interpretation limits: overlay mergeResourceQuotaLimits
proof unfold_locales
  show "mergeResourceQuotaLimits x x = x" for x by (cases x) (simp_all add: mergeResourceQuotaLimits_eqs)
  show "mergeResourceQuotaLimits (mergeResourceQuotaLimits x y) z = mergeResourceQuotaLimits x (mergeResourceQuotaLimits y z)" for x y z
    by (cases x; cases y; cases z) (simp_all add: mergeResourceQuotaLimits_eqs)
qed (simp_all add: mergeResourceQuotaLimits_eqs)

lemma mergeResourceQuotaRequests_eqs:
  "mergeResourceQuotaRequests None y = y" "mergeResourceQuotaRequests x None = x"
  "mergeResourceQuotaRequests (Some b) (Some v) = Some \<lparr>rr_CPU = or_else (rr_CPU v) (rr_CPU b), rr_Memory = or_else (rr_Memory v) (rr_Memory b), rr_Storage = or_else (rr_Storage v) (rr_Storage b), rr_EphemeralStorage = or_else (rr_EphemeralStorage v) (rr_EphemeralStorage b)\<rparr>"
  by (cases y; simp add: mergeResourceQuotaRequests_def Let_def) (cases x; simp add: mergeResourceQuotaRequests_def Let_def)+

interpretation requests: overlay mergeResourceQuotaRequests
proof unfold_locales
  show "mergeResourceQuotaRequests x x = x" for x by (cases x) (simp_all add: mergeResourceQuotaRequests_eqs)
  show "mergeResourceQuotaRequests (mergeResourceQuotaRequests x y) z = mergeResourceQuotaRequests x (mergeResourceQuotaRequests y z)" for x y z
    by (cases x; cases y; cases z) (simp_all add: mergeResourceQuotaRequests_eqs)
qed (simp_all add: mergeResourceQuotaRequests_eqs)

lemma merge_pvc_bound_eqs:
  "merge_pvc_bound None y = y" "merge_pvc_bound x None = x"
  "merge_pvc_bound (Some b) (Some v) = Some \<lparr>sa_Storage = or_else (sa_Storage v) (sa_Storage b)\<rparr>"
  by (cases y; simp add: merge_pvc_bound_def Let_def) (cases x; simp add: merge_pvc_bound_def Let_def)+

interpretation bound: overlay merge_pvc_bound
proof unfold_locales
  show "merge_pvc_bound x x = x" for x by (cases x) (simp_all add: merge_pvc_bound_eqs)
  show "merge_pvc_bound (merge_pvc_bound x y) z = merge_pvc_bound x (merge_pvc_bound y z)" for x y z
    by (cases x; cases y; cases z) (simp_all add: merge_pvc_bound_eqs)
qed (simp_all add: merge_pvc_bound_eqs)

lemma mergeLimitRangePod_eqs:
  "mergeLimitRangePod None y = y" "mergeLimitRangePod x None = x"
  "mergeLimitRangePod (Some b) (Some v) = Some \<lparr>lp_Max = mergeResourceAmount (lp_Max b) (lp_Max v),
     lp_Min = mergeResourceAmount (lp_Min b) (lp_Min v)\<rparr>"
  by (cases y; simp add: mergeLimitRangePod_def Let_def amount.nil_base)
    (cases x; simp add: mergeLimitRangePod_def Let_def)+

lemma mergeLimitRangeContainer_eqs:
  "mergeLimitRangeContainer None y = y" "mergeLimitRangeContainer x None = x"
  "mergeLimitRangeContainer (Some b) (Some v) =
     Some \<lparr>lc_Max = mergeResourceAmount (lc_Max b) (lc_Max v),
       lc_Min = mergeResourceAmount (lc_Min b) (lc_Min v),
       lc_Default = mergeResourceAmount (lc_Default b) (lc_Default v),
       lc_DefaultRequest = mergeResourceAmount (lc_DefaultRequest b) (lc_DefaultRequest v)\<rparr>"
  by (cases y; simp add: mergeLimitRangeContainer_def Let_def amount.nil_base)
    (cases x; simp add: mergeLimitRangeContainer_def Let_def)+

lemma mergeLimitRangePVC_eqs:
  "mergeLimitRangePVC None y = y" "mergeLimitRangePVC x None = x"
  "mergeLimitRangePVC (Some b) (Some v) =
     Some \<lparr>lv_Min = merge_pvc_bound (lv_Min b) (lv_Min v), lv_Max = merge_pvc_bound (lv_Max b) (lv_Max v)\<rparr>"
  by (cases y; simp add: mergeLimitRangePVC_def Let_def bound.nil_base)
    (cases x; simp add: mergeLimitRangePVC_def Let_def)+

interpretation pod: overlay mergeLimitRangePod
proof unfold_locales
  show "mergeLimitRangePod x x = x" for x
    by (cases x) (simp_all add: mergeLimitRangePod_eqs amount.self)
  show "mergeLimitRangePod (mergeLimitRangePod x y) z = mergeLimitRangePod x (mergeLimitRangePod y z)" for x y z
    by (cases x; cases y; cases z) (simp_all add: mergeLimitRangePod_eqs amount.layers)
qed (simp_all add: mergeLimitRangePod_eqs)

interpretation container: overlay mergeLimitRangeContainer
proof unfold_locales
  show "mergeLimitRangeContainer x x = x" for x
    by (cases x) (simp_all add: mergeLimitRangeContainer_eqs amount.self)
  show "mergeLimitRangeContainer (mergeLimitRangeContainer x y) z =
    mergeLimitRangeContainer x (mergeLimitRangeContainer y z)" for x y z
    by (cases x; cases y; cases z) (simp_all add: mergeLimitRangeContainer_eqs amount.layers)
qed (simp_all add: mergeLimitRangeContainer_eqs)

interpretation pvc: overlay mergeLimitRangePVC
proof unfold_locales
  show "mergeLimitRangePVC x x = x" for x
    by (cases x) (simp_all add: mergeLimitRangePVC_eqs bound.self)
  show "mergeLimitRangePVC (mergeLimitRangePVC x y) z = mergeLimitRangePVC x (mergeLimitRangePVC y z)" for x y z
    by (cases x; cases y; cases z) (simp_all add: mergeLimitRangePVC_eqs bound.layers)
qed (simp_all add: mergeLimitRangePVC_eqs)

end
