(* ===== verification/Reconcile_Ns.thy ===== *)
theory Reconcile_Ns
  imports Cleanup Tshirt_Merge
begin

text \<open>
  The reconcile engine for one namespace entry: \<^verbatim>\<open>reconcile.go\<close> with the operations of
  \<^verbatim>\<open>owners.go\<close>, \<^verbatim>\<open>tshirt_merge.go\<close> (the lookup), \<^verbatim>\<open>reconcile_quota.go\<close>,
  \<^verbatim>\<open>reconcile_netpol.go\<close>, \<^verbatim>\<open>reconcile_openshift.go\<close>, \<^verbatim>\<open>argocd.go\<close> and \<^verbatim>\<open>prune.go\<close> that it calls.
\<close>

section \<open>owners.go\<close>

definition ensureProjectOnboardingControllerRef ::
  "scheme option \<Rightarrow> ProjectOnboarding option \<Rightarrow> kobj \<Rightarrow> kobj result" where
  "ensureProjectOnboardingControllerRef sch po obj = (case (sch, po) of
     (Some sc, Some p) \<Rightarrow> (if sch_IsControlledBy sc obj (po_meta p) then Ok obj
                          else sch_SetControllerReference sc (po_meta p) obj)
   | _ \<Rightarrow> Ok obj)"

definition ensureTenantNamespaceOwnerRef ::
  "scheme option \<Rightarrow> kobj option \<Rightarrow> kobj \<Rightarrow> kobj result" where
  "ensureTenantNamespaceOwnerRef sch tenantNS obj = (case (sch, tenantNS) of
     (Some sc, Some t) \<Rightarrow> (if sch_IsControlledBy sc obj (ko_meta t) then Ok obj
                          else sch_SetOwnerReference sc (ko_meta t) obj)
   | _ \<Rightarrow> Ok obj)"

section \<open>tshirt\_merge.go: the lookup\<close>

definition ResolveNamespaceSpec :: "libs \<Rightarrow> 's client \<Rightarrow> NamespaceSpec \<Rightarrow> ('s, NamespaceSpec) eff" where
  "ResolveNamespaceSpec lb c nsSpec =
     (if ns_ProjectSize nsSpec = [] then retE nsSpec
      else bindE (tryE (cl_GetTS c (ns_ProjectSize nsSpec))) (\<lambda>r. case r of
        Inl err \<Rightarrow> if IsNotFound err
          then failE (PlainError (''TShirtSize '' @ go_quote (ns_ProjectSize nsSpec) @ '' not found''))
          else failE (WrapError (''get TShirtSize '' @ go_quote (ns_ProjectSize nsSpec) @ '': '') err)
      | Inr tshirt \<Rightarrow> retE (resolve_with (lb_RangePairs lb) nsSpec (ts_Spec tshirt))))"

section \<open>reconcile.go: the Namespace object\<close>

definition desired_namespace_labels ::
  "ProjectOnboarding \<Rightarrow> NamespaceSpec \<Rightarrow> string \<Rightarrow> str_map \<Rightarrow> str_map" where
  "desired_namespace_labels po nsSpec nsName labels =
     (let d0 = labels ++ ns_Labels nsSpec;
          d1 = ApplyAdditionalSettingsLabels d0 (ns_AdditionalSettings nsSpec);
          d2 = (if ns_ProjectSize nsSpec \<noteq> [] then d1(''namespace-size'' \<mapsto> ns_ProjectSize nsSpec) else d1);
          d3 = (if (case ns_EgressIPs nsSpec of None \<Rightarrow> False | Some e \<Rightarrow> IsOptInEnabled (eip_Enabled e))
                then d2(''env'' \<mapsto> nsName) else d2);
          managedBy = gitOpsManagedByLabel po nsSpec
      in if managedBy \<noteq> [] then d3(ArgoCDManagedByLabel \<mapsto> managedBy) else d3)"

definition reconcileNamespaceObject ::
  "'s client \<Rightarrow> scheme option \<Rightarrow> ProjectOnboarding \<Rightarrow> NamespaceSpec \<Rightarrow> string \<Rightarrow> str_map \<Rightarrow> ('s, kobj) eff" where
  "reconcileNamespaceObject c sch po nsSpec nsName labels =
     bindE (tryE (cl_Get c KNamespace ([], nsName))) (\<lambda>r.
     let desiredLabels = desired_namespace_labels po nsSpec nsName labels;
         desiredAnnotations = ns_Annotations nsSpec
     in case r of
       Inl err \<Rightarrow> if \<not> IsNotFound err then failE err
         else let obj = new_object [] nsName desiredLabels PNamespace;
                  obj = obj\<lparr>ko_meta := (ko_meta obj)\<lparr>om_annotations := desiredAnnotations\<rparr>\<rparr>
              in bindE (resE (ensureProjectOnboardingControllerRef sch (Some po) obj)) (cl_Create c)
     | Inr ns \<Rightarrow>
         let obj = ns\<lparr>ko_meta := (ko_meta ns)\<lparr>om_labels := ko_labels ns ++ desiredLabels,
                        om_annotations := om_annotations (ko_meta ns) ++ desiredAnnotations\<rparr>\<rparr>
         in bindE (resE (ensureProjectOnboardingControllerRef sch (Some po) obj)) (cl_Patch c ns))"

section \<open>Objects inside the tenant namespace\<close>

definition mergeStringMaps :: "str_map \<Rightarrow> str_map \<Rightarrow> str_map" where
  "mergeStringMaps base extra = base ++ extra"

text \<open>
  The common body of the reconcile functions of ResourceQuota, LimitRange, NetworkPolicy
  and RoleBinding: create the desired object if there is none of its name, otherwise merge
  the labels and replace the specification; the tenant Namespace becomes the owner.
\<close>

definition apply_tenant_object ::
  "'s client \<Rightarrow> scheme option \<Rightarrow> kobj option \<Rightarrow> str_map \<Rightarrow> kobj \<Rightarrow> ('s, unit) eff" where
  "apply_tenant_object c sch tenantNS labels desired =
     bindE (tryE (cl_Get c (kind_of desired) (key_of desired))) (\<lambda>r. case r of
       Inl err \<Rightarrow> if IsNotFound err
         then bindE (resE (ensureTenantNamespaceOwnerRef sch tenantNS desired)) (\<lambda>obj.
              thenE (cl_Create c obj) (retE ()))
         else failE err
     | Inr current \<Rightarrow>
         bindE (resE (ensureTenantNamespaceOwnerRef sch tenantNS
           (set_payload (ko_payload desired) (set_labels (mergeStringMaps (ko_labels current) labels) current)))) (\<lambda>obj.
         thenE (cl_Patch c current obj) (retE ())))"

definition reconcileResourceQuota ::
  "libs \<Rightarrow> 's client \<Rightarrow> scheme option \<Rightarrow> kobj option \<Rightarrow> ResourceQuotaSpec \<Rightarrow> string \<Rightarrow> str_map \<Rightarrow> ('s, unit) eff" where
  "reconcileResourceQuota lb c sch tenantNS quota nsName labels =
     bindE (resE (buildResourceQuotaHard (lb_ParseQuantity lb) quota)) (\<lambda>hard.
     apply_tenant_object c sch tenantNS labels
       (new_object nsName (nsName @ ''-quota'') labels (PResourceQuota hard)))"

definition reconcileLimitRange ::
  "libs \<Rightarrow> 's client \<Rightarrow> scheme option \<Rightarrow> kobj option \<Rightarrow> LimitRangeSpec \<Rightarrow> string \<Rightarrow> str_map \<Rightarrow> ('s, unit) eff" where
  "reconcileLimitRange lb c sch tenantNS limits nsName labels =
     bindE (resE (buildLimitRangeItems (lb_ParseQuantity lb) limits)) (\<lambda>items.
     apply_tenant_object c sch tenantNS labels
       (new_object nsName (nsName @ ''-limitrange'') labels (PLimitRange items)))"

definition policy_object :: "network_policy \<Rightarrow> kobj" where
  "policy_object p = new_object (pol_Namespace p) (pol_Name p) (pol_Labels p) (PNetworkPolicy (pol_Spec p))"

definition reconcileDefaultNetworkPolicies ::
  "'s client \<Rightarrow> scheme option \<Rightarrow> kobj option \<Rightarrow> NamespaceSpec \<Rightarrow> string \<Rightarrow> str_map \<Rightarrow> ('s, unit) eff" where
  "reconcileDefaultNetworkPolicies c sch tenantNS nsSpec nsName labels =
     forE (defaultNetworkPolicies nsSpec nsName labels) (\<lambda>desired.
       apply_tenant_object c sch tenantNS labels (policy_object desired))"

definition reconcileCustomNetworkPolicies ::
  "'s client \<Rightarrow> scheme option \<Rightarrow> kobj option \<Rightarrow> NamespaceSpec \<Rightarrow> string \<Rightarrow> str_map \<Rightarrow> ('s, unit) eff" where
  "reconcileCustomNetworkPolicies c sch tenantNS nsSpec nsName labels =
     forE (ns_NetworkPolicies nsSpec) (\<lambda>polSpec.
       if \<not> IsEnabled (cnp_Active polSpec) then retE ()
       else apply_tenant_object c sch tenantNS labels
              (policy_object (buildCustomNetworkPolicy polSpec nsName labels)))"

section \<open>reconcile\_openshift.go\<close>

definition convertUsers :: "string list \<Rightarrow> string list" where
  "convertUsers users = map (\<lambda>user. user) users"

text \<open>
  The loop \<^verbatim>\<open>for k, v := range labels { obj.GetLabels()[k] = v }\<close>: it changes the object only
  if \<^verbatim>\<open>GetLabels()\<close> is the object's own map.
\<close>

definition write_labels :: "libs \<Rightarrow> str_map \<Rightarrow> kobj \<Rightarrow> kobj" where
  "write_labels lb labels obj = (if lb_LabelsAlias lb then set_labels (ko_labels obj ++ labels) obj else obj)"

definition reconcileLocalAdminGroup ::
  "libs \<Rightarrow> 's client \<Rightarrow> scheme option \<Rightarrow> ProjectOnboarding \<Rightarrow> NamespaceSpec \<Rightarrow> str_map \<Rightarrow> ('s, unit) eff" where
  "reconcileLocalAdminGroup lb c sch po nsSpec labels =
     (let groupName = GroupName nsSpec in
     bindE (tryE (cl_Get c KGroup ([], groupName))) (\<lambda>r. case r of
       Inl err \<Rightarrow>
         if \<not> IsNotFound err \<and> \<not> IsNoMatchError err then failE err
         else if IsNoMatchError err
         then failE (PlainError ''OpenShift Group API not available; localAdminGroup requires OpenShift'')
         else (case ns_LocalAdminGroup nsSpec of None \<Rightarrow> resE (Panic ''nil pointer dereference'')
           | Some g \<Rightarrow> bindE (resE (ensureProjectOnboardingControllerRef sch (Some po)
               (new_object [] groupName labels (PGroup (convertUsers (lag_Users g)))))) (\<lambda>obj.
             thenE (cl_Create c obj) (retE ())))
     | Inr current \<Rightarrow> (case ns_LocalAdminGroup nsSpec of None \<Rightarrow> resE (Panic ''nil pointer dereference'')
         | Some g \<Rightarrow> bindE (resE (ensureProjectOnboardingControllerRef sch (Some po)
             (set_payload (PGroup (convertUsers (lag_Users g))) (write_labels lb labels current)))) (\<lambda>obj.
           thenE (cl_Patch c current obj) (retE ())))))"

definition rbac_GroupName :: string where
  "rbac_GroupName = ''rbac.authorization.k8s.io''"

definition reconcileLocalAdminRoleBinding ::
  "'s client \<Rightarrow> scheme option \<Rightarrow> kobj option \<Rightarrow> NamespaceSpec \<Rightarrow> string \<Rightarrow> str_map \<Rightarrow> ('s, unit) eff" where
  "reconcileLocalAdminRoleBinding c sch tenantNS nsSpec nsName labels =
     apply_tenant_object c sch tenantNS labels
       (new_object nsName (RoleBindingName nsSpec) labels (PRoleBinding
          [\<lparr>su_Kind = ''Group'', su_APIGroup = rbac_GroupName, su_Name = GroupName nsSpec\<rparr>]
          \<lparr>rf_APIGroup = rbac_GroupName, rf_Kind = ''ClusterRole'', rf_Name = ClusterRoleName nsSpec\<rparr>))"

definition reconcileEgressIP ::
  "libs \<Rightarrow> 's client \<Rightarrow> scheme option \<Rightarrow> ProjectOnboarding \<Rightarrow> NamespaceSpec \<Rightarrow> string \<Rightarrow> str_map \<Rightarrow> ('s, unit) eff" where
  "reconcileEgressIP lb c sch po nsSpec nsName labels = (case ns_EgressIPs nsSpec of
     None \<Rightarrow> resE (Panic ''nil pointer dereference'')
   | Some e \<Rightarrow>
     if eip_IPs e = [] then failE (PlainError ''egressIPs.enabled requires at least one IP'')
     else let p = PEgressIP (eip_IPs e) [''env'' \<mapsto> nsName] in
     bindE (tryE (cl_Get c KEgressIP ([], nsName))) (\<lambda>r. case r of
       Inl err \<Rightarrow>
         if \<not> IsNotFound err \<and> \<not> IsNoMatchError err then failE err
         else if IsNoMatchError err
         then failE (PlainError ''OpenShift EgressIP API not available; egressIPs requires OVN-Kubernetes on OpenShift'')
         else bindE (resE (ensureProjectOnboardingControllerRef sch (Some po)
                (new_object [] nsName labels p))) (\<lambda>obj. thenE (cl_Create c obj) (retE ()))
     | Inr current \<Rightarrow> bindE (resE (ensureProjectOnboardingControllerRef sch (Some po)
           (set_payload p (write_labels lb labels current)))) (\<lambda>obj.
         thenE (cl_Patch c current obj) (retE ()))))"

section \<open>argocd.go\<close>

text \<open>\<^verbatim>\<open>controllerutil.SetControllerReference(po, obj, scheme)\<close> dereferences the scheme.\<close>

definition set_controller :: "scheme option \<Rightarrow> ProjectOnboarding \<Rightarrow> kobj \<Rightarrow> kobj result" where
  "set_controller sch po obj = (case sch of None \<Rightarrow> Panic ''nil pointer dereference''
     | Some sc \<Rightarrow> sch_SetControllerReference sc (po_meta po) obj)"

definition reconcileAppProject ::
  "'s client \<Rightarrow> scheme option \<Rightarrow> ProjectOnboarding \<Rightarrow> ArgoCDProjectSpec \<Rightarrow> string \<Rightarrow> string \<Rightarrow> str_map \<Rightarrow> ('s, unit) eff" where
  "reconcileAppProject c sch po projectSpec tenantNS argoNS labels =
     (let projectName = SanitizeName (ac_Name projectSpec);
          projectLabels = project_labels po tenantNS labels;
          spec = PAppProject (app_project_of po projectSpec tenantNS)
      in bindE (tryE (cl_Get c KAppProject (argoNS, projectName))) (\<lambda>r. case r of
       Inl err \<Rightarrow> if \<not> IsNotFound err then failE err
         else let obj = new_object argoNS projectName projectLabels spec;
                  obj = obj\<lparr>ko_meta := (ko_meta obj)\<lparr>om_annotations := [''argocd.argoproj.io/sync-wave'' \<mapsto> ''1'']\<rparr>\<rparr>
              in bindE (resE (set_controller sch po obj)) (\<lambda>obj. thenE (cl_Create c obj) (retE ()))
     | Inr current \<Rightarrow>
         bindE (resE (set_controller sch po
           (set_payload spec (set_labels (mergeStringMaps (ko_labels current) projectLabels) current)))) (\<lambda>obj.
         thenE (cl_Patch c current obj) (retE ()))))"

definition reconcileArgoCDProjects ::
  "'s client \<Rightarrow> scheme option \<Rightarrow> ProjectOnboarding \<Rightarrow> NamespaceSpec \<Rightarrow> string \<Rightarrow> str_map \<Rightarrow> ('s, unit) eff" where
  "reconcileArgoCDProjects c sch po nsSpec nsName labels =
     (if ns_ArgoCDProjects nsSpec = [] then retE ()
      else let argoNS = ResolveApplicationGitOpsNamespace po nsSpec in
        if argoNS = [] then failE (PlainError (''argoCDProjects on namespace '' @ go_quote (ns_Name nsSpec) @
             '' require applicationGitOpsNamespace (Helm application_gitops_namespace)''))
        else forE (ns_ArgoCDProjects nsSpec) (\<lambda>projectSpec.
               if \<not> IsOptInEnabled (ac_Enabled projectSpec) then retE ()
               else reconcileAppProject c sch po projectSpec nsName argoNS labels))"

definition pruneAppProjectsForNamespace ::
  "'s client \<Rightarrow> ProjectOnboarding \<Rightarrow> NamespaceSpec \<Rightarrow> string \<Rightarrow> ('s, unit) eff" where
  "pruneAppProjectsForNamespace c po nsSpec nsName =
     deleteAppProjectsForNamespace c po nsName (Some (map (\<lambda>p. SanitizeName (ac_Name p))
       (filter (\<lambda>p. IsOptInEnabled (ac_Enabled p)) (ns_ArgoCDProjects nsSpec))))"

section \<open>prune.go: objects that an active entry no longer wants\<close>

definition desiredNetworkPolicyNames :: "NamespaceSpec \<Rightarrow> string \<Rightarrow> str_map \<Rightarrow> string list" where
  "desiredNetworkPolicyNames nsSpec nsName labels =
     map pol_Name (defaultNetworkPolicies nsSpec nsName labels) @
     map (\<lambda>p. SanitizeName (cnp_Name p)) (filter (\<lambda>p. IsEnabled (cnp_Active p)) (ns_NetworkPolicies nsSpec))"

definition pruneManagedNetworkPolicies ::
  "'s client \<Rightarrow> ProjectOnboarding \<Rightarrow> string \<Rightarrow> string list \<Rightarrow> ('s, unit) eff" where
  "pruneManagedNetworkPolicies c po nsName keep =
     bindE (cl_List c KNetworkPolicy (managedListOptions (Some nsName) po)) (\<lambda>items.
     forE items (\<lambda>item. if om_name (ko_meta item) \<in> set keep then retE ()
                        else ignoreNotFound (cl_Delete c item)))"

definition block_disabled :: "('a \<Rightarrow> bool option) \<Rightarrow> (bool option \<Rightarrow> bool) \<Rightarrow> 'a option \<Rightarrow> bool" where
  "block_disabled enabled on x = (case x of None \<Rightarrow> True | Some b \<Rightarrow> \<not> on (enabled b))"

definition PruneNamespaceResources ::
  "'s client \<Rightarrow> ProjectOnboarding \<Rightarrow> NamespaceSpec \<Rightarrow> NamespaceSpec \<Rightarrow> ('s, unit) eff" where
  "PruneNamespaceResources c po nsSpec resolved =
     (let nsName = SanitizeName (ns_Name nsSpec); labels = ManagedLabels po nsSpec in
     thenE (whenE (block_disabled rq_Enabled IsEnabled (ns_ResourceQuotas resolved))
              (deleteManagedResourceQuota c po nsName)) (
     thenE (whenE (block_disabled lr_Enabled IsEnabled (ns_LimitRanges resolved))
              (deleteManagedLimitRange c po nsName)) (
     thenE (wrapE ''network policies: '' (pruneManagedNetworkPolicies c po nsName
              (desiredNetworkPolicyNames nsSpec nsName labels))) (
     thenE (whenE (block_disabled lag_Enabled IsOptInEnabled (ns_LocalAdminGroup nsSpec))
              (thenE (deleteManagedRoleBinding c po nsSpec nsName) (deleteManagedGroup c po nsSpec))) (
     thenE (whenE (block_disabled eip_Enabled IsOptInEnabled (ns_EgressIPs nsSpec))
              (deleteManagedEgressIP c po nsName))
     (wrapE ''argo cd app projects: '' (pruneAppProjectsForNamespace c po nsSpec nsName)))))))"

section \<open>reconcile.go: ReconcileNamespace\<close>

text \<open>A step that runs on a block of the entry which is present and switched on.\<close>

definition on_block ::
  "('a \<Rightarrow> bool option) \<Rightarrow> (bool option \<Rightarrow> bool) \<Rightarrow> 'a option \<Rightarrow> ('a \<Rightarrow> ('s, unit) eff) \<Rightarrow> ('s, unit) eff" where
  "on_block enabled on x f = (case x of None \<Rightarrow> retE () | Some b \<Rightarrow> whenE (on (enabled b)) (f b))"

definition ReconcileNamespace ::
  "libs \<Rightarrow> 's client \<Rightarrow> scheme option \<Rightarrow> ProjectOnboarding \<Rightarrow> NamespaceSpec \<Rightarrow> ('s, unit) eff" where
  "ReconcileNamespace lb c sch po nsSpec =
     bindE (ResolveNamespaceSpec lb c nsSpec) (\<lambda>resolved.
     let nsName = SanitizeName (ns_Name nsSpec); labels = ManagedLabels po nsSpec in
     bindE (wrapE ''namespace: '' (reconcileNamespaceObject c sch po nsSpec nsName labels)) (\<lambda>tenantNS.
     thenE (on_block rq_Enabled IsEnabled (ns_ResourceQuotas resolved) (\<lambda>q.
              wrapE ''resource quota: '' (reconcileResourceQuota lb c sch (Some tenantNS) q nsName labels))) (
     thenE (on_block lr_Enabled IsEnabled (ns_LimitRanges resolved) (\<lambda>l.
              wrapE ''limit range: '' (reconcileLimitRange lb c sch (Some tenantNS) l nsName labels))) (
     thenE (wrapE ''default network policies: ''
              (reconcileDefaultNetworkPolicies c sch (Some tenantNS) nsSpec nsName labels)) (
     thenE (wrapE ''custom network policies: ''
              (reconcileCustomNetworkPolicies c sch (Some tenantNS) nsSpec nsName labels)) (
     thenE (on_block lag_Enabled IsOptInEnabled (ns_LocalAdminGroup nsSpec) (\<lambda>_.
              thenE (wrapE ''local admin group: '' (reconcileLocalAdminGroup lb c sch po nsSpec labels))
                (wrapE ''local admin role binding: ''
                  (reconcileLocalAdminRoleBinding c sch (Some tenantNS) nsSpec nsName labels)))) (
     thenE (on_block eip_Enabled IsOptInEnabled (ns_EgressIPs nsSpec) (\<lambda>_.
              wrapE ''egress IP: '' (reconcileEgressIP lb c sch po nsSpec nsName labels))) (
     thenE (wrapE ''argo cd app project: '' (reconcileArgoCDProjects c sch po nsSpec nsName labels))
     (wrapE ''prune: '' (PruneNamespaceResources c po nsSpec resolved))))))))))"

section \<open>What a run asks of the cluster\<close>

lemma keeps_on_block [keeps_intro]:
  "(\<And>b. x = Some b \<Longrightarrow> on (enabled b) \<Longrightarrow> keeps I (f b)) \<Longrightarrow> keeps I (on_block enabled on x f)"
  unfolding on_block_def whenE_def by (intro keeps_intro) simp_all

text \<open>
  An entry may come out of \<^verbatim>\<open>ResolveNamespaceSpec\<close> in several ways, according to the catalogue
  that the client answers with.  \<open>switched_on\<close> says that a block of the entry is on, so that
  objects of the kind are asked for: quota and limit range if the resolved entry has the block
  and does not switch it off, group, binding and EgressIP only if the entry says
  \<^verbatim>\<open>enabled: true\<close>.  The switches of single policies and projects are part of \<open>writable\<close>.
\<close>

definition resolves_to :: "libs \<Rightarrow> 's client \<Rightarrow> NamespaceSpec \<Rightarrow> NamespaceSpec \<Rightarrow> bool" where
  "resolves_to lb c ns resolved \<longleftrightarrow> (\<exists>s s'. ResolveNamespaceSpec lb c ns s = (Ok resolved, s'))"

definition switched_on :: "(NamespaceSpec \<Rightarrow> NamespaceSpec \<Rightarrow> bool) \<Rightarrow> NamespaceSpec \<Rightarrow> kind \<Rightarrow> bool" where
  "switched_on R ns k = (case k of
     KResourceQuota \<Rightarrow> \<exists>resolved q. R ns resolved \<and> ns_ResourceQuotas resolved = Some q \<and> rq_Enabled q \<noteq> Some False
   | KLimitRange \<Rightarrow> \<exists>resolved l. R ns resolved \<and> ns_LimitRanges resolved = Some l \<and> lr_Enabled l \<noteq> Some False
   | KGroup \<Rightarrow> \<exists>g. ns_LocalAdminGroup ns = Some g \<and> lag_Enabled g = Some True
   | KRoleBinding \<Rightarrow> \<exists>g. ns_LocalAdminGroup ns = Some g \<and> lag_Enabled g = Some True
   | KEgressIP \<Rightarrow> \<exists>e. ns_EgressIPs ns = Some e \<and> eip_Enabled e = Some True
   | _ \<Rightarrow> True)"

lemma switched_on_simps [simp]:
  "switched_on R ns KNamespace" "switched_on R ns KNetworkPolicy" "switched_on R ns KAppProject"
  "R ns resolved \<Longrightarrow> ns_ResourceQuotas resolved = Some q \<Longrightarrow> IsEnabled (rq_Enabled q) \<Longrightarrow> switched_on R ns KResourceQuota"
  "R ns resolved \<Longrightarrow> ns_LimitRanges resolved = Some l \<Longrightarrow> IsEnabled (lr_Enabled l) \<Longrightarrow> switched_on R ns KLimitRange"
  "ns_LocalAdminGroup ns = Some g \<Longrightarrow> IsOptInEnabled (lag_Enabled g) \<Longrightarrow> switched_on R ns KGroup"
  "ns_LocalAdminGroup ns = Some g \<Longrightarrow> IsOptInEnabled (lag_Enabled g) \<Longrightarrow> switched_on R ns KRoleBinding"
  "ns_EgressIPs ns = Some e \<Longrightarrow> IsOptInEnabled (eip_Enabled e) \<Longrightarrow> switched_on R ns KEgressIP"
  by (auto simp: switched_on_def IsEnabled_def IsOptInEnabled_def split: option.splits)

text \<open>The block that objects of the kind come from is on, for an entry that is resolved to \<open>resolved\<close>.\<close>

abbreviation asks :: "NamespaceSpec \<Rightarrow> NamespaceSpec \<Rightarrow> kind \<Rightarrow> bool" where
  "asks resolved ns k \<equiv> switched_on (\<lambda>_. (=) resolved) ns k"

lemma asks_blocks:
  "asks resolved ns KResourceQuota \<longleftrightarrow> \<not> block_disabled rq_Enabled IsEnabled (ns_ResourceQuotas resolved)"
  "asks resolved ns KLimitRange \<longleftrightarrow> \<not> block_disabled lr_Enabled IsEnabled (ns_LimitRanges resolved)"
  "asks resolved ns KRoleBinding \<longleftrightarrow> \<not> block_disabled lag_Enabled IsOptInEnabled (ns_LocalAdminGroup ns)"
  "asks resolved ns KGroup \<longleftrightarrow> \<not> block_disabled lag_Enabled IsOptInEnabled (ns_LocalAdminGroup ns)"
  "asks resolved ns KEgressIP \<longleftrightarrow> \<not> block_disabled eip_Enabled IsOptInEnabled (ns_EgressIPs ns)"
  by (auto simp: switched_on_def block_disabled_def IsEnabled_def IsOptInEnabled_def split: option.splits)

text \<open>
  The objects that an entry of the resource may write: by kind, the names derived from it,
  inside its own tenant Namespace where the kind is namespaced, AppProjects in its Argo CD
  Namespace.
\<close>

definition writable :: "ProjectOnboarding \<Rightarrow> NamespaceSpec \<Rightarrow> kind \<Rightarrow> objkey \<Rightarrow> bool" where
  "writable po ns k key = (let n = SanitizeName (ns_Name ns) in case k of
     KNamespace \<Rightarrow> key = ([], n)
   | KResourceQuota \<Rightarrow> key = (n, n @ ''-quota'')
   | KLimitRange \<Rightarrow> key = (n, n @ ''-limitrange'')
   | KNetworkPolicy \<Rightarrow> fst key = n \<and> snd key \<in> set (desiredNetworkPolicyNames ns n (ManagedLabels po ns))
   | KRoleBinding \<Rightarrow> key = (n, RoleBindingName ns)
   | KGroup \<Rightarrow> key = ([], GroupName ns)
   | KEgressIP \<Rightarrow> key = ([], n)
   | KAppProject \<Rightarrow> (\<exists>p \<in> set (ns_ArgoCDProjects ns). IsOptInEnabled (ac_Enabled p) \<and>
       key = (ResolveApplicationGitOpsNamespace po ns, SanitizeName (ac_Name p))))"

lemma writable_simps [simp]:
  "writable po ns KNamespace key \<longleftrightarrow> key = ([], SanitizeName (ns_Name ns))"
  "writable po ns KResourceQuota key \<longleftrightarrow> key = (SanitizeName (ns_Name ns), SanitizeName (ns_Name ns) @ ''-quota'')"
  "writable po ns KLimitRange key \<longleftrightarrow> key = (SanitizeName (ns_Name ns), SanitizeName (ns_Name ns) @ ''-limitrange'')"
  "writable po ns KNetworkPolicy key \<longleftrightarrow> fst key = SanitizeName (ns_Name ns) \<and>
     snd key \<in> set (desiredNetworkPolicyNames ns (SanitizeName (ns_Name ns)) (ManagedLabels po ns))"
  "writable po ns KRoleBinding key \<longleftrightarrow> key = (SanitizeName (ns_Name ns), RoleBindingName ns)"
  "writable po ns KGroup key \<longleftrightarrow> key = ([], GroupName ns)"
  "writable po ns KEgressIP key \<longleftrightarrow> key = ([], SanitizeName (ns_Name ns))"
  "writable po ns KAppProject key \<longleftrightarrow> (\<exists>p \<in> set (ns_ArgoCDProjects ns). IsOptInEnabled (ac_Enabled p) \<and>
     key = (ResolveApplicationGitOpsNamespace po ns, SanitizeName (ac_Name p)))"
  by (simp_all add: writable_def Let_def)

lemma ensure_owner_same:
  assumes "owners_only sch"
  shows "ensureTenantNamespaceOwnerRef sch t a = Ok b \<Longrightarrow> same_but_owners a b"
    "ensureProjectOnboardingControllerRef sch p a = Ok b \<Longrightarrow> same_but_owners a b"
    "set_controller sch q a = Ok b \<Longrightarrow> same_but_owners a b"
  using assms by (auto simp: ensureTenantNamespaceOwnerRef_def ensureProjectOnboardingControllerRef_def
      set_controller_def owners_only_def owner_scheme_def split: option.splits if_splits)

text \<open>A write of an object after its owner has been set.\<close>

definition allows :: "(api_call \<Rightarrow> bool) \<Rightarrow> kind \<Rightarrow> objkey \<Rightarrow> bool" where
  "allows W k key \<longleftrightarrow> (\<forall>obj. kind_of obj = k \<longrightarrow> key_of obj = key \<longrightarrow> W (CallCreate obj) \<and>
     (\<forall>base. kind_of base = k \<longrightarrow> key_of base = key \<longrightarrow> W (CallPatch base obj)))"

lemma keeps_res_then: "(\<And>x. r = Ok x \<Longrightarrow> keeps I (f x)) \<Longrightarrow> keeps I (bindE (resE r) f)"
  by (cases r) (simp_all add: keeps_iff bindE_def resE_def)

context guarded_client
begin

lemma write_keeps:
  assumes "allows W k key" and "kind_of obj = k" "key_of obj = key" and "\<And>x. r = Ok x \<Longrightarrow> same_but_owners obj x"
  shows "keeps I (bindE (resE r) (\<lambda>x. thenE (cl_Create c x) (retE u)))"
    "keeps I (bindE (resE r) (cl_Create c))"
    "kind_of base = k \<Longrightarrow> key_of base = key \<Longrightarrow> keeps I (bindE (resE r) (\<lambda>x. thenE (cl_Patch c base x) (retE u)))"
    "kind_of base = k \<Longrightarrow> key_of base = key \<Longrightarrow> keeps I (bindE (resE r) (cl_Patch c base))"
proof -
  have x: "kind_of x = k \<and> key_of x = key" if "r = Ok x" for x
    using same_but_owners_simps [OF assms(4) [OF that]] assms(2,3) by simp
  note a = assms(1) [unfolded allows_def, rule_format]
  show "keeps I (bindE (resE r) (\<lambda>x. thenE (cl_Create c x) (retE u)))" "keeps I (bindE (resE r) (cl_Create c))"
    by (intro keeps_res_then keeps_then keeps_ret create_keeps; use a x in blast)+
  assume "kind_of base = k" "key_of base = key"
  with a x show "keeps I (bindE (resE r) (\<lambda>x. thenE (cl_Patch c base x) (retE u)))" "keeps I (bindE (resE r) (cl_Patch c base))"
    by (intro keeps_res_then keeps_then keeps_ret patch_keeps; blast)+
qed

lemma apply_tenant_object_keeps:
  assumes "owners_only sch" and "allows W (kind_of desired) (key_of desired)"
  shows "keeps I (apply_tenant_object c sch t l desired)"
  unfolding apply_tenant_object_def
proof (rule try_get_then_keeps)
  fix e show "keeps I (case Inl e of Inl err \<Rightarrow> if IsNotFound err
      then bindE (resE (ensureTenantNamespaceOwnerRef sch t desired)) (\<lambda>obj. thenE (cl_Create c obj) (retE ()))
      else failE err | Inr current \<Rightarrow> bindE (resE (ensureTenantNamespaceOwnerRef sch t
         (set_payload (ko_payload desired) (set_labels (mergeStringMaps (ko_labels current) l) current))))
       (\<lambda>obj. thenE (cl_Patch c current obj) (retE ())))"
    by (simp add: write_keeps(1) [OF assms(2) refl refl ensure_owner_same(1) [OF assms(1)]])
next
  fix x assume x: "kind_of x = kind_of desired \<and> key_of x = key_of desired"
  then show "keeps I (case Inr x of Inl err \<Rightarrow> if IsNotFound err
      then bindE (resE (ensureTenantNamespaceOwnerRef sch t desired)) (\<lambda>obj. thenE (cl_Create c obj) (retE ()))
      else failE err | Inr current \<Rightarrow> bindE (resE (ensureTenantNamespaceOwnerRef sch t
         (set_payload (ko_payload desired) (set_labels (mergeStringMaps (ko_labels current) l) current))))
       (\<lambda>obj. thenE (cl_Patch c current obj) (retE ())))"
    by (simp, intro write_keeps(3) [OF assms(2)] ensure_owner_same(1) [OF assms(1)])
      (simp_all add: kind_of_def)
qed

lemma tenant_parts_keep:
  assumes "owners_only sch"
  shows "allows W KResourceQuota (n, n @ ''-quota'') \<Longrightarrow> keeps I (reconcileResourceQuota lb c sch t q n l)"
    "allows W KLimitRange (n, n @ ''-limitrange'') \<Longrightarrow> keeps I (reconcileLimitRange lb c sch t lr n l)"
    "allows W KRoleBinding (n, RoleBindingName ns) \<Longrightarrow> keeps I (reconcileLocalAdminRoleBinding c sch t ns n l)"
  unfolding reconcileResourceQuota_def reconcileLimitRange_def reconcileLocalAdminRoleBinding_def
  by (intro keeps_bind keeps_res apply_tenant_object_keeps assms; simp)+

lemma policies_keep:
  assumes "owners_only sch" and "\<And>m. m \<in> set (desiredNetworkPolicyNames ns n l) \<Longrightarrow> allows W KNetworkPolicy (n, m)"
  shows "keeps I (reconcileDefaultNetworkPolicies c sch t ns n l)" "keeps I (reconcileCustomNetworkPolicies c sch t ns n l)"
proof -
  have k: "keeps I (apply_tenant_object c sch t l (policy_object p))"
    if "pol_Namespace p = n" "pol_Name p \<in> set (desiredNetworkPolicyNames ns n l)" for p
    by (rule apply_tenant_object_keeps [OF assms(1)]) (use assms(2) that in \<open>simp add: policy_object_def\<close>)
  show "keeps I (reconcileDefaultNetworkPolicies c sch t ns n l)"
    unfolding reconcileDefaultNetworkPolicies_def
    by (intro keeps_for k) (auto simp: desiredNetworkPolicyNames_def dest: defaultNetworkPolicies_meta)
  show "keeps I (reconcileCustomNetworkPolicies c sch t ns n l)"
    unfolding reconcileCustomNetworkPolicies_def
    by (intro keeps_for keeps_if keeps_ret k) (auto simp: desiredNetworkPolicyNames_def buildCustomNetworkPolicy_def Let_def)
qed

lemma namespace_object_keeps:
  assumes "owners_only sch" and "allows W KNamespace ([], n)"
  shows "keeps I (reconcileNamespaceObject c sch po ns n l)"
  unfolding reconcileNamespaceObject_def Let_def
proof (rule try_get_then_keeps, goal_cases)
  case (1 e)
  then show ?case
    by (simp, intro impI write_keeps(2) [OF assms(2)] ensure_owner_same(2) [OF assms(1)]) (simp_all add: key_of_def kind_of_def new_object_def)
next
  case (2 x)
  then show ?case
    by (simp, intro write_keeps(4) [OF assms(2)] ensure_owner_same(2) [OF assms(1)]) (simp_all add: key_of_def kind_of_def)
qed

lemma write_labels_simps [simp]:
  "kind_of (write_labels lb l x) = kind_of x" "key_of (write_labels lb l x) = key_of x"
  by (simp_all add: write_labels_def)

lemma admin_group_keeps:
  assumes "owners_only sch" and "allows W KGroup ([], GroupName ns)"
  shows "keeps I (reconcileLocalAdminGroup lb c sch po ns l)"
  unfolding reconcileLocalAdminGroup_def Let_def
proof (rule try_get_then_keeps, goal_cases)
  case (1 e)
  then show ?case
    by (simp split: option.split, intro impI allI write_keeps(1) [OF assms(2)] ensure_owner_same(2) [OF assms(1)]) simp_all
next
  case (2 x)
  then show ?case
    by (simp split: option.split, intro impI allI write_keeps(3) [OF assms(2)] ensure_owner_same(2) [OF assms(1)]) simp_all
qed

lemma egress_ip_keeps:
  assumes "owners_only sch" and "allows W KEgressIP ([], n)"
  shows "keeps I (reconcileEgressIP lb c sch po ns n l)"
proof -
  have "keeps I (bindE (tryE (cl_Get c KEgressIP ([], n))) (\<lambda>r. case r of
       Inl err \<Rightarrow> if \<not> IsNotFound err \<and> \<not> IsNoMatchError err then failE err
         else if IsNoMatchError err then failE f
         else bindE (resE (ensureProjectOnboardingControllerRef sch (Some po) (new_object [] n l (PEgressIP i m))))
           (\<lambda>obj. thenE (cl_Create c obj) (retE ()))
     | Inr current \<Rightarrow> bindE (resE (ensureProjectOnboardingControllerRef sch (Some po)
           (set_payload (PEgressIP i m) (write_labels lb l current)))) (\<lambda>obj. thenE (cl_Patch c current obj) (retE ()))))" for f i m
  proof (rule try_get_then_keeps, goal_cases)
    case (1 e)
    then show ?case
      by (simp, intro impI allI write_keeps(1) [OF assms(2)] ensure_owner_same(2) [OF assms(1)]) simp_all
  next
    case (2 x)
    then show ?case
      by (simp, intro impI allI write_keeps(3) [OF assms(2)] ensure_owner_same(2) [OF assms(1)]) simp_all
  qed
  then show ?thesis
    unfolding reconcileEgressIP_def Let_def by (intro keeps_option keeps_if keeps_fail keeps_res)
qed

lemma app_project_keeps:
  assumes "owners_only sch" and "allows W KAppProject (a, SanitizeName (ac_Name p))"
  shows "keeps I (reconcileAppProject c sch po p n a l)"
  unfolding reconcileAppProject_def Let_def
proof (rule try_get_then_keeps, goal_cases)
  case (1 e)
  then show ?case
    by (simp, intro impI write_keeps(1) [OF assms(2)] ensure_owner_same(3) [OF assms(1)]) (simp_all add: key_of_def kind_of_def new_object_def)
next
  case (2 x)
  then show ?case
    by (simp, intro write_keeps(3) [OF assms(2)] ensure_owner_same(3) [OF assms(1)]) simp_all
qed

lemma app_projects_keep:
  assumes "owners_only sch" and "\<And>p. p \<in> set (ns_ArgoCDProjects ns) \<Longrightarrow> IsOptInEnabled (ac_Enabled p) \<Longrightarrow>
    allows W KAppProject (ResolveApplicationGitOpsNamespace po ns, SanitizeName (ac_Name p))"
  shows "keeps I (reconcileArgoCDProjects c sch po ns n l)"
  unfolding reconcileArgoCDProjects_def Let_def
  by (intro keeps_if keeps_ret keeps_fail keeps_for app_project_keeps [OF assms(1)]) (simp add: assms(2))

lemma pruneManagedNetworkPolicies_keeps:
  assumes "\<And>obj. deletable (po_Name po) N obj \<Longrightarrow> W (CallDelete obj)"
  shows "keeps I (pruneManagedNetworkPolicies c po n keep)"
  unfolding pruneManagedNetworkPolicies_def
  by (intro list_then_keeps keeps_intro delete_keeps assms managed_deletable) (auto dest: selected_managed)

lemma PruneNamespaceResources_keeps:
  assumes "\<And>obj. deletable (po_Name po) N obj \<Longrightarrow> W (CallDelete obj)"
  shows "keeps I (PruneNamespaceResources c po nsSpec resolved)"
  unfolding PruneNamespaceResources_def Let_def pruneAppProjectsForNamespace_def
  by (intro keeps_then keeps_wrap keeps_when) (rule delete_parts_keep pruneManagedNetworkPolicies_keeps
      deleteAppProjectsForNamespace_keeps; rule assms; assumption)+

lemma ReconcileNamespace_keeps:
  assumes "owners_only sch"
    and "\<And>k key. writable po ns k key \<Longrightarrow> switched_on (resolves_to lb c) ns k \<Longrightarrow> allows W k key"
    and "\<And>obj. deletable (po_Name po) N obj \<Longrightarrow> W (CallDelete obj)"
  shows "keeps I (ReconcileNamespace lb c sch po ns)"
proof -
  have r: "keeps I (ResolveNamespaceSpec lb c ns)"
    unfolding ResolveNamespaceSpec_def by (intro keeps_intro read_keeps)
  have to: "returns (ResolveNamespaceSpec lb c ns) (resolves_to lb c ns)"
    by (auto simp: returns_def resolves_to_def)
  show ?thesis
    unfolding ReconcileNamespace_def Let_def
    by (intro keeps_bind_returns [OF r to] keeps_bind keeps_then keeps_wrap keeps_on_block namespace_object_keeps
        tenant_parts_keep policies_keep admin_group_keeps egress_ip_keeps app_projects_keep
        PruneNamespaceResources_keeps [of po N] assms) auto
qed

end

end
