(* ===== verification/Lifecycle.thy ===== *)
theory Lifecycle
  imports Reconcile_Ns
begin

text \<open>
  What happens to tenants over the life of a \<^verbatim>\<open>ProjectOnboarding\<close>: \<^verbatim>\<open>deletion.go\<close> (guarded
  deletion), the offboarding part of \<^verbatim>\<open>prune.go\<close>, the finalizer of \<^verbatim>\<open>reconcile.go\<close> and the
  lookup of the cluster defaults of \<^verbatim>\<open>defaults.go\<close>.
\<close>

section \<open>Collecting loops\<close>

text \<open>A loop that appends the result of its body, stopping at the first error.\<close>

fun collectE :: "'a list \<Rightarrow> ('a \<Rightarrow> ('s, 'b) eff) \<Rightarrow> ('s, 'b list) eff" where
  "collectE [] f = retE []"
| "collectE (x # xs) f = bindE (f x) (\<lambda>y. bindE (collectE xs f) (\<lambda>ys. retE (y # ys)))"

lemma keeps_collect [keeps_intro]:
  "(\<And>x. x \<in> set xs \<Longrightarrow> keeps I (f x)) \<Longrightarrow> keeps I (collectE xs f)"
  by (induction xs) (auto intro!: keeps_intro)

section \<open>Namespaces of a resource (deletion.go, prune.go)\<close>

definition listManagedNamespaces :: "'s client \<Rightarrow> ProjectOnboarding \<Rightarrow> ('s, kobj list) eff" where
  "listManagedNamespaces c po =
     wrapE ''list managed namespaces: '' (cl_List c KNamespace (managedListOptions None po))"

definition namespaceNamesInSpec :: "ProjectOnboarding \<Rightarrow> string list" where
  "namespaceNamesInSpec po = map (\<lambda>ns. SanitizeName (ns_Name ns)) (po_Namespaces po)"

definition desiredTenantNamespaceNames :: "ProjectOnboarding \<Rightarrow> string list" where
  "desiredTenantNamespaceNames po =
     map (\<lambda>ns. SanitizeName (ns_Name ns)) (filter (\<lambda>ns. \<not> IsOffboard (ns_Offboard ns)) (po_Namespaces po))"

fun find_entry :: "NamespaceSpec list \<Rightarrow> string \<Rightarrow> NamespaceSpec" where
  "find_entry [] sanitizedName = zero_NamespaceSpec\<lparr>ns_Name := sanitizedName\<rparr>"
| "find_entry (ns # nss) sanitizedName =
     (if SanitizeName (ns_Name ns) = sanitizedName then ns else find_entry nss sanitizedName)"

definition namespaceSpecForManagedName :: "ProjectOnboarding \<Rightarrow> string \<Rightarrow> NamespaceSpec" where
  "namespaceSpecForManagedName po sanitizedName = find_entry (po_Namespaces po) sanitizedName"

definition managedNamespaceExists :: "'s client \<Rightarrow> ProjectOnboarding \<Rightarrow> string \<Rightarrow> ('s, bool) eff" where
  "managedNamespaceExists c po nsName =
     bindE (tryE (cl_Get c KNamespace ([], nsName))) (\<lambda>r. case r of
       Inl err \<Rightarrow> if IsNotFound err then retE False else failE err
     | Inr ns \<Rightarrow> if \<not> isManagedByProjectOnboarding (ko_labels ns) po then retE False
                else if is_deleting ns then retE False else retE True)"

definition namespaceExists :: "'s client \<Rightarrow> string \<Rightarrow> ('s, bool) eff" where
  "namespaceExists c name =
     bindE (tryE (cl_Get c KNamespace ([], name))) (\<lambda>r. case r of
       Inl err \<Rightarrow> if IsNotFound err then retE False else failE err
     | Inr ns \<Rightarrow> retE True)"

section \<open>Offboarding (prune.go)\<close>

definition PruneRemovedNamespaces :: "'s client \<Rightarrow> ProjectOnboarding \<Rightarrow> ('s, unit) eff" where
  "PruneRemovedNamespaces c po =
     bindE (listManagedNamespaces c po) (\<lambda>managed.
     forE managed (\<lambda>ns. let name = om_name (ko_meta ns) in
       if name \<in> set (desiredTenantNamespaceNames po) then retE ()
       else let nsSpec = namespaceSpecForManagedName po name in
         if \<not> IsOffboard (ns_Offboard nsSpec) then retE ()
         else wrapE (''cleanup offboarded namespace '' @ go_quote name @ '': '') (CleanupNamespace c po nsSpec)))"

section \<open>Guarded deletion (deletion.go)\<close>

definition deletionBlockedMessagePrefix :: string where
  "deletionBlockedMessagePrefix =
     ''Cannot delete ProjectOnboarding while managed tenant namespaces still exist. '' @
     ''Set offboard=true on each namespace entry or delete the tenant namespaces manually. Pending: ''"

definition CleanupNamespaceClusterScoped :: "'s client \<Rightarrow> ProjectOnboarding \<Rightarrow> NamespaceSpec \<Rightarrow> ('s, unit) eff" where
  "CleanupNamespaceClusterScoped c po nsSpec =
     thenE (wrapE ''egress IP: '' (deleteManagedEgressIP c po (SanitizeName (ns_Name nsSpec)))) (
     thenE (wrapE ''local admin group: '' (deleteManagedGroup c po nsSpec))
     (wrapE ''argo cd app project: '' (deleteManagedAppProjects c po nsSpec)))"

definition finalizeNamespaceEntry :: "'s client \<Rightarrow> ProjectOnboarding \<Rightarrow> NamespaceSpec \<Rightarrow> ('s, string) eff" where
  "finalizeNamespaceEntry c po nsSpec = (let nsName = SanitizeName (ns_Name nsSpec) in
     bindE (managedNamespaceExists c po nsName) (\<lambda>ex.
     if IsOffboard (ns_Offboard nsSpec) then thenE (CleanupNamespace c po nsSpec) (retE [])
     else if ex then retE nsName
     else thenE (CleanupNamespaceClusterScoped c po nsSpec) (retE [])))"

text \<open>The keys of the \<^verbatim>\<open>tenantNames\<close> set: distinct, in no particular order.\<close>

definition released_names :: "ProjectOnboarding \<Rightarrow> kobj list \<Rightarrow> string list" where
  "released_names po managed = remdups (namespaceNamesInSpec po @ concat (map (\<lambda>ns.
     om_name (ko_meta ns) #
     (let label = label_at (ko_labels ns) ProjectOnboardingNamespaceKey in
      if label \<noteq> [] then [SanitizeName label] else [])) managed))"

definition cleanupClusterScopedForReleasedTenants ::
  "libs \<Rightarrow> 's client \<Rightarrow> ProjectOnboarding \<Rightarrow> ('s, unit) eff" where
  "cleanupClusterScopedForReleasedTenants lb c po =
     bindE (listManagedNamespaces c po) (\<lambda>managed.
     forE (lb_RangeNames lb (released_names po managed)) (\<lambda>tenantName.
       bindE (namespaceExists c tenantName) (\<lambda>ex.
       if ex then retE ()
       else CleanupNamespaceClusterScoped c po (zero_NamespaceSpec\<lparr>ns_Name := tenantName\<rparr>))))"

definition orphan_names :: "ProjectOnboarding \<Rightarrow> kobj list \<Rightarrow> string list" where
  "orphan_names po managed = map (\<lambda>ns. om_name (ko_meta ns)) (filter (\<lambda>ns.
     om_name (ko_meta ns) \<notin> set (namespaceNamesInSpec po) \<and> \<not> is_deleting ns) managed)"

definition FinalizeProjectOnboardingDeletion ::
  "libs \<Rightarrow> 's client \<Rightarrow> ProjectOnboarding \<Rightarrow> ('s, bool \<times> string) eff" where
  "FinalizeProjectOnboardingDeletion lb c po =
     bindE (collectE (po_Namespaces po) (finalizeNamespaceEntry c po)) (\<lambda>entries.
     bindE (listManagedNamespaces c po) (\<lambda>managed.
     let pending = filter (\<lambda>n. n \<noteq> []) entries @ orphan_names po managed in
     bindE (cleanupClusterScopedForReleasedTenants lb c po) (\<lambda>_.
     if pending \<noteq> [] then retE (False, deletionBlockedMessagePrefix @ join_str '', '' (sort pending))
     else retE (True, []))))"

section \<open>Finalizer (reconcile.go)\<close>

text \<open>\<^verbatim>\<open>controllerutil\<close> keeps finalizers as a list: contains, append, remove every occurrence.\<close>

definition has_finalizer :: "ProjectOnboarding \<Rightarrow> bool" where
  "has_finalizer po \<longleftrightarrow> ProjectOnboardingFinalizer \<in> set (om_finalizers (po_meta po))"

definition set_finalizers :: "string list \<Rightarrow> ProjectOnboarding \<Rightarrow> ProjectOnboarding" where
  "set_finalizers fs po = po\<lparr>po_meta := (po_meta po)\<lparr>om_finalizers := fs\<rparr>\<rparr>"

definition EnsureFinalizer :: "'s client \<Rightarrow> ProjectOnboarding \<Rightarrow> ('s, ProjectOnboarding) eff" where
  "EnsureFinalizer c po = (if has_finalizer po then retE po
     else cl_UpdatePO c (set_finalizers (om_finalizers (po_meta po) @ [ProjectOnboardingFinalizer]) po))"

definition RemoveFinalizer :: "'s client \<Rightarrow> ProjectOnboarding \<Rightarrow> ('s, ProjectOnboarding) eff" where
  "RemoveFinalizer c po = (if \<not> has_finalizer po then retE po
     else cl_UpdatePO c (set_finalizers (filter (\<lambda>f. f \<noteq> ProjectOnboardingFinalizer) (om_finalizers (po_meta po))) po))"

section \<open>Cluster defaults (defaults.go)\<close>

definition LoadClusterDefaults :: "libs \<Rightarrow> 's client \<Rightarrow> string \<Rightarrow> ('s, GitOpsSpec option) eff" where
  "LoadClusterDefaults lb c operatorNamespace =
     (let t = trim_space operatorNamespace; ns = (if t = [] then DefaultOperatorNamespace else t) in
     bindE (tryE (cl_GetConfigMap c (ns, DefaultsConfigMapName))) (\<lambda>r. case r of
       Inl err \<Rightarrow> if IsNotFound err then retE None else failE err
     | Inr data \<Rightarrow> (case data DefaultsConfigMapKey of None \<Rightarrow> retE None
         | Some raw \<Rightarrow> if trim_space raw = [] then retE None
             else (case lb_UnmarshalDefaults lb raw of
               Inl msg \<Rightarrow> failE (WrapError (''parse '' @ DefaultsConfigMapKey @ '' in ConfigMap '' @
                   go_quote DefaultsConfigMapName @ '': '') (PlainError msg))
             | Inr gitOps \<Rightarrow> thenE (wrapE (''invalid '' @ DefaultsConfigMapKey @ '' in ConfigMap '' @
                   go_quote DefaultsConfigMapName @ '': '') (resE (validateGitOpsDefaults gitOps)))
                 (retE gitOps)))))"

section \<open>Which deletions are asked for\<close>

text \<open>The namespaces that the resource gives up: the entries with \<^verbatim>\<open>offboard: true\<close>.\<close>

definition offboarded_names :: "ProjectOnboarding \<Rightarrow> string list" where
  "offboarded_names po =
     map (\<lambda>ns. SanitizeName (ns_Name ns)) (filter (\<lambda>ns. IsOffboard (ns_Offboard ns)) (po_Namespaces po))"

lemma offboarded_nameI:
  "ns \<in> set (po_Namespaces po) \<Longrightarrow> IsOffboard (ns_Offboard ns) \<Longrightarrow> SanitizeName (ns_Name ns) \<in> set (offboarded_names po)"
  by (auto simp: offboarded_names_def)

lemma find_entry_offboard:
  "IsOffboard (ns_Offboard (find_entry nss n)) \<Longrightarrow> find_entry nss n \<in> set nss"
  by (induction nss n rule: find_entry.induct) (auto simp: zero_NamespaceSpec_def split: if_splits)

context guarded_client
begin

lemma listManagedNamespaces_keeps: "keeps I (listManagedNamespaces c po)"
  unfolding listManagedNamespaces_def by (intro keeps_intro read_keeps)

lemma exists_keeps: "keeps I (managedNamespaceExists c po n)" "keeps I (namespaceExists c n)"
  unfolding managedNamespaceExists_def namespaceExists_def by (intro keeps_intro read_keeps)+

lemma finalizer_keeps:
  "(\<And>fs. W (CallUpdatePO (set_finalizers fs po))) \<Longrightarrow> keeps I (EnsureFinalizer c po)"
  "(\<And>fs. W (CallUpdatePO (set_finalizers fs po))) \<Longrightarrow> keeps I (RemoveFinalizer c po)"
  unfolding EnsureFinalizer_def RemoveFinalizer_def by (intro keeps_intro updatepo_keeps; simp)+

lemma LoadClusterDefaults_keeps: "keeps I (LoadClusterDefaults lb c n)"
  unfolding LoadClusterDefaults_def Let_def by (intro keeps_intro read_keeps)

lemma PruneRemovedNamespaces_keeps:
  assumes "\<And>obj. deletable (po_Name po) (set (offboarded_names po)) obj \<Longrightarrow> W (CallDelete obj)"
  shows "keeps I (PruneRemovedNamespaces c po)"
  unfolding PruneRemovedNamespaces_def Let_def namespaceSpecForManagedName_def
  by (intro keeps_intro listManagedNamespaces_keeps CleanupNamespace_keeps [of po "set (offboarded_names po)"] assms
      offboarded_nameI find_entry_offboard) auto

lemma CleanupNamespaceClusterScoped_keeps:
  assumes "\<And>obj. deletable (po_Name po) N obj \<Longrightarrow> W (CallDelete obj)"
  shows "keeps I (CleanupNamespaceClusterScoped c po nsSpec)"
  unfolding CleanupNamespaceClusterScoped_def
  by (intro keeps_then keeps_wrap) (rule delete_parts_keep; rule assms; assumption)+

lemma FinalizeProjectOnboardingDeletion_keeps:
  assumes "\<And>obj. deletable (po_Name po) (set (offboarded_names po)) obj \<Longrightarrow> W (CallDelete obj)"
  shows "keeps I (FinalizeProjectOnboardingDeletion lb c po)"
  unfolding FinalizeProjectOnboardingDeletion_def cleanupClusterScopedForReleasedTenants_def
    finalizeNamespaceEntry_def Let_def
  by (intro keeps_intro listManagedNamespaces_keeps exists_keeps
      CleanupNamespace_keeps [of po "set (offboarded_names po)"]
      CleanupNamespaceClusterScoped_keeps [of po "set (offboarded_names po)"] assms offboarded_nameI)

end

end
