(* ===== verification/Store.thy ===== *)
theory Store
  imports Lifecycle
begin

text \<open>
  What the operator's calls achieve when the client reads and writes one store of objects.
  The locale \<open>store_client\<close> states the API contract: a read answers with the stored object,
  a missing object is answered with a not-found (or, if the API is not installed, a no-match)
  error, a create or patch stores its argument, a deletion removes the object or marks it as
  being deleted; deleting a Namespace may take other objects with it.  The server may add
  labels of its own.  Nobody else writes during the run and reads are not stale.

  \<open>cleans\<close> is the calculus of teardown: a run that succeeds only deletes, and leaves no live
  object in a set of targets.  \<open>frame\<close> says which kinds a successful run leaves alone.
\<close>

type_synonym view = "kind \<Rightarrow> objkey \<rightharpoonup> kobj"

section \<open>The contract\<close>

text \<open>Where \<open>v'\<close> differs from \<open>v\<close>, it is within \<open>K\<close>, by an object gone or being deleted.\<close>

definition deletes :: "(kind \<times> objkey) set \<Rightarrow> view \<Rightarrow> view \<Rightarrow> bool" where
  "deletes K v v' \<longleftrightarrow> (\<forall>k key. v' k key = v k key \<or>
     (k, key) \<in> K \<and> (\<forall>x. v' k key = Some x \<longrightarrow> is_deleting x))"

definition delete_scope :: "kobj \<Rightarrow> (kind \<times> objkey) set" where
  "delete_scope obj = (if kind_of obj = KNamespace then UNIV else {(kind_of obj, key_of obj)})"

locale store_client = selecting_client c for c :: "'s client" +
  fixes view :: "'s \<Rightarrow> view"
  assumes typed: "view s k key = Some x \<Longrightarrow> kind_of x = k \<and> key_of x = key"
    and scoped: "view s KNamespace key = Some x \<Longrightarrow> fst key = [] \<and> snd key \<noteq> []"
    and get_store: "cl_Get c k key s = (r, s') \<Longrightarrow> view s' = view s"
    and get_ok: "cl_Get c k key s = (Ok x, s') \<Longrightarrow> view s k key = Some x"
    and get_missing: "cl_Get c k key s = (Err e, s') \<Longrightarrow> IsNotFound e \<or> IsNoMatchError e \<Longrightarrow> view s k key = None"
    and list_store: "cl_List c k opts s = (rl, s') \<Longrightarrow> view s' = view s"
    and list_ok: "cl_List c k opts s = (Ok xs, s') \<Longrightarrow> x \<in> set xs \<longleftrightarrow> view s k (key_of x) = Some x \<and> selected opts x"
    and list_missing: "cl_List c k opts s = (Err e, s') \<Longrightarrow> IsNoMatchError e \<Longrightarrow> view s k key = None"
    and create_frame: "cl_Create c obj s = (Ok x, s') \<Longrightarrow> (k, key) \<noteq> (kind_of obj, key_of obj) \<Longrightarrow>
      view s' k key = view s k key"
    and create_ok: "cl_Create c obj s = (Ok x, s') \<Longrightarrow> view s' (kind_of obj) (key_of obj) = Some x \<and>
      ko_labels obj \<subseteq>\<^sub>m ko_labels x \<and> (kind_of obj = KResourceQuota \<longrightarrow> ko_payload x = ko_payload obj)"
    and patch_frame: "cl_Patch c base obj s = (Ok x, s') \<Longrightarrow> (k, key) \<noteq> (kind_of obj, key_of obj) \<Longrightarrow>
      view s' k key = view s k key"
    and patch_ok: "cl_Patch c base obj s = (Ok x, s') \<Longrightarrow> view s (kind_of base) (key_of base) = Some base \<Longrightarrow>
      kind_of obj = kind_of base \<Longrightarrow> key_of obj = key_of base \<Longrightarrow>
      view s' (kind_of obj) (key_of obj) = Some x \<and>
      ko_labels obj \<subseteq>\<^sub>m ko_labels x \<and> (kind_of obj = KResourceQuota \<longrightarrow> ko_payload x = ko_payload obj)"
    and delete_ok: "cl_Delete c obj s = (Ok u, s') \<Longrightarrow> deletes (delete_scope obj) (view s) (view s') \<and>
      (\<forall>x. view s' (kind_of obj) (key_of obj) = Some x \<longrightarrow> is_deleting x)"
    and delete_missing: "cl_Delete c obj s = (Err e, s') \<Longrightarrow> IsNotFound e \<Longrightarrow>
      view s' = view s \<and> view s (kind_of obj) (key_of obj) = None"
    and getts_store: "cl_GetTS c name s = (rt, s') \<Longrightarrow> view s' = view s"
begin

text \<open>
  No live object in \<open>T\<close>: \<open>T\<close> is a property of objects, so that it can speak of labels.
\<close>

definition none_left :: "(kobj \<Rightarrow> bool) \<Rightarrow> 's \<Rightarrow> bool" where
  "none_left T s \<longleftrightarrow> (\<forall>k key x. view s k key = Some x \<longrightarrow> T x \<longrightarrow> is_deleting x)"

definition cleans :: "(kobj \<Rightarrow> bool) \<Rightarrow> ('s, 'a) eff \<Rightarrow> bool" where
  "cleans T m \<longleftrightarrow> (\<forall>s x s'. m s = (Ok x, s') \<longrightarrow> deletes UNIV (view s) (view s') \<and> none_left T s')"

end

lemma deletes_refl [simp]: "deletes K v v"
  by (simp add: deletes_def)

lemma deletes_trans: "deletes K v v' \<Longrightarrow> deletes K v' v'' \<Longrightarrow> deletes K v v''"
  unfolding deletes_def by metis

lemma deletes_mono: "deletes K v v' \<Longrightarrow> K \<subseteq> L \<Longrightarrow> deletes L v v'"
  unfolding deletes_def by (meson subsetD)

context store_client
begin

section \<open>Teardown\<close>

lemma none_left_deletes: "deletes K (view s) (view s') \<Longrightarrow> none_left T s \<Longrightarrow> none_left T s'"
  unfolding none_left_def deletes_def by (metis (no_types, lifting))

lemma cleans_then:
  assumes "cleans T m" "cleans U n"
  shows "cleans (\<lambda>x. T x \<or> U x) (thenE m n)"
  unfolding cleans_def
proof (intro allI impI)
  fix s x s' assume "thenE m n s = (Ok x, s')"
  then obtain y s1 where "m s = (Ok y, s1)" "n s1 = (Ok x, s')"
    by (auto simp: run_thenE split: prod.splits result.splits)
  then have d: "deletes UNIV (view s) (view s1)" "none_left T s1" "deletes UNIV (view s1) (view s')" "none_left U s'"
    using assms by (auto simp: cleans_def)
  then have "none_left T s'" by (blast intro: none_left_deletes)
  with d show "deletes UNIV (view s) (view s') \<and> none_left (\<lambda>x. T x \<or> U x) s'"
    by (auto intro: deletes_trans simp: none_left_def)
qed

lemma cleans_wrap: "cleans T m \<Longrightarrow> cleans T (wrapE ctx m)"
  unfolding cleans_def run_wrapE by (fastforce split: prod.splits result.splits)

lemma cleans_nothing: "cleans (\<lambda>x. False) (retE u)"
  by (simp add: cleans_def retE_def none_left_def)

lemma cleans_when: "(b \<Longrightarrow> cleans T m) \<Longrightarrow> cleans (\<lambda>x. b \<and> T x) (whenE b m)"
  by (cases b) (simp_all add: whenE_def cleans_nothing)

lemma cleans_weaken: "cleans T m \<Longrightarrow> (\<And>x. U x \<Longrightarrow> T x) \<Longrightarrow> cleans U m"
  by (auto simp: cleans_def none_left_def)

lemma cleans_delete: "cleans (\<lambda>x. kind_of x = kind_of obj \<and> key_of x = key_of obj) (ignoreNotFound (cl_Delete c obj))"
  unfolding cleans_def
proof (intro allI impI)
  fix s x s' assume run: "ignoreNotFound (cl_Delete c obj) s = (Ok x, s')"
  obtain r s1 where r: "cl_Delete c obj s = (r, s1)" by fastforce
  have "deletes UNIV (view s) (view s') \<and> (\<forall>x. view s' (kind_of obj) (key_of obj) = Some x \<longrightarrow> is_deleting x)"
  proof (cases r)
    case (Ok u)
    with run r have "s' = s1" by (simp add: ignoreNotFound_def eff_run)
    with r Ok delete_ok show ?thesis by (auto intro: deletes_mono)
  next
    case (Err e)
    with run r have "s' = s1" "IsNotFound e"
      by (auto simp: ignoreNotFound_def eff_run split: if_splits)
    with r Err delete_missing show ?thesis by auto
  qed (use run r in \<open>simp add: ignoreNotFound_def eff_run\<close>)
  then show "deletes UNIV (view s) (view s') \<and>
    none_left (\<lambda>x. kind_of x = kind_of obj \<and> key_of x = key_of obj) s'"
    by (metis (mono_tags, lifting) none_left_def typed)
qed

lemma cleans_for:
  assumes "\<And>y. y \<in> set ys \<Longrightarrow> cleans (T y) (f y)"
  shows "cleans (\<lambda>x. \<exists>y \<in> set ys. T y x) (forE ys f)"
  using assms
proof (induction ys)
  case Nil
  then show ?case by (simp add: cleans_nothing)
next
  case (Cons y ys)
  then have "cleans (\<lambda>x. T y x \<or> (\<exists>y \<in> set ys. T y x)) (thenE (f y) (forE ys f))"
    by (intro cleans_then) auto
  then show ?case by (simp add: thenE_def)
qed

text \<open>A read of one object whose deletion follows.\<close>

lemma cleans_get_delete:
  "cleans (\<lambda>x. isManagedByProjectOnboarding (ko_labels x) po \<and> kind_of x = k \<and> key_of x = key)
    (bindE (tryE (cl_Get c k key)) (\<lambda>r. case r of
       Inl err \<Rightarrow> if IsNotFound err \<or> b \<and> IsNoMatchError err then retE () else failE err
     | Inr obj \<Rightarrow> deleteIfManaged c obj po))" (is "cleans ?T ?m")
  unfolding cleans_def
proof (intro allI impI)
  fix s u s' assume run: "?m s = (Ok u, s')"
  obtain r s1 where r: "cl_Get c k key s = (r, s1)" by fastforce
  then have v: "view s1 = view s" by (rule get_store)
  show "deletes UNIV (view s) (view s') \<and> none_left ?T s'"
  proof (cases r)
    case (Ok obj)
    then have m: "deleteIfManaged c obj po s1 = (Ok u, s')" and o: "view s k key = Some obj"
      using run r get_ok by (auto simp: eff_run)
    show ?thesis
    proof (cases "isManagedByProjectOnboarding (ko_labels obj) po")
      case True
      with m cleans_delete [of obj] have "deletes UNIV (view s1) (view s')"
        "none_left (\<lambda>x. kind_of x = kind_of obj \<and> key_of x = key_of obj) s'"
        by (auto simp: cleans_def deleteIfManaged_def)
      with v o typed show ?thesis by (auto simp: none_left_def)
    next
      case False
      with m have "s' = s1" by (simp add: deleteIfManaged_def retE_def)
      with False v o show ?thesis unfolding none_left_def by (metis deletes_refl option.inject typed)
    qed
  next
    case (Err e)
    with run r have "s' = s1" "IsNotFound e \<or> IsNoMatchError e" by (auto simp: eff_run split: if_splits)
    with Err r have "view s k key = None" "view s' = view s" using get_missing v by auto
    then show ?thesis unfolding none_left_def by (metis deletes_refl option.distinct(1) typed)
  qed (use run r in \<open>simp add: eff_run\<close>)
qed

text \<open>A list whose objects are deleted, but for those in \<open>keep\<close>.\<close>

lemma for_delete:
  assumes "forE xs (\<lambda>item. if keep item then retE () else ignoreNotFound (cl_Delete c item)) s1 = (Ok u, s')"
    and "\<And>x. x \<in> set xs \<longleftrightarrow> view s1 k (key_of x) = Some x \<and> selected opts x"
  shows "deletes UNIV (view s1) (view s') \<and> none_left (\<lambda>x. kind_of x = k \<and> selected opts x \<and> \<not> keep x) s'"
proof -
  have "cleans (\<lambda>x. \<not> keep item \<and> kind_of x = kind_of item \<and> key_of x = key_of item)
      (if keep item then retE () else ignoreNotFound (cl_Delete c item))" for item
    using cleans_delete [of item] by (simp add: cleans_nothing)
  then have "cleans (\<lambda>x. \<exists>item \<in> set xs. \<not> keep item \<and> kind_of x = kind_of item \<and> key_of x = key_of item)
      (forE xs (\<lambda>item. if keep item then retE () else ignoreNotFound (cl_Delete c item)))"
    by (rule cleans_for)
  with assms(1) have d: "deletes UNIV (view s1) (view s')"
    and n: "none_left (\<lambda>x. \<exists>item \<in> set xs. \<not> keep item \<and> kind_of x = kind_of item \<and> key_of x = key_of item) s'"
    by (auto simp: cleans_def)
  have "is_deleting x" if "view s' k' key = Some x" "kind_of x = k" "selected opts x" "\<not> keep x" for k' key x
  proof (cases "view s1 k' key = Some x")
    case True
    with that typed have "x \<in> set xs" by (metis assms(2))
    with n that show ?thesis unfolding none_left_def by blast
  next
    case False
    with d that show ?thesis unfolding deletes_def by metis
  qed
  with d show ?thesis by (auto simp: none_left_def)
qed

lemma cleans_list_delete:
  "cleans (\<lambda>x. kind_of x = k \<and> selected opts x \<and> \<not> keep x)
    (bindE (cl_List c k opts) (\<lambda>items. forE items (\<lambda>item. if keep item then retE () else ignoreNotFound (cl_Delete c item))))"
    (is "cleans ?T ?m")
  unfolding cleans_def
proof (intro allI impI)
  fix s u s' assume run: "?m s = (Ok u, s')"
  then obtain xs s1 where xs: "cl_List c k opts s = (Ok xs, s1)"
    and f: "forE xs (\<lambda>item. if keep item then retE () else ignoreNotFound (cl_Delete c item)) s1 = (Ok u, s')"
    by (auto simp: run_bindE split: prod.splits result.splits)
  then have "view s1 = view s" by (metis list_store)
  with for_delete [OF f] list_ok [OF xs] show "deletes UNIV (view s) (view s') \<and> none_left ?T s'" by simp
qed

lemma cleans_try_list_delete:
  "cleans (\<lambda>x. kind_of x = k \<and> selected opts x \<and> \<not> keep x)
    (bindE (tryE (cl_List c k opts)) (\<lambda>r. case r of
       Inl err \<Rightarrow> if IsNoMatchError err then retE () else failE err
     | Inr items \<Rightarrow> forE items (\<lambda>item. if keep item then retE () else ignoreNotFound (cl_Delete c item))))"
    (is "cleans ?T ?m")
  unfolding cleans_def
proof (intro allI impI)
  fix s u s' assume run: "?m s = (Ok u, s')"
  obtain r s1 where r: "cl_List c k opts s = (r, s1)" by fastforce
  then have v: "view s1 = view s" by (metis list_store)
  show "deletes UNIV (view s) (view s') \<and> none_left ?T s'"
  proof (cases r)
    case (Ok xs)
    with run r have "forE xs (\<lambda>item. if keep item then retE () else ignoreNotFound (cl_Delete c item)) s1 = (Ok u, s')"
      by (simp add: eff_run)
    from for_delete [OF this] list_ok [OF r [unfolded Ok]] v show ?thesis by simp
  next
    case (Err e)
    with run r have "s' = s1" "IsNoMatchError e" by (auto simp: eff_run split: if_splits)
    with Err r v list_missing show ?thesis
      unfolding none_left_def by (metis deletes_refl option.distinct(1) typed)
  qed (use run r in \<open>simp add: eff_run\<close>)
qed

end

section \<open>Teardown of one entry\<close>

text \<open>The object carries the labels of \<open>po\<close>.\<close>

definition owned :: "ProjectOnboarding \<Rightarrow> kobj \<Rightarrow> bool" where
  "owned po x \<longleftrightarrow> ko_labels x ProjectOnboardingManagedByKey = Some ProjectOnboardingManagedByVal \<and>
     ko_labels x ProjectOnboardingLabelKey = Some (po_Name po)"

definition project_of :: "ProjectOnboarding \<Rightarrow> string \<Rightarrow> kobj \<Rightarrow> bool" where
  "project_of po n x \<longleftrightarrow> kind_of x = KAppProject \<and>
     ko_labels x ProjectOnboardingLabelKey = Some (po_Name po) \<and> ko_labels x ProjectOnboardingNamespaceKey = Some n"

lemma owned_managed: "owned po x \<Longrightarrow> isManagedByProjectOnboarding (ko_labels x) po"
  by (simp add: owned_def isManagedByProjectOnboarding_def label_at_def)

lemma selected_owned:
  "selected (managedListOptions None po) x = owned po x"
  "selected (managedListOptions (Some n) po) x = (owned po x \<and> fst (key_of x) = n)"
  by (auto simp: selected_def managedListOptions_def managedLabelsSelector_def owned_def key_of_def)

lemma selected_project_of:
  "kind_of x = KAppProject \<and> selected \<lparr>lo_Namespace = None, lo_MatchingLabels =
     [(ProjectOnboardingLabelKey, po_Name po), (ProjectOnboardingNamespaceKey, n)]\<rparr> x \<longleftrightarrow> project_of po n x"
  by (auto simp: selected_def project_of_def)

text \<open>What \<open>CleanupNamespace\<close> is to remove for the entry.\<close>

definition cleanup_target :: "ProjectOnboarding \<Rightarrow> NamespaceSpec \<Rightarrow> kobj \<Rightarrow> bool" where
  "cleanup_target po nsSpec x = (let n = SanitizeName (ns_Name nsSpec) in
     project_of po n x \<or> owned po x \<and> (case kind_of x of
       KNamespace \<Rightarrow> key_of x = ([], n)
     | KResourceQuota \<Rightarrow> key_of x = (n, n @ ''-quota'')
     | KLimitRange \<Rightarrow> key_of x = (n, n @ ''-limitrange'')
     | KNetworkPolicy \<Rightarrow> fst (key_of x) = n
     | KRoleBinding \<Rightarrow> key_of x = (n, RoleBindingName nsSpec)
     | KGroup \<Rightarrow> (case ns_LocalAdminGroup nsSpec of None \<Rightarrow> False | Some g \<Rightarrow> IsOptInEnabled (lag_Enabled g)) \<and>
         key_of x = ([], GroupName nsSpec)
     | KEgressIP \<Rightarrow> (case ns_EgressIPs nsSpec of None \<Rightarrow> False | Some e \<Rightarrow> IsOptInEnabled (eip_Enabled e)) \<and>
         key_of x = ([], n)
     | KAppProject \<Rightarrow> False))"

text \<open>
  All objects of the entry, whether its blocks are on or off, and the two that the teardown
  looks for only while their block is on.
\<close>

definition entry_object :: "ProjectOnboarding \<Rightarrow> NamespaceSpec \<Rightarrow> kobj \<Rightarrow> bool" where
  "entry_object po nsSpec x = (let n = SanitizeName (ns_Name nsSpec) in
     project_of po n x \<or> owned po x \<and> (case kind_of x of
       KNamespace \<Rightarrow> key_of x = ([], n)
     | KResourceQuota \<Rightarrow> key_of x = (n, n @ ''-quota'')
     | KLimitRange \<Rightarrow> key_of x = (n, n @ ''-limitrange'')
     | KNetworkPolicy \<Rightarrow> fst (key_of x) = n
     | KRoleBinding \<Rightarrow> key_of x = (n, RoleBindingName nsSpec)
     | KGroup \<Rightarrow> key_of x = ([], GroupName nsSpec)
     | KEgressIP \<Rightarrow> key_of x = ([], n)
     | KAppProject \<Rightarrow> False))"

definition left_behind :: "NamespaceSpec \<Rightarrow> kind \<Rightarrow> bool" where
  "left_behind nsSpec k \<longleftrightarrow>
     k = KGroup \<and> (\<forall>g. ns_LocalAdminGroup nsSpec = Some g \<longrightarrow> lag_Enabled g \<noteq> Some True) \<or>
     k = KEgressIP \<and> (\<forall>e. ns_EgressIPs nsSpec = Some e \<longrightarrow> eip_Enabled e \<noteq> Some True)"

lemma entry_object_cleaned: "entry_object po ns x \<Longrightarrow> cleanup_target po ns x \<or> left_behind ns (kind_of x)"
  unfolding entry_object_def cleanup_target_def left_behind_def Let_def IsOptInEnabled_def
  by (auto split: kind.splits option.splits)

context store_client
begin

lemma cleans_get_owned:
  assumes "\<And>x. T x \<Longrightarrow> owned po x \<and> kind_of x = k \<and> key_of x = key"
  shows "cleans T (bindE (tryE (cl_Get c k key)) (\<lambda>r. case r of
       Inl err \<Rightarrow> if IsNotFound err \<or> b \<and> IsNoMatchError err then retE () else failE err
     | Inr obj \<Rightarrow> deleteIfManaged c obj po))"
  by (rule cleans_weaken [OF cleans_get_delete]) (use assms owned_managed in auto)

lemma cleans_parts:
  "cleans (\<lambda>x. owned po x \<and> kind_of x = KRoleBinding \<and> key_of x = (n, RoleBindingName nsSpec))
    (deleteManagedRoleBinding c po nsSpec n)"
  "cleans (\<lambda>x. owned po x \<and> kind_of x = KLimitRange \<and> key_of x = (n, n @ ''-limitrange'')) (deleteManagedLimitRange c po n)"
  "cleans (\<lambda>x. owned po x \<and> kind_of x = KResourceQuota \<and> key_of x = (n, n @ ''-quota'')) (deleteManagedResourceQuota c po n)"
  "cleans (\<lambda>x. owned po x \<and> kind_of x = KEgressIP \<and> key_of x = ([], n)) (deleteManagedEgressIP c po n)"
  "cleans (\<lambda>x. owned po x \<and> kind_of x = KGroup \<and> key_of x = ([], GroupName nsSpec)) (deleteManagedGroup c po nsSpec)"
  "cleans (\<lambda>x. owned po x \<and> kind_of x = KNamespace \<and> key_of x = ([], n)) (deleteManagedNamespace c po n)"
proof -
  note g0 = cleans_get_owned [where b = False, unfolded simp_thms] and g1 = cleans_get_owned [where b = True, unfolded simp_thms]
  show "cleans (\<lambda>x. owned po x \<and> kind_of x = KRoleBinding \<and> key_of x = (n, RoleBindingName nsSpec))
      (deleteManagedRoleBinding c po nsSpec n)"
    unfolding deleteManagedRoleBinding_def by (rule g0) blast
  show "cleans (\<lambda>x. owned po x \<and> kind_of x = KLimitRange \<and> key_of x = (n, n @ ''-limitrange'')) (deleteManagedLimitRange c po n)"
    unfolding deleteManagedLimitRange_def by (rule g0) blast
  show "cleans (\<lambda>x. owned po x \<and> kind_of x = KResourceQuota \<and> key_of x = (n, n @ ''-quota'')) (deleteManagedResourceQuota c po n)"
    unfolding deleteManagedResourceQuota_def by (rule g0) blast
  show "cleans (\<lambda>x. owned po x \<and> kind_of x = KEgressIP \<and> key_of x = ([], n)) (deleteManagedEgressIP c po n)"
    unfolding deleteManagedEgressIP_def by (rule g1) blast
  show "cleans (\<lambda>x. owned po x \<and> kind_of x = KGroup \<and> key_of x = ([], GroupName nsSpec)) (deleteManagedGroup c po nsSpec)"
    unfolding deleteManagedGroup_def by (rule g1) blast
  show "cleans (\<lambda>x. owned po x \<and> kind_of x = KNamespace \<and> key_of x = ([], n)) (deleteManagedNamespace c po n)"
    unfolding deleteManagedNamespace_def deleteIfManaged_def [symmetric] by (rule g0) blast
qed

lemma cleans_policies:
  "cleans (\<lambda>x. owned po x \<and> kind_of x = KNetworkPolicy \<and> fst (key_of x) = n \<and> om_name (ko_meta x) \<notin> set keep)
    (pruneManagedNetworkPolicies c po n keep)"
  "cleans (\<lambda>x. owned po x \<and> kind_of x = KNetworkPolicy \<and> fst (key_of x) = n) (deleteManagedNetworkPolicies c po n)"
  unfolding pruneManagedNetworkPolicies_def deleteManagedNetworkPolicies_def
  using cleans_list_delete [of KNetworkPolicy "managedListOptions (Some n) po" "\<lambda>x. om_name (ko_meta x) \<in> set keep"]
    cleans_list_delete [of KNetworkPolicy "managedListOptions (Some n) po" "\<lambda>x. False"]
  by (auto simp: selected_owned elim!: cleans_weaken)

lemma cleans_projects:
  "cleans (\<lambda>x. project_of po n x \<and> \<not> (case keep of None \<Rightarrow> False | Some names \<Rightarrow> om_name (ko_meta x) \<in> set names))
    (deleteAppProjectsForNamespace c po n keep)"
  unfolding deleteAppProjectsForNamespace_def
  by (rule cleans_weaken [OF cleans_try_list_delete]) (use selected_project_of in blast)

lemma CleanupNamespace_cleans: "cleans (cleanup_target po nsSpec) (CleanupNamespace c po nsSpec)"
  unfolding CleanupNamespace_def Let_def deleteManagedAppProjects_def
  by (rule cleans_weaken,
      (rule cleans_then cleans_wrap cleans_when cleans_parts cleans_policies cleans_projects)+)
    (auto simp: cleanup_target_def Let_def split: kind.splits)

lemma cleansD:
  "cleans T m \<Longrightarrow> m s = (Ok x, s') \<Longrightarrow> deletes UNIV (view s) (view s') \<and> none_left T s'"
  by (simp add: cleans_def)

section \<open>Runs that only delete\<close>

abbreviation deletes_only :: "('s, 'a) eff \<Rightarrow> bool" where
  "deletes_only m \<equiv> cleans (\<lambda>x. False) m"

lemma deletes_only_bind:
  "deletes_only m \<Longrightarrow> (\<And>x. deletes_only (f x)) \<Longrightarrow> deletes_only (bindE m f)"
  unfolding cleans_def none_left_def by (intro allI impI, drule Ok_bind) (blast intro: deletes_trans)

lemma deletes_only_basic:
  "deletes_only (retE x)" "deletes_only (failE e)" "cleans T m \<Longrightarrow> deletes_only m"
  "deletes_only (cl_List c k opts)" "deletes_only (tryE (cl_Get c k key))"
  by (auto simp: cleans_def eff_run none_left_def split: prod.splits result.splits dest: list_store get_store)

lemma deletes_only_for: "(\<And>x. deletes_only (f x)) \<Longrightarrow> deletes_only (forE xs f)"
  by (induction xs) (auto intro: deletes_only_basic deletes_only_bind)

lemma deletes_only_exists: "deletes_only (namespaceExists c n)"
  unfolding namespaceExists_def
  by (intro deletes_only_bind deletes_only_basic) (auto intro: deletes_only_basic split: sum.split)

lemma deletes_only_list: "deletes_only (listManagedNamespaces c po)"
  unfolding listManagedNamespaces_def by (rule cleans_wrap [OF deletes_only_basic(4)])

lemma CleanupNamespaceClusterScoped_deletes: "deletes_only (CleanupNamespaceClusterScoped c po nsSpec)"
  unfolding CleanupNamespaceClusterScoped_def deleteManagedAppProjects_def
  by (rule deletes_only_basic(3), (rule cleans_then cleans_wrap cleans_parts cleans_projects)+)

lemma released_deletes: "deletes_only (cleanupClusterScopedForReleasedTenants lb c po)"
  unfolding cleanupClusterScopedForReleasedTenants_def
  by (intro deletes_only_bind deletes_only_list deletes_only_for deletes_only_exists)
    (simp add: CleanupNamespaceClusterScoped_deletes deletes_only_basic)

section \<open>Guarded deletion\<close>

abbreviation namespace_of :: "ProjectOnboarding \<Rightarrow> string \<Rightarrow> kobj \<Rightarrow> bool" where
  "namespace_of po n x \<equiv> owned po x \<and> kind_of x = KNamespace \<and> key_of x = ([], n)"

lemma managedNamespaceExists_spec:
  assumes "managedNamespaceExists c po n s = (Ok ex, s')"
  shows "view s' = view s" "\<not> ex \<Longrightarrow> none_left (namespace_of po n) s'"
proof -
  obtain r s1 where r: "cl_Get c KNamespace ([], n) s = (r, s1)" by fastforce
  note v = get_store [OF r]
  from assms r have "s' = s1"
    by (auto simp: managedNamespaceExists_def eff_run split: result.splits if_splits)
  with v show "view s' = view s" by simp
  assume "\<not> ex"
  show "none_left (namespace_of po n) s'"
  proof (cases r)
    case (Ok x)
    with assms r \<open>\<not> ex\<close> have "\<not> owned po x \<or> is_deleting x"
      by (auto simp: managedNamespaceExists_def eff_run split: if_splits dest: owned_managed)
    moreover have "view s' KNamespace ([], n) = Some x" using r Ok get_ok v \<open>s' = s1\<close> by simp
    ultimately show ?thesis unfolding none_left_def by (metis option.inject typed)
  next
    case (Err e)
    with assms r \<open>\<not> ex\<close> have "IsNotFound e"
      by (auto simp: managedNamespaceExists_def eff_run split: if_splits)
    with r Err get_missing v \<open>s' = s1\<close> have "view s' KNamespace ([], n) = None" by simp
    then show ?thesis unfolding none_left_def by (metis option.distinct(1) typed)
  qed (use assms r in \<open>simp add: managedNamespaceExists_def eff_run\<close>)
qed

lemma finalizeNamespaceEntry_spec:
  assumes "finalizeNamespaceEntry c po ns s = (Ok e, s')"
  shows "deletes UNIV (view s) (view s')" "e = [] \<Longrightarrow> none_left (namespace_of po (SanitizeName (ns_Name ns))) s'"
proof -
  let ?n = "SanitizeName (ns_Name ns)"
  obtain ex s1 where ex: "managedNamespaceExists c po ?n s = (Ok ex, s1)"
    and k: "(if IsOffboard (ns_Offboard ns) then thenE (CleanupNamespace c po ns) (retE [])
        else if ex then retE ?n else thenE (CleanupNamespaceClusterScoped c po ns) (retE [])) s1 = (Ok e, s')"
    using assms unfolding finalizeNamespaceEntry_def Let_def by (blast dest: Ok_bind)
  note m = managedNamespaceExists_spec [OF ex]
  consider (off) "IsOffboard (ns_Offboard ns)" "CleanupNamespace c po ns s1 = (Ok (), s')"
    | (there) "ex" "e = ?n" "s' = s1"
    | (absent) "\<not> ex" "CleanupNamespaceClusterScoped c po ns s1 = (Ok (), s')"
    using k by (auto simp: eff_run split: if_splits prod.splits result.splits)
  then have "deletes UNIV (view s1) (view s') \<and> (e = [] \<longrightarrow> none_left (namespace_of po ?n) s')"
  proof cases
    case off
    then show ?thesis
      using cleansD [OF CleanupNamespace_cleans off(2)] by (auto simp: none_left_def cleanup_target_def)
  next
    case there
    then show ?thesis unfolding none_left_def by (metis deletes_refl scoped snd_conv typed)
  next
    case absent
    then show ?thesis
      using cleansD [OF CleanupNamespaceClusterScoped_deletes absent(2)] m(2) none_left_deletes by blast
  qed
  with m(1) show "deletes UNIV (view s) (view s')" "e = [] \<Longrightarrow> none_left (namespace_of po ?n) s'" by simp_all
qed

lemma finalize_entries_spec:
  "collectE nss (finalizeNamespaceEntry c po) s = (Ok es, s') \<Longrightarrow> deletes UNIV (view s) (view s') \<and>
   (filter (\<lambda>n. n \<noteq> []) es = [] \<longrightarrow> (\<forall>ns \<in> set nss. none_left (namespace_of po (SanitizeName (ns_Name ns))) s'))"
proof (induction nss arbitrary: s es)
  case (Cons ns nss)
  then obtain e es' s1 where e: "finalizeNamespaceEntry c po ns s = (Ok e, s1)"
    and es: "collectE nss (finalizeNamespaceEntry c po) s1 = (Ok es', s')" "es = e # es'"
    by (auto dest!: Ok_bind simp: retE_def)
  note f = finalizeNamespaceEntry_spec [OF e] and i = Cons.IH [OF es(1)]
  with es(2) show ?case
    by (auto intro: deletes_trans none_left_deletes split: if_splits)
qed (simp add: eff_run)

text \<open>If the finalizer may go, no namespace of the resource is live.\<close>

lemma finalize_complete:
  assumes "FinalizeProjectOnboardingDeletion lb c po s = (Ok (True, msg), s')"
  shows "none_left (\<lambda>x. owned po x \<and> kind_of x = KNamespace) s'"
proof -
  obtain es s1 managed s2 u s3 where
    es: "collectE (po_Namespaces po) (finalizeNamespaceEntry c po) s = (Ok es, s1)"
    and m: "listManagedNamespaces c po s1 = (Ok managed, s2)"
    and rel: "cleanupClusterScopedForReleasedTenants lb c po s2 = (Ok u, s3)"
    and fin: "(if filter (\<lambda>n. n \<noteq> []) es @ orphan_names po managed \<noteq> []
       then retE (False, deletionBlockedMessagePrefix @ join_str '', ''
         (sort (filter (\<lambda>n. n \<noteq> []) es @ orphan_names po managed))) else retE (True, [])) s3 = (Ok (True, msg), s')"
    using assms unfolding FinalizeProjectOnboardingDeletion_def Let_def by (blast dest: Ok_bind)
  from fin have p: "filter (\<lambda>n. n \<noteq> []) es = []" "orphan_names po managed = []" and s3: "s' = s3"
    by (auto simp: eff_run split: if_splits)
  from m have l: "cl_List c KNamespace (managedListOptions None po) s1 = (Ok managed, s2)"
    by (auto simp: listManagedNamespaces_def eff_run split: prod.splits result.splits)
  then have v: "view s2 = view s1" by (rule list_store)
  have "is_deleting x" if "view s2 k key = Some x" "owned po x" "kind_of x = KNamespace" for k key x
  proof (cases "om_name (ko_meta x) \<in> set (namespaceNamesInSpec po)")
    case True
    then obtain ns where ns: "ns \<in> set (po_Namespaces po)" "om_name (ko_meta x) = SanitizeName (ns_Name ns)"
      by (auto simp: namespaceNamesInSpec_def)
    have "key_of x = ([], om_name (ko_meta x))"
      using scoped [of s2 key x] typed [of s2 k key x] that by (auto simp: key_of_def)
    moreover have "none_left (namespace_of po (SanitizeName (ns_Name ns))) s1"
      using finalize_entries_spec [OF es] p(1) ns(1) by blast
    moreover have "view s1 k key = Some x" using that(1) v by simp
    ultimately show ?thesis using that ns(2) unfolding none_left_def by presburger
  next
    case False
    have "x \<in> set managed" using list_ok [OF l] that v typed by (metis selected_owned(1))
    with False p(2) show ?thesis by (auto simp: orphan_names_def filter_empty_conv)
  qed
  then have "none_left (\<lambda>x. owned po x \<and> kind_of x = KNamespace) s2" by (auto simp: none_left_def)
  then show ?thesis using cleansD [OF released_deletes rel] none_left_deletes s3 by blast
qed

end

end
