(* ===== verification/Store_Reconcile.thy ===== *)
theory Store_Reconcile
  imports Store
begin

text \<open>
  What a successful \<open>ReconcileNamespace\<close> leaves in the store: nothing that the entry no longer
  wants, and the ResourceQuota that it wants, with the limits of the specification.
\<close>

section \<open>Pruned objects\<close>

definition wanted_projects :: "NamespaceSpec \<Rightarrow> string list" where
  "wanted_projects nsSpec =
     map (\<lambda>p. SanitizeName (ac_Name p)) (filter (\<lambda>p. IsOptInEnabled (ac_Enabled p)) (ns_ArgoCDProjects nsSpec))"

text \<open>The objects of the resource that the entry no longer asks for.\<close>

definition prune_target :: "ProjectOnboarding \<Rightarrow> NamespaceSpec \<Rightarrow> NamespaceSpec \<Rightarrow> kobj \<Rightarrow> bool" where
  "prune_target po nsSpec resolved x = (let n = SanitizeName (ns_Name nsSpec) in
     project_of po n x \<and> om_name (ko_meta x) \<notin> set (wanted_projects nsSpec) \<or>
     owned po x \<and> (case kind_of x of
       KNamespace \<Rightarrow> False
     | KResourceQuota \<Rightarrow> block_disabled rq_Enabled IsEnabled (ns_ResourceQuotas resolved) \<and> key_of x = (n, n @ ''-quota'')
     | KLimitRange \<Rightarrow> block_disabled lr_Enabled IsEnabled (ns_LimitRanges resolved) \<and> key_of x = (n, n @ ''-limitrange'')
     | KNetworkPolicy \<Rightarrow> fst (key_of x) = n \<and>
         om_name (ko_meta x) \<notin> set (desiredNetworkPolicyNames nsSpec n (ManagedLabels po nsSpec))
     | KRoleBinding \<Rightarrow> block_disabled lag_Enabled IsOptInEnabled (ns_LocalAdminGroup nsSpec) \<and>
         key_of x = (n, RoleBindingName nsSpec)
     | KGroup \<Rightarrow> block_disabled lag_Enabled IsOptInEnabled (ns_LocalAdminGroup nsSpec) \<and> key_of x = ([], GroupName nsSpec)
     | KEgressIP \<Rightarrow> block_disabled eip_Enabled IsOptInEnabled (ns_EgressIPs nsSpec) \<and> key_of x = ([], n)
     | KAppProject \<Rightarrow> False))"

text \<open>
  The objects that the entry may have written in the past and does not ask for now, whether or
  not the pruning of the code looks for them: an AppProject of the entry that is not an enabled
  project in the present GitOps namespace, and, labelled as the resource's, the objects of
  blocks that are off, NetworkPolicies in the tenant Namespace that are not wanted, RoleBindings
  there and Groups of the entry other than the one that the entry names.
\<close>

definition leftover :: "ProjectOnboarding \<Rightarrow> NamespaceSpec \<Rightarrow> NamespaceSpec \<Rightarrow> kobj \<Rightarrow> bool" where
  "leftover po ns resolved x = (let n = SanitizeName (ns_Name ns) in
     project_of po n x \<and> \<not> (\<exists>p \<in> set (ns_ArgoCDProjects ns). ac_Enabled p = Some True \<and>
       key_of x = (ResolveApplicationGitOpsNamespace po ns, SanitizeName (ac_Name p))) \<or>
     owned po x \<and> (case kind_of x of
       KNamespace \<Rightarrow> False
     | KResourceQuota \<Rightarrow> key_of x = (n, n @ ''-quota'') \<and> \<not> asks resolved ns KResourceQuota
     | KLimitRange \<Rightarrow> key_of x = (n, n @ ''-limitrange'') \<and> \<not> asks resolved ns KLimitRange
     | KNetworkPolicy \<Rightarrow> fst (key_of x) = n \<and>
         snd (key_of x) \<notin> set (desiredNetworkPolicyNames ns n (ManagedLabels po ns))
     | KRoleBinding \<Rightarrow> fst (key_of x) = n \<and> \<not> (asks resolved ns KRoleBinding \<and> snd (key_of x) = RoleBindingName ns)
     | KGroup \<Rightarrow> (key_of x = ([], GroupName ns) \<or> ko_labels x ProjectOnboardingNamespaceKey = Some (ns_Name ns)) \<and>
         \<not> (asks resolved ns KGroup \<and> key_of x = ([], GroupName ns))
     | KEgressIP \<Rightarrow> key_of x = ([], n) \<and> \<not> asks resolved ns KEgressIP
     | KAppProject \<Rightarrow> False))"

text \<open>
  Those among them that the code overlooks: an AppProject of a wanted name (which is in a former
  GitOps namespace if it is a leftover), a RoleBinding or a Group under a former group name.
\<close>

definition overlooked :: "NamespaceSpec \<Rightarrow> kobj \<Rightarrow> bool" where
  "overlooked ns x \<longleftrightarrow> kind_of x = KAppProject \<and> snd (key_of x) \<in> set (wanted_projects ns) \<or>
     kind_of x = KRoleBinding \<and> snd (key_of x) \<noteq> RoleBindingName ns \<or>
     kind_of x = KGroup \<and> key_of x \<noteq> ([], GroupName ns)"

lemma leftover_pruned: "leftover po ns resolved x \<Longrightarrow> prune_target po ns resolved x \<or> overlooked ns x"
  unfolding leftover_def prune_target_def overlooked_def Let_def asks_blocks
  by (auto simp: key_of_def project_of_def split: kind.splits)

context store_client
begin

lemma PruneNamespaceResources_cleans:
  "cleans (prune_target po nsSpec resolved) (PruneNamespaceResources c po nsSpec resolved)"
  unfolding PruneNamespaceResources_def Let_def pruneAppProjectsForNamespace_def
  by (rule cleans_weaken,
      (rule cleans_then cleans_wrap cleans_when cleans_parts cleans_policies cleans_projects)+)
    (auto simp: prune_target_def wanted_projects_def Let_def split: kind.splits)

text \<open>The steps of a successful run up to its last one.\<close>

lemma ReconcileNamespace_steps:
  assumes "ReconcileNamespace lb c sch po nsSpec s = (Ok u, s')"
  obtains resolved tenantNS s1 s2 s3 s4 s5 s6 s7 s8 s9 where
    "ResolveNamespaceSpec lb c nsSpec s = (Ok resolved, s1)"
    "reconcileNamespaceObject c sch po nsSpec (SanitizeName (ns_Name nsSpec)) (ManagedLabels po nsSpec) s1 = (Ok tenantNS, s2)"
    "on_block rq_Enabled IsEnabled (ns_ResourceQuotas resolved) (\<lambda>q. wrapE ''resource quota: ''
       (reconcileResourceQuota lb c sch (Some tenantNS) q (SanitizeName (ns_Name nsSpec)) (ManagedLabels po nsSpec))) s2 = (Ok (), s3)"
    "on_block lr_Enabled IsEnabled (ns_LimitRanges resolved) (\<lambda>l. wrapE ''limit range: ''
       (reconcileLimitRange lb c sch (Some tenantNS) l (SanitizeName (ns_Name nsSpec)) (ManagedLabels po nsSpec))) s3 = (Ok (), s4)"
    "reconcileDefaultNetworkPolicies c sch (Some tenantNS) nsSpec (SanitizeName (ns_Name nsSpec)) (ManagedLabels po nsSpec) s4 = (Ok (), s5)"
    "reconcileCustomNetworkPolicies c sch (Some tenantNS) nsSpec (SanitizeName (ns_Name nsSpec)) (ManagedLabels po nsSpec) s5 = (Ok (), s6)"
    "on_block lag_Enabled IsOptInEnabled (ns_LocalAdminGroup nsSpec) (\<lambda>_.
       thenE (wrapE ''local admin group: '' (reconcileLocalAdminGroup lb c sch po nsSpec (ManagedLabels po nsSpec)))
         (wrapE ''local admin role binding: '' (reconcileLocalAdminRoleBinding c sch (Some tenantNS) nsSpec
           (SanitizeName (ns_Name nsSpec)) (ManagedLabels po nsSpec)))) s6 = (Ok (), s7)"
    "on_block eip_Enabled IsOptInEnabled (ns_EgressIPs nsSpec) (\<lambda>_. wrapE ''egress IP: ''
       (reconcileEgressIP lb c sch po nsSpec (SanitizeName (ns_Name nsSpec)) (ManagedLabels po nsSpec))) s7 = (Ok (), s8)"
    "reconcileArgoCDProjects c sch po nsSpec (SanitizeName (ns_Name nsSpec)) (ManagedLabels po nsSpec) s8 = (Ok (), s9)"
    "PruneNamespaceResources c po nsSpec resolved s9 = (Ok (), s')"
  using assms unfolding ReconcileNamespace_def Let_def
  by (auto dest!: Ok_bind Ok_then Ok_wrap simp: that)

lemma ReconcileNamespace_prunes:
  assumes "ReconcileNamespace lb c sch po nsSpec s = (Ok u, s')"
    and "ResolveNamespaceSpec lb c nsSpec s = (Ok resolved, s1)"
  shows "none_left (prune_target po nsSpec resolved) s'"
  using assms(1)
proof (rule ReconcileNamespace_steps)
  fix resolved' s1' s9
  assume "ResolveNamespaceSpec lb c nsSpec s = (Ok resolved', s1')"
    and p: "PruneNamespaceResources c po nsSpec resolved' s9 = (Ok (), s')"
  with assms(2) have "resolved' = resolved" by simp
  with cleansD [OF PruneNamespaceResources_cleans p] show ?thesis by simp
qed

end

section \<open>Kinds that a step leaves alone\<close>

context store_client
begin

definition leaves :: "kind \<Rightarrow> ('s, 'a) eff \<Rightarrow> bool" where
  "leaves k m \<longleftrightarrow> (\<forall>s x s'. m s = (Ok x, s') \<longrightarrow> view s' k = view s k)"

lemma leavesD: "leaves k m \<Longrightarrow> m s = (Ok x, s') \<Longrightarrow> view s' k = view s k"
  by (simp add: leaves_def)

lemma leaves_bind: "leaves k m \<Longrightarrow> (\<And>x. leaves k (f x)) \<Longrightarrow> leaves k (bindE m f)"
  unfolding leaves_def by (metis Ok_bind)

lemma leaves_then: "leaves k m \<Longrightarrow> leaves k n \<Longrightarrow> leaves k (thenE m n)"
  unfolding thenE_def by (rule leaves_bind)

lemma leaves_wrap: "leaves k m \<Longrightarrow> leaves k (wrapE ctx m)"
  unfolding leaves_def by (metis Ok_wrap)

lemma leaves_basic: "leaves k (retE x)" "leaves k (failE e)" "leaves k (resE r)" "leaves k (tryE (cl_Get c k' key))"
  by (auto simp: leaves_def eff_run split: prod.splits result.splits dest: get_store)

lemma leaves_when: "(b \<Longrightarrow> leaves k m) \<Longrightarrow> leaves k (whenE b m)"
  by (simp add: whenE_def leaves_basic)

lemma leaves_block: "(\<And>b. x = Some b \<Longrightarrow> leaves k (f b)) \<Longrightarrow> leaves k (on_block enabled on x f)"
  unfolding on_block_def by (auto split: option.split intro: leaves_when leaves_basic)

lemma leaves_for: "(\<And>x. x \<in> set xs \<Longrightarrow> leaves k (f x)) \<Longrightarrow> leaves k (forE xs f)"
  by (induction xs) (auto intro: leaves_basic leaves_bind)

lemma leaves_res: "(\<And>x. r = Ok x \<Longrightarrow> leaves k (f x)) \<Longrightarrow> leaves k (bindE (resE r) f)"
  by (cases r) (auto simp: leaves_def bindE_def resE_def)

lemma leaves_write:
  "kind_of obj \<noteq> k \<Longrightarrow> leaves k (cl_Create c obj)" "kind_of obj \<noteq> k \<Longrightarrow> leaves k (cl_Patch c base obj)"
  unfolding leaves_def by (intro allI impI ext, erule create_frame patch_frame, simp)+

lemma leaves_write_owned:
  assumes "owners_only sch" "kind_of desired \<noteq> k"
  shows "leaves k (bindE (resE (ensureTenantNamespaceOwnerRef sch t desired)) (\<lambda>obj. thenE (cl_Create c obj) (retE ())))"
    "leaves k (bindE (resE (ensureTenantNamespaceOwnerRef sch t desired)) (\<lambda>obj. thenE (cl_Patch c base obj) (retE ())))"
    "leaves k (bindE (resE (ensureProjectOnboardingControllerRef sch p desired)) (\<lambda>obj. thenE (cl_Create c obj) (retE ())))"
    "leaves k (bindE (resE (ensureProjectOnboardingControllerRef sch p desired)) (\<lambda>obj. thenE (cl_Patch c base obj) (retE ())))"
    "leaves k (bindE (resE (set_controller sch q desired)) (\<lambda>obj. thenE (cl_Create c obj) (retE ())))"
    "leaves k (bindE (resE (set_controller sch q desired)) (\<lambda>obj. thenE (cl_Patch c base obj) (retE ())))"
  by (intro leaves_res leaves_then leaves_write leaves_basic,
      use assms same_but_owners_simps(4) ensure_owner_same in metis)+

lemma apply_tenant_object_leaves:
  assumes "owners_only sch" "kind_of desired \<noteq> k"
  shows "leaves k (apply_tenant_object c sch t labels desired)"
  unfolding apply_tenant_object_def
proof (rule leaves_bind [OF leaves_basic(4)])
  fix r
  have "kind_of (set_payload (ko_payload desired) x) = kind_of desired" for x by (simp add: kind_of_def)
  then show "leaves k (case r of
       Inl err \<Rightarrow> if IsNotFound err
         then bindE (resE (ensureTenantNamespaceOwnerRef sch t desired)) (\<lambda>obj. thenE (cl_Create c obj) (retE ()))
         else failE err
     | Inr current \<Rightarrow>
         bindE (resE (ensureTenantNamespaceOwnerRef sch t
           (set_payload (ko_payload desired) (set_labels (mergeStringMaps (ko_labels current) labels) current))))
           (\<lambda>obj. thenE (cl_Patch c current obj) (retE ())))"
    using assms by (cases r) (auto intro: leaves_write_owned leaves_basic)
qed

lemma reconcile_parts_leave:
  assumes "owners_only sch"
  shows "k \<noteq> KLimitRange \<Longrightarrow> leaves k (reconcileLimitRange lb c sch t l n labels)"
    "k \<noteq> KNetworkPolicy \<Longrightarrow> leaves k (reconcileDefaultNetworkPolicies c sch t nsSpec n labels)"
    "k \<noteq> KNetworkPolicy \<Longrightarrow> leaves k (reconcileCustomNetworkPolicies c sch t nsSpec n labels)"
    "k \<noteq> KRoleBinding \<Longrightarrow> leaves k (reconcileLocalAdminRoleBinding c sch t nsSpec n labels)"
  unfolding reconcileLimitRange_def reconcileDefaultNetworkPolicies_def reconcileCustomNetworkPolicies_def
    reconcileLocalAdminRoleBinding_def policy_object_def
  by (auto intro!: leaves_bind leaves_basic leaves_for apply_tenant_object_leaves [OF assms])

lemma reconcile_cluster_parts_leave:
  assumes "owners_only sch"
  shows "k \<noteq> KGroup \<Longrightarrow> leaves k (reconcileLocalAdminGroup lb c sch po nsSpec labels)"
    "k \<noteq> KEgressIP \<Longrightarrow> leaves k (reconcileEgressIP lb c sch po nsSpec n labels)"
    "k \<noteq> KAppProject \<Longrightarrow> leaves k (reconcileArgoCDProjects c sch po nsSpec n labels)"
proof -
  show "k \<noteq> KGroup \<Longrightarrow> leaves k (reconcileLocalAdminGroup lb c sch po nsSpec labels)"
    unfolding reconcileLocalAdminGroup_def Let_def
    by (rule leaves_bind [OF leaves_basic(4)])
      (auto intro!: leaves_basic leaves_write_owned [OF assms] split: sum.split option.split)
  show "k \<noteq> KEgressIP \<Longrightarrow> leaves k (reconcileEgressIP lb c sch po nsSpec n labels)"
    unfolding reconcileEgressIP_def Let_def
    by (auto intro!: leaves_bind leaves_basic leaves_write_owned [OF assms] split: sum.split option.split)
  have "k \<noteq> KAppProject \<Longrightarrow> leaves k (reconcileAppProject c sch po p n a labels)" for p a
    unfolding reconcileAppProject_def Let_def
    by (rule leaves_bind [OF leaves_basic(4)])
      (auto intro!: leaves_basic leaves_write_owned [OF assms] simp: kind_of_def split: sum.split)
  then show "k \<noteq> KAppProject \<Longrightarrow> leaves k (reconcileArgoCDProjects c sch po nsSpec n labels)"
    unfolding reconcileArgoCDProjects_def Let_def by (auto intro!: leaves_basic leaves_for)
qed

lemma leaves_bind_returns:
  "leaves k m \<Longrightarrow> returns m P \<Longrightarrow> (\<And>x. P x \<Longrightarrow> leaves k (f x)) \<Longrightarrow> leaves k (bindE m f)"
  unfolding leaves_def returns_def by (intro allI impI, drule Ok_bind) (metis (no_types, lifting))

lemma leaves_delete:
  "kind_of obj \<noteq> k \<Longrightarrow> kind_of obj \<noteq> KNamespace \<Longrightarrow> leaves k (ignoreNotFound (cl_Delete c obj))"
  unfolding leaves_def
proof (intro allI impI ext)
  fix s x s' key
  assume k: "kind_of obj \<noteq> k" "kind_of obj \<noteq> KNamespace" and run: "ignoreNotFound (cl_Delete c obj) s = (Ok x, s')"
  obtain r s1 where r: "cl_Delete c obj s = (r, s1)" by fastforce
  show "view s' k key = view s k key"
  proof (cases r)
    case (Ok u)
    with run r have "s' = s1" by (simp add: ignoreNotFound_def eff_run)
    moreover have "view s1 k key = view s k key \<or> (k, key) \<in> delete_scope obj"
      using delete_ok [OF r [unfolded Ok]] unfolding deletes_def by blast
    ultimately show ?thesis using k by (simp add: delete_scope_def)
  next
    case (Err e)
    with run r have "s' = s1" "IsNotFound e" by (auto simp: ignoreNotFound_def eff_run split: if_splits)
    with delete_missing [OF r [unfolded Err]] show ?thesis by simp
  qed (use run r in \<open>simp add: ignoreNotFound_def eff_run\<close>)
qed

lemma leaves_get_delete:
  assumes "k' \<noteq> k" "k' \<noteq> KNamespace"
  shows "leaves k (bindE (tryE (cl_Get c k' key)) (\<lambda>r. case r of
       Inl err \<Rightarrow> if b err then retE () else failE err | Inr obj \<Rightarrow> deleteIfManaged c obj po))"
  by (rule leaves_bind_returns [OF leaves_basic(4) returns_try [OF got]])
    (use assms in \<open>auto simp: deleteIfManaged_def intro!: leaves_delete leaves_basic split: sum.split\<close>)

lemma prune_parts_leave:
  "k \<noteq> KRoleBinding \<Longrightarrow> leaves k (deleteManagedRoleBinding c po nsSpec n)"
  "k \<noteq> KLimitRange \<Longrightarrow> leaves k (deleteManagedLimitRange c po n)"
  "k \<noteq> KEgressIP \<Longrightarrow> leaves k (deleteManagedEgressIP c po n)"
  "k \<noteq> KGroup \<Longrightarrow> leaves k (deleteManagedGroup c po nsSpec)"
  unfolding deleteManagedRoleBinding_def deleteManagedLimitRange_def deleteManagedEgressIP_def deleteManagedGroup_def
  by (rule leaves_get_delete; simp)+

lemma list_store_leaves: "leaves k (cl_List c k' opts)" "leaves k (tryE (cl_List c k' opts))"
  by (auto simp: leaves_def eff_run split: prod.splits result.splits dest: list_store)

lemma prune_lists_leave:
  "k \<noteq> KNetworkPolicy \<Longrightarrow> leaves k (pruneManagedNetworkPolicies c po n keep)"
  "k \<noteq> KAppProject \<Longrightarrow> leaves k (pruneAppProjectsForNamespace c po nsSpec n)"
proof -
  assume "k \<noteq> KNetworkPolicy"
  then show "leaves k (pruneManagedNetworkPolicies c po n keep)"
    unfolding pruneManagedNetworkPolicies_def
    by (intro leaves_bind_returns [OF list_store_leaves(1) listed] leaves_for)
      (auto intro!: leaves_basic leaves_delete)
next
  assume "k \<noteq> KAppProject"
  then show "leaves k (pruneAppProjectsForNamespace c po nsSpec n)"
    unfolding pruneAppProjectsForNamespace_def deleteAppProjectsForNamespace_def
    by (intro leaves_bind_returns [OF list_store_leaves(2) returns_try [OF listed]])
      (auto intro!: leaves_basic leaves_delete leaves_for split: sum.split)
qed

section \<open>The ResourceQuota of an entry\<close>

lemma ensure_owner_simps:
  assumes "owners_only sch" "ensureTenantNamespaceOwnerRef sch t a = Ok b"
  shows "ko_labels b = ko_labels a" "ko_payload b = ko_payload a" "key_of b = key_of a" "kind_of b = kind_of a"
  using same_but_owners_simps [OF ensure_owner_same(1) [OF assms]] by simp_all

lemma apply_tenant_object_stores:
  assumes o: "owners_only sch" and run: "apply_tenant_object c sch t (ko_labels desired) desired s = (Ok u, s')"
  shows "\<exists>x. view s' (kind_of desired) (key_of desired) = Some x \<and> ko_labels desired \<subseteq>\<^sub>m ko_labels x \<and>
    (kind_of desired = KResourceQuota \<longrightarrow> ko_payload x = ko_payload desired)"
proof -
  let ?k = "kind_of desired" and ?key = "key_of desired"
  obtain r s1 where r: "cl_Get c ?k ?key s = (r, s1)" by fastforce
  note v = get_store [OF r]
  show ?thesis
  proof (cases r)
    case (Ok current)
    then have cur: "view s1 ?k ?key = Some current" using get_ok r v by simp
    let ?new = "set_payload (ko_payload desired) (set_labels (mergeStringMaps (ko_labels current) (ko_labels desired)) current)"
    have "kind_of ?new = ?k" by (simp add: kind_of_def)
    moreover obtain obj x where obj: "ensureTenantNamespaceOwnerRef sch t ?new = Ok obj"
      and x: "cl_Patch c current obj s1 = (Ok x, s')"
      using run r Ok by (auto simp: apply_tenant_object_def eff_run split: result.splits prod.splits)
    moreover note e = ensure_owner_simps [OF o obj]
    moreover have "kind_of current = ?k \<and> key_of current = ?key" using cur typed by blast
    ultimately have "view s' ?k ?key = Some x \<and> ko_labels ?new \<subseteq>\<^sub>m ko_labels x \<and>
        (?k = KResourceQuota \<longrightarrow> ko_payload x = ko_payload desired)"
      using patch_ok [OF x] cur by simp
    moreover have "ko_labels desired \<subseteq>\<^sub>m ko_labels ?new" by (simp add: mergeStringMaps_def)
    ultimately show ?thesis using map_le_trans by blast
  next
    case (Err err)
    then obtain obj x where obj: "ensureTenantNamespaceOwnerRef sch t desired = Ok obj"
      and x: "cl_Create c obj s1 = (Ok x, s')"
      using run r by (auto simp: apply_tenant_object_def eff_run split: result.splits prod.splits if_splits)
    then show ?thesis using create_ok [OF x] ensure_owner_simps [OF o obj] by auto
  qed (use run r in \<open>simp add: apply_tenant_object_def eff_run\<close>)
qed

lemma ReconcileNamespace_quota:
  assumes o: "owners_only sch" and run: "ReconcileNamespace lb c sch po nsSpec s = (Ok u, s')"
    and res: "ResolveNamespaceSpec lb c nsSpec s = (Ok resolved, s1)"
    and q: "ns_ResourceQuotas resolved = Some q" "IsEnabled (rq_Enabled q)"
  shows "\<exists>x hard. view s' KResourceQuota (SanitizeName (ns_Name nsSpec), SanitizeName (ns_Name nsSpec) @ ''-quota'') = Some x \<and>
    owned po x \<and> buildResourceQuotaHard (lb_ParseQuantity lb) q = Ok hard \<and> ko_payload x = PResourceQuota hard"
  using run
proof (rule ReconcileNamespace_steps)
  let ?n = "SanitizeName (ns_Name nsSpec)" and ?l = "ManagedLabels po nsSpec"
  fix resolved' tenantNS s1' s2 s3 s4 s5 s6 s7 s8 s9
  assume r: "ResolveNamespaceSpec lb c nsSpec s = (Ok resolved', s1')"
    and quota: "on_block rq_Enabled IsEnabled (ns_ResourceQuotas resolved') (\<lambda>q. wrapE ''resource quota: ''
       (reconcileResourceQuota lb c sch (Some tenantNS) q ?n ?l)) s2 = (Ok (), s3)"
    and rest:
    "on_block lr_Enabled IsEnabled (ns_LimitRanges resolved') (\<lambda>l. wrapE ''limit range: ''
       (reconcileLimitRange lb c sch (Some tenantNS) l ?n ?l)) s3 = (Ok (), s4)"
    "reconcileDefaultNetworkPolicies c sch (Some tenantNS) nsSpec ?n ?l s4 = (Ok (), s5)"
    "reconcileCustomNetworkPolicies c sch (Some tenantNS) nsSpec ?n ?l s5 = (Ok (), s6)"
    "on_block lag_Enabled IsOptInEnabled (ns_LocalAdminGroup nsSpec) (\<lambda>_.
       thenE (wrapE ''local admin group: '' (reconcileLocalAdminGroup lb c sch po nsSpec ?l))
         (wrapE ''local admin role binding: '' (reconcileLocalAdminRoleBinding c sch (Some tenantNS) nsSpec ?n ?l))) s6 = (Ok (), s7)"
    "on_block eip_Enabled IsOptInEnabled (ns_EgressIPs nsSpec) (\<lambda>_. wrapE ''egress IP: ''
       (reconcileEgressIP lb c sch po nsSpec ?n ?l)) s7 = (Ok (), s8)"
    "reconcileArgoCDProjects c sch po nsSpec ?n ?l s8 = (Ok (), s9)"
    "PruneNamespaceResources c po nsSpec resolved' s9 = (Ok (), s')"
  from r res have r': "resolved' = resolved" by simp
  from quota q r' have "reconcileResourceQuota lb c sch (Some tenantNS) q ?n ?l s2 = (Ok (), s3)"
    by (auto simp: on_block_def whenE_def dest: Ok_wrap)
  then obtain hard where hard: "buildResourceQuotaHard (lb_ParseQuantity lb) q = Ok hard"
    and ap: "apply_tenant_object c sch (Some tenantNS) ?l (new_object ?n (?n @ ''-quota'') ?l (PResourceQuota hard)) s2 = (Ok (), s3)"
    by (auto simp: reconcileResourceQuota_def run_resE dest!: Ok_bind)
  from ap apply_tenant_object_stores [OF o, where desired = "new_object ?n (?n @ ''-quota'') ?l (PResourceQuota hard)"]
  obtain x where x: "view s3 KResourceQuota (?n, ?n @ ''-quota'') = Some x" "?l \<subseteq>\<^sub>m ko_labels x" "ko_payload x = PResourceQuota hard"
    by fastforce
  have "leaves KResourceQuota (PruneNamespaceResources c po nsSpec resolved)"
    unfolding PruneNamespaceResources_def Let_def
    using q by (intro leaves_then leaves_when leaves_wrap prune_parts_leave prune_lists_leave)
      (simp_all add: block_disabled_def)
  then have "view s' KResourceQuota = view s9 KResourceQuota" using rest(7) r' by (auto dest: leavesD)
  also have "\<dots> = view s8 KResourceQuota"
    by (rule leavesD [OF reconcile_cluster_parts_leave(3) [OF o] rest(6)]) simp
  also have "\<dots> = view s7 KResourceQuota"
    by (rule leavesD [where m = "on_block a b x f" for a b x f, OF _ rest(5)]) (auto intro!: leaves_block leaves_wrap reconcile_cluster_parts_leave [OF o])
  also have "\<dots> = view s6 KResourceQuota"
    by (rule leavesD [where m = "on_block a b x f" for a b x f, OF _ rest(4)]) (auto intro!: leaves_block leaves_then leaves_wrap
        reconcile_cluster_parts_leave [OF o] reconcile_parts_leave [OF o])
  also have "\<dots> = view s5 KResourceQuota"
    by (rule leavesD [OF reconcile_parts_leave(3) [OF o] rest(3)]) simp
  also have "\<dots> = view s4 KResourceQuota"
    by (rule leavesD [OF reconcile_parts_leave(2) [OF o] rest(2)]) simp
  also have "\<dots> = view s3 KResourceQuota"
    by (rule leavesD [where m = "on_block a b x f" for a b x f, OF _ rest(1)]) (auto intro!: leaves_block leaves_wrap reconcile_parts_leave [OF o])
  finally have "view s' KResourceQuota (?n, ?n @ ''-quota'') = Some x" using x(1) by simp
  moreover have "owned po x"
    using x(2) by (auto simp: owned_def ManagedLabels_def map_le_def)
  ultimately show ?thesis using hard x(3) by blast
qed

end

end
