(* ===== verification/Settle.thy ===== *)
theory Settle
  imports Store_Reconcile
begin

text \<open>
  A successful reconciliation of an entry is a fixed point: run again on the store that it
  left, \<open>ReconcileNamespace\<close> changes nothing.  The contract of the API server is extended by
  what makes that possible: it keeps the metadata it is given, and a patch that asks for what
  is stored already changes nothing.

  A \<open>want\<close> is one object that the run ensures.  \<open>applies ws m\<close> is the calculus of the writing
  steps: a run of \<open>m\<close> that succeeds leaves every want of \<open>ws\<close> satisfied and touches nothing
  else, and a run from a store that satisfies them changes nothing, whatever its outcome.
  \<open>trims\<close> is what pruning may do to a store.
\<close>

section \<open>The contract\<close>

text \<open>
  The object \<open>x\<close> that the server stored for \<open>obj\<close>: it may add labels and annotations, and
  fill in defaults of the specification (\<open>stored_as p x\<close>: \<open>x\<close> is what it makes of \<open>p\<close>).
\<close>

definition kept_by :: "(payload \<Rightarrow> kobj \<Rightarrow> bool) \<Rightarrow> kobj \<Rightarrow> kobj \<Rightarrow> bool" where
  "kept_by stored_as obj x \<longleftrightarrow> ko_labels obj \<subseteq>\<^sub>m ko_labels x \<and>
     om_annotations (ko_meta obj) \<subseteq>\<^sub>m om_annotations (ko_meta x) \<and>
     om_ownerRefs (ko_meta x) = om_ownerRefs (ko_meta obj) \<and> stored_as (ko_payload obj) x"

text \<open>What goes with an object: with a Namespace, at most the objects inside it.\<close>

definition tenant_scope :: "kobj \<Rightarrow> (kind \<times> objkey) set" where
  "tenant_scope obj = {(k, key). k = kind_of obj \<and> key = key_of obj \<or> kind_of obj = KNamespace \<and> fst key = snd (key_of obj)}"

lemma tenant_scope_own: "{(kind_of obj, key_of obj)} \<subseteq> tenant_scope obj"
  by (auto simp: tenant_scope_def)

locale settling_client = store_client c view for c :: "'s client" and view +
  fixes stored_as :: "payload \<Rightarrow> kobj \<Rightarrow> bool"
  assumes create_kept: "cl_Create c obj s = (Ok x, s') \<Longrightarrow> kept_by stored_as obj x"
    and patch_kept: "cl_Patch c base obj s = (Ok x, s') \<Longrightarrow> view s (kind_of base) (key_of base) = Some base \<Longrightarrow>
      kind_of obj = kind_of base \<Longrightarrow> key_of obj = key_of base \<Longrightarrow> kept_by stored_as obj x"
    and patch_same: "cl_Patch c x (set_payload p x) s = (r, s') \<Longrightarrow> view s (kind_of x) (key_of x) = Some x \<Longrightarrow>
      kind_of_payload p = kind_of x \<Longrightarrow> stored_as p x \<Longrightarrow> view s' = view s"
    and delete_within: "cl_Delete c obj s = (ru, s') \<Longrightarrow> deletes (tenant_scope obj) (view s) (view s')"
    and delete_again: "cl_Delete c obj s = (ru, s') \<Longrightarrow> view s (kind_of obj) (key_of obj) = Some x \<Longrightarrow> is_deleting x \<Longrightarrow>
      deletes {(kind_of obj, key_of obj)} (view s) (view s')"

text \<open>
  An owner helper that has set the reference finds it again: run on an object with the same
  references it changes nothing.
\<close>

definition settled_owner :: "(kobj \<Rightarrow> kobj result) \<Rightarrow> bool" where
  "settled_owner own \<longleftrightarrow> (\<forall>a b. own a = Ok b \<longrightarrow> same_but_owners a b \<and>
     (\<forall>x. om_ownerRefs (ko_meta x) = om_ownerRefs (ko_meta b) \<and> kind_of x = kind_of b \<and> key_of x = key_of b \<longrightarrow> own x = Ok x))"

definition settled_scheme :: "scheme option \<Rightarrow> bool" where
  "settled_scheme sch \<longleftrightarrow> (\<forall>sc. sch = Some sc \<longrightarrow> (\<forall>ow. settled_owner (sch_SetControllerReference sc ow) \<and>
     settled_owner (sch_SetOwnerReference sc ow) \<and>
     (\<forall>a b. om_ownerRefs (ko_meta a) = om_ownerRefs (ko_meta b) \<longrightarrow> sch_IsControlledBy sc a ow = sch_IsControlledBy sc b ow)))"

lemma settled_owner_ok: "settled_owner Ok"
  by (simp add: settled_owner_def)

lemma settled_owner_unless:
  assumes "settled_owner own" and "\<And>a b. om_ownerRefs (ko_meta a) = om_ownerRefs (ko_meta b) \<Longrightarrow> q a = q b"
  shows "settled_owner (\<lambda>x. if q x then Ok x else own x)"
proof -
  from assms(1) have own: "own a = Ok b \<Longrightarrow> same_but_owners a b"
    "own a = Ok b \<Longrightarrow> om_ownerRefs (ko_meta x) = om_ownerRefs (ko_meta b) \<Longrightarrow> kind_of x = kind_of b \<Longrightarrow>
      key_of x = key_of b \<Longrightarrow> own x = Ok x" for a b x
    by (auto simp: settled_owner_def)
  show ?thesis
    unfolding settled_owner_def
  proof (intro allI impI conjI)
    fix a b assume ab: "(if q a then Ok a else own a) = Ok b"
    then show "same_but_owners a b" using own(1) by (cases "q a") simp_all
    fix x assume x: "om_ownerRefs (ko_meta x) = om_ownerRefs (ko_meta b) \<and> kind_of x = kind_of b \<and> key_of x = key_of b"
    then have "q x = q b" using assms(2) by blast
    then show "(if q x then Ok x else own x) = Ok x"
      using ab x own(2) [of a b x] by (cases "q a") simp_all
  qed
qed

lemma settled_owners:
  assumes "settled_scheme sch"
  shows "settled_owner (ensureProjectOnboardingControllerRef sch p)" "settled_owner (ensureTenantNamespaceOwnerRef sch t)"
    "settled_owner (set_controller sch po)"
proof -
  have laws: "settled_owner (sch_SetControllerReference sc ow)" "settled_owner (sch_SetOwnerReference sc ow)"
    "om_ownerRefs (ko_meta a) = om_ownerRefs (ko_meta b) \<Longrightarrow> sch_IsControlledBy sc a ow = sch_IsControlledBy sc b ow"
    if "sch = Some sc" for sc ow a b
    using assms that unfolding settled_scheme_def by blast+
  have law: "settled_owner (\<lambda>x. if sch_IsControlledBy sc x ow then Ok x else sch_SetControllerReference sc ow x)"
    "settled_owner (\<lambda>x. if sch_IsControlledBy sc x ow then Ok x else sch_SetOwnerReference sc ow x)" if "sch = Some sc" for sc ow
    by (rule settled_owner_unless, rule laws [OF that], erule laws(3) [OF that])+
  show "settled_owner (ensureProjectOnboardingControllerRef sch p)"
  proof (cases "sch = None \<or> p = None")
    case True
    then have "ensureProjectOnboardingControllerRef sch p = Ok"
      by (auto simp: fun_eq_iff ensureProjectOnboardingControllerRef_def split: option.split)
    then show ?thesis by (simp add: settled_owner_ok)
  next
    case False
    then obtain sc p' where sp: "sch = Some sc" "p = Some p'" by (cases sch; cases p) auto
    then have "ensureProjectOnboardingControllerRef sch p =
        (\<lambda>x. if sch_IsControlledBy sc x (po_meta p') then Ok x else sch_SetControllerReference sc (po_meta p') x)"
      by (simp add: fun_eq_iff ensureProjectOnboardingControllerRef_def)
    with law(1) [OF sp(1)] show ?thesis by simp
  qed
  show "settled_owner (ensureTenantNamespaceOwnerRef sch t)"
  proof (cases "sch = None \<or> t = None")
    case True
    then have "ensureTenantNamespaceOwnerRef sch t = Ok"
      by (auto simp: fun_eq_iff ensureTenantNamespaceOwnerRef_def split: option.split)
    then show ?thesis by (simp add: settled_owner_ok)
  next
    case False
    then obtain sc t' where st: "sch = Some sc" "t = Some t'" by (cases sch; cases t) auto
    then have "ensureTenantNamespaceOwnerRef sch t =
        (\<lambda>x. if sch_IsControlledBy sc x (ko_meta t') then Ok x else sch_SetOwnerReference sc (ko_meta t') x)"
      by (simp add: fun_eq_iff ensureTenantNamespaceOwnerRef_def)
    with law(2) [OF st(1)] show ?thesis by simp
  qed
  have n: "settled_owner (\<lambda>x. Panic m)" for m by (simp add: settled_owner_def)
  show "settled_owner (set_controller sch po)"
  proof (cases sch)
    case None
    then have "set_controller sch po = (\<lambda>x. Panic ''nil pointer dereference'')"
      by (simp add: fun_eq_iff set_controller_def)
    with n show ?thesis by simp
  next
    case (Some sc)
    then have "set_controller sch po = sch_SetControllerReference sc (po_meta po)"
      by (simp add: fun_eq_iff set_controller_def)
    with Some assms show ?thesis by (simp add: settled_scheme_def)
  qed
qed

section \<open>Wants\<close>

record want =
  wn_kind :: kind
  wn_key :: objkey
  wn_payload :: payload
  wn_labels :: str_map
  wn_annotations :: str_map
  wn_own :: "kobj \<Rightarrow> kobj result"

definition proper_want :: "want \<Rightarrow> bool" where
  "proper_want w \<longleftrightarrow> kind_of_payload (wn_payload w) = wn_kind w \<and> settled_owner (wn_own w)"

abbreviation at :: "want \<Rightarrow> kind \<times> objkey" where
  "at w \<equiv> (wn_kind w, wn_key w)"

definition merge_meta :: "str_map \<Rightarrow> str_map \<Rightarrow> kobj \<Rightarrow> kobj" where
  "merge_meta l a x = x\<lparr>ko_meta := (ko_meta x)\<lparr>om_labels := ko_labels x ++ l,
     om_annotations := om_annotations (ko_meta x) ++ a\<rparr>\<rparr>"

lemma merge_meta_simps [simp]:
  "kind_of (merge_meta l a x) = kind_of x" "key_of (merge_meta l a x) = key_of x"
  "ko_payload (merge_meta l a x) = ko_payload x" "ko_labels (merge_meta l a x) = ko_labels x ++ l"
  "om_annotations (ko_meta (merge_meta l a x)) = om_annotations (ko_meta x) ++ a"
  "om_ownerRefs (ko_meta (merge_meta l a x)) = om_ownerRefs (ko_meta x)"
  by (simp_all add: merge_meta_def kind_of_def key_of_def)

lemma map_add_submap: "m \<subseteq>\<^sub>m n \<Longrightarrow> n ++ m = n"
  by (rule ext) (auto simp: map_add_def map_le_def dom_def split: option.split)

lemma merge_meta_same:
  "l \<subseteq>\<^sub>m ko_labels x \<Longrightarrow> a \<subseteq>\<^sub>m om_annotations (ko_meta x) \<Longrightarrow> merge_meta l a x = x"
  by (simp add: merge_meta_def map_add_submap)

lemma merge_meta_as:
  "set_labels (mergeStringMaps (ko_labels x) l) x = merge_meta l Map.empty x"
  "write_labels lb l x = merge_meta (if lb_LabelsAlias lb then l else Map.empty) Map.empty x"
  by (simp_all add: merge_meta_def set_labels_def mergeStringMaps_def write_labels_def)

lemma same_but_owners_annotations:
  "same_but_owners a b \<Longrightarrow> om_annotations (ko_meta b) = om_annotations (ko_meta a)"
  unfolding same_but_owners_def by (metis objmeta.ext_inject objmeta.surjective objmeta.update_convs(6))

text \<open>Nothing changes but objects that were on their way out.\<close>

definition quiet :: "view \<Rightarrow> view \<Rightarrow> bool" where
  "quiet v v' \<longleftrightarrow> (\<forall>k key. v' k key = v k key \<or>
     (\<exists>x. v k key = Some x \<and> is_deleting x) \<and> (\<forall>y. v' k key = Some y \<longrightarrow> is_deleting y))"

text \<open>Objects of \<open>T\<close>, and any in the Namespaces \<open>N\<close>, may go or be marked, the rest stays.\<close>

definition loose :: "(kobj \<Rightarrow> bool) \<Rightarrow> string set \<Rightarrow> view \<Rightarrow> objkey \<Rightarrow> kind \<Rightarrow> bool" where
  "loose T N v key k \<longleftrightarrow> (\<exists>x. v k key = Some x \<and> T x) \<or> fst key \<in> N"

definition trims :: "(kobj \<Rightarrow> bool) \<Rightarrow> string set \<Rightarrow> view \<Rightarrow> view \<Rightarrow> bool" where
  "trims T N v v' \<longleftrightarrow> (\<forall>k key. v' k key = v k key \<or>
     loose T N v key k \<and> (\<forall>y. v' k key = Some y \<longrightarrow> is_deleting y))"

lemma trims_refl [simp]: "trims T N v v"
  by (simp add: trims_def)

lemma trims_trans: "trims T N v v' \<Longrightarrow> trims T N v' v'' \<Longrightarrow> trims T N v v''"
  unfolding trims_def loose_def by metis

lemma trims_mono: "trims T N v v' \<Longrightarrow> (\<And>x. T x \<Longrightarrow> U x) \<Longrightarrow> N \<subseteq> M \<Longrightarrow> trims U M v v'"
  unfolding trims_def loose_def by (meson subsetD)

lemma trims_quiet: "trims T {} v v' \<Longrightarrow> (\<And>k key x. v k key = Some x \<Longrightarrow> T x \<Longrightarrow> is_deleting x) \<Longrightarrow> quiet v v'"
  unfolding trims_def loose_def quiet_def by (metis empty_iff)

lemma quiet_live: "quiet v v' \<Longrightarrow> (\<And>k key x. v k key = Some x \<Longrightarrow> \<not> is_deleting x) \<Longrightarrow> v' = v"
  unfolding quiet_def by (intro ext) metis

context settling_client
begin

definition holds :: "want \<Rightarrow> view \<Rightarrow> bool" where
  "holds w v \<longleftrightarrow> (\<exists>x. v (wn_kind w) (wn_key w) = Some x \<and> wn_labels w \<subseteq>\<^sub>m ko_labels x \<and>
     wn_annotations w \<subseteq>\<^sub>m om_annotations (ko_meta x) \<and> stored_as (wn_payload w) x \<and>
     wn_own w (set_payload (wn_payload w) x) = Ok (set_payload (wn_payload w) x))"

definition applies :: "want set \<Rightarrow> ('s, 'a) eff \<Rightarrow> bool" where
  "applies ws m \<longleftrightarrow> (\<forall>s r s'. m s = (r, s') \<longrightarrow>
     ((\<forall>w \<in> ws. holds w (view s)) \<longrightarrow> view s' = view s) \<and>
     (\<forall>x. r = Ok x \<longrightarrow> (\<forall>w \<in> ws. holds w (view s')) \<and>
        (\<forall>k key. (k, key) \<notin> at ` ws \<longrightarrow> view s' k key = view s k key)))"

lemma appliesD:
  assumes "applies ws m" "m s = (r, s')"
  shows "\<forall>w \<in> ws. holds w (view s) \<Longrightarrow> view s' = view s"
    "r = Ok x \<Longrightarrow> w \<in> ws \<Longrightarrow> holds w (view s')"
    "r = Ok x \<Longrightarrow> (k, key) \<notin> at ` ws \<Longrightarrow> view s' k key = view s k key"
  using assms unfolding applies_def by blast+

lemma holds_frame: "v' (wn_kind w) (wn_key w) = v (wn_kind w) (wn_key w) \<Longrightarrow> holds w v' = holds w v"
  by (simp add: holds_def)

section \<open>One object\<close>

lemma want_stored:
  assumes w: "proper_want w" and a: "wn_own w a = Ok b" and kept: "kept_by stored_as b x"
    and v: "v (wn_kind w) (wn_key w) = Some x" and x: "kind_of x = wn_kind w" "key_of x = wn_key w"
    and obj: "ko_payload a = wn_payload w" "key_of a = wn_key w" "wn_labels w \<subseteq>\<^sub>m ko_labels a"
      "wn_annotations w \<subseteq>\<^sub>m om_annotations (ko_meta a)"
  shows "holds w v"
proof -
  from w a have ab: "same_but_owners a b" by (auto simp: proper_want_def settled_owner_def)
  note b = same_but_owners_simps [OF ab] same_but_owners_annotations [OF ab]
  have "wn_labels w \<subseteq>\<^sub>m ko_labels x" "wn_annotations w \<subseteq>\<^sub>m om_annotations (ko_meta x)"
    using kept obj b unfolding kept_by_def by (metis map_le_trans)+
  moreover have "stored_as (wn_payload w) x" using kept b obj by (simp add: kept_by_def)
  moreover have "wn_own w (set_payload (wn_payload w) x) = Ok (set_payload (wn_payload w) x)"
  proof -
    have "kind_of (set_payload (wn_payload w) x) = kind_of b" using b obj by (simp add: kind_of_def)
    moreover have "key_of (set_payload (wn_payload w) x) = key_of b" using b obj x by simp
    moreover have "om_ownerRefs (ko_meta (set_payload (wn_payload w) x)) = om_ownerRefs (ko_meta b)"
      using kept by (simp add: kept_by_def)
    ultimately show ?thesis using w a unfolding proper_want_def settled_owner_def by blast
  qed
  ultimately show ?thesis using v by (auto simp: holds_def)
qed

text \<open>
  The pattern of every write: look the object up, create it if it is not there, otherwise
  merge the metadata, replace the specification and patch.
\<close>

lemma upsert_applies:
  assumes w: "proper_want w"
    and found: "\<And>cur. kind_of cur = wn_kind w \<Longrightarrow> f (Inr cur) =
      bindE (resE (wn_own w (set_payload (wn_payload w) (merge_meta (wn_labels w) (wn_annotations w) cur))))
        (\<lambda>obj. bindE (cl_Patch c cur obj) (\<lambda>x. retE (g x)))"
    and missing: "\<And>e. (\<exists>e'. f (Inl e) = failE e') \<or> IsNotFound e \<and>
      f (Inl e) = bindE (resE (wn_own w fresh)) (\<lambda>obj. bindE (cl_Create c obj) (\<lambda>x. retE (g x)))"
    and fresh: "ko_payload fresh = wn_payload w" "key_of fresh = wn_key w" "wn_labels w \<subseteq>\<^sub>m ko_labels fresh"
      "wn_annotations w \<subseteq>\<^sub>m om_annotations (ko_meta fresh)"
  shows "applies {w} (bindE (tryE (cl_Get c (wn_kind w) (wn_key w))) f)"
    and "bindE (tryE (cl_Get c (wn_kind w) (wn_key w))) f s = (Ok y, s') \<Longrightarrow>
      \<exists>x. y = g x \<and> view s' (wn_kind w) (wn_key w) = Some x"
proof -
  let ?m = "bindE (tryE (cl_Get c (wn_kind w) (wn_key w))) f"
  have own: "same_but_owners a b" if "wn_own w a = Ok b" for a b
    using w that by (auto simp: proper_want_def settled_owner_def)
  have k: "kind_of_payload (wn_payload w) = wn_kind w" using w by (simp add: proper_want_def)
  have A: "view s' = view s" if run: "?m s = (r, s')" and h: "holds w (view s)" for s r s'
  proof -
    obtain r1 s1 where get: "cl_Get c (wn_kind w) (wn_key w) s = (r1, s1)" by fastforce
    note v = get_store [OF get]
    from h obtain x where x: "view s (wn_kind w) (wn_key w) = Some x" "merge_meta (wn_labels w) (wn_annotations w) x = x"
      "stored_as (wn_payload w) x" "wn_own w (set_payload (wn_payload w) x) = Ok (set_payload (wn_payload w) x)"
      unfolding holds_def using merge_meta_same by blast
    note t = typed [OF x(1)]
    show ?thesis
    proof (cases r1)
      case (Ok cur)
      with get get_ok x(1) have cur: "cur = x" by fastforce
      have fx: "f (Inr x) = bindE (cl_Patch c x (set_payload (wn_payload w) x)) (\<lambda>x. retE (g x))"
        using found [of x] x t by (simp add: fun_eq_iff run_bindE run_resE)
      obtain r2 s2 where p: "cl_Patch c x (set_payload (wn_payload w) x) s1 = (r2, s2)" by fastforce
      have "view s2 = view s1" by (rule patch_same [OF p]) (use v x t k in simp_all)
      moreover have "s' = s2" using run get Ok cur fx p by (cases r2) (simp_all add: run_bindE run_tryE run_retE)
      ultimately show ?thesis using v by simp
    next
      case (Err e)
      with get get_missing x(1) have nf: "\<not> IsNotFound e" by fastforce
      with missing [of e] obtain e' where "f (Inl e) = failE e'" by blast
      with run get Err v show ?thesis by (simp add: eff_run)
    qed (use run get v in \<open>simp add: eff_run\<close>)
  qed
  have B: "(\<exists>x. y = g x \<and> view s' (wn_kind w) (wn_key w) = Some x) \<and> holds w (view s') \<and>
      (\<forall>k key. (k, key) \<noteq> at w \<longrightarrow> view s' k key = view s k key)"
    if run: "?m s = (Ok y, s')" for s y s'
  proof -
    obtain r1 s1 where get: "cl_Get c (wn_kind w) (wn_key w) s = (r1, s1)" by fastforce
    note v = get_store [OF get]
    show ?thesis
    proof (cases r1)
      case (Ok cur)
      then have cur: "view s1 (wn_kind w) (wn_key w) = Some cur" using get get_ok v by simp
      note t = typed [OF cur]
      let ?a = "set_payload (wn_payload w) (merge_meta (wn_labels w) (wn_annotations w) cur)"
      from run get Ok found [of cur] t have "bindE (resE (wn_own w ?a)) (\<lambda>obj. bindE (cl_Patch c cur obj) (\<lambda>x. retE (g x))) s1 = (Ok y, s')"
        by (simp add: run_bindE [of "tryE _"] run_tryE)
      then obtain b x where b: "wn_own w ?a = Ok b" and p: "cl_Patch c cur b s1 = (Ok x, s')" and y: "y = g x"
        by (auto simp: eff_run split: result.splits prod.splits)
      note e = same_but_owners_simps [OF own [OF b]]
      have bk: "kind_of b = kind_of cur" "key_of b = key_of cur" using e t k by (simp_all add: kind_of_def)
      have base: "view s1 (kind_of cur) (key_of cur) = Some cur" using cur t by simp
      note po = patch_ok [OF p base bk]
      then have x: "view s' (wn_kind w) (wn_key w) = Some x" using bk t by simp
      have "holds w (view s')"
        using want_stored [where v = "view s'", OF w b patch_kept [OF p base bk] x] typed [OF x] t by simp
      moreover have "view s' k key = view s k key" if "(k, key) \<noteq> at w" for k key
        using patch_frame [OF p] that bk t v by auto
      ultimately show ?thesis using x y by blast
    next
      case (Err e)
      have fe: "f (Inl e) s1 = (Ok y, s')" using run get Err by (simp add: run_bindE run_tryE)
      then have "\<nexists>e'. f (Inl e) = failE e'" by (auto simp: run_failE)
      with missing [of e] fe obtain b x where b: "wn_own w fresh = Ok b" and p: "cl_Create c b s1 = (Ok x, s')" and y: "y = g x"
        by (auto simp: eff_run split: result.splits prod.splits)
      note e = same_but_owners_simps [OF own [OF b]]
      have bk: "kind_of b = wn_kind w" "key_of b = wn_key w" using e fresh k by (simp_all add: kind_of_def)
      have x: "view s' (wn_kind w) (wn_key w) = Some x" using create_ok [OF p] bk by simp
      have "holds w (view s')"
        using want_stored [where v = "view s'", OF w b create_kept [OF p] x] typed [OF x] fresh by simp
      moreover have "view s' k key = view s k key" if "(k, key) \<noteq> at w" for k key
        using create_frame [OF p] that bk v by auto
      ultimately show ?thesis using x y by blast
    qed (use run get in \<open>simp add: eff_run\<close>)
  qed
  show "applies {w} ?m" unfolding applies_def using A B by (auto simp: image_def)
  show "?m s = (Ok y, s') \<Longrightarrow> \<exists>x. y = g x \<and> view s' (wn_kind w) (wn_key w) = Some x" using B by blast
qed

lemma upsert_at:
  assumes "proper_want w" and "at w = (k, key)"
    and "\<And>cur. kind_of cur = k \<Longrightarrow> f (Inr cur) =
      bindE (resE (wn_own w (set_payload (wn_payload w) (merge_meta (wn_labels w) (wn_annotations w) cur))))
        (\<lambda>obj. bindE (cl_Patch c cur obj) (\<lambda>x. retE (g x)))"
    and "\<And>e. (\<exists>e'. f (Inl e) = failE e') \<or> IsNotFound e \<and>
      f (Inl e) = bindE (resE (wn_own w fresh)) (\<lambda>obj. bindE (cl_Create c obj) (\<lambda>x. retE (g x)))"
    and "ko_payload fresh = wn_payload w" "key_of fresh = key" "wn_labels w \<subseteq>\<^sub>m ko_labels fresh"
      "wn_annotations w \<subseteq>\<^sub>m om_annotations (ko_meta fresh)"
  shows "applies {w} (bindE (tryE (cl_Get c k key)) f)"
    and "bindE (tryE (cl_Get c k key)) f s = (Ok y, s') \<Longrightarrow> \<exists>x. y = g x \<and> view s' k key = Some x"
proof -
  from assms(2) have k: "k = wn_kind w" "key = wn_key w" by simp_all
  show "applies {w} (bindE (tryE (cl_Get c k key)) f)"
    unfolding k by (rule upsert_applies(1) [OF assms(1,3-8) [unfolded k]])
  show "bindE (tryE (cl_Get c k key)) f s = (Ok y, s') \<Longrightarrow> \<exists>x. y = g x \<and> view s' k key = Some x"
    unfolding k by (rule upsert_applies(2) [OF assms(1,3-8) [unfolded k]])
qed

section \<open>Sequences\<close>

lemma applies_then:
  assumes m: "applies A m" and n: "applies B n" and d: "at ` A \<inter> at ` B = {}"
  shows "applies (A \<union> B) (thenE m n)"
  unfolding applies_def
proof (intro allI impI)
  fix s r s' assume run: "thenE m n s = (r, s')"
  obtain r1 s1 where r1: "m s = (r1, s1)" by fastforce
  note M = appliesD [OF m r1]
  show "((\<forall>w \<in> A \<union> B. holds w (view s)) \<longrightarrow> view s' = view s) \<and> (\<forall>x. r = Ok x \<longrightarrow>
     (\<forall>w \<in> A \<union> B. holds w (view s')) \<and> (\<forall>k key. (k, key) \<notin> at ` (A \<union> B) \<longrightarrow> view s' k key = view s k key))"
  proof (cases r1)
    case (Ok u)
    with run r1 have r: "n s1 = (r, s')" by (simp add: run_thenE)
    note N = appliesD [OF n r]
    have "holds w (view s')" if "r = Ok x" "w \<in> A" for x w
    proof -
      have "at w \<notin> at ` B" using d that(2) by blast
      from holds_frame [where v = "view s1" and v' = "view s'", OF N(3) [OF that(1) this]] M(2) [OF Ok that(2)] show ?thesis by simp
    qed
    moreover have "view s' = view s" if h: "\<forall>w \<in> A \<union> B. holds w (view s)"
    proof -
      have "view s1 = view s" using M(1) h by blast
      then show ?thesis using N(1) h by (metis UnCI)
    qed
    moreover have "view s' k key = view s k key" if "r = Ok x" "(k, key) \<notin> at ` (A \<union> B)" for x k key
      using M(3) [OF Ok] N(3) [OF that(1)] that(2) by (simp add: image_Un)
    moreover have "holds w (view s')" if "r = Ok x" "w \<in> B" for x w using N(2) that by blast
    ultimately show ?thesis by (intro conjI impI allI ballI; (elim UnE)?; blast)
  next
    case (Err e)
    with run r1 have "r = Err e" "s' = s1" by (simp_all add: run_thenE)
    with M(1) show ?thesis by simp
  next
    case (Panic p)
    with run r1 have "r = Panic p" "s' = s1" by (simp_all add: run_thenE)
    with M(1) show ?thesis by simp
  qed
qed

lemma applies_none: "(\<And>s r s'. m s = (r, s') \<Longrightarrow> view s' = view s) \<Longrightarrow> applies {} m"
  by (simp add: applies_def)

lemma applies_basic [simp]: "applies {} (retE x)" "applies {} (failE e)" "applies {} (resE r)"
  by (auto intro!: applies_none simp: eff_run)

lemma applies_fail: "applies ws (failE e)" "(\<And>x. r \<noteq> Ok x) \<Longrightarrow> applies ws (resE r)"
  by (auto simp: applies_def eff_run)

lemma applies_wrap: "applies ws m \<Longrightarrow> applies ws (wrapE ctx m)"
  unfolding applies_def
proof (intro allI impI, goal_cases)
  case (1 s r s')
  obtain r1 s1 where r1: "m s = (r1, s1)" by fastforce
  with 1(2) have "s1 = s' \<and> (\<forall>x. r = Ok x \<longrightarrow> r1 = Ok x)" by (cases r1) (auto simp: run_wrapE)
  with 1(1) r1 show ?case by blast
qed

lemma applies_res: "(\<And>x. r = Ok x \<Longrightarrow> applies ws (f x)) \<Longrightarrow> applies ws (bindE (resE r) f)"
  by (cases r) (auto simp: applies_def run_bindE run_resE)

lemma applies_for:
  assumes "\<And>x. x \<in> set xs \<Longrightarrow> applies {w x} (f x)" and "distinct (map (\<lambda>x. at (w x)) xs)"
  shows "applies (w ` set xs) (forE xs f)"
  using assms
proof (induction xs)
  case (Cons x xs)
  then have "applies ({w x} \<union> w ` set xs) (thenE (f x) (forE xs f))"
    by (intro applies_then) (auto simp: image_iff)
  then show ?case by (simp add: thenE_def)
qed simp

end

lemma forE_active: "forE xs (\<lambda>x. if \<not> P x then retE () else f x) = forE (filter P xs) f"
  unfolding forE_filter by (rule arg_cong [where f = "forE xs"]) auto

lemma applies_block_aux: "on_block enabled on x f = (case x of None \<Rightarrow> retE () | Some b \<Rightarrow> if on (enabled b) then f b else retE ())"
  by (simp add: on_block_def whenE_def split: option.split)

section \<open>The wants of an entry\<close>

definition tenant_want :: "scheme option \<Rightarrow> kobj \<Rightarrow> kobj \<Rightarrow> want" where
  "tenant_want sch t desired = \<lparr>wn_kind = kind_of desired, wn_key = key_of desired, wn_payload = ko_payload desired,
     wn_labels = ko_labels desired, wn_annotations = Map.empty, wn_own = ensureTenantNamespaceOwnerRef sch (Some t)\<rparr>"

definition namespace_want :: "scheme option \<Rightarrow> ProjectOnboarding \<Rightarrow> NamespaceSpec \<Rightarrow> string \<Rightarrow> str_map \<Rightarrow> want" where
  "namespace_want sch po nsSpec n l = \<lparr>wn_kind = KNamespace, wn_key = ([], n), wn_payload = PNamespace,
     wn_labels = desired_namespace_labels po nsSpec n l, wn_annotations = ns_Annotations nsSpec,
     wn_own = ensureProjectOnboardingControllerRef sch (Some po)\<rparr>"

definition cluster_want :: "libs \<Rightarrow> scheme option \<Rightarrow> ProjectOnboarding \<Rightarrow> string \<Rightarrow> str_map \<Rightarrow> payload \<Rightarrow> want" where
  "cluster_want lb sch po nm l p = \<lparr>wn_kind = kind_of_payload p, wn_key = ([], nm), wn_payload = p,
     wn_labels = (if lb_LabelsAlias lb then l else Map.empty), wn_annotations = Map.empty,
     wn_own = ensureProjectOnboardingControllerRef sch (Some po)\<rparr>"

definition project_want :: "scheme option \<Rightarrow> ProjectOnboarding \<Rightarrow> string \<Rightarrow> string \<Rightarrow> str_map \<Rightarrow> ArgoCDProjectSpec \<Rightarrow> want" where
  "project_want sch po n a l p = \<lparr>wn_kind = KAppProject, wn_key = (a, SanitizeName (ac_Name p)),
     wn_payload = PAppProject (app_project_of po p n), wn_labels = project_labels po n l, wn_annotations = Map.empty,
     wn_own = set_controller sch po\<rparr>"

lemma want_names [simp]:
  "wn_kind (tenant_want sch t desired) = kind_of desired" "wn_key (tenant_want sch t desired) = key_of desired"
  "wn_kind (namespace_want sch po nsSpec n l) = KNamespace" "wn_key (namespace_want sch po nsSpec n l) = ([], n)"
  "wn_kind (cluster_want lb sch po nm l p) = kind_of_payload p" "wn_key (cluster_want lb sch po nm l p) = ([], nm)"
  "wn_kind (project_want sch po n a l pr) = KAppProject"
  "wn_key (project_want sch po n a l pr) = (a, SanitizeName (ac_Name pr))"
  by (simp_all add: tenant_want_def namespace_want_def cluster_want_def project_want_def)

lemma at_wants:
  "at (tenant_want sch t desired) = (kind_of desired, key_of desired)"
  "at (namespace_want sch po nsSpec n l) = (KNamespace, [], n)"
  "at (cluster_want lb sch po nm l p) = (kind_of_payload p, [], nm)"
  "at (project_want sch po n a l pr) = (KAppProject, a, SanitizeName (ac_Name pr))"
  by simp_all

lemma proper_wants:
  assumes "settled_scheme sch"
  shows "proper_want (tenant_want sch t desired)" "proper_want (namespace_want sch po nsSpec n l)"
    "proper_want (cluster_want lb sch po nm l p)" "proper_want (project_want sch po n a l pr)"
  using settled_owners [OF assms]
  by (simp_all add: proper_want_def tenant_want_def namespace_want_def cluster_want_def project_want_def kind_of_def)

definition quota_wants :: "libs \<Rightarrow> scheme option \<Rightarrow> kobj \<Rightarrow> NamespaceSpec \<Rightarrow> string \<Rightarrow> str_map \<Rightarrow> want set" where
  "quota_wants lb sch t resolved n l = {w. \<exists>q hard. ns_ResourceQuotas resolved = Some q \<and> IsEnabled (rq_Enabled q) \<and>
     buildResourceQuotaHard (lb_ParseQuantity lb) q = Ok hard \<and>
     w = tenant_want sch t (new_object n (n @ ''-quota'') l (PResourceQuota hard))}"

definition limit_wants :: "libs \<Rightarrow> scheme option \<Rightarrow> kobj \<Rightarrow> NamespaceSpec \<Rightarrow> string \<Rightarrow> str_map \<Rightarrow> want set" where
  "limit_wants lb sch t resolved n l = {w. \<exists>q items. ns_LimitRanges resolved = Some q \<and> IsEnabled (lr_Enabled q) \<and>
     buildLimitRangeItems (lb_ParseQuantity lb) q = Ok items \<and>
     w = tenant_want sch t (new_object n (n @ ''-limitrange'') l (PLimitRange items))}"

definition default_wants :: "scheme option \<Rightarrow> kobj \<Rightarrow> NamespaceSpec \<Rightarrow> string \<Rightarrow> str_map \<Rightarrow> want set" where
  "default_wants sch t nsSpec n l = (\<lambda>p. tenant_want sch t (policy_object p)) ` set (defaultNetworkPolicies nsSpec n l)"

definition custom_wants :: "scheme option \<Rightarrow> kobj \<Rightarrow> NamespaceSpec \<Rightarrow> string \<Rightarrow> str_map \<Rightarrow> want set" where
  "custom_wants sch t nsSpec n l = (\<lambda>p. tenant_want sch t (policy_object (buildCustomNetworkPolicy p n l))) `
     set (filter (\<lambda>p. IsEnabled (cnp_Active p)) (ns_NetworkPolicies nsSpec))"

definition group_wants :: "libs \<Rightarrow> scheme option \<Rightarrow> ProjectOnboarding \<Rightarrow> NamespaceSpec \<Rightarrow> str_map \<Rightarrow> want set" where
  "group_wants lb sch po nsSpec l = {w. \<exists>g. ns_LocalAdminGroup nsSpec = Some g \<and> IsOptInEnabled (lag_Enabled g) \<and>
     w = cluster_want lb sch po (GroupName nsSpec) l (PGroup (convertUsers (lag_Users g)))}"

definition binding_wants :: "scheme option \<Rightarrow> kobj \<Rightarrow> NamespaceSpec \<Rightarrow> string \<Rightarrow> str_map \<Rightarrow> want set" where
  "binding_wants sch t nsSpec n l = {w. \<exists>g. ns_LocalAdminGroup nsSpec = Some g \<and> IsOptInEnabled (lag_Enabled g) \<and>
     w = tenant_want sch t (new_object n (RoleBindingName nsSpec) l (PRoleBinding
          [\<lparr>su_Kind = ''Group'', su_APIGroup = rbac_GroupName, su_Name = GroupName nsSpec\<rparr>]
          \<lparr>rf_APIGroup = rbac_GroupName, rf_Kind = ''ClusterRole'', rf_Name = ClusterRoleName nsSpec\<rparr>))}"

definition egress_wants :: "libs \<Rightarrow> scheme option \<Rightarrow> ProjectOnboarding \<Rightarrow> NamespaceSpec \<Rightarrow> string \<Rightarrow> str_map \<Rightarrow> want set" where
  "egress_wants lb sch po nsSpec n l = {w. \<exists>e. ns_EgressIPs nsSpec = Some e \<and> IsOptInEnabled (eip_Enabled e) \<and> eip_IPs e \<noteq> [] \<and>
     w = cluster_want lb sch po n l (PEgressIP (eip_IPs e) [''env'' \<mapsto> n])}"

definition project_wants :: "scheme option \<Rightarrow> ProjectOnboarding \<Rightarrow> NamespaceSpec \<Rightarrow> string \<Rightarrow> str_map \<Rightarrow> want set" where
  "project_wants sch po nsSpec n l = project_want sch po n (ResolveApplicationGitOpsNamespace po nsSpec) l `
     {p \<in> set (ns_ArgoCDProjects nsSpec). IsOptInEnabled (ac_Enabled p) \<and> ResolveApplicationGitOpsNamespace po nsSpec \<noteq> []}"

lemmas wants_defs = quota_wants_def limit_wants_def default_wants_def custom_wants_def group_wants_def
  binding_wants_def egress_wants_def project_wants_def

text \<open>All of the tenant Namespace \<open>t\<close>, in the order of the code.\<close>

definition entry_wants :: "libs \<Rightarrow> scheme option \<Rightarrow> ProjectOnboarding \<Rightarrow> NamespaceSpec \<Rightarrow> NamespaceSpec \<Rightarrow> kobj \<Rightarrow> want set" where
  "entry_wants lb sch po nsSpec resolved t = (let n = SanitizeName (ns_Name nsSpec); l = ManagedLabels po nsSpec in
     quota_wants lb sch t resolved n l \<union> (limit_wants lb sch t resolved n l \<union> (default_wants sch t nsSpec n l \<union>
     (custom_wants sch t nsSpec n l \<union> ((group_wants lb sch po nsSpec l \<union> binding_wants sch t nsSpec n l) \<union>
     (egress_wants lb sch po nsSpec n l \<union> project_wants sch po nsSpec n l))))))"

text \<open>No two policies of the entry, and no two AppProjects, have the same name.\<close>

definition distinct_names :: "ProjectOnboarding \<Rightarrow> NamespaceSpec \<Rightarrow> bool" where
  "distinct_names po nsSpec \<longleftrightarrow>
     distinct (desiredNetworkPolicyNames nsSpec (SanitizeName (ns_Name nsSpec)) (ManagedLabels po nsSpec)) \<and>
     distinct (wanted_projects nsSpec)"

lemma wants_not_pruned:
  assumes "w \<in> entry_wants lb sch po nsSpec resolved t" and "kind_of x = wn_kind w" "key_of x = wn_key w"
  shows "\<not> prune_target po nsSpec resolved x"
  using assms
  by (auto simp: entry_wants_def wants_defs Let_def prune_target_def project_of_def block_disabled_def wanted_projects_def
      policy_object_def desiredNetworkPolicyNames_def buildCustomNetworkPolicy_def key_of_def)

lemma namespace_not_wanted: "(KNamespace, key) \<notin> at ` entry_wants lb sch po nsSpec resolved t"
  by (auto simp: entry_wants_def wants_defs Let_def policy_object_def)

section \<open>The steps of a run\<close>

context settling_client
begin

lemma applies_block:
  "(\<And>b. x = Some b \<Longrightarrow> on (enabled b) \<Longrightarrow> applies ws (f b)) \<Longrightarrow> (block_disabled enabled on x \<Longrightarrow> ws = {}) \<Longrightarrow>
   applies ws (on_block enabled on x f)"
  by (cases x) (auto simp: applies_block_aux block_disabled_def)

lemma tenant_object_applies:
  assumes "settled_scheme sch" and "l = ko_labels desired"
  shows "applies {tenant_want sch t desired} (apply_tenant_object c sch (Some t) l desired)"
  unfolding apply_tenant_object_def thenE_def
proof (rule upsert_at(1) [where g = "\<lambda>x. ()" and fresh = desired, OF proper_wants(1) [OF assms(1)] at_wants(1)], goal_cases)
  case (1 cur)
  then show ?case by (simp add: tenant_want_def merge_meta_as assms(2))
next
  case (2 e)
  show ?case by (cases "IsNotFound e") (auto simp: tenant_want_def)
qed (simp_all add: tenant_want_def)

lemma namespace_object_applies:
  assumes "settled_scheme sch"
  shows "applies {namespace_want sch po nsSpec n l} (reconcileNamespaceObject c sch po nsSpec n l)"
    and "reconcileNamespaceObject c sch po nsSpec n l s = (Ok t, s') \<Longrightarrow> view s' KNamespace ([], n) = Some t"
proof -
  let ?fresh = "(new_object [] n (desired_namespace_labels po nsSpec n l) PNamespace)\<lparr>ko_meta :=
     (ko_meta (new_object [] n (desired_namespace_labels po nsSpec n l) PNamespace))\<lparr>om_annotations := ns_Annotations nsSpec\<rparr>\<rparr>"
  have p: "ko_payload cur = PNamespace" if "kind_of cur = KNamespace" for cur
    using that by (cases "ko_payload cur") (simp_all add: kind_of_def)
  have u: "cl_Create c = (\<lambda>obj. bindE (cl_Create c obj) retE)" "cl_Patch c b = (\<lambda>obj. bindE (cl_Patch c b obj) retE)" for b by simp_all
  have found: "set_payload PNamespace (merge_meta l' a cur) = cur\<lparr>ko_meta := (ko_meta cur)\<lparr>om_labels := ko_labels cur ++ l',
      om_annotations := om_annotations (ko_meta cur) ++ a\<rparr>\<rparr>" if "kind_of cur = KNamespace" for cur l' a
    using p [OF that] by (cases cur) (simp add: set_payload_def merge_meta_def)
  note rule = upsert_at [where w = "namespace_want sch po nsSpec n l" and g = "\<lambda>x. x" and fresh = ?fresh,
      OF proper_wants(2) [OF assms] at_wants(2)]
  show "applies {namespace_want sch po nsSpec n l} (reconcileNamespaceObject c sch po nsSpec n l)"
    unfolding reconcileNamespaceObject_def Let_def
    by (rule rule(1)) (use found in \<open>auto simp: namespace_want_def key_of_def simp flip: u\<close>)
  assume "reconcileNamespaceObject c sch po nsSpec n l s = (Ok t, s')"
  then have "\<exists>x. t = x \<and> view s' KNamespace ([], n) = Some x"
    unfolding reconcileNamespaceObject_def Let_def
    by (rule rule(2) [rotated -1]) (use found in \<open>auto simp: namespace_want_def key_of_def simp flip: u\<close>)
  then show "view s' KNamespace ([], n) = Some t" by simp
qed

text \<open>Group and EgressIP, whose APIs may be missing.\<close>

lemma cluster_object_applies:
  assumes "settled_scheme sch"
  shows "applies {cluster_want lb sch po nm l p} (bindE (tryE (cl_Get c (kind_of_payload p) ([], nm))) (\<lambda>r. case r of
       Inl err \<Rightarrow> if \<not> IsNotFound err \<and> \<not> IsNoMatchError err then failE err else if IsNoMatchError err then failE e
         else bindE (resE (ensureProjectOnboardingControllerRef sch (Some po) (new_object [] nm l p)))
                (\<lambda>obj. bindE (cl_Create c obj) (\<lambda>x. retE ()))
     | Inr current \<Rightarrow> bindE (resE (ensureProjectOnboardingControllerRef sch (Some po) (set_payload p (write_labels lb l current))))
         (\<lambda>obj. bindE (cl_Patch c current obj) (\<lambda>x. retE ()))))"
proof (rule upsert_at(1) [where g = "\<lambda>x. ()" and fresh = "new_object [] nm l p", OF proper_wants(3) [OF assms] at_wants(3)], goal_cases)
  case (1 cur)
  then show ?case by (simp add: cluster_want_def merge_meta_as)
next
  case (2 err)
  show ?case by (cases "IsNotFound err") (auto simp: cluster_want_def)
qed (simp_all add: cluster_want_def)

lemma app_project_applies:
  assumes "settled_scheme sch"
  shows "applies {project_want sch po n a l p} (reconcileAppProject c sch po p n a l)"
  unfolding reconcileAppProject_def Let_def thenE_def
proof (rule upsert_at(1) [where g = "\<lambda>x. ()" and w = "project_want sch po n a l p" and
    fresh = "(new_object a (SanitizeName (ac_Name p)) (project_labels po n l) (PAppProject (app_project_of po p n)))\<lparr>ko_meta :=
      (ko_meta (new_object a (SanitizeName (ac_Name p)) (project_labels po n l) (PAppProject (app_project_of po p n))))
        \<lparr>om_annotations := [''argocd.argoproj.io/sync-wave'' \<mapsto> ''1'']\<rparr>\<rparr>",
    OF proper_wants(4) [OF assms] at_wants(4)], goal_cases)
  case (1 cur)
  then show ?case by (simp add: project_want_def merge_meta_as)
next
  case (2 e)
  show ?case by (cases "IsNotFound e") (auto simp: project_want_def)
qed (simp_all add: project_want_def key_of_def)

lemma tenant_parts_apply:
  assumes "settled_scheme sch"
  shows "applies (quota_wants lb sch t resolved n l) (on_block rq_Enabled IsEnabled (ns_ResourceQuotas resolved) (\<lambda>q.
      wrapE ctx (reconcileResourceQuota lb c sch (Some t) q n l)))"
    "applies (limit_wants lb sch t resolved n l) (on_block lr_Enabled IsEnabled (ns_LimitRanges resolved) (\<lambda>q.
      wrapE ctx (reconcileLimitRange lb c sch (Some t) q n l)))"
    "ns_LocalAdminGroup nsSpec = Some g \<Longrightarrow> IsOptInEnabled (lag_Enabled g) \<Longrightarrow>
      applies (binding_wants sch t nsSpec n l) (reconcileLocalAdminRoleBinding c sch (Some t) nsSpec n l)"
proof -
  have tenant: "applies {tenant_want sch t (new_object n m l p)} (apply_tenant_object c sch (Some t) l (new_object n m l p))" for m p
    by (rule tenant_object_applies [OF assms]) simp
  have q: "applies (quota_wants lb sch t resolved n l) (reconcileResourceQuota lb c sch (Some t) q n l)"
    if "ns_ResourceQuotas resolved = Some q" "IsEnabled (rq_Enabled q)" for q
    unfolding reconcileResourceQuota_def
    by (rule applies_res) (use that tenant in \<open>simp add: quota_wants_def\<close>)
  show "applies (quota_wants lb sch t resolved n l) (on_block rq_Enabled IsEnabled (ns_ResourceQuotas resolved) (\<lambda>q.
      wrapE ctx (reconcileResourceQuota lb c sch (Some t) q n l)))"
    by (rule applies_block, rule applies_wrap, erule (1) q) (auto simp: quota_wants_def block_disabled_def)
  have r: "applies (limit_wants lb sch t resolved n l) (reconcileLimitRange lb c sch (Some t) q n l)"
    if "ns_LimitRanges resolved = Some q" "IsEnabled (lr_Enabled q)" for q
    unfolding reconcileLimitRange_def
    by (rule applies_res) (use that tenant in \<open>simp add: limit_wants_def\<close>)
  show "applies (limit_wants lb sch t resolved n l) (on_block lr_Enabled IsEnabled (ns_LimitRanges resolved) (\<lambda>q.
      wrapE ctx (reconcileLimitRange lb c sch (Some t) q n l)))"
    by (rule applies_block, rule applies_wrap, erule (1) r) (auto simp: limit_wants_def block_disabled_def)
  show "ns_LocalAdminGroup nsSpec = Some g \<Longrightarrow> IsOptInEnabled (lag_Enabled g) \<Longrightarrow>
      applies (binding_wants sch t nsSpec n l) (reconcileLocalAdminRoleBinding c sch (Some t) nsSpec n l)"
    unfolding reconcileLocalAdminRoleBinding_def using tenant by (simp add: binding_wants_def)
qed

lemma policies_apply:
  assumes "settled_scheme sch" and "distinct (desiredNetworkPolicyNames nsSpec n l)"
  shows "applies (default_wants sch t nsSpec n l) (reconcileDefaultNetworkPolicies c sch (Some t) nsSpec n l)"
    "applies (custom_wants sch t nsSpec n l) (reconcileCustomNetworkPolicies c sch (Some t) nsSpec n l)"
proof -
  have key: "key_of (policy_object p) = (pol_Namespace p, pol_Name p)" "ko_labels (policy_object p) = pol_Labels p"
    "kind_of (policy_object p) = KNetworkPolicy" for p
    by (simp_all add: policy_object_def)
  have d: "distinct (map pol_Name (defaultNetworkPolicies nsSpec n l))"
    "distinct (map (\<lambda>p. SanitizeName (cnp_Name p)) (filter (\<lambda>p. IsEnabled (cnp_Active p)) (ns_NetworkPolicies nsSpec)))"
    using assms(2) by (simp_all add: desiredNetworkPolicyNames_def)
  show "applies (default_wants sch t nsSpec n l) (reconcileDefaultNetworkPolicies c sch (Some t) nsSpec n l)"
    unfolding default_wants_def reconcileDefaultNetworkPolicies_def
  proof (rule applies_for)
    show "distinct (map (\<lambda>p. at (tenant_want sch t (policy_object p))) (defaultNetworkPolicies nsSpec n l))"
      using d(1) by (auto simp: distinct_map inj_on_def key)
  qed (use defaultNetworkPolicies_meta key in \<open>fastforce intro!: tenant_object_applies [OF assms(1)]\<close>)
  show "applies (custom_wants sch t nsSpec n l) (reconcileCustomNetworkPolicies c sch (Some t) nsSpec n l)"
    unfolding custom_wants_def reconcileCustomNetworkPolicies_def forE_active
  proof (rule applies_for)
    show "distinct (map (\<lambda>p. at (tenant_want sch t (policy_object (buildCustomNetworkPolicy p n l))))
        (filter (\<lambda>p. IsEnabled (cnp_Active p)) (ns_NetworkPolicies nsSpec)))"
      using d(2) by (auto simp: distinct_map inj_on_def key buildCustomNetworkPolicy_def Let_def)
  qed (auto intro!: tenant_object_applies [OF assms(1)] simp: key buildCustomNetworkPolicy_def Let_def)
qed

lemma cluster_parts_apply:
  assumes "settled_scheme sch"
  shows "ns_LocalAdminGroup nsSpec = Some g \<Longrightarrow> IsOptInEnabled (lag_Enabled g) \<Longrightarrow>
      applies (group_wants lb sch po nsSpec l) (reconcileLocalAdminGroup lb c sch po nsSpec l)"
    "ns_EgressIPs nsSpec = Some e \<Longrightarrow> IsOptInEnabled (eip_Enabled e) \<Longrightarrow>
      applies (egress_wants lb sch po nsSpec n l) (reconcileEgressIP lb c sch po nsSpec n l)"
    "distinct (wanted_projects nsSpec) \<Longrightarrow> applies (project_wants sch po nsSpec n l) (reconcileArgoCDProjects c sch po nsSpec n l)"
proof -
  assume g: "ns_LocalAdminGroup nsSpec = Some g" "IsOptInEnabled (lag_Enabled g)"
  then have "group_wants lb sch po nsSpec l = {cluster_want lb sch po (GroupName nsSpec) l (PGroup (convertUsers (lag_Users g)))}"
    by (simp add: group_wants_def)
  then show "applies (group_wants lb sch po nsSpec l) (reconcileLocalAdminGroup lb c sch po nsSpec l)"
    using cluster_object_applies [OF assms, where p = "PGroup (convertUsers (lag_Users g))" and nm = "GroupName nsSpec"]
    unfolding reconcileLocalAdminGroup_def Let_def thenE_def g option.case by simp
next
  assume e: "ns_EgressIPs nsSpec = Some e" "IsOptInEnabled (eip_Enabled e)"
  show "applies (egress_wants lb sch po nsSpec n l) (reconcileEgressIP lb c sch po nsSpec n l)"
  proof (cases "eip_IPs e = []")
    case True
    then show ?thesis using e by (simp add: reconcileEgressIP_def egress_wants_def)
  next
    case False
    then have "egress_wants lb sch po nsSpec n l = {cluster_want lb sch po n l (PEgressIP (eip_IPs e) [''env'' \<mapsto> n])}"
      using e by (simp add: egress_wants_def)
    with False show ?thesis
      using cluster_object_applies [OF assms, where p = "PEgressIP (eip_IPs e) [''env'' \<mapsto> n]" and nm = n]
      unfolding reconcileEgressIP_def Let_def thenE_def e option.case by simp
  qed
next
  assume d: "distinct (wanted_projects nsSpec)"
  let ?a = "ResolveApplicationGitOpsNamespace po nsSpec"
  show "applies (project_wants sch po nsSpec n l) (reconcileArgoCDProjects c sch po nsSpec n l)"
  proof (cases "ns_ArgoCDProjects nsSpec = [] \<or> ?a = []")
    case True
    then show ?thesis by (auto simp: reconcileArgoCDProjects_def project_wants_def Let_def)
  next
    case False
    let ?ps = "filter (\<lambda>p. IsOptInEnabled (ac_Enabled p)) (ns_ArgoCDProjects nsSpec)"
    have "applies (project_want sch po n ?a l ` set ?ps) (forE ?ps (\<lambda>p. reconcileAppProject c sch po p n ?a l))"
    proof (rule applies_for)
      show "distinct (map (\<lambda>p. at (project_want sch po n ?a l p)) ?ps)"
        using d by (auto simp: distinct_map inj_on_def wanted_projects_def)
    qed (rule app_project_applies [OF assms])
    moreover have "project_wants sch po nsSpec n l = project_want sch po n ?a l ` set ?ps"
      using False by (auto simp: project_wants_def)
    ultimately show ?thesis using False by (simp add: reconcileArgoCDProjects_def Let_def forE_active)
  qed
qed

definition entry_writes ::
  "libs \<Rightarrow> scheme option \<Rightarrow> ProjectOnboarding \<Rightarrow> NamespaceSpec \<Rightarrow> NamespaceSpec \<Rightarrow> kobj \<Rightarrow> ('s, unit) eff" where
  "entry_writes lb sch po nsSpec resolved t = (let n = SanitizeName (ns_Name nsSpec); l = ManagedLabels po nsSpec in
     thenE (on_block rq_Enabled IsEnabled (ns_ResourceQuotas resolved) (\<lambda>q.
              wrapE ''resource quota: '' (reconcileResourceQuota lb c sch (Some t) q n l))) (
     thenE (on_block lr_Enabled IsEnabled (ns_LimitRanges resolved) (\<lambda>q.
              wrapE ''limit range: '' (reconcileLimitRange lb c sch (Some t) q n l))) (
     thenE (wrapE ''default network policies: '' (reconcileDefaultNetworkPolicies c sch (Some t) nsSpec n l)) (
     thenE (wrapE ''custom network policies: '' (reconcileCustomNetworkPolicies c sch (Some t) nsSpec n l)) (
     thenE (on_block lag_Enabled IsOptInEnabled (ns_LocalAdminGroup nsSpec) (\<lambda>_.
              thenE (wrapE ''local admin group: '' (reconcileLocalAdminGroup lb c sch po nsSpec l))
                (wrapE ''local admin role binding: '' (reconcileLocalAdminRoleBinding c sch (Some t) nsSpec n l)))) (
     thenE (on_block eip_Enabled IsOptInEnabled (ns_EgressIPs nsSpec) (\<lambda>_.
              wrapE ''egress IP: '' (reconcileEgressIP lb c sch po nsSpec n l)))
     (wrapE ''argo cd app project: '' (reconcileArgoCDProjects c sch po nsSpec n l))))))))"

lemma ReconcileNamespace_phases:
  "ReconcileNamespace lb c sch po nsSpec =
     bindE (ResolveNamespaceSpec lb c nsSpec) (\<lambda>resolved.
     bindE (wrapE ''namespace: '' (reconcileNamespaceObject c sch po nsSpec (SanitizeName (ns_Name nsSpec)) (ManagedLabels po nsSpec))) (\<lambda>t.
     thenE (entry_writes lb sch po nsSpec resolved t) (wrapE ''prune: '' (PruneNamespaceResources c po nsSpec resolved))))"
  by (simp add: ReconcileNamespace_def entry_writes_def Let_def thenE_def bindE_assoc)

lemma part_kinds:
  "at ` quota_wants lb sch t resolved n l \<subseteq> {KResourceQuota} \<times> UNIV"
  "at ` limit_wants lb sch t resolved n l \<subseteq> {KLimitRange} \<times> UNIV"
  "at ` default_wants sch t nsSpec n l \<subseteq> {KNetworkPolicy} \<times> UNIV"
  "at ` custom_wants sch t nsSpec n l \<subseteq> {KNetworkPolicy} \<times> UNIV"
  "at ` group_wants lb sch po nsSpec l \<subseteq> {KGroup} \<times> UNIV"
  "at ` binding_wants sch t nsSpec n l \<subseteq> {KRoleBinding} \<times> UNIV"
  "at ` egress_wants lb sch po nsSpec n l \<subseteq> {KEgressIP} \<times> UNIV"
  "at ` project_wants sch po nsSpec n l \<subseteq> {KAppProject} \<times> UNIV"
  by (auto simp: wants_defs policy_object_def)

lemma policies_apart:
  assumes "distinct (desiredNetworkPolicyNames nsSpec n l)"
  shows "at ` default_wants sch t nsSpec n l \<inter> at ` custom_wants sch t nsSpec n l = {}"
proof -
  have "pol_Name p \<noteq> SanitizeName (cnp_Name q)"
    if "p \<in> set (defaultNetworkPolicies nsSpec n l)" "q \<in> set (filter (\<lambda>p. IsEnabled (cnp_Active p)) (ns_NetworkPolicies nsSpec))" for p q
    using assms that unfolding desiredNetworkPolicyNames_def distinct_append set_map by blast
  then show ?thesis
    unfolding default_wants_def custom_wants_def
    by (fastforce simp: policy_object_def buildCustomNetworkPolicy_def Let_def)
qed

lemma kinds_apart: "at ` A \<subseteq> {k} \<times> UNIV \<Longrightarrow> at ` B \<subseteq> {k'} \<times> UNIV \<Longrightarrow> k \<noteq> k' \<Longrightarrow> at ` A \<inter> at ` B = {}"
  by blast

lemma apart_Un:
  "at ` A \<inter> at ` B = {} \<Longrightarrow> at ` A \<inter> at ` C = {} \<Longrightarrow> at ` A \<inter> at ` (B \<union> C) = {}"
  "at ` A \<inter> at ` C = {} \<Longrightarrow> at ` B \<inter> at ` C = {} \<Longrightarrow> at ` (A \<union> B) \<inter> at ` C = {}"
  by blast+

lemma entry_writes_apply:
  assumes s: "settled_scheme sch" and d: "distinct_names po nsSpec"
  shows "applies (entry_wants lb sch po nsSpec resolved t) (entry_writes lb sch po nsSpec resolved t)"
proof -
  let ?n = "SanitizeName (ns_Name nsSpec)" and ?l = "ManagedLabels po nsSpec"
  have d: "distinct (desiredNetworkPolicyNames nsSpec ?n ?l)" "distinct (wanted_projects nsSpec)"
    using d by (simp_all add: distinct_names_def)
  have group: "applies (group_wants lb sch po nsSpec ?l \<union> binding_wants sch t nsSpec ?n ?l)
    (on_block lag_Enabled IsOptInEnabled (ns_LocalAdminGroup nsSpec) (\<lambda>_.
       thenE (wrapE ''local admin group: '' (reconcileLocalAdminGroup lb c sch po nsSpec ?l))
         (wrapE ''local admin role binding: '' (reconcileLocalAdminRoleBinding c sch (Some t) nsSpec ?n ?l))))"
    by (rule applies_block, rule applies_then, rule applies_wrap, erule (1) cluster_parts_apply(1) [OF s],
        rule applies_wrap, erule (1) tenant_parts_apply(3) [OF s], rule kinds_apart [OF part_kinds(5,6)])
      (auto simp: block_disabled_def group_wants_def binding_wants_def)
  have egress: "applies (egress_wants lb sch po nsSpec ?n ?l)
    (on_block eip_Enabled IsOptInEnabled (ns_EgressIPs nsSpec) (\<lambda>_.
       wrapE ''egress IP: '' (reconcileEgressIP lb c sch po nsSpec ?n ?l)))"
    by (rule applies_block, rule applies_wrap, erule (1) cluster_parts_apply(2) [OF s])
      (auto simp: egress_wants_def block_disabled_def)
  show ?thesis
    unfolding entry_wants_def entry_writes_def Let_def
    by (intro applies_then applies_wrap tenant_parts_apply(1,2) [OF s] policies_apply [OF s d(1)] group egress
        cluster_parts_apply(3) [OF s d(2)] apart_Un policies_apart [OF d(1)])
      (rule kinds_apart, rule part_kinds, rule part_kinds, simp)+
qed

section \<open>Pruning\<close>

lemma trims_found: "trims T N v v1 \<Longrightarrow> v1 k key = Some x \<Longrightarrow> T x \<Longrightarrow> loose T N v key k"
  unfolding trims_def loose_def by metis

lemma trims_step:
  assumes "trims T N v v1" "deletes K v1 v2" "\<And>k key. (k, key) \<in> K \<Longrightarrow> loose T N v key k"
  shows "trims T N v v2"
  using assms unfolding trims_def deletes_def by metis

lemma trim_delete:
  assumes "kind_of obj \<noteq> KNamespace" and "loose T N v (key_of obj) (kind_of obj)"
  shows "keeps (\<lambda>s. trims T N v (view s)) (ignoreNotFound (cl_Delete c obj))"
proof -
  have "keeps (\<lambda>s. trims T N v (view s)) (cl_Delete c obj)"
    unfolding keeps_iff
  proof (intro allI impI)
    fix s ru s' assume "trims T N v (view s)" "cl_Delete c obj s = (ru, s')"
    then show "trims T N v (view s')"
      by (rule trims_step [OF _ delete_within]) (use assms in \<open>auto simp: tenant_scope_def\<close>)
  qed
  then show ?thesis
    unfolding ignoreNotFound_def by (intro keeps_intro)
qed

lemma trim_get_delete:
  assumes k: "k \<noteq> KNamespace"
    and T: "\<And>x. kind_of x = k \<Longrightarrow> key_of x = key \<Longrightarrow> isManagedByProjectOnboarding (ko_labels x) po \<Longrightarrow> T x"
  shows "keeps (\<lambda>s. trims T N v (view s)) (bindE (tryE (cl_Get c k key)) (\<lambda>r. case r of
       Inl err \<Rightarrow> if b err then retE () else failE err | Inr obj \<Rightarrow> deleteIfManaged c obj po))" (is "keeps ?I ?m")
  unfolding keeps_iff
proof (intro allI impI)
  fix s r s' assume I: "?I s" and run: "?m s = (r, s')"
  obtain r1 s1 where get: "cl_Get c k key s = (r1, s1)" by fastforce
  note v1 = get_store [OF get]
  show "?I s'"
  proof (cases r1)
    case (Ok obj)
    then have obj: "view s k key = Some obj" using get get_ok by blast
    note t = typed [OF obj]
    have m: "deleteIfManaged c obj po s1 = (r, s')" using run get Ok by (simp add: eff_run)
    show ?thesis
    proof (cases "isManagedByProjectOnboarding (ko_labels obj) po")
      case True
      have "keeps ?I (ignoreNotFound (cl_Delete c obj))"
        by (rule trim_delete) (use trims_found [OF I obj] T True t k in auto)
      then show ?thesis
        by (rule keepsD [of ?I _ s1 r]) (use True m I v1 in \<open>simp_all add: deleteIfManaged_def\<close>)
    next
      case False
      with m v1 I show ?thesis by (simp add: deleteIfManaged_def run_retE)
    qed
  qed (use run get v1 I in \<open>auto simp: eff_run split: if_splits\<close>)
qed

lemma trim_items:
  assumes k: "k \<noteq> KNamespace" and T: "\<And>x. kind_of x = k \<Longrightarrow> selected opts x \<Longrightarrow> \<not> keep x \<Longrightarrow> T x"
    and I: "trims T N v (view s)" and l: "cl_List c k opts s = (Ok xs, s1)"
    and run: "forE xs (\<lambda>item. if keep item then retE () else ignoreNotFound (cl_Delete c item)) s1 = (r, s')"
  shows "trims T N v (view s')"
proof -
  have "keeps (\<lambda>s. trims T N v (view s)) (forE xs (\<lambda>item. if keep item then retE () else ignoreNotFound (cl_Delete c item)))"
  proof (intro keeps_for keeps_if keeps_ret trim_delete)
    fix x assume "x \<in> set xs" "\<not> keep x"
    then have x: "view s k (key_of x) = Some x" "selected opts x" using list_ok [OF l] by blast+
    note t = typed [OF x(1)]
    with k show "kind_of x \<noteq> KNamespace" by simp
    show "loose T N v (key_of x) (kind_of x)"
      using trims_found [OF I x(1)] T t x(2) \<open>\<not> keep x\<close> by simp
  qed
  then show ?thesis
    by (rule keepsD [of "\<lambda>s. trims T N v (view s)" _ s1 r]) (use run list_store [OF l] I in simp_all)
qed

lemma trim_list_delete:
  assumes k: "k \<noteq> KNamespace" and T: "\<And>x. kind_of x = k \<Longrightarrow> selected opts x \<Longrightarrow> \<not> keep x \<Longrightarrow> T x"
  shows "keeps (\<lambda>s. trims T N v (view s)) (bindE (cl_List c k opts) (\<lambda>items.
      forE items (\<lambda>item. if keep item then retE () else ignoreNotFound (cl_Delete c item))))"
    "keeps (\<lambda>s. trims T N v (view s)) (bindE (tryE (cl_List c k opts)) (\<lambda>r. case r of
       Inl err \<Rightarrow> if b err then retE () else failE err
     | Inr items \<Rightarrow> forE items (\<lambda>item. if keep item then retE () else ignoreNotFound (cl_Delete c item))))"
  unfolding keeps_iff
proof (goal_cases)
  case 1
  show ?case
  proof (intro allI impI)
    fix s r s'
    assume I: "trims T N v (view s)" and run: "bindE (cl_List c k opts) (\<lambda>items.
      forE items (\<lambda>item. if keep item then retE () else ignoreNotFound (cl_Delete c item))) s = (r, s')"
    obtain r1 s1 where l: "cl_List c k opts s = (r1, s1)" by fastforce
    show "trims T N v (view s')"
      using trim_items [OF k T I] l run I list_store [OF l] by (cases r1) (auto simp: run_bindE)
  qed
next
  case 2
  show ?case
  proof (intro allI impI)
    fix s r s'
    assume I: "trims T N v (view s)" and run: "bindE (tryE (cl_List c k opts)) (\<lambda>r. case r of
       Inl err \<Rightarrow> if b err then retE () else failE err
     | Inr items \<Rightarrow> forE items (\<lambda>item. if keep item then retE () else ignoreNotFound (cl_Delete c item))) s = (r, s')"
    obtain r1 s1 where l: "cl_List c k opts s = (r1, s1)" by fastforce
    show "trims T N v (view s')"
      using trim_items [OF k T I] l run I list_store [OF l] by (cases r1) (auto simp: eff_run split: if_splits)
  qed
qed

lemma managed_owned: "isManagedByProjectOnboarding (ko_labels x) po \<Longrightarrow> po_Name po \<noteq> [] \<Longrightarrow> owned po x"
  by (auto simp: isManagedByProjectOnboarding_def owned_def label_at_def ProjectOnboardingManagedByVal_def
      split: option.splits if_splits)

lemma prune_trims:
  assumes "po_Name po \<noteq> []"
  shows "keeps (\<lambda>s. trims (prune_target po nsSpec resolved) N v (view s)) (PruneNamespaceResources c po nsSpec resolved)"
proof -
  note o = managed_owned [OF _ assms]
  show ?thesis
    unfolding PruneNamespaceResources_def Let_def pruneAppProjectsForNamespace_def deleteAppProjectsForNamespace_def
      deleteManagedResourceQuota_def deleteManagedLimitRange_def pruneManagedNetworkPolicies_def
      deleteManagedRoleBinding_def deleteManagedGroup_def deleteManagedEgressIP_def
    by (intro keeps_then keeps_wrap keeps_when trim_get_delete trim_list_delete)
      (auto simp: prune_target_def Let_def selected_owned wanted_projects_def dest: o
        intro: iffD1 [OF selected_project_of, OF conjI])
qed

section \<open>Fixed points\<close>

text \<open>The store is as the entry wants it: every want holds and nothing is left to prune.\<close>

definition settled ::
  "libs \<Rightarrow> scheme option \<Rightarrow> ProjectOnboarding \<Rightarrow> NamespaceSpec \<Rightarrow> NamespaceSpec \<Rightarrow> view \<Rightarrow> bool" where
  "settled lb sch po nsSpec resolved v \<longleftrightarrow> (\<exists>t. v KNamespace ([], SanitizeName (ns_Name nsSpec)) = Some t \<and>
     holds (namespace_want sch po nsSpec (SanitizeName (ns_Name nsSpec)) (ManagedLabels po nsSpec)) v \<and>
     (\<forall>w \<in> entry_wants lb sch po nsSpec resolved t. holds w v)) \<and>
     (\<forall>k key x. v k key = Some x \<longrightarrow> prune_target po nsSpec resolved x \<longrightarrow> is_deleting x)"

lemma trims_keeps:
  assumes "trims T {} (view s) (view s')" and "\<And>x. kind_of x = k \<Longrightarrow> key_of x = key \<Longrightarrow> \<not> T x"
  shows "view s' k key = view s k key"
  using assms typed [of s k key] unfolding trims_def loose_def by (metis empty_iff)

lemma prune_settles:
  assumes po: "po_Name po \<noteq> []" and ns: "view s KNamespace ([], SanitizeName (ns_Name nsSpec)) = Some t"
    and nw: "holds (namespace_want sch po nsSpec (SanitizeName (ns_Name nsSpec)) (ManagedLabels po nsSpec)) (view s)"
    and ws: "\<forall>w \<in> entry_wants lb sch po nsSpec resolved t. holds w (view s)"
    and run: "PruneNamespaceResources c po nsSpec resolved s = (Ok u, s')"
  shows "settled lb sch po nsSpec resolved (view s')"
proof -
  let ?n = "SanitizeName (ns_Name nsSpec)"
  have tr: "trims (prune_target po nsSpec resolved) {} (view s) (view s')"
    by (rule keepsD [OF prune_trims [OF po] _ run]) simp
  have none: "none_left (prune_target po nsSpec resolved) s'"
    using cleansD [OF PruneNamespaceResources_cleans run] by simp
  have "view s' KNamespace ([], ?n) = view s KNamespace ([], ?n)"
    by (rule trims_keeps [OF tr]) (simp add: prune_target_def project_of_def Let_def)
  with ns nw have "view s' KNamespace ([], ?n) = Some t"
    "holds (namespace_want sch po nsSpec ?n (ManagedLabels po nsSpec)) (view s')"
    by (simp_all add: holds_def)
  moreover have "holds w (view s')" if w: "w \<in> entry_wants lb sch po nsSpec resolved t" for w
  proof -
    have "view s' (wn_kind w) (wn_key w) = view s (wn_kind w) (wn_key w)"
      by (rule trims_keeps [OF tr]) (rule wants_not_pruned [OF w])
    with ws w show ?thesis by (simp add: holds_def)
  qed
  ultimately show ?thesis using none unfolding settled_def none_left_def by blast
qed

lemma resolve_store: "ResolveNamespaceSpec lb c nsSpec s = (r, s') \<Longrightarrow> view s' = view s"
proof -
  have "keeps (\<lambda>s'. view s' = view s) (cl_GetTS c name)" for name
    by (auto simp: keeps_iff dest: getts_store)
  then have "keeps (\<lambda>s'. view s' = view s) (ResolveNamespaceSpec lb c nsSpec)"
    unfolding ResolveNamespaceSpec_def by (intro keeps_intro)
  then show "ResolveNamespaceSpec lb c nsSpec s = (r, s') \<Longrightarrow> view s' = view s" by (rule keepsD) simp_all
qed

lemma ReconcileNamespace_settles:
  assumes sch: "settled_scheme sch" and d: "distinct_names po nsSpec" and po: "po_Name po \<noteq> []"
    and run: "ReconcileNamespace lb c sch po nsSpec s = (Ok u, s')"
    and res: "ResolveNamespaceSpec lb c nsSpec s = (Ok resolved, s1)"
  shows "settled lb sch po nsSpec resolved (view s')"
proof -
  let ?n = "SanitizeName (ns_Name nsSpec)" and ?l = "ManagedLabels po nsSpec"
  obtain t s2 s3 where t: "reconcileNamespaceObject c sch po nsSpec ?n ?l s1 = (Ok t, s2)"
    and w: "entry_writes lb sch po nsSpec resolved t s2 = (Ok (), s3)"
    and p: "PruneNamespaceResources c po nsSpec resolved s3 = (Ok (), s')"
    using run res unfolding ReconcileNamespace_phases by (auto dest!: Ok_bind Ok_then Ok_wrap)
  note N = appliesD [OF namespace_object_applies(1) [OF sch] t]
  note W = appliesD [OF entry_writes_apply [OF sch d] w]
  have ns: "view s3 KNamespace ([], ?n) = view s2 KNamespace ([], ?n)"
    by (rule W(3) [OF refl namespace_not_wanted])
  show ?thesis
  proof (rule prune_settles [OF po _ _ _ p])
    show "view s3 KNamespace ([], ?n) = Some t" using namespace_object_applies(2) [OF sch t] ns by simp
    show "holds (namespace_want sch po nsSpec ?n ?l) (view s3)" using N(2) [OF refl] ns by (simp add: holds_def)
    show "\<forall>w \<in> entry_wants lb sch po nsSpec resolved t. holds w (view s3)" using W(2) [OF refl] by blast
  qed
qed

lemma settled_trims:
  assumes sch: "settled_scheme sch" and d: "distinct_names po nsSpec" and po: "po_Name po \<noteq> []"
    and st: "settled lb sch po nsSpec resolved (view s)"
    and res: "\<And>r1 s1. ResolveNamespaceSpec lb c nsSpec s = (Ok r1, s1) \<Longrightarrow> r1 = resolved"
    and run: "ReconcileNamespace lb c sch po nsSpec s = (r, s')"
  shows "trims (prune_target po nsSpec resolved) {} (view s) (view s')"
proof -
  let ?n = "SanitizeName (ns_Name nsSpec)" and ?l = "ManagedLabels po nsSpec"
  let ?trims = "trims (prune_target po nsSpec resolved) {}"
  let ?obj = "wrapE ''namespace: '' (reconcileNamespaceObject c sch po nsSpec ?n ?l)"
  from st obtain t where ns: "view s KNamespace ([], ?n) = Some t"
    and nw: "holds (namespace_want sch po nsSpec ?n ?l) (view s)"
    and ws: "\<forall>w \<in> entry_wants lb sch po nsSpec resolved t. holds w (view s)"
    unfolding settled_def by blast
  obtain r1 s1 where r1: "ResolveNamespaceSpec lb c nsSpec s = (r1, s1)" by fastforce
  note v1 = resolve_store [OF r1]
  have "?trims (view s) (view s')" if Ok1: "r1 = Ok x" for x
  proof -
    have x: "x = resolved" using res r1 Ok1 by blast
    obtain r2 s2 where r2: "?obj s1 = (r2, s2)" by fastforce
    have v2: "view s2 = view s"
      using appliesD(1) [OF applies_wrap [OF namespace_object_applies(1) [OF sch]] r2] nw v1 by simp
    have "?trims (view s) (view s')" if Ok2: "r2 = Ok t'" for t'
    proof -
      have "reconcileNamespaceObject c sch po nsSpec ?n ?l s1 = (Ok t', s2)" using r2 Ok2 by (blast dest: Ok_wrap)
      then have t': "t' = t" using namespace_object_applies(2) [OF sch] ns v2 by fastforce
      obtain r3 s3 where r3: "entry_writes lb sch po nsSpec resolved t s2 = (r3, s3)" by fastforce
      have v3: "view s3 = view s" using appliesD(1) [OF entry_writes_apply [OF sch d] r3] ws v2 by simp
      obtain r4 s4 where r4: "wrapE ''prune: '' (PruneNamespaceResources c po nsSpec resolved) s3 = (r4, s4)" by fastforce
      have "?trims (view s) (view s4)"
        by (rule keepsD [OF keeps_wrap [OF prune_trims [OF po]] _ r4]) (simp add: v3)
      moreover have "s' = s4 \<or> s' = s3"
        using run r1 Ok1 x r2 Ok2 t' r3 r4
        by (cases r3) (simp_all add: ReconcileNamespace_phases run_bindE [of "ResolveNamespaceSpec _ _ _"] run_bindE [of ?obj] run_thenE)
      ultimately show ?thesis using v3 by auto
    qed
    moreover have "s' = s2" if "\<And>x. r2 \<noteq> Ok x"
      using run r1 Ok1 r2 that by (cases r2) (auto simp: ReconcileNamespace_phases run_bindE)
    ultimately show ?thesis using v2 by (cases "\<exists>x. r2 = Ok x") auto
  qed
  moreover have "s' = s1" if "\<And>x. r1 \<noteq> Ok x"
    using run r1 that by (cases r1) (auto simp: ReconcileNamespace_phases run_bindE)
  ultimately show ?thesis using v1 by (cases "\<exists>x. r1 = Ok x") auto
qed

lemma settled_fixed:
  assumes "settled_scheme sch" and "distinct_names po nsSpec" and "po_Name po \<noteq> []"
    and "settled lb sch po nsSpec resolved (view s)"
    and "\<And>r1 s1. ResolveNamespaceSpec lb c nsSpec s = (Ok r1, s1) \<Longrightarrow> r1 = resolved"
    and "ReconcileNamespace lb c sch po nsSpec s = (r, s')"
  shows "quiet (view s) (view s')"
  by (rule trims_quiet [OF settled_trims [OF assms]]) (use assms(4) in \<open>auto simp: settled_def\<close>)

end

end
