(* ===== verification/Controller.thy ===== *)
theory Controller
  imports Lifecycle
begin

text \<open>
  \<^verbatim>\<open>internal/controller\<close> and \<^verbatim>\<open>internal/onboarding/metrics.go\<close>: one reconciliation of a
  \<^verbatim>\<open>ProjectOnboarding\<close>, from the read of the resource to the update of its status, with the
  events and metrics it emits.  \<^verbatim>\<open>Reconcile\<close> returns a requeue result and an error, so its
  outcome is \<open>Ok (result, error)\<close>; a failing call is a branch, only a panic escapes.
\<close>

section \<open>events.go, metrics.go, reconcile\_keys.go\<close>

definition EventTypeWarning :: string where "EventTypeWarning = ''Warning''"
definition EventTypeNormal :: string where "EventTypeNormal = ''Normal''"

definition recordWarning :: "'s recorder option \<Rightarrow> string \<Rightarrow> string \<Rightarrow> string \<Rightarrow> ('s, unit) eff" where
  "recordWarning rcd obj reason message = (case rcd of None \<Rightarrow> retE ()
     | Some r \<Rightarrow> effectE (rec_Event r obj EventTypeWarning reason message))"

definition recordNormal :: "'s recorder option \<Rightarrow> string \<Rightarrow> string \<Rightarrow> string \<Rightarrow> ('s, unit) eff" where
  "recordNormal rcd obj reason message = (case rcd of None \<Rightarrow> retE ()
     | Some r \<Rightarrow> effectE (rec_Event r obj EventTypeNormal reason message))"

definition RecordReconcileError :: "'s metrics \<Rightarrow> string \<Rightarrow> ('s, unit) eff" where
  "RecordReconcileError m reason =
     effectE (m_IncReconcileErrors m (if reason = [] then ''unknown'' else reason))"

type_synonym reconcile_outcome = "ctrl_result \<times> go_error option"

definition RecordAndReconcileError ::
  "'s metrics \<Rightarrow> go_error option \<Rightarrow> string \<Rightarrow> ('s, reconcile_outcome) eff" where
  "RecordAndReconcileError m err reason =
     thenE (whenE (err \<noteq> None)
              (RecordReconcileError m (if reason = [] then ReconcileErrorReason err else reason)))
       (retE (ReconcileResultForError err))"

text \<open>The reasons under which this controller counts errors.\<close>

definition error_reasons :: "string list" where
  "error_reasons = [''deletion_finalize'', ''status_update'', ''finalizer_remove'', ''finalizer_ensure'',
     ''defaults_load'', ''prune'', ''namespace_reconcile'']"

definition SetActiveTenantCount :: "'s metrics \<Rightarrow> string \<Rightarrow> nat \<Rightarrow> ('s, unit) eff" where
  "SetActiveTenantCount m projectOnboarding tenants = effectE (m_SetTenants m projectOnboarding tenants)"

definition DeleteTenantMetrics :: "'s metrics \<Rightarrow> string \<Rightarrow> ('s, unit) eff" where
  "DeleteTenantMetrics m projectOnboarding = effectE (m_DeleteTenants m projectOnboarding)"

text \<open>A \<^verbatim>\<open>reconcile.Request\<close> of a cluster-scoped resource is its name.\<close>

type_synonym request = string

definition projectOnboardingRequest :: "string \<Rightarrow> request" where
  "projectOnboardingRequest name = name"

section \<open>projectonboarding\_controller.go\<close>

record 's ProjectOnboardingReconciler =
  por_Client :: "'s client"
  por_Scheme :: "scheme option"
  por_OperatorNamespace :: string
  por_Recorder :: "'s recorder option"

definition operatorNamespace :: "libs \<Rightarrow> 's ProjectOnboardingReconciler \<Rightarrow> string" where
  "operatorNamespace lb r = (let ns = trim_space (por_OperatorNamespace r) in
     if ns \<noteq> [] then ns
     else let ns = trim_space (lb_Getenv lb ''POD_NAMESPACE'') in
       if ns \<noteq> [] then ns else DefaultOperatorNamespace)"

text \<open>\<^verbatim>\<open>x, err := m; if err != nil { return h(err) }; k(x)\<close>\<close>

definition orReturn ::
  "('s, 'a) eff \<Rightarrow> (go_error \<Rightarrow> ('s, 'b) eff) \<Rightarrow> ('a \<Rightarrow> ('s, 'b) eff) \<Rightarrow> ('s, 'b) eff" where
  "orReturn m h k = bindE (tryE m) (\<lambda>r. case r of Inl err \<Rightarrow> h err | Inr x \<Rightarrow> k x)"

text \<open>The body of the loop over the namespace entries: the status of the entry and its error.\<close>

definition reconcileEntry ::
  "libs \<Rightarrow> 's client \<Rightarrow> scheme option \<Rightarrow> ProjectOnboarding \<Rightarrow> ProjectOnboarding \<Rightarrow> NamespaceSpec \<Rightarrow>
   ('s, NamespaceStatus \<times> go_error option) eff" where
  "reconcileEntry lb c sch po effectivePO nsSpec =
     (let failed = (\<lambda>err. retE (\<lparr>nst_Name = ns_Name nsSpec, nst_Ready = False,
            nst_Message = TruncateStatusMessage (error_string err)\<rparr>, Some err));
          ready = (\<lambda>msg. retE (\<lparr>nst_Name = ns_Name nsSpec, nst_Ready = True, nst_Message = msg\<rparr>, None))
      in if IsOffboard (ns_Offboard nsSpec) then
           orReturn (CleanupNamespace c po nsSpec) failed (\<lambda>_. ready ''offboarded (resources removed)'')
         else if \<not> IsEnabled (ns_Enabled nsSpec) then ready ''reconciliation disabled''
         else orReturn (ReconcileNamespace lb c sch effectivePO nsSpec) failed (\<lambda>_. ready ''reconciled''))"

type_synonym loop_state = "bool \<times> go_error option \<times> NamespaceStatus list"

fun reconcileEntries ::
  "libs \<Rightarrow> 's client \<Rightarrow> scheme option \<Rightarrow> ProjectOnboarding \<Rightarrow> ProjectOnboarding \<Rightarrow> NamespaceSpec list \<Rightarrow>
   loop_state \<Rightarrow> ('s, loop_state) eff" where
  "reconcileEntries lb c sch po effectivePO [] acc = retE acc"
| "reconcileEntries lb c sch po effectivePO (nsSpec # rest) (allReady, firstError, statuses) =
     bindE (reconcileEntry lb c sch po effectivePO nsSpec) (\<lambda>(nsStatus, err).
     reconcileEntries lb c sch po effectivePO rest (case err of
         None \<Rightarrow> (allReady, firstError, statuses @ [nsStatus])
       | Some e \<Rightarrow> (False, (if firstError = None then Some e else firstError), statuses @ [nsStatus])))"

text \<open>The branch for a resource that is being deleted.\<close>

definition reconcileDeletion ::
  "libs \<Rightarrow> 's metrics \<Rightarrow> 's ProjectOnboardingReconciler \<Rightarrow> ProjectOnboarding \<Rightarrow> ('s, reconcile_outcome) eff" where
  "reconcileDeletion lb m r po = (let c = por_Client r in
     orReturn (FinalizeProjectOnboardingDeletion lb c po)
       (\<lambda>err. RecordAndReconcileError m (Some err) ''deletion_finalize'')
       (\<lambda>(complete, pendingMessage).
         if \<not> complete then
           let status = (po_Status po)\<lparr>pst_Conditions := SetCondition (lb_Now lb)
                 (pst_Conditions (po_Status po)) ConditionDeletionBlocked ''True'' ''AwaitingOffboard''
                 (TruncateStatusMessage pendingMessage)\<rparr>;
               finish = thenE (recordWarning (por_Recorder r) (po_Name po) ''DeletionBlocked'' pendingMessage)
                 (retE (zero_ctrl_result\<lparr>cr_RequeueAfter := 30 * time_Second\<rparr>, None))
           in orReturn (cl_StatusPO c (po\<lparr>po_Status := status\<rparr>))
                (\<lambda>err. if IsConflict err then finish else RecordAndReconcileError m (Some err) ''status_update'')
                (\<lambda>_. finish)
         else orReturn (RemoveFinalizer c po)
                (\<lambda>err. RecordAndReconcileError m (Some err) ''finalizer_remove'')
                (\<lambda>_. thenE (DeleteTenantMetrics m (po_Name po)) (retE (zero_ctrl_result, None)))))"

text \<open>The status that a run reports and the event that goes with it.\<close>

definition final_status :: "nat \<Rightarrow> ProjectOnboarding \<Rightarrow> loop_state \<Rightarrow> ProjectOnboardingStatus" where
  "final_status now po acc = (case acc of (allReady, firstError, statuses) \<Rightarrow>
     let st = (po_Status po)\<lparr>pst_ObservedGeneration := om_generation (po_meta po), pst_Namespaces := statuses\<rparr>
     in if allReady then
          st\<lparr>pst_Phase := PhaseReady, pst_Conditions := SetCondition now (pst_Conditions st)
               ConditionReady ''True'' ''ReconcileSucceeded'' ''All namespaces reconciled''\<rparr>
        else
          st\<lparr>pst_Phase := PhaseFailed, pst_Conditions := SetCondition now (pst_Conditions st)
               ConditionReady ''False'' ''ReconcileFailed''
               (TruncateStatusMessage (''one or more namespaces failed: '' @
                 (case firstError of None \<Rightarrow> ''<nil>'' | Some e \<Rightarrow> error_string e)))\<rparr>)"

definition record_outcome ::
  "'s ProjectOnboardingReconciler \<Rightarrow> ProjectOnboarding \<Rightarrow> loop_state \<Rightarrow> ('s, unit) eff" where
  "record_outcome r po acc = (case acc of (allReady, firstError, statuses) \<Rightarrow>
     if allReady then recordNormal (por_Recorder r) (po_Name po) ''ReconcileSucceeded'' ''All namespaces reconciled''
     else recordWarning (por_Recorder r) (po_Name po) ''ReconcileFailed''
            (TruncateStatusMessage (''one or more namespaces failed: '' @
              (case firstError of None \<Rightarrow> ''<nil>'' | Some e \<Rightarrow> error_string e))))"

text \<open>The loop over the entries, the status update and what follows it.\<close>

definition reconcileTenants ::
  "libs \<Rightarrow> 's metrics \<Rightarrow> 's ProjectOnboardingReconciler \<Rightarrow> ProjectOnboarding \<Rightarrow> ProjectOnboarding \<Rightarrow>
   ('s, reconcile_outcome) eff" where
  "reconcileTenants lb m r po effectivePO = (let c = por_Client r in
     bindE (reconcileEntries lb c (por_Scheme r) po effectivePO (po_Namespaces po) (True, None, [])) (\<lambda>acc.
     thenE (record_outcome r po acc) (
     orReturn (cl_StatusPO c (po\<lparr>po_Status := final_status (lb_Now lb) po acc\<rparr>))
       (\<lambda>err. if IsConflict err then retE (zero_ctrl_result\<lparr>cr_Requeue := True\<rparr>, None)
              else RecordAndReconcileError m (Some err) ''status_update'')
       (\<lambda>_. thenE (SetActiveTenantCount m (po_Name po) (ActiveTenantCount (po_Namespaces po))) (
         let firstError = fst (snd acc) in
         if firstError \<noteq> None then RecordAndReconcileError m firstError ''namespace_reconcile''
         else retE (zero_ctrl_result, None))))))"

definition reconcileActive ::
  "libs \<Rightarrow> 's metrics \<Rightarrow> 's ProjectOnboardingReconciler \<Rightarrow> ProjectOnboarding \<Rightarrow> ('s, reconcile_outcome) eff" where
  "reconcileActive lb m r po = (let c = por_Client r in
     orReturn (LoadClusterDefaults lb c (operatorNamespace lb r))
       (\<lambda>err. RecordAndReconcileError m (Some err) ''defaults_load'')
       (\<lambda>defaults. let effectivePO = MergeClusterDefaults defaults po in
         orReturn (PruneRemovedNamespaces c po)
           (\<lambda>err. thenE (recordWarning (por_Recorder r) (po_Name po) ''PruneFailed'' (error_string err))
                    (RecordAndReconcileError m (Some err) ''prune''))
           (\<lambda>_. reconcileTenants lb m r po effectivePO)))"

definition Reconcile ::
  "libs \<Rightarrow> 's metrics \<Rightarrow> 's ProjectOnboardingReconciler \<Rightarrow> request \<Rightarrow> ('s, reconcile_outcome) eff" where
  "Reconcile lb m r req = (let c = por_Client r in
     orReturn (cl_GetPO c req)
       (\<lambda>err. if IsNotFound err then retE (zero_ctrl_result, None) else retE (zero_ctrl_result, Some err))
       (\<lambda>po. if om_deletionTimestamp (po_meta po) \<noteq> None then reconcileDeletion lb m r po
             else orReturn (EnsureFinalizer c po)
               (\<lambda>err. RecordAndReconcileError m (Some err) ''finalizer_ensure'')
               (\<lambda>po. if IsReconciliationPaused (Some po) then retE (zero_ctrl_result, None)
                     else reconcileActive lb m r po)))"

section \<open>Watches: managed\_watch.go, appproject\_watch.go, tshirt\_watch.go, tshirtsize\_watch.go\<close>

definition managedResourceEnqueueMapper :: "kobj \<Rightarrow> request list" where
  "managedResourceEnqueueMapper obj =
     (if \<not> IsManagedResource (ko_labels obj) then []
      else let poName = label_at (ko_labels obj) ProjectOnboardingLabelKey in
        if poName = [] then [] else [projectOnboardingRequest poName])"

definition isManagedAppProject :: "kobj \<Rightarrow> bool" where
  "isManagedAppProject obj = (if kind_of obj \<noteq> KAppProject then False else IsManagedResource (ko_labels obj))"

definition appProjectEnqueueMapper :: "kobj \<Rightarrow> request list" where
  "appProjectEnqueueMapper obj =
     (if \<not> isManagedAppProject obj then []
      else let poName = label_at (ko_labels obj) ProjectOnboardingLabelKey in
        if poName = [] then [] else [projectOnboardingRequest poName])"

fun references_size :: "NamespaceSpec list \<Rightarrow> string \<Rightarrow> bool" where
  "references_size [] sz = False"
| "references_size (ns # nss) sz = (if ns_ProjectSize ns = sz then True else references_size nss sz)"

definition findProjectOnboardingsForTShirtSize :: "'s client \<Rightarrow> TShirtSize \<Rightarrow> ('s, request list) eff" where
  "findProjectOnboardingsForTShirtSize c tshirt =
     orReturn (cl_ListPO c) (\<lambda>err. retE []) (\<lambda>items.
       retE (map (\<lambda>po. projectOnboardingRequest (po_Name po))
         (filter (\<lambda>po. references_size (po_Namespaces po) (ts_Name tshirt)) items)))"

fun distinct_sizes :: "string list \<Rightarrow> NamespaceSpec list \<Rightarrow> request list" where
  "distinct_sizes seen [] = []"
| "distinct_sizes seen (ns # nss) =
     (if ns_ProjectSize ns = [] then distinct_sizes seen nss
      else if ns_ProjectSize ns \<in> set seen then distinct_sizes seen nss
      else ns_ProjectSize ns # distinct_sizes (ns_ProjectSize ns # seen) nss)"

definition projectOnboardingToTShirtSizeMapper :: "ProjectOnboarding \<Rightarrow> request list" where
  "projectOnboardingToTShirtSizeMapper po = distinct_sizes [] (po_Namespaces po)"

section \<open>What a run asks of the cluster\<close>

lemma keeps_orReturn [keeps_intro]:
  "keeps I m \<Longrightarrow> (\<And>e. keeps I (h e)) \<Longrightarrow> (\<And>x. keeps I (k x)) \<Longrightarrow> keeps I (orReturn m h k)"
  unfolding orReturn_def by (intro keeps_intro)

lemma run_orReturn [eff_run]:
  "orReturn m h k s = (case m s of
     (Ok x, s') \<Rightarrow> k x s' | (Err e, s') \<Rightarrow> h e s' | (Panic p, s') \<Rightarrow> (Panic p, s'))"
  by (auto simp: orReturn_def bindE_def tryE_def split: prod.splits result.splits)

text \<open>
  What a run for \<open>po\<close> may do: delete what is its own, and of the Namespaces only those of its
  offboarded entries; if it is not being deleted, write what its active entries ask for, with
  some cluster defaults \<open>d\<close> merged in and resolved in a way \<open>R\<close> that the catalogue allows; update
  its own status.
\<close>

definition active_entry :: "NamespaceSpec \<Rightarrow> bool" where
  "active_entry ns \<longleftrightarrow> \<not> IsOffboard (ns_Offboard ns) \<and> IsEnabled (ns_Enabled ns)"

definition may_delete :: "ProjectOnboarding \<Rightarrow> (api_call \<Rightarrow> bool) \<Rightarrow> bool" where
  "may_delete po W \<longleftrightarrow> (\<forall>obj. deletable (po_Name po) (set (offboarded_names po)) obj \<longrightarrow> W (CallDelete obj)) \<and>
     (\<forall>st. W (CallStatusPO (po\<lparr>po_Status := st\<rparr>)))"

definition may_write ::
  "(NamespaceSpec \<Rightarrow> NamespaceSpec \<Rightarrow> bool) \<Rightarrow> ProjectOnboarding \<Rightarrow> (api_call \<Rightarrow> bool) \<Rightarrow> bool" where
  "may_write R po W \<longleftrightarrow> (\<forall>d ns k key. ns \<in> set (po_Namespaces po) \<longrightarrow> active_entry ns \<longrightarrow>
     writable (MergeClusterDefaults d po) ns k key \<longrightarrow> switched_on R ns k \<longrightarrow> allows W k key)"

definition may_update :: "ProjectOnboarding \<Rightarrow> (api_call \<Rightarrow> bool) \<Rightarrow> bool" where
  "may_update po W \<longleftrightarrow> (\<forall>fs. W (CallUpdatePO (set_finalizers fs po)))"

text \<open>Events and metrics too keep the invariant.\<close>

locale guarded_operator = guarded_client "por_Client r" I W
  for r :: "'s ProjectOnboardingReconciler" and I :: "'s \<Rightarrow> bool" and W :: "api_call \<Rightarrow> bool" +
  fixes m :: "'s metrics"
  assumes event_keeps: "por_Recorder r = Some rcd \<Longrightarrow> I s \<Longrightarrow> I (rec_Event rcd obj ty reason msg s)"
    and inc_keeps: "W (CountError reason) \<Longrightarrow> I s \<Longrightarrow> I (m_IncReconcileErrors m reason s)"
    and set_keeps: "I s \<Longrightarrow> I (m_SetTenants m name n s)"
    and del_keeps: "I s \<Longrightarrow> I (m_DeleteTenants m name s)"
    and owners: "owners_only (por_Scheme r)"
    and reasons: "reason \<in> set error_reasons \<Longrightarrow> W (CountError reason)"
begin

lemma records_keep:
  "keeps I (recordWarning (por_Recorder r) obj reason msg)" "keeps I (recordNormal (por_Recorder r) obj reason msg)"
  "keeps I (SetActiveTenantCount m name n)" "keeps I (DeleteTenantMetrics m name)"
  unfolding recordWarning_def recordNormal_def SetActiveTenantCount_def DeleteTenantMetrics_def
  by (intro keeps_intro keeps_effect; erule event_keeps set_keeps del_keeps; assumption?)+

lemma error_keeps: "reason \<in> set error_reasons \<Longrightarrow> keeps I (RecordAndReconcileError m err reason)"
  unfolding RecordAndReconcileError_def RecordReconcileError_def
  by (intro keeps_intro keeps_effect inc_keeps reasons) (auto simp: error_reasons_def)

lemma errors_keep [simp]:
  "keeps I (RecordAndReconcileError m err ''deletion_finalize'')" "keeps I (RecordAndReconcileError m err ''status_update'')"
  "keeps I (RecordAndReconcileError m err ''finalizer_remove'')" "keeps I (RecordAndReconcileError m err ''finalizer_ensure'')"
  "keeps I (RecordAndReconcileError m err ''defaults_load'')" "keeps I (RecordAndReconcileError m err ''prune'')"
  "keeps I (RecordAndReconcileError m err ''namespace_reconcile'')"
  by (rule error_keeps, simp add: error_reasons_def)+

lemma may_deleteD:
  assumes "may_delete po W"
  shows "\<And>obj. deletable (po_Name po) (set (offboarded_names po)) obj \<Longrightarrow> W (CallDelete obj)"
    "W (CallStatusPO (po\<lparr>po_Status := st\<rparr>))"
  using assms by (simp_all add: may_delete_def)

lemma reconcileEntry_keeps:
  assumes "may_delete po W" and "may_write (resolves_to lb (por_Client r)) po W" and "ns \<in> set (po_Namespaces po)"
  shows "keeps I (reconcileEntry lb (por_Client r) (por_Scheme r) po (MergeClusterDefaults d po) ns)"
proof -
  have "keeps I (ReconcileNamespace lb (por_Client r) (por_Scheme r) (MergeClusterDefaults d po) ns)" if "active_entry ns"
    by (rule ReconcileNamespace_keeps [where N = "set (offboarded_names po)", OF owners])
      (use assms that may_deleteD(1) in \<open>auto simp: may_write_def\<close>)
  moreover have "IsOffboard (ns_Offboard ns) \<Longrightarrow> keeps I (CleanupNamespace (por_Client r) po ns)"
    by (rule CleanupNamespace_keeps [of po "set (offboarded_names po)"])
      (use assms may_deleteD(1) in \<open>auto intro: offboarded_nameI\<close>)
  ultimately show ?thesis
    unfolding reconcileEntry_def Let_def active_entry_def by (intro keeps_intro keeps_orReturn) simp_all
qed

lemma reconcileEntries_keeps:
  assumes "may_delete po W" and "may_write (resolves_to lb (por_Client r)) po W" and "set nss \<subseteq> set (po_Namespaces po)"
  shows "keeps I (reconcileEntries lb (por_Client r) (por_Scheme r) po (MergeClusterDefaults d po) nss acc)"
  using assms(3)
proof (induction nss arbitrary: acc)
  case (Cons ns nss)
  obtain a f ss where acc: "acc = (a, f, ss)" by (cases acc)
  show ?case
    unfolding acc reconcileEntries.simps
    by (rule keeps_bind [OF reconcileEntry_keeps [OF assms(1,2)]]) (use Cons in \<open>auto split: prod.split\<close>)
qed simp

lemma reconcileActive_keeps:
  assumes "may_delete po W" and "may_write (resolves_to lb (por_Client r)) po W"
  shows "keeps I (reconcileActive lb m r po)"
proof -
  have "keeps I (reconcileTenants lb m r po (MergeClusterDefaults d po))" for d
    unfolding reconcileTenants_def Let_def record_outcome_def
    by (intro keeps_intro reconcileEntries_keeps assms order_refl statuspo_keeps may_deleteD(2) [OF assms(1)] records_keep errors_keep)
      (auto intro: records_keep split: prod.split)
  then show ?thesis
    unfolding reconcileActive_def Let_def
    by (intro keeps_intro LoadClusterDefaults_keeps PruneRemovedNamespaces_keeps may_deleteD(1) [OF assms(1)] records_keep errors_keep)
qed

lemma reconcileDeletion_keeps:
  assumes "may_delete po W" and "may_update po W"
  shows "keeps I (reconcileDeletion lb m r po)"
  unfolding reconcileDeletion_def Let_def
  by (intro keeps_intro FinalizeProjectOnboardingDeletion_keeps may_deleteD(1) [OF assms(1)] records_keep errors_keep)
    (use assms(2) in \<open>auto split: prod.split simp: may_update_def intro!: keeps_intro statuspo_keeps may_deleteD(2) [OF assms(1)]
      records_keep finalizer_keeps\<close>)

lemma Reconcile_keeps:
  assumes "\<And>po. may_delete po W" and "\<And>po. may_write (resolves_to lb (por_Client r)) po W" and "\<And>po. may_update po W"
  shows "keeps I (Reconcile lb m r req)"
proof -
  have f: "keeps I (EnsureFinalizer (por_Client r) po)" for po
    using assms(3) [of po] by (intro finalizer_keeps) (simp add: may_update_def)
  show ?thesis
    unfolding Reconcile_def Let_def
    by (intro keeps_intro getpo_keeps f errors_keep reconcileDeletion_keeps reconcileActive_keeps assms)
qed

end

section \<open>A reconciler whose calls are recorded\<close>

definition logged_recorder :: "'s recorder \<Rightarrow> ('s \<times> api_call list) recorder" where
  "logged_recorder rcd = \<lparr>rec_Event = (\<lambda>obj ty reason msg (s, l). (rec_Event rcd obj ty reason msg s, l @ [RecordEvent ty reason]))\<rparr>"

definition logged_metrics :: "'s metrics \<Rightarrow> ('s \<times> api_call list) metrics" where
  "logged_metrics m = \<lparr>m_IncReconcileErrors = (\<lambda>reason (s, l). (m_IncReconcileErrors m reason s, l @ [CountError reason])),
     m_SetTenants = (\<lambda>name n (s, l). (m_SetTenants m name n s, l)),
     m_DeleteTenants = (\<lambda>name (s, l). (m_DeleteTenants m name s, l))\<rparr>"

definition logged_reconciler ::
  "'s ProjectOnboardingReconciler \<Rightarrow> ('s \<times> api_call list) ProjectOnboardingReconciler" where
  "logged_reconciler r = \<lparr>por_Client = logged (por_Client r), por_Scheme = por_Scheme r,
     por_OperatorNamespace = por_OperatorNamespace r,
     por_Recorder = (case por_Recorder r of None \<Rightarrow> None | Some rcd \<Rightarrow> Some (logged_recorder rcd))\<rparr>"

lemma logged_operator:
  assumes "selecting_client (por_Client r)" and "owners_only (por_Scheme r)"
    and "\<And>reason. reason \<in> set error_reasons \<Longrightarrow> W (CountError reason)"
  shows "guarded_operator (logged_reconciler r) (calls_ok W) W (logged_metrics m)"
proof -
  have c: "por_Client (logged_reconciler r) = logged (por_Client r)" "por_Scheme (logged_reconciler r) = por_Scheme r"
    by (simp_all add: logged_reconciler_def)
  show ?thesis
    unfolding guarded_operator_def guarded_operator_axioms_def c
    by (simp add: logged_guarded [OF assms(1)] assms(2,3))
      (auto simp: calls_ok_def logged_reconciler_def logged_recorder_def logged_metrics_def split: option.splits)
qed

end
