(* ===== verification/Resource_Life.thy ===== *)
theory Resource_Life
  imports Store Controller
begin

text \<open>
  The life of one \<^verbatim>\<open>ProjectOnboarding\<close> over any number of runs of its controller, with other
  actors in between.  The locale \<open>resource_operator\<close> adds to the store of objects the store of
  the resources: what the calls on them change.  \<open>life_step\<close> is the step relation: a run of
  \<^verbatim>\<open>Reconcile\<close>, with any result and any failing calls, or a step of somebody else.  The
  invariant is the purpose of the finalizer: while a Namespace of the resource is live, the
  resource is there and has its finalizer.

  \<open>reliable_operator\<close> adds that calls do not fail while the cluster is calm; with it a run
  for a deleted resource that gave up all its Namespaces comes to its end.
\<close>

section \<open>States\<close>

text \<open>The labels by which an object belongs to the resource called \<open>n\<close>.\<close>

definition carries :: "string \<Rightarrow> kobj \<Rightarrow> bool" where
  "carries n x \<longleftrightarrow> ko_labels x ProjectOnboardingManagedByKey = Some ProjectOnboardingManagedByVal \<and>
     ko_labels x ProjectOnboardingLabelKey = Some n"

lemma owned_carries: "owned po x \<longleftrightarrow> carries (po_Name po) x"
  by (simp add: owned_def carries_def)

definition live_tenant :: "view \<Rightarrow> string \<Rightarrow> bool" where
  "live_tenant v n \<longleftrightarrow> (\<exists>key x. v KNamespace key = Some x \<and> carries n x \<and> \<not> is_deleting x)"

definition tended :: "(string \<Rightarrow> ProjectOnboarding option) \<Rightarrow> string \<Rightarrow> bool" where
  "tended st n \<longleftrightarrow> (\<exists>q. st n = Some q \<and> has_finalizer q)"

lemma live_tenant_deletes: "deletes K v v' \<Longrightarrow> live_tenant v' n \<Longrightarrow> live_tenant v n"
  unfolding live_tenant_def deletes_def by metis

lemma tended_status: "tended (\<lambda>x. map_option (\<lambda>q. q\<lparr>po_Status := f x\<rparr>) (st x)) n = tended st n"
  by (auto simp: tended_def has_finalizer_def)

text \<open>
  A step of the life of \<open>n\<close>: a run of its controller, with the libraries behaving in any way
  (clock, order of maps), or a step of somebody else, who brings no Namespace of \<open>n\<close> to life
  and does not take the finalizer away.
\<close>

inductive life_step ::
  "'s metrics \<Rightarrow> 's ProjectOnboardingReconciler \<Rightarrow> ('s \<Rightarrow> view) \<Rightarrow> ('s \<Rightarrow> string \<Rightarrow> ProjectOnboarding option) \<Rightarrow>
   string \<Rightarrow> 's \<Rightarrow> 's \<Rightarrow> bool"
  for m :: "'s metrics" and r :: "'s ProjectOnboardingReconciler" and view stored n where
  controller: "Reconcile lb m r (projectOnboardingRequest n) s = (res, s') \<Longrightarrow> life_step m r view stored n s s'"
| elsewhere: "live_tenant (view s') n \<longrightarrow> live_tenant (view s) n \<Longrightarrow> tended (stored s) n \<longrightarrow> tended (stored s') n \<Longrightarrow>
    life_step m r view stored n s s'"

inductive_cases life_stepE: "life_step m r view stored n s s'"

section \<open>The contract\<close>

locale resource_operator = store_client "por_Client r" view
  for r :: "'s ProjectOnboardingReconciler" and view :: "'s \<Rightarrow> view" +
  fixes m :: "'s metrics" and stored :: "'s \<Rightarrow> string \<Rightarrow> ProjectOnboarding option"
  assumes owner_refs: "owners_only (por_Scheme r)"
    and get_stored: "cl_Get (por_Client r) k key s = (rg, s') \<Longrightarrow> stored s' = stored s"
    and list_stored: "cl_List (por_Client r) k opts s = (rl, s') \<Longrightarrow> stored s' = stored s"
    and create_stored: "cl_Create (por_Client r) obj s = (rc, s') \<Longrightarrow> stored s' = stored s"
    and patch_stored: "cl_Patch (por_Client r) base obj s = (rc, s') \<Longrightarrow> stored s' = stored s"
    and delete_stored: "cl_Delete (por_Client r) obj s = (rd, s') \<Longrightarrow> stored s' = stored s"
    and delete_any: "cl_Delete (por_Client r) obj s = (rd, s') \<Longrightarrow> deletes UNIV (view s) (view s')"
    and getts_stored: "cl_GetTS (por_Client r) name s = (rt, s') \<Longrightarrow> stored s' = stored s"
    and getcm_reads: "cl_GetConfigMap (por_Client r) key s = (rm, s') \<Longrightarrow> view s' = view s \<and> stored s' = stored s"
    and listpo_reads: "cl_ListPO (por_Client r) s = (rps, s') \<Longrightarrow> view s' = view s \<and> stored s' = stored s"
    and getpo_reads: "cl_GetPO (por_Client r) n s = (rp, s') \<Longrightarrow> view s' = view s \<and> stored s' = stored s"
    and getpo_ok: "cl_GetPO (por_Client r) n s = (Ok po, s') \<Longrightarrow> stored s n = Some po \<and> po_Name po = n"
    and status_changes: "cl_StatusPO (por_Client r) po s = (ru, s') \<Longrightarrow> view s' = view s \<and>
      (\<exists>f. stored s' = (\<lambda>n. map_option (\<lambda>q. q\<lparr>po_Status := f n\<rparr>) (stored s n)))"
    and update_view: "cl_UpdatePO (por_Client r) po s = (rp, s') \<Longrightarrow> view s' = view s"
    and update_ok: "cl_UpdatePO (por_Client r) po s = (Ok q, s') \<Longrightarrow> om_finalizers (po_meta po) \<noteq> [] \<Longrightarrow>
      stored s' (po_Name po) = Some q \<and> om_finalizers (po_meta q) = om_finalizers (po_meta po)"
    and event_reads: "por_Recorder r = Some rcd \<Longrightarrow> s' = rec_Event rcd on ty reason msg s \<Longrightarrow>
      view s' = view s \<and> stored s' = stored s"
    and inc_reads: "s' = m_IncReconcileErrors m reason s \<Longrightarrow> view s' = view s \<and> stored s' = stored s"
    and set_reads: "s' = m_SetTenants m name num s \<Longrightarrow> view s' = view s \<and> stored s' = stored s"
    and del_reads: "s' = m_DeleteTenants m name s \<Longrightarrow> view s' = view s \<and> stored s' = stored s"

text \<open>Calls that leave the finalizers alone, and calls that bring no object to life.\<close>

definition no_update :: "api_call \<Rightarrow> bool" where
  "no_update call = (case call of CallUpdatePO po \<Rightarrow> False | CallStatusTS t \<Rightarrow> False | _ \<Rightarrow> True)"

definition no_write :: "api_call \<Rightarrow> bool" where
  "no_write call = (case call of CallCreate obj \<Rightarrow> False | CallPatch base obj \<Rightarrow> False | CallStatusTS t \<Rightarrow> False | _ \<Rightarrow> True)"

lemma no_call_simps [simp]:
  "no_update (CallCreate obj)" "no_update (CallPatch base obj)" "no_update (CallDelete obj)" "no_update (CallStatusPO po)"
  "no_update (CountError reason)" "\<not> no_update (CallUpdatePO po)" "\<not> no_update (CallStatusTS t)"
  "\<not> no_write (CallCreate obj)" "\<not> no_write (CallPatch base obj)" "no_write (CallDelete obj)" "no_write (CallStatusPO po)"
  "no_write (CountError reason)" "no_write (CallUpdatePO po)" "\<not> no_write (CallStatusTS t)"
  by (simp_all add: no_update_def no_write_def)

text \<open>A call that leaves alone what the invariant speaks of.\<close>

lemma keeps_frame: "(\<And>s x s'. m s = (x, s') \<Longrightarrow> f s' = f s) \<Longrightarrow> keeps (\<lambda>s. J (f s)) m"
  by (auto simp: keeps_iff)

lemma keeps_shrink: "(\<And>s x s'. m s = (x, s') \<Longrightarrow> J s' \<Longrightarrow> J s) \<Longrightarrow> keeps (\<lambda>s. \<not> J s) m"
  by (auto simp: keeps_iff)

section \<open>What a run keeps\<close>

context resource_operator
begin

lemmas stored_frames = get_stored list_stored create_stored patch_stored delete_stored getts_stored
  conjunct2 [OF getcm_reads] conjunct2 [OF listpo_reads] conjunct2 [OF getpo_reads]

lemmas view_frames = get_store list_store getts_store update_view conjunct1 [OF status_changes]
  conjunct1 [OF getcm_reads] conjunct1 [OF listpo_reads] conjunct1 [OF getpo_reads]

lemmas record_frames = event_reads [OF _ refl] inc_reads [OF refl] set_reads [OF refl] del_reads [OF refl]

lemma status_tends: "keeps (\<lambda>s. tended (stored s) n) (cl_StatusPO (por_Client r) po)"
  unfolding keeps_iff
proof (intro allI impI)
  fix s ru s' assume "tended (stored s) n" "cl_StatusPO (por_Client r) po s = (ru, s')"
  with status_changes obtain f where "stored s' = (\<lambda>n. map_option (\<lambda>q. q\<lparr>po_Status := f n\<rparr>) (stored s n))" by blast
  with \<open>tended (stored s) n\<close> show "tended (stored s') n" by (simp add: tended_status)
qed

end

text \<open>Two invariants of a run, each under the calls that respect it.\<close>

sublocale resource_operator \<subseteq> tending: guarded_operator r "\<lambda>s. tended (stored s) n" no_update m for n
  by unfold_locales
    (simp_all only: no_call_simps status_tends owner_refs record_frames TrueI,
     (rule keeps_frame [where f = stored], erule stored_frames)+)

sublocale resource_operator \<subseteq> quiet: guarded_operator r "\<lambda>s. \<not> live_tenant (view s) n" no_write m for n
  by unfold_locales
    (simp_all only: no_call_simps owner_refs record_frames simp_thms,
     (rule keeps_frame [where f = view], erule view_frames | rule keeps_shrink, erule live_tenant_deletes [OF delete_any], assumption)+)

text \<open>A run up to its first call, by the outcome of the call.\<close>

lemma orReturn_first:
  "f s = (Ok x, s1) \<Longrightarrow> orReturn f h k s = k x s1" "f s = (Err e, s1) \<Longrightarrow> orReturn f h k s = h e s1"
  "f s = (Panic p, s1) \<Longrightarrow> orReturn f h k s = (Panic p, s1)"
  by (simp_all add: run_orReturn)

context resource_operator
begin

lemma may [simp]:
  "may_delete po no_update" "may_write R po no_update" "may_delete po no_write" "may_update po no_write"
  by (simp_all add: may_delete_def may_write_def may_update_def allows_def)

section \<open>The invariant of the finalizer\<close>

lemma none_left_live: "none_left (\<lambda>x. owned po x \<and> kind_of x = KNamespace) s \<Longrightarrow> \<not> live_tenant (view s) (po_Name po)"
  unfolding none_left_def live_tenant_def owned_carries by (metis typed)

text \<open>A run for a deleted resource that has the finalizer removes it only when no Namespace is live.\<close>

lemma deletion_guarded:
  assumes "tended (stored s) (po_Name po)" and run: "reconcileDeletion lb m r po s = (res, s')"
    and "live_tenant (view s') (po_Name po)"
  shows "tended (stored s') (po_Name po)"
proof -
  let ?n = "po_Name po"
  obtain rf s1 where f: "FinalizeProjectOnboardingDeletion lb (por_Client r) po s = (rf, s1)" by fastforce
  have t1: "tended (stored s1) ?n"
    by (rule keepsD [OF tending.FinalizeProjectOnboardingDeletion_keeps assms(1) f]) simp
  note rest = run [unfolded reconcileDeletion_def Let_def] and first = orReturn_first [of "FinalizeProjectOnboardingDeletion lb (por_Client r) po" s]
  show ?thesis
  proof (cases rf)
    case (Ok p)
    obtain complete msg where p: "p = (complete, msg)" by (cases p)
    show ?thesis
    proof (cases complete)
      case True
      have "\<not> live_tenant (view s1) ?n" using finalize_complete [of lb po s msg s1] f Ok p True by (auto dest: none_left_live)
      moreover have "keeps (\<lambda>s. \<not> live_tenant (view s) ?n) (orReturn (RemoveFinalizer (por_Client r) po)
          (\<lambda>err. RecordAndReconcileError m (Some err) ''finalizer_remove'')
          (\<lambda>_. thenE (DeleteTenantMetrics m (po_Name po)) (retE (zero_ctrl_result, None))))"
        by (intro keeps_intro quiet.finalizer_keeps quiet.records_keep quiet.errors_keep) simp
      moreover note rest [unfolded first(1) [OF f [unfolded Ok p]]]
      ultimately have "\<not> live_tenant (view s') ?n" using True by (auto dest: keepsD)
      with assms(3) show ?thesis by simp
    next
      case False
      have "keeps (\<lambda>s. tended (stored s) ?n) (orReturn (cl_StatusPO (por_Client r) (po\<lparr>po_Status := st\<rparr>))
          (\<lambda>err. if IsConflict err then thenE (recordWarning (por_Recorder r) (po_Name po) ''DeletionBlocked'' msg) (retE out)
             else RecordAndReconcileError m (Some err) ''status_update'')
          (\<lambda>_. thenE (recordWarning (por_Recorder r) (po_Name po) ''DeletionBlocked'' msg) (retE out)))" for st out
        by (intro keeps_intro status_tends tending.records_keep tending.errors_keep)
      from keepsD [OF this t1] rest [unfolded first(1) [OF f [unfolded Ok p]]] False show ?thesis by simp
    qed
  qed (use t1 rest f in \<open>auto simp: run_orReturn intro: keepsD [OF tending.errors_keep(1)]\<close>)
qed

text \<open>Adding the finalizer, from a state in which no Namespace of the resource is live.\<close>

lemma ensure_tends:
  assumes "EnsureFinalizer (por_Client r) po s = (Ok q, s')" and "\<not> has_finalizer po"
  shows "tended (stored s') (po_Name po)"
proof -
  have "cl_UpdatePO (por_Client r) (set_finalizers (om_finalizers (po_meta po) @ [ProjectOnboardingFinalizer]) po) s = (Ok q, s')"
    using assms by (simp add: EnsureFinalizer_def)
  from update_ok [OF this] show ?thesis
    by (simp add: tended_def has_finalizer_def set_finalizers_def)
qed

lemma Reconcile_guarded:
  assumes inv: "live_tenant (view s) n \<longrightarrow> tended (stored s) n"
    and run: "Reconcile lb m r (projectOnboardingRequest n) s = (res, s')"
  shows "live_tenant (view s') n \<longrightarrow> tended (stored s') n"
proof -
  obtain rp s1 where g: "cl_GetPO (por_Client r) n s = (rp, s1)" by fastforce
  have s1: "view s1 = view s" "stored s1 = stored s" using getpo_reads [OF g] by simp_all
  note rest = run [unfolded Reconcile_def projectOnboardingRequest_def Let_def]
  show ?thesis
  proof (cases rp)
    case (Ok po)
    have po: "stored s n = Some po" "n = po_Name po" using getpo_ok g Ok by auto
    note rest = rest [unfolded orReturn_first(1) [where f = "cl_GetPO (por_Client r) n", OF g [unfolded Ok]]]
    show ?thesis
    proof (cases "has_finalizer po")
      case True
      then have t: "tended (stored s1) n" using po s1 by (simp add: tended_def)
      show ?thesis
      proof (cases "om_deletionTimestamp (po_meta po) = None")
        case None: True
        have "keeps (\<lambda>s. tended (stored s) n) (if IsReconciliationPaused (Some po) then retE (zero_ctrl_result, None)
            else reconcileActive lb m r po)"
          by (intro keeps_intro tending.reconcileActive_keeps) simp_all
        from keepsD [OF this t] rest None True show ?thesis by (simp add: EnsureFinalizer_def eff_run)
      next
        case False
        with rest t show ?thesis using deletion_guarded po(2) by auto
      qed
    next
      case False
      then have q: "\<not> live_tenant (view s1) n" using inv po s1 by (auto simp: tended_def)
      show ?thesis
      proof (cases "om_deletionTimestamp (po_meta po) = None")
        case None: True
        obtain re s2 where e: "EnsureFinalizer (por_Client r) po s1 = (re, s2)" by fastforce
        have q2: "\<not> live_tenant (view s2) n"
          by (rule keepsD [OF quiet.finalizer_keeps(1) q e]) simp
        show ?thesis
        proof (cases re)
          case (Ok q)
          have t: "tended (stored s2) n" using ensure_tends e Ok False po(2) by blast
          have "keeps (\<lambda>s. tended (stored s) n) (if IsReconciliationPaused (Some q) then retE (zero_ctrl_result, None)
              else reconcileActive lb m r q)"
            by (intro keeps_intro tending.reconcileActive_keeps) simp_all
          from keepsD [OF this t] rest None e Ok show ?thesis by (simp add: run_orReturn)
        qed (use q2 rest None e in \<open>auto simp: run_orReturn dest: keepsD [OF quiet.errors_keep(4)]\<close>)
      next
        case deleting: False
        have "keeps (\<lambda>s. \<not> live_tenant (view s) n) (reconcileDeletion lb m r po)"
          by (intro quiet.reconcileDeletion_keeps) simp_all
        from keepsD [OF this q] rest deleting show ?thesis by auto
      qed
    qed
  qed (use rest s1 inv g in \<open>auto simp: eff_run split: if_splits\<close>)
qed

lemma life_step_guarded:
  assumes "live_tenant (view s) n \<longrightarrow> tended (stored s) n" and "life_step m r view stored n s s'"
  shows "live_tenant (view s') n \<longrightarrow> tended (stored s') n"
  using assms(2,1) by (elim life_stepE) (use Reconcile_guarded in blast)+

lemma life_guarded:
  assumes "(life_step m r view stored n)\<^sup>*\<^sup>* s s'" and "live_tenant (view s) n \<longrightarrow> tended (stored s) n"
  shows "live_tenant (view s') n \<longrightarrow> tended (stored s') n"
  using assms
proof (induction rule: rtranclp_induct)
  case (step y z)
  then show ?case by (metis life_step_guarded)
qed simp

end

section \<open>Runs that cannot fail\<close>

text \<open>Total correctness: from a state in \<open>P\<close> the effect returns a value, with \<open>Q\<close>.\<close>

definition yields :: "('s \<Rightarrow> bool) \<Rightarrow> ('s, 'a) eff \<Rightarrow> ('a \<Rightarrow> 's \<Rightarrow> bool) \<Rightarrow> bool" where
  "yields P m Q \<longleftrightarrow> (\<forall>s. P s \<longrightarrow> (\<exists>x s'. m s = (Ok x, s') \<and> Q x s'))"

named_theorems yields_intro "effects that return a value and keep an invariant"

lemma yieldsD: "yields P m Q \<Longrightarrow> P s \<Longrightarrow> \<exists>x s'. m s = (Ok x, s') \<and> Q x s'"
  by (simp add: yields_def)

lemma yields_bind:
  assumes "yields P m R" and "\<And>x. yields (R x) (f x) Q"
  shows "yields P (bindE m f) Q"
  unfolding yields_def
proof (intro allI impI)
  fix s assume "P s"
  then obtain x s1 where m: "m s = (Ok x, s1)" "R x s1" using assms(1) by (auto simp: yields_def)
  then obtain y s2 where "f x s1 = (Ok y, s2)" "Q y s2" using assms(2) unfolding yields_def by blast
  with m show "\<exists>y s'. bindE m f s = (Ok y, s') \<and> Q y s'" by (simp add: run_bindE)
qed

lemma yields_weaken: "yields P m Q \<Longrightarrow> (\<And>x s. Q x s \<Longrightarrow> Q' x s) \<Longrightarrow> yields P m Q'"
  unfolding yields_def by blast

lemma yields_strengthen: "yields P m Q \<Longrightarrow> (\<And>s. P' s \<Longrightarrow> P s) \<Longrightarrow> yields P' m Q"
  unfolding yields_def by blast

lemma yields_ret: "(\<And>s. P s \<Longrightarrow> Q x s) \<Longrightarrow> yields P (retE x) Q"
  by (simp add: yields_def retE_def)

lemma yields_pre: "(\<And>s. P s \<Longrightarrow> b) \<Longrightarrow> (b \<Longrightarrow> yields P m Q) \<Longrightarrow> yields P m Q"
  unfolding yields_def by blast

abbreviation always :: "('s \<Rightarrow> bool) \<Rightarrow> ('s, 'a) eff \<Rightarrow> bool" where
  "always J m \<equiv> yields J m (\<lambda>_. J)"

lemma always_ret [yields_intro]: "always J (retE x)"
  by (simp add: yields_ret)

lemma always_bind [yields_intro]: "always J m \<Longrightarrow> (\<And>x. always J (f x)) \<Longrightarrow> always J (bindE m f)"
  by (rule yields_bind)

lemma always_then [yields_intro]: "always J m \<Longrightarrow> always J n \<Longrightarrow> always J (thenE m n)"
  unfolding thenE_def by (rule yields_bind)

lemma always_when [yields_intro]: "always J m \<Longrightarrow> always J (whenE b m)"
  by (simp add: whenE_def always_ret)

lemma yields_wrap [yields_intro]: "yields P m Q \<Longrightarrow> yields P (wrapE ctx m) Q"
  by (fastforce simp: yields_def run_wrapE)

lemma always_for [yields_intro]: "(\<And>x. x \<in> set xs \<Longrightarrow> always J (f x)) \<Longrightarrow> always J (forE xs f)"
  by (induction xs) (simp_all add: always_ret always_bind)

lemma yields_collect:
  "(\<And>x. x \<in> set xs \<Longrightarrow> yields J (f x) (\<lambda>y s. J s \<and> B y)) \<Longrightarrow> yields J (collectE xs f) (\<lambda>ys s. J s \<and> (\<forall>y \<in> set ys. B y))"
proof (induction xs)
  case (Cons x xs)
  show ?case
    unfolding collectE.simps
  proof (rule yields_bind [where R = "\<lambda>y s. J s \<and> B y"])
    show "yields J (f x) (\<lambda>y s. J s \<and> B y)" using Cons.prems by simp
    fix y
    have "yields (\<lambda>s. J s \<and> B y) (collectE xs f) (\<lambda>ys s. J s \<and> B y \<and> (\<forall>y \<in> set ys. B y))"
      using Cons by (fastforce simp: yields_def)
    then show "yields (\<lambda>s. J s \<and> B y) (bindE (collectE xs f) (\<lambda>ys. retE (y # ys))) (\<lambda>ys s. J s \<and> (\<forall>y \<in> set ys. B y))"
      by (rule yields_bind) (simp add: yields_ret)
  qed
qed (simp add: yields_ret)

section \<open>A calm cluster\<close>

definition answered :: "(go_error \<Rightarrow> bool) \<Rightarrow> 'a result \<Rightarrow> bool" where
  "answered ok res = (case res of Ok x \<Rightarrow> True | Err e \<Rightarrow> ok e | Panic p \<Rightarrow> False)"

text \<open>APIs that need not be installed: those of OpenShift and Argo CD.\<close>

definition optional_kinds :: "kind set" where
  "optional_kinds = {KGroup, KEgressIP, KAppProject}"

locale reliable_operator = resource_operator r view m stored
  for r :: "'s ProjectOnboardingReconciler" and view :: "'s \<Rightarrow> view" and m :: "'s metrics"
    and stored :: "'s \<Rightarrow> string \<Rightarrow> ProjectOnboarding option" +
  fixes calm :: "'s \<Rightarrow> bool"
  assumes calm_get: "calm s \<Longrightarrow> cl_Get (por_Client r) k key s = (rg, s') \<Longrightarrow>
      calm s' \<and> answered (\<lambda>e. IsNotFound e \<or> k \<in> optional_kinds \<and> IsNoMatchError e) rg"
    and calm_list: "calm s \<Longrightarrow> cl_List (por_Client r) k opts s = (rl, s') \<Longrightarrow>
      calm s' \<and> answered (\<lambda>e. k \<in> optional_kinds \<and> IsNoMatchError e) rl"
    and calm_delete: "calm s \<Longrightarrow> cl_Delete (por_Client r) obj s = (rd, s') \<Longrightarrow> calm s' \<and> answered IsNotFound rd"
    and calm_getpo: "calm s \<Longrightarrow> cl_GetPO (por_Client r) n s = (rp, s') \<Longrightarrow>
      calm s' \<and> answered (\<lambda>e. IsNotFound e \<and> stored s n = None) rp"
    and calm_update: "calm s \<Longrightarrow> stored s (po_Name po) = Some po \<Longrightarrow> om_deletionTimestamp (po_meta po) \<noteq> None \<Longrightarrow>
      cl_UpdatePO (por_Client r) (set_finalizers fs po) s = (rp, s') \<Longrightarrow>
      answered (\<lambda>e. False) rp \<and> (fs = [] \<longrightarrow> stored s' (po_Name po) = None)"

text \<open>Every live Namespace of the resource is one that it gives up.\<close>

definition given_up :: "ProjectOnboarding \<Rightarrow> view \<Rightarrow> bool" where
  "given_up po v \<longleftrightarrow> (\<forall>key x. v KNamespace key = Some x \<longrightarrow> isManagedByProjectOnboarding (ko_labels x) po \<longrightarrow>
     \<not> is_deleting x \<longrightarrow> snd key \<in> set (offboarded_names po) \<and> snd key \<notin> set (desiredTenantNamespaceNames po))"

lemma given_up_deletes: "deletes K v v' \<Longrightarrow> given_up po v \<Longrightarrow> given_up po v'"
  unfolding given_up_def deletes_def by metis

context reliable_operator
begin

definition settled :: "(string \<Rightarrow> ProjectOnboarding option) \<Rightarrow> ProjectOnboarding \<Rightarrow> 's \<Rightarrow> bool" where
  "settled st po s \<longleftrightarrow> calm s \<and> stored s = st \<and> given_up po (view s)"

lemma settled_calls:
  "settled st po s \<Longrightarrow> cl_Get (por_Client r) k key s = (rg, s') \<Longrightarrow> settled st po s'"
  "settled st po s \<Longrightarrow> cl_List (por_Client r) k opts s = (rl, s') \<Longrightarrow> settled st po s'"
  "settled st po s \<Longrightarrow> cl_Delete (por_Client r) obj s = (rd, s') \<Longrightarrow> settled st po s'"
  unfolding settled_def
  by (auto dest: calm_get get_stored get_store calm_list list_stored list_store calm_delete delete_stored
      intro: given_up_deletes [OF delete_any])

text \<open>A read followed by a case distinction that knows which errors to pass over.\<close>

lemma always_get [yields_intro]:
  assumes "k \<in> optional_kinds \<Longrightarrow> b" and "\<And>x. always (settled st po) (f x)"
  shows "always (settled st po) (bindE (tryE (cl_Get (por_Client r) k key)) (\<lambda>res. case res of
     Inl err \<Rightarrow> if IsNotFound err \<or> b \<and> IsNoMatchError err then retE y else failE err | Inr x \<Rightarrow> f x))"
  unfolding yields_def
proof (intro allI impI)
  fix s assume s: "settled st po s"
  obtain rg s1 where g: "cl_Get (por_Client r) k key s = (rg, s1)" by fastforce
  note s1 = settled_calls(1) [OF s g]
  have a: "answered (\<lambda>e. IsNotFound e \<or> k \<in> optional_kinds \<and> IsNoMatchError e) rg"
    using calm_get [OF _ g] s by (simp add: settled_def)
  show "\<exists>x s'. bindE (tryE (cl_Get (por_Client r) k key)) (\<lambda>res. case res of
     Inl err \<Rightarrow> if IsNotFound err \<or> b \<and> IsNoMatchError err then retE y else failE err | Inr x \<Rightarrow> f x) s = (Ok x, s') \<and> settled st po s'"
    using a assms(1) yieldsD [OF assms(2) s1] g s1 by (cases rg) (auto simp: eff_run answered_def)
qed

lemmas always_get_core = always_get [where b = False, unfolded simp_thms]
lemmas always_get_optional = always_get [where b = True, unfolded simp_thms]

lemma always_list:
  assumes "k \<notin> optional_kinds"
  shows "always (settled st po) (cl_List (por_Client r) k opts)"
  unfolding yields_def
proof (intro allI impI)
  fix s assume s: "settled st po s"
  obtain rl s1 where l: "cl_List (por_Client r) k opts s = (rl, s1)" by fastforce
  with calm_list [OF _ l] s assms show "\<exists>x s'. cl_List (por_Client r) k opts s = (Ok x, s') \<and> settled st po s'"
    by (cases rl) (auto simp: settled_def answered_def dest: settled_calls(2) [OF s])
qed

lemma always_try_list [yields_intro]:
  assumes "\<And>xs. always (settled st po) (f xs)"
  shows "always (settled st po) (bindE (tryE (cl_List (por_Client r) k opts)) (\<lambda>res. case res of
     Inl err \<Rightarrow> if IsNoMatchError err then retE y else failE err | Inr xs \<Rightarrow> f xs))"
  unfolding yields_def
proof (intro allI impI)
  fix s assume s: "settled st po s"
  obtain rl s1 where l: "cl_List (por_Client r) k opts s = (rl, s1)" by fastforce
  note s1 = settled_calls(2) [OF s l]
  have a: "answered (\<lambda>e. k \<in> optional_kinds \<and> IsNoMatchError e) rl"
    using calm_list [OF _ l] s by (simp add: settled_def)
  show "\<exists>x s'. bindE (tryE (cl_List (por_Client r) k opts)) (\<lambda>res. case res of
     Inl err \<Rightarrow> if IsNoMatchError err then retE y else failE err | Inr xs \<Rightarrow> f xs) s = (Ok x, s') \<and> settled st po s'"
    using a yieldsD [OF assms s1] l s1 by (cases rl) (auto simp: eff_run answered_def)
qed

lemma always_delete [yields_intro]: "always (settled st po) (ignoreNotFound (cl_Delete (por_Client r) obj))"
  unfolding yields_def
proof (intro allI impI)
  fix s assume s: "settled st po s"
  obtain rd s1 where d: "cl_Delete (por_Client r) obj s = (rd, s1)" by fastforce
  have a: "answered IsNotFound rd" using calm_delete [OF _ d] s by (simp add: settled_def)
  show "\<exists>x s'. ignoreNotFound (cl_Delete (por_Client r) obj) s = (Ok x, s') \<and> settled st po s'"
    using a settled_calls(3) [OF s d] d by (cases rd) (auto simp: ignoreNotFound_def eff_run answered_def)
qed

lemma always_deleteIfManaged [yields_intro]: "always (settled st po) (deleteIfManaged (por_Client r) obj po')"
  unfolding deleteIfManaged_def by (simp add: always_ret always_delete)

lemma always_parts:
  "always (settled st po) (deleteManagedNetworkPolicies (por_Client r) po' n)"
  "always (settled st po) (deleteManagedRoleBinding (por_Client r) po' ns n)"
  "always (settled st po) (deleteManagedLimitRange (por_Client r) po' n)"
  "always (settled st po) (deleteManagedResourceQuota (por_Client r) po' n)"
  "always (settled st po) (deleteManagedEgressIP (por_Client r) po' n)"
  "always (settled st po) (deleteManagedGroup (por_Client r) po' ns)"
  "always (settled st po) (deleteManagedAppProjects (por_Client r) po' ns)"
  "always (settled st po) (deleteManagedNamespace (por_Client r) po' n)"
  unfolding deleteManagedNetworkPolicies_def deleteManagedRoleBinding_def deleteManagedLimitRange_def
    deleteManagedResourceQuota_def deleteManagedEgressIP_def deleteManagedGroup_def deleteManagedAppProjects_def
    deleteAppProjectsForNamespace_def deleteManagedNamespace_def
  by (intro always_get_core always_get_optional yields_intro always_list; simp add: optional_kinds_def always_ret always_delete)+

lemma CleanupNamespace_always:
  "always (settled st po) (CleanupNamespace (por_Client r) po' ns)"
  "always (settled st po) (CleanupNamespaceClusterScoped (por_Client r) po' ns)"
  unfolding CleanupNamespace_def CleanupNamespaceClusterScoped_def Let_def by (intro yields_intro always_parts)+

section \<open>Finalization comes to its end\<close>

lemma managedNamespaceExists_yields:
  "yields (settled st po) (managedNamespaceExists (por_Client r) po n)
     (\<lambda>ex s. settled st po s \<and> (ex \<longrightarrow> n \<notin> set (desiredTenantNamespaceNames po)))"
  unfolding yields_def
proof (intro allI impI)
  fix s assume s: "settled st po s"
  obtain rg s1 where g: "cl_Get (por_Client r) KNamespace ([], n) s = (rg, s1)" by fastforce
  have a: "answered IsNotFound rg" using calm_get [OF _ g] s by (simp add: settled_def optional_kinds_def)
  show "\<exists>x s'. managedNamespaceExists (por_Client r) po n s = (Ok x, s') \<and>
      settled st po s' \<and> (x \<longrightarrow> n \<notin> set (desiredTenantNamespaceNames po))"
  proof (cases rg)
    case (Ok x)
    have "view s KNamespace ([], n) = Some x" using get_ok g Ok by blast
    then have "n \<notin> set (desiredTenantNamespaceNames po)"
      if "isManagedByProjectOnboarding (ko_labels x) po" "\<not> is_deleting x"
      using s that unfolding settled_def given_up_def by force
    then show ?thesis using Ok g settled_calls(1) [OF s g] by (auto simp: managedNamespaceExists_def eff_run)
  qed (use a g settled_calls(1) [OF s g] in \<open>auto simp: managedNamespaceExists_def eff_run answered_def\<close>)
qed

lemma namespaceExists_always: "always (settled st po) (namespaceExists (por_Client r) n)"
  unfolding namespaceExists_def
  using always_get_core [where k = KNamespace and y = False and f = "\<lambda>x. retE True"]
  by (simp add: optional_kinds_def always_ret)

lemma entry_yields:
  assumes "ns \<in> set (po_Namespaces po)"
  shows "yields (settled st po) (finalizeNamespaceEntry (por_Client r) po ns) (\<lambda>e s. settled st po s \<and> e = [])"
  unfolding finalizeNamespaceEntry_def Let_def
proof (rule yields_bind [OF managedNamespaceExists_yields])
  fix ex
  let ?n = "SanitizeName (ns_Name ns)"
  have then_ret: "yields (settled st po) (thenE c (retE [])) (\<lambda>e s. settled st po s \<and> e = [])"
    if "always (settled st po) c" for c :: "('s, unit) eff"
    using that unfolding thenE_def by (rule yields_bind) (simp add: yields_ret)
  have off: "IsOffboard (ns_Offboard ns)" if "ex" "ex \<longrightarrow> ?n \<notin> set (desiredTenantNamespaceNames po)"
    using assms that by (auto simp: desiredTenantNamespaceNames_def)
  show "yields (\<lambda>s. settled st po s \<and> (ex \<longrightarrow> ?n \<notin> set (desiredTenantNamespaceNames po)))
      (if IsOffboard (ns_Offboard ns) then thenE (CleanupNamespace (por_Client r) po ns) (retE [])
       else if ex then retE ?n else thenE (CleanupNamespaceClusterScoped (por_Client r) po ns) (retE []))
      (\<lambda>e s. settled st po s \<and> e = [])"
    by (rule yields_pre [of _ "ex \<longrightarrow> ?n \<notin> set (desiredTenantNamespaceNames po)"], simp,
        rule yields_strengthen [of "settled st po"])
      (use off in \<open>auto simp: then_ret CleanupNamespace_always yields_ret\<close>)
qed

lemma offboarded_in_spec: "set (offboarded_names po) \<subseteq> set (namespaceNamesInSpec po)"
  by (auto simp: offboarded_names_def namespaceNamesInSpec_def)

lemma managed_yields:
  "yields (settled st po) (listManagedNamespaces (por_Client r) po)
     (\<lambda>xs s. settled st po s \<and> orphan_names po xs = [])"
  unfolding listManagedNamespaces_def
proof (rule yields_wrap, unfold yields_def, intro allI impI)
  fix s assume s: "settled st po s"
  obtain xs s1 where l: "cl_List (por_Client r) KNamespace (managedListOptions None po) s = (Ok xs, s1)" "settled st po s1"
    using yieldsD [OF always_list [of KNamespace st po "managedListOptions None po"] s] by (auto simp: optional_kinds_def)
  have "om_name (ko_meta x) \<in> set (namespaceNamesInSpec po)" if "x \<in> set xs" "\<not> is_deleting x" for x
  proof -
    have "view s KNamespace (key_of x) = Some x" "selected (managedListOptions None po) x"
      using list_ok [OF l(1)] that(1) by auto
    then have "snd (key_of x) \<in> set (offboarded_names po)"
      using s that(2) selected_managed unfolding settled_def given_up_def by blast
    then show ?thesis using offboarded_in_spec by (auto simp: key_of_def)
  qed
  then have "orphan_names po xs = []" by (auto simp: orphan_names_def filter_empty_conv)
  with l show "\<exists>x s'. cl_List (por_Client r) KNamespace (managedListOptions None po) s = (Ok x, s') \<and>
      settled st po s' \<and> orphan_names po x = []" by blast
qed

lemma released_always: "always (settled st po) (cleanupClusterScopedForReleasedTenants lb (por_Client r) po)"
  unfolding cleanupClusterScopedForReleasedTenants_def listManagedNamespaces_def
  by (intro yields_intro always_list namespaceExists_always) (simp_all add: optional_kinds_def always_ret CleanupNamespace_always)

lemma Finalize_yields:
  "yields (settled st po) (FinalizeProjectOnboardingDeletion lb (por_Client r) po) (\<lambda>p s. settled st po s \<and> fst p)"
  unfolding FinalizeProjectOnboardingDeletion_def Let_def
proof (rule yields_bind [OF yields_collect [OF entry_yields]])
  fix es :: "string list"
  let ?pending = "\<lambda>xs. filter (\<lambda>n. n \<noteq> []) es @ orphan_names po xs"
  let ?rest = "\<lambda>xs. bindE (cleanupClusterScopedForReleasedTenants lb (por_Client r) po)
      (\<lambda>u. if ?pending xs \<noteq> [] then retE (False, deletionBlockedMessagePrefix @ join_str '', '' (sort (?pending xs)))
        else retE (True, []))"
  have fin: "yields (settled st po) (?rest xs) (\<lambda>p s. settled st po s \<and> fst p)" if "?pending xs = []" for xs
    by (rule yields_bind [OF released_always]) (simp only: that simp_thms if_False, simp add: yields_ret)
  show "yields (\<lambda>s. settled st po s \<and> (\<forall>e \<in> set es. e = [])) (bindE (listManagedNamespaces (por_Client r) po) ?rest)
      (\<lambda>p s. settled st po s \<and> fst p)"
  proof (rule yields_pre [of _ "\<forall>e \<in> set es. e = []"], simp, rule yields_bind)
    assume es: "\<forall>e \<in> set es. e = []"
    show "yields (\<lambda>s. settled st po s \<and> (\<forall>e \<in> set es. e = [])) (listManagedNamespaces (por_Client r) po)
        (\<lambda>xs s. settled st po s \<and> orphan_names po xs = [])"
      by (rule yields_strengthen [OF managed_yields]) simp
    show "yields (\<lambda>s. settled st po s \<and> orphan_names po xs = []) (?rest xs) (\<lambda>p s. settled st po s \<and> fst p)" for xs
    proof (rule yields_pre [of _ "orphan_names po xs = []"], simp)
      assume "orphan_names po xs = []"
      with es have "?pending xs = []" by (simp add: filter_empty_conv)
      then show "yields (\<lambda>s. settled st po s \<and> orphan_names po xs = []) (?rest xs) (\<lambda>p s. settled st po s \<and> fst p)"
        by (rule yields_strengthen [OF fin]) simp
    qed
  qed
qed

lemma deletion_ends:
  assumes "settled st po s" and "st (po_Name po) = Some po" and "om_deletionTimestamp (po_meta po) \<noteq> None"
    and "has_finalizer po" and "\<forall>f \<in> set (om_finalizers (po_meta po)). f = ProjectOnboardingFinalizer"
  shows "\<exists>s'. reconcileDeletion lb m r po s = (Ok (zero_ctrl_result, None), s') \<and> stored s' (po_Name po) = None"
proof -
  obtain p s1 where f: "FinalizeProjectOnboardingDeletion lb (por_Client r) po s = (Ok p, s1)" "settled st po s1" "fst p"
    using yieldsD [OF Finalize_yields assms(1)] by blast
  obtain rp s2 where u: "cl_UpdatePO (por_Client r) (set_finalizers [] po) s1 = (rp, s2)" by fastforce
  have "answered (\<lambda>e. False) rp \<and> stored s2 (po_Name po) = None"
    using calm_update [OF _ _ assms(3) u] f(2) assms(2) by (auto simp: settled_def)
  then obtain q where q: "rp = Ok q" "stored s2 (po_Name po) = None" by (cases rp) (auto simp: answered_def)
  have "filter (\<lambda>f. f \<noteq> ProjectOnboardingFinalizer) (om_finalizers (po_meta po)) = []"
    using assms(5) by (simp add: filter_empty_conv)
  then have "RemoveFinalizer (por_Client r) po s1 = (Ok q, s2)" using assms(4) u q by (simp add: RemoveFinalizer_def)
  with f q(2) show ?thesis
    by (cases p) (auto simp: reconcileDeletion_def Let_def orReturn_first(1) [where f = "FinalizeProjectOnboardingDeletion lb (por_Client r) po", OF f(1)]
        run_orReturn DeleteTenantMetrics_def eff_run
        conjunct2 [OF del_reads [OF refl]])
qed

lemma Reconcile_ends:
  assumes "calm s" and "stored s n = Some po" and "given_up po (view s)" and "om_deletionTimestamp (po_meta po) \<noteq> None"
    and "has_finalizer po" and "\<forall>f \<in> set (om_finalizers (po_meta po)). f = ProjectOnboardingFinalizer"
  shows "\<exists>s'. Reconcile lb m r (projectOnboardingRequest n) s = (Ok (zero_ctrl_result, None), s') \<and> stored s' n = None"
proof -
  obtain rp s1 where g: "cl_GetPO (por_Client r) n s = (rp, s1)" by fastforce
  from calm_getpo [OF assms(1) g] assms(2) obtain q where q: "rp = Ok q" "calm s1"
    by (cases rp) (auto simp: answered_def)
  with getpo_ok g assms(2) have po: "q = po" "po_Name po = n" by auto
  have "settled (stored s) po s1" using getpo_reads [OF g] q(2) assms(3) by (simp add: settled_def)
  from deletion_ends [OF this _ assms(4-6)] assms(2) po(2)
  obtain s' where "reconcileDeletion lb m r po s1 = (Ok (zero_ctrl_result, None), s')" "stored s' n = None" by auto
  with g q po assms(4) show ?thesis
    by (auto simp: Reconcile_def Let_def projectOnboardingRequest_def orReturn_first [where f = "cl_GetPO (por_Client r) n"])
qed

end

end
