(* ===== verification/Settle_Run.thy ===== *)
theory Settle_Run
  imports Settle Resource_Life
begin

text \<open>
  Fixed points of a whole run of the controller.  The entries of a resource are reconciled one
  after the other, offboarded ones are cleaned up, and the store that a successful run leaves
  is left alone by the next.  What makes the entries independent of each other is
  \<open>tenants_apart\<close>: names of their own for tenants, groups and AppProjects.

  \<open>evolves\<close> is what a step may do to the store: satisfy wants, and take away what is unwanted.
\<close>

lemma quiet_refl [simp]: "quiet v v"
  by (simp add: quiet_def)

section \<open>Cleaning up an offboarded entry\<close>

context settling_client
begin

lemma found_deleting:
  assumes "trims T {} v (view s)" and "\<And>k key x. v k key = Some x \<Longrightarrow> T x \<Longrightarrow> is_deleting x"
    and "view s k key = Some x" "T x"
  shows "is_deleting x"
  using assms unfolding trims_def by metis

text \<open>
  A Namespace is given up for good (its name is in \<open>N\<close>), or all that is unwanted is on its way
  out already.
\<close>

definition closing :: "(kobj \<Rightarrow> bool) \<Rightarrow> string set \<Rightarrow> view \<Rightarrow> string \<Rightarrow> bool" where
  "closing T N v n \<longleftrightarrow> n \<in> N \<or> N = {} \<and> (\<forall>k key x. v k key = Some x \<longrightarrow> T x \<longrightarrow> is_deleting x)"

lemma trim_namespace:
  assumes cl: "closing T N v n"
    and T: "\<And>x. kind_of x = KNamespace \<Longrightarrow> key_of x = ([], n) \<Longrightarrow> isManagedByProjectOnboarding (ko_labels x) po \<Longrightarrow> T x"
  shows "keeps (\<lambda>s. trims T N v (view s)) (deleteManagedNamespace c po n)"
  unfolding keeps_iff
proof (intro allI impI)
  fix s r s' assume I: "trims T N v (view s)" and run: "deleteManagedNamespace c po n s = (r, s')"
  obtain r1 s1 where get: "cl_Get c KNamespace ([], n) s = (r1, s1)" by fastforce
  note v1 = get_store [OF get]
  show "trims T N v (view s')"
  proof (cases r1)
    case (Ok obj)
    then have obj: "view s KNamespace ([], n) = Some obj" using get get_ok by blast
    note t = typed [OF obj]
    show ?thesis
    proof (cases "isManagedByProjectOnboarding (ko_labels obj) po")
      case True
      then have Tx: "T obj" using T t by blast
      have lo: "loose T N v (key_of obj) (kind_of obj)" using trims_found [OF I obj Tx] t by simp
      have m: "ignoreNotFound (cl_Delete c obj) s1 = (r, s')"
        using run get Ok True by (simp add: deleteManagedNamespace_def eff_run)
      obtain r2 s2 where d: "cl_Delete c obj s1 = (r2, s2)" by fastforce
      with m have s': "s' = s2" by (cases r2) (auto simp: ignoreNotFound_def eff_run split: if_splits)
      have "trims T N v (view s2)"
      proof (cases "n \<in> N")
        case True
        show ?thesis
          by (rule trims_step [OF I [folded v1] delete_within [OF d]])
            (use lo True t in \<open>auto simp: tenant_scope_def loose_def\<close>)
      next
        case False
        with cl have N: "N = {}" and gone: "\<And>k key x. v k key = Some x \<Longrightarrow> T x \<Longrightarrow> is_deleting x"
          by (auto simp: closing_def)
        have "is_deleting obj" using found_deleting [OF I [unfolded N] gone obj Tx] .
        moreover have "view s1 (kind_of obj) (key_of obj) = Some obj" using v1 obj t by simp
        ultimately show ?thesis
          using trims_step [OF I [folded v1] delete_again [OF d]] lo by blast
      qed
      with s' show ?thesis by simp
    next
      case False
      with run get Ok v1 I show ?thesis by (auto simp: deleteManagedNamespace_def eff_run)
    qed
  qed (use run get v1 I in \<open>auto simp: deleteManagedNamespace_def eff_run split: if_splits\<close>)
qed

lemma cleanup_trims:
  assumes po: "po_Name po \<noteq> []" and T: "\<And>x. cleanup_target po e x \<Longrightarrow> T x"
    and cl: "closing T N v (SanitizeName (ns_Name e))"
  shows "keeps (\<lambda>s. trims T N v (view s)) (CleanupNamespace c po e)"
proof -
  note o = managed_owned [OF _ po]
  have pol: "deleteManagedNetworkPolicies c po n = bindE (cl_List c KNetworkPolicy (managedListOptions (Some n) po)) (\<lambda>items.
      forE items (\<lambda>item. if False then retE () else ignoreNotFound (cl_Delete c item)))" for n
    by (simp add: deleteManagedNetworkPolicies_def)
  show ?thesis
    unfolding CleanupNamespace_def Let_def deleteManagedAppProjects_def deleteAppProjectsForNamespace_def pol
      deleteManagedResourceQuota_def deleteManagedLimitRange_def
      deleteManagedRoleBinding_def deleteManagedGroup_def deleteManagedEgressIP_def
    by (intro keeps_then keeps_wrap keeps_when trim_get_delete trim_list_delete trim_namespace [OF cl])
      (auto simp: cleanup_target_def Let_def selected_owned dest: o intro!: T
        intro: iffD1 [OF selected_project_of, OF conjI])
qed

lemma prune_removed_trims:
  assumes po: "po_Name po \<noteq> []"
    and T: "\<And>e x. e \<in> set (po_Namespaces po) \<Longrightarrow> IsOffboard (ns_Offboard e) \<Longrightarrow> cleanup_target po e x \<Longrightarrow> T x"
    and cl: "\<And>n. n \<in> set (offboarded_names po) \<Longrightarrow> closing T N v n"
  shows "keeps (\<lambda>s. trims T N v (view s)) (PruneRemovedNamespaces c po)"
proof -
  have "keeps (\<lambda>s. trims T N v (view s)) (CleanupNamespace c po (namespaceSpecForManagedName po n))"
    if "IsOffboard (ns_Offboard (namespaceSpecForManagedName po n))" for n
  proof -
    have e: "namespaceSpecForManagedName po n \<in> set (po_Namespaces po)"
      using find_entry_offboard that unfolding namespaceSpecForManagedName_def by blast
    show ?thesis by (rule cleanup_trims [OF po T [OF e that] cl [OF offboarded_nameI [OF e that]]])
  qed
  moreover have "keeps (\<lambda>s. trims T N v (view s)) (listManagedNamespaces c po)"
    unfolding listManagedNamespaces_def by (intro keeps_wrap) (auto simp: keeps_iff dest: list_store)
  ultimately show ?thesis
    unfolding PruneRemovedNamespaces_def Let_def
    by (intro keeps_intro) simp_all
qed

end

section \<open>Tenants apart\<close>

definition tenants_apart :: "ProjectOnboarding \<Rightarrow> bool" where
  "tenants_apart po \<longleftrightarrow> (let nss = po_Namespaces po; active = filter active_entry nss in
     distinct (map (\<lambda>ns. SanitizeName (ns_Name ns)) nss) \<and> list_all (\<lambda>ns. ns_Name ns \<noteq> []) nss \<and>
     distinct (map GroupName nss) \<and>
     distinct (concat (map (\<lambda>ns. map (Pair (ResolveApplicationGitOpsNamespace po ns)) (wanted_projects ns)) active)) \<and>
     list_all (\<lambda>ns. ResolveApplicationGitOpsNamespace po ns \<notin> set (offboarded_names po) \<and> distinct_names po ns) active)"

lemma distinct_concat_map:
  "distinct (concat (map f xs)) \<Longrightarrow> x \<in> set xs \<Longrightarrow> y \<in> set xs \<Longrightarrow> x \<noteq> y \<Longrightarrow> set (f x) \<inter> set (f y) = {}"
  by (induction xs) auto

lemma tenants_apartD:
  assumes "tenants_apart po"
  shows "e \<in> set (po_Namespaces po) \<Longrightarrow> e' \<in> set (po_Namespaces po) \<Longrightarrow> e \<noteq> e' \<Longrightarrow>
      SanitizeName (ns_Name e) \<noteq> SanitizeName (ns_Name e') \<and> GroupName e \<noteq> GroupName e'"
    "e \<in> set (po_Namespaces po) \<Longrightarrow> SanitizeName (ns_Name e) \<noteq> []"
    "e \<in> set (po_Namespaces po) \<Longrightarrow> active_entry e \<Longrightarrow>
      ResolveApplicationGitOpsNamespace po e \<notin> set (offboarded_names po) \<and> distinct_names po e"
    "e \<in> set (po_Namespaces po) \<Longrightarrow> active_entry e \<Longrightarrow> e' \<in> set (po_Namespaces po) \<Longrightarrow> active_entry e' \<Longrightarrow> e \<noteq> e' \<Longrightarrow>
      n \<in> set (wanted_projects e) \<Longrightarrow> n \<in> set (wanted_projects e') \<Longrightarrow>
      ResolveApplicationGitOpsNamespace po e \<noteq> ResolveApplicationGitOpsNamespace po e'"
proof -
  note a = assms [unfolded tenants_apart_def Let_def]
  show "e \<in> set (po_Namespaces po) \<Longrightarrow> e' \<in> set (po_Namespaces po) \<Longrightarrow> e \<noteq> e' \<Longrightarrow>
      SanitizeName (ns_Name e) \<noteq> SanitizeName (ns_Name e') \<and> GroupName e \<noteq> GroupName e'"
    using a by (auto simp: distinct_map dest: inj_onD)
  show "e \<in> set (po_Namespaces po) \<Longrightarrow> SanitizeName (ns_Name e) \<noteq> []"
    using a by (auto simp: list_all_iff SanitizeName_def)
  show "e \<in> set (po_Namespaces po) \<Longrightarrow> active_entry e \<Longrightarrow>
      ResolveApplicationGitOpsNamespace po e \<notin> set (offboarded_names po) \<and> distinct_names po e"
    using a by (auto simp: list_all_iff)
  assume "e \<in> set (po_Namespaces po)" "active_entry e" "e' \<in> set (po_Namespaces po)" "active_entry e'" "e \<noteq> e'"
    and n: "n \<in> set (wanted_projects e)" "n \<in> set (wanted_projects e')"
  then have "set (map (Pair (ResolveApplicationGitOpsNamespace po e)) (wanted_projects e)) \<inter>
      set (map (Pair (ResolveApplicationGitOpsNamespace po e')) (wanted_projects e')) = {}"
    using a by (intro distinct_concat_map [of _ "filter active_entry (po_Namespaces po)"]) auto
  with n show "ResolveApplicationGitOpsNamespace po e \<noteq> ResolveApplicationGitOpsNamespace po e'" by force
qed

text \<open>All that the resource does not want in the cluster: leftovers of active entries, and offboarded ones.\<close>

definition unwanted :: "ProjectOnboarding \<Rightarrow> (NamespaceSpec \<Rightarrow> NamespaceSpec) \<Rightarrow> kobj \<Rightarrow> bool" where
  "unwanted po res x \<longleftrightarrow> (\<exists>e \<in> set (po_Namespaces po). active_entry e \<and> prune_target po e (res e) x \<or>
     IsOffboard (ns_Offboard e) \<and> cleanup_target po e x)"

definition tenant_wants :: "libs \<Rightarrow> scheme option \<Rightarrow> ProjectOnboarding \<Rightarrow> (NamespaceSpec \<Rightarrow> NamespaceSpec) \<Rightarrow> NamespaceSpec \<Rightarrow> kobj \<Rightarrow> want set" where
  "tenant_wants lb sch po res e t = insert (namespace_want sch po e (SanitizeName (ns_Name e)) (ManagedLabels po e))
     (entry_wants lb sch po e (res e) t)"

lemma want_shape:
  assumes "w \<in> tenant_wants lb sch po res e t"
  shows "writable po e (wn_kind w) (wn_key w)"
    "wn_kind w = KAppProject \<Longrightarrow> wn_labels w ProjectOnboardingNamespaceKey = Some (ns_Name e)"
proof -
  show "writable po e (wn_kind w) (wn_key w)"
    using assms
    by (auto simp: tenant_wants_def entry_wants_def wants_defs Let_def policy_object_def desiredNetworkPolicyNames_def
        buildCustomNetworkPolicy_def dest: defaultNetworkPolicies_meta)
  show "wn_kind w = KAppProject \<Longrightarrow> wn_labels w ProjectOnboardingNamespaceKey = Some (ns_Name e)"
    using assms
    by (auto simp: tenant_wants_def entry_wants_def wants_defs Let_def policy_object_def project_want_def project_labels_def
        ManagedLabels_def)
qed

lemma own_name_apart: "SanitizeName a \<noteq> SanitizeName b \<Longrightarrow> a \<noteq> SanitizeName b"
  by (metis SanitizeName_idem)

lemma active_not_offboarded:
  assumes "tenants_apart po" "e \<in> set (po_Namespaces po)" "active_entry e"
  shows "SanitizeName (ns_Name e) \<notin> set (offboarded_names po)"
  using assms tenants_apartD(1) [OF assms(1)] by (auto simp: offboarded_names_def active_entry_def)

text \<open>What an entry wants is not unwanted, not inside a given-up Namespace, and not wanted by another entry.\<close>

lemma wanted_safe:
  assumes ap: "tenants_apart po" and e: "e \<in> set (po_Namespaces po)" "active_entry e"
    and w: "w \<in> tenant_wants lb sch po res e t"
    and x: "kind_of x = wn_kind w" "key_of x = wn_key w" "wn_labels w \<subseteq>\<^sub>m ko_labels x"
  shows "\<not> unwanted po res x"
proof
  assume "unwanted po res x"
  then obtain e' where e': "e' \<in> set (po_Namespaces po)" and
    u: "active_entry e' \<and> prune_target po e' (res e') x \<or> IsOffboard (ns_Offboard e') \<and> cleanup_target po e' x"
    by (auto simp: unwanted_def)
  note wr = want_shape(1) [OF w]
  have lab: "kind_of x = KAppProject \<Longrightarrow> ko_labels x ProjectOnboardingNamespaceKey = Some (ns_Name e)"
    using want_shape(2) [OF w] x by (simp add: map_le_def dom_def)
  show False
  proof (cases "e' = e")
    case True
    with e u have p: "prune_target po e (res e) x" by (auto simp: active_entry_def)
    with w x wants_not_pruned show False
      by (auto simp: tenant_wants_def prune_target_def project_of_def Let_def)
  next
    case False
    note d = tenants_apartD(1) [OF ap e(1) e' False [symmetric]] tenants_apartD(2) [OF ap e']
    have n: "ns_Name e \<noteq> SanitizeName (ns_Name e')" using d(1) own_name_apart by blast
    show False
    proof (cases "kind_of x")
      case KAppProject
      with u lab n show False by (auto simp: prune_target_def cleanup_target_def project_of_def Let_def)
    qed (use u wr x d in \<open>auto simp: prune_target_def cleanup_target_def project_of_def Let_def writable_def\<close>)
  qed
qed

lemma wanted_outside:
  assumes ap: "tenants_apart po" and e: "e \<in> set (po_Namespaces po)" "active_entry e"
    and w: "w \<in> tenant_wants lb sch po res e t"
  shows "fst (wn_key w) \<notin> set (offboarded_names po)"
proof -
  have "[] \<notin> set (offboarded_names po)" using tenants_apartD(2) [OF ap] by (fastforce simp: offboarded_names_def)
  then show ?thesis
    using want_shape(1) [OF w] active_not_offboarded [OF ap e] tenants_apartD(3) [OF ap e]
    by (cases "wn_kind w") (auto simp: writable_def Let_def)
qed

lemma wants_disjoint:
  assumes ap: "tenants_apart po" and e: "e \<in> set (po_Namespaces po)" "active_entry e"
    and e': "e' \<in> set (po_Namespaces po)" "active_entry e'" "e \<noteq> e'"
    and w: "w \<in> tenant_wants lb sch po res e t" "w' \<in> tenant_wants lb sch po res e' t'"
  shows "at w \<noteq> at w'"
proof
  assume a: "at w = at w'"
  note d = tenants_apartD(1) [OF ap e(1) e'(1,3)] and p = tenants_apartD(4) [OF ap e e']
  from want_shape(1) [OF w(1)] want_shape(1) [OF w(2)] a show False
    using d p by (cases "wn_kind w") (auto simp: writable_def Let_def wanted_projects_def, force+)
qed

section \<open>Entries at rest\<close>

context settling_client
begin

definition evolves :: "want set \<Rightarrow> (kobj \<Rightarrow> bool) \<Rightarrow> string set \<Rightarrow> view \<Rightarrow> view \<Rightarrow> bool" where
  "evolves A T N v v' \<longleftrightarrow> (\<forall>k key. v' k key = v k key \<or> (\<exists>w \<in> A. at w = (k, key) \<and> holds w v') \<or>
     loose T N v key k \<and> (\<forall>y. v' k key = Some y \<longrightarrow> is_deleting y))"

lemma evolves_trims: "trims T N v v' \<Longrightarrow> evolves {} T N v v'"
  unfolding evolves_def trims_def by blast

lemma evolves_mono: "evolves A T N v v' \<Longrightarrow> (\<And>x. T x \<Longrightarrow> U x) \<Longrightarrow> N \<subseteq> M \<Longrightarrow> evolves A U M v v'"
  unfolding evolves_def loose_def by (meson subsetD)

text \<open>An entry at rest: settled if it is active, gone or going if it is offboarded.\<close>

definition rested ::
  "libs \<Rightarrow> scheme option \<Rightarrow> ProjectOnboarding \<Rightarrow> (NamespaceSpec \<Rightarrow> NamespaceSpec) \<Rightarrow> view \<Rightarrow> NamespaceSpec \<Rightarrow> bool" where
  "rested lb sch po res v e \<longleftrightarrow> (active_entry e \<longrightarrow> settled lb sch po e (res e) v) \<and>
     (IsOffboard (ns_Offboard e) \<longrightarrow> (\<forall>k key x. v k key = Some x \<longrightarrow> cleanup_target po e x \<longrightarrow> is_deleting x))"

lemma settled_wants:
  "settled lb sch po e (res e) v \<longleftrightarrow>
     (\<exists>t. v KNamespace ([], SanitizeName (ns_Name e)) = Some t \<and> (\<forall>w \<in> tenant_wants lb sch po res e t. holds w v)) \<and>
     (\<forall>k key x. v k key = Some x \<longrightarrow> prune_target po e (res e) x \<longrightarrow> is_deleting x)"
  by (auto simp: settled_def tenant_wants_def)

lemma rested_unwanted:
  "\<forall>e \<in> set (po_Namespaces po). rested lb sch po res v e \<Longrightarrow> v k key = Some x \<Longrightarrow> unwanted po res x \<Longrightarrow> is_deleting x"
  unfolding rested_def settled_def unwanted_def by blast

text \<open>What another entry wants, if \<open>w\<close> is in the way of its run.\<close>

definition foreign :: "libs \<Rightarrow> scheme option \<Rightarrow> ProjectOnboarding \<Rightarrow> (NamespaceSpec \<Rightarrow> NamespaceSpec) \<Rightarrow> NamespaceSpec \<Rightarrow> want \<Rightarrow> bool" where
  "foreign lb sch po res e w \<longleftrightarrow>
     (\<exists>e' t. e' \<in> set (po_Namespaces po) \<and> active_entry e' \<and> e' \<noteq> e \<and> w \<in> tenant_wants lb sch po res e' t)"

lemma holds_unwanted:
  assumes "tenants_apart po" "e \<in> set (po_Namespaces po)" "active_entry e" "w \<in> tenant_wants lb sch po res e t"
    and "holds w (view s)" "view s (wn_kind w) (wn_key w) = Some x"
  shows "\<not> unwanted po res x"
  by (rule wanted_safe [OF assms(1-4)]) (use assms(5,6) typed [OF assms(6)] in \<open>auto simp: holds_def\<close>)

lemma want_stays:
  assumes ap: "tenants_apart po" and e: "e \<in> set (po_Namespaces po)" "active_entry e"
    and w: "w \<in> tenant_wants lb sch po res e t" and h: "holds w (view s)"
    and ev: "evolves A (unwanted po res) (set (offboarded_names po)) (view s) (view s')"
    and A: "\<forall>w' \<in> A. foreign lb sch po res e w'"
  shows "view s' (wn_kind w) (wn_key w) = view s (wn_kind w) (wn_key w)"
proof -
  have "\<not> loose (unwanted po res) (set (offboarded_names po)) (view s) (wn_key w) (wn_kind w)"
    using holds_unwanted [OF ap e w h] wanted_outside [OF ap e w] unfolding loose_def by blast
  moreover have "at w' \<noteq> at w" if "w' \<in> A" for w'
    using A that wants_disjoint [OF ap e _ _ _ w] unfolding foreign_def by metis
  ultimately show ?thesis using ev unfolding evolves_def by metis
qed

lemma rested_stays:
  assumes ap: "tenants_apart po" and e: "e \<in> set (po_Namespaces po)"
    and r: "rested lb sch po res (view s) e"
    and ev: "evolves A (unwanted po res) (set (offboarded_names po)) (view s) (view s')"
    and A: "\<forall>w' \<in> A. foreign lb sch po res e w'"
  shows "rested lb sch po res (view s') e"
proof -
  have going: "is_deleting x"
    if "view s' k key = Some x" "unwanted po res x" "\<And>y. view s k key = Some y \<Longrightarrow> y = x \<Longrightarrow> is_deleting y" for k key x
  proof -
    have "\<not> holds w (view s')" if "w \<in> A" "at w = (k, key)" for w
      using A that holds_unwanted [OF ap, of _ w _ _ _ _ s' x] \<open>view s' k key = Some x\<close> \<open>unwanted po res x\<close>
      unfolding foreign_def by auto
    with that ev show ?thesis unfolding evolves_def by metis
  qed
  have "settled lb sch po e (res e) (view s')" if a: "active_entry e"
  proof -
    have st: "settled lb sch po e (res e) (view s)" using r a by (simp add: rested_def)
    then obtain t where t: "view s KNamespace ([], SanitizeName (ns_Name e)) = Some t"
      and ws: "\<forall>w \<in> tenant_wants lb sch po res e t. holds w (view s)"
      unfolding settled_wants by blast
    have stays: "view s' (wn_kind w) (wn_key w) = view s (wn_kind w) (wn_key w)" if "w \<in> tenant_wants lb sch po res e t" for w
      using want_stays [OF ap e a that _ ev A] ws that by blast
    have "\<forall>w \<in> tenant_wants lb sch po res e t. holds w (view s')"
      using ws stays holds_frame by blast
    moreover have "view s' KNamespace ([], SanitizeName (ns_Name e)) = Some t"
      using stays [of "namespace_want sch po e (SanitizeName (ns_Name e)) (ManagedLabels po e)"] t by (simp add: tenant_wants_def)
    moreover have "is_deleting x" if "view s' k key = Some x" "prune_target po e (res e) x" for k key x
      using going [OF that(1)] e a that st unfolding unwanted_def settled_def by blast
    ultimately show ?thesis unfolding settled_wants by blast
  qed
  moreover have "is_deleting x"
    if "IsOffboard (ns_Offboard e)" "view s' k key = Some x" "cleanup_target po e x" for k key x
    using going [OF that(2)] e r that unfolding unwanted_def rested_def by blast
  ultimately show ?thesis by (auto simp: rested_def)
qed

section \<open>A successful run\<close>

lemma ReconcileNamespace_evolves:
  assumes sch: "settled_scheme sch" and d: "distinct_names po e" and po: "po_Name po \<noteq> []"
    and run: "ReconcileNamespace lb c sch po e s = (Ok u, s')"
    and res: "ResolveNamespaceSpec lb c e s = (Ok (res e), s1)"
  shows "\<exists>t. evolves (tenant_wants lb sch po res e t) (prune_target po e (res e)) {} (view s) (view s')"
proof -
  let ?n = "SanitizeName (ns_Name e)" and ?l = "ManagedLabels po e"
  obtain t s2 s3 where t: "reconcileNamespaceObject c sch po e ?n ?l s1 = (Ok t, s2)"
    and w: "entry_writes lb sch po e (res e) t s2 = (Ok (), s3)"
    and p: "PruneNamespaceResources c po e (res e) s3 = (Ok (), s')"
    using run res unfolding ReconcileNamespace_phases by (auto dest!: Ok_bind Ok_then Ok_wrap)
  note N = appliesD [OF namespace_object_applies(1) [OF sch] t]
  note W = appliesD [OF entry_writes_apply [OF sch d] w]
  have tr: "trims (prune_target po e (res e)) {} (view s3) (view s')"
    by (rule keepsD [OF prune_trims [OF po] _ p]) simp
  have "view s3 KNamespace ([], ?n) = Some t"
    using W(3) [OF refl namespace_not_wanted] namespace_object_applies(2) [OF sch t] by simp
  moreover have "view s' KNamespace ([], ?n) = view s3 KNamespace ([], ?n)"
    by (rule trims_keeps [OF tr]) (simp add: prune_target_def project_of_def Let_def)
  ultimately have h: "holds w (view s')" if "w \<in> tenant_wants lb sch po res e t" for w
    using ReconcileNamespace_settles [OF sch d po run res] that unfolding settled_wants by auto
  have out: "view s3 k key = view s k key" if "(k, key) \<notin> at ` tenant_wants lb sch po res e t" for k key
    using that N(3) [OF refl, of k key] W(3) [OF refl, of k key] resolve_store [OF res] by (auto simp: tenant_wants_def)
  have "evolves (tenant_wants lb sch po res e t) (prune_target po e (res e)) {} (view s) (view s')"
    unfolding evolves_def
  proof (intro allI)
    fix k key
    show "view s' k key = view s k key \<or> (\<exists>w \<in> tenant_wants lb sch po res e t. at w = (k, key) \<and> holds w (view s')) \<or>
      loose (prune_target po e (res e)) {} (view s) key k \<and> (\<forall>y. view s' k key = Some y \<longrightarrow> is_deleting y)"
    proof (cases "(k, key) \<in> at ` tenant_wants lb sch po res e t")
      case True
      with h show ?thesis by force
    next
      case False
      with tr out [OF False] show ?thesis unfolding trims_def loose_def by metis
    qed
  qed
  then show ?thesis by blast
qed

end

section \<open>Runs do not look at the status and the clock\<close>

definition later :: "nat \<Rightarrow> libs \<Rightarrow> libs" where
  "later now lb = lb\<lparr>lb_Now := now\<rparr>"

definition reported :: "ProjectOnboardingStatus \<Rightarrow> ProjectOnboarding \<Rightarrow> ProjectOnboarding" where
  "reported st po = po\<lparr>po_Status := st\<rparr>"

lemma reported_simps [simp]:
  "po_meta (reported st po) = po_meta po" "po_Spec (reported st po) = po_Spec po" "po_Status (reported st po) = st"
  "lb_RangePairs (later now lb) = lb_RangePairs lb" "lb_LabelsAlias (later now lb) = lb_LabelsAlias lb"
  "lb_ParseQuantity (later now lb) = lb_ParseQuantity lb" "lb_UnmarshalDefaults (later now lb) = lb_UnmarshalDefaults lb"
  "lb_Getenv (later now lb) = lb_Getenv lb" "lb_RangeNames (later now lb) = lb_RangeNames lb"
  by (simp_all add: reported_def later_def)

lemma merge_reported: "MergeClusterDefaults d (reported st po) = reported st (MergeClusterDefaults d po)"
  by (simp add: MergeClusterDefaults_def reported_def split: option.split)

lemma status_free_parts [simp]:
  "isManagedByProjectOnboarding l (reported st po) = isManagedByProjectOnboarding l po"
  "managedListOptions n (reported st po) = managedListOptions n po"
  "ManagedLabels (reported st po) e = ManagedLabels po e"
  "ensureProjectOnboardingControllerRef sch (Some (reported st po)) = ensureProjectOnboardingControllerRef sch (Some po)"
  "set_controller sch (reported st po) = set_controller sch po"
  "ResolveApplicationGitOpsNamespace (reported st po) e = ResolveApplicationGitOpsNamespace po e"
  "project_labels (reported st po) tn l = project_labels po tn l"
  "namespaceSpecForManagedName (reported st po) tn = namespaceSpecForManagedName po tn"
  "desiredTenantNamespaceNames (reported st po) = desiredTenantNamespaceNames po"
  by (simp_all add: isManagedByProjectOnboarding_def managedListOptions_def managedLabelsSelector_def ManagedLabels_def
      fun_eq_iff ensureProjectOnboardingControllerRef_def set_controller_def ResolveApplicationGitOpsNamespace_def
      project_labels_def namespaceSpecForManagedName_def desiredTenantNamespaceNames_def
      cong del: let_weak_cong if_weak_cong option.case_cong_weak sum.case_cong_weak)

lemma status_free_projects [simp]: "app_project_of (reported st po) p n = app_project_of po p n"
  by (simp add: app_project_of_def buildArgoCDRoles_def resolveRoleGroups_def resolveSourceRepos_def
      resolveSourceNamespaces_def buildDestinations_def)

lemma status_free_deletes [simp]: "deleteIfManaged c x (reported st po) = deleteIfManaged c x po"
  "deleteAppProjectsForNamespace c (reported st po) n keep = deleteAppProjectsForNamespace c po n keep"
  by (simp_all add: deleteIfManaged_def deleteAppProjectsForNamespace_def)

lemma status_free_steps [simp]:
  "CleanupNamespace c (reported st po) e = CleanupNamespace c po e"
  "PruneNamespaceResources c (reported st po) e x = PruneNamespaceResources c po e x"
  by (simp_all add: CleanupNamespace_def PruneNamespaceResources_def deleteManagedNetworkPolicies_def deleteManagedRoleBinding_def
      deleteManagedLimitRange_def deleteManagedResourceQuota_def deleteManagedEgressIP_def deleteManagedGroup_def
      deleteManagedNamespace_def deleteManagedAppProjects_def pruneManagedNetworkPolicies_def pruneAppProjectsForNamespace_def)

lemma status_free_runs [simp]:
  "PruneRemovedNamespaces c (reported st po) = PruneRemovedNamespaces c po"
  "ReconcileNamespace (later now lb) c sch (reported st po) e = ReconcileNamespace lb c sch po e"
  "LoadClusterDefaults (later now lb) c n = LoadClusterDefaults lb c n"
  "operatorNamespace (later now lb) r = operatorNamespace lb r"
  by (simp_all add: PruneRemovedNamespaces_def listManagedNamespaces_def ReconcileNamespace_def ResolveNamespaceSpec_def
      reconcileNamespaceObject_def desired_namespace_labels_def gitOpsManagedByLabel_def reconcileResourceQuota_def
      reconcileLimitRange_def reconcileLocalAdminGroup_def reconcileEgressIP_def write_labels_def
      reconcileArgoCDProjects_def reconcileAppProject_def LoadClusterDefaults_def operatorNamespace_def
      cong del: let_weak_cong if_weak_cong option.case_cong_weak sum.case_cong_weak)

lemma status_free_entry [simp]:
  "reconcileEntry (later now lb) c sch (reported st po) (reported st' eff) e = reconcileEntry lb c sch po eff e"
  by (simp add: reconcileEntry_def cong del: let_weak_cong if_weak_cong option.case_cong_weak sum.case_cong_weak)

section \<open>One run\<close>

text \<open>
  What a run reads besides the objects, the T-shirt sizes and the cluster defaults, are its
  \<open>inputs\<close>: reads that succeed on the same inputs give the same.  Nothing in a run changes them.
\<close>

definition read_value :: "'a result \<Rightarrow> 'a option" where
  "read_value r = (case r of Ok x \<Rightarrow> Some x | _ \<Rightarrow> None)"

lemma read_value_simps [simp]: "read_value (Ok x) = Some x" "read_value (Err e) = None" "read_value (Panic p) = None"
  by (simp_all add: read_value_def)

text \<open>The resources without their status.\<close>

definition bare :: "(string \<Rightarrow> ProjectOnboarding option) \<Rightarrow> string \<Rightarrow> (objmeta \<times> ProjectOnboardingSpec) option" where
  "bare st n = map_option (\<lambda>q. (po_meta q, po_Spec q)) (st n)"

lemma bare_reported: "bare st' = bare st \<Longrightarrow> st n = Some po \<Longrightarrow> \<exists>x. st' n = Some (reported x po)"
proof -
  assume "bare st' = bare st" and n: "st n = Some po"
  then have "bare st' n = bare st n" by simp
  with n obtain q where q: "st' n = Some q" "po_meta q = po_meta po" "po_Spec q = po_Spec po"
    by (auto simp: bare_def)
  then have "\<exists>x. q = reported x po" by (cases q; cases po) (auto simp: reported_def)
  with q(1) show ?thesis by blast
qed

locale resting_operator = resource_operator r view m stored + settling_client "por_Client r" view stored_as
  for r :: "'s ProjectOnboardingReconciler" and view m stored stored_as +
  fixes inputs :: "'s \<Rightarrow> 'i"
  assumes inputs_kept: "guarded_operator r (\<lambda>s. inputs s = i) no_update m"
    and getts_same: "cl_GetTS (por_Client r) name s = (Ok x, s') \<Longrightarrow> cl_GetTS (por_Client r) name t = (Ok y, t') \<Longrightarrow>
      inputs t = inputs s \<Longrightarrow> y = x"
    and getcm_same: "cl_GetConfigMap (por_Client r) key s = (rs, s') \<Longrightarrow> cl_GetConfigMap (por_Client r) key t = (rt, t') \<Longrightarrow>
      inputs t = inputs s \<Longrightarrow> answered IsNotFound rs \<Longrightarrow> answered IsNotFound rt \<Longrightarrow> read_value rt = read_value rs"
    and getpo_there: "cl_GetPO (por_Client r) name s = (Err e, s') \<Longrightarrow> IsNotFound e \<Longrightarrow> stored s name = None"

sublocale resting_operator \<subseteq> reads: guarded_operator r "\<lambda>s. inputs s = i" no_update m for i
  by (rule inputs_kept)

context resource_operator
begin

lemma status_bare: "keeps (\<lambda>s. bare (stored s) = b) (cl_StatusPO (por_Client r) po)"
  unfolding keeps_iff
proof (intro allI impI)
  fix s ru s' assume b: "bare (stored s) = b" and "cl_StatusPO (por_Client r) po s = (ru, s')"
  with status_changes obtain f where "stored s' = (\<lambda>n. map_option (\<lambda>q. q\<lparr>po_Status := f n\<rparr>) (stored s n))" by blast
  with b show "bare (stored s') = b" by (auto simp: bare_def fun_eq_iff option.map_comp comp_def)
qed

end

sublocale resource_operator \<subseteq> bared: guarded_operator r "\<lambda>s. bare (stored s) = b" no_update m for b
  by unfold_locales
    (simp_all only: no_call_simps status_bare owner_refs record_frames TrueI,
     (rule keeps_frame [where f = stored], erule stored_frames)+)

context resting_operator
begin

lemma resolve_same:
  assumes "ResolveNamespaceSpec lb (por_Client r) e s = (Ok x, s1)" "ResolveNamespaceSpec lb (por_Client r) e t = (Ok y, t1)"
    and "inputs t = inputs s"
  shows "y = x"
  using assms(1,2)
  by (auto simp: ResolveNamespaceSpec_def eff_run split: if_splits prod.splits result.splits dest: getts_same [OF _ _ assms(3)])

lemma defaults_same:
  assumes "LoadClusterDefaults lb (por_Client r) n s = (Ok d, s1)" "LoadClusterDefaults lb (por_Client r) n t = (Ok d', t1)"
    and "inputs t = inputs s"
  shows "d' = d"
proof -
  let ?key = "(if trim_space n = [] then DefaultOperatorNamespace else trim_space n, DefaultsConfigMapName)"
  obtain rs s2 rt t2 where g: "cl_GetConfigMap (por_Client r) ?key s = (rs, s2)" "cl_GetConfigMap (por_Client r) ?key t = (rt, t2)"
    by fastforce
  have a: "answered IsNotFound rs" "answered IsNotFound rt"
    using assms(1,2) g by (auto simp: LoadClusterDefaults_def Let_def eff_run answered_def split: result.splits if_splits)
  have f: "read_value rt = read_value rs" using getcm_same [OF g assms(3) a] .
  show ?thesis
    using assms(1,2) g f a
    by (cases rs; cases rt)
      (auto simp: LoadClusterDefaults_def Let_def eff_run answered_def split: option.splits if_splits sum.splits result.splits)
qed

definition resolves :: "libs \<Rightarrow> 'i \<Rightarrow> (NamespaceSpec \<Rightarrow> NamespaceSpec) \<Rightarrow> bool" where
  "resolves lb i res \<longleftrightarrow> (\<forall>e s x s1. inputs s = i \<longrightarrow> ResolveNamespaceSpec lb (por_Client r) e s = (Ok x, s1) \<longrightarrow> x = res e)"

lemma resolvesD:
  "resolves lb i res \<Longrightarrow> inputs s = i \<Longrightarrow> ResolveNamespaceSpec lb (por_Client r) e s = (Ok x, s1) \<Longrightarrow> x = res e"
  by (simp add: resolves_def)

lemma resolver: "\<exists>res. resolves lb i res"
proof -
  have "\<exists>f. \<forall>s x s1. inputs s = i \<longrightarrow> ResolveNamespaceSpec lb (por_Client r) e s = (Ok x, s1) \<longrightarrow> x = f" for e
    using resolve_same by metis
  then show ?thesis unfolding resolves_def by metis
qed

end

lemma entry_done:
  assumes "reconcileEntry lb c sch po eff e s = (Ok (st, None), s')"
  shows "IsOffboard (ns_Offboard e) \<and> CleanupNamespace c po e s = (Ok (), s') \<or>
    \<not> IsOffboard (ns_Offboard e) \<and> \<not> IsEnabled (ns_Enabled e) \<and> s' = s \<or>
    active_entry e \<and> ReconcileNamespace lb c sch eff e s = (Ok (), s')"
  using assms
  by (auto simp: reconcileEntry_def active_entry_def Let_def run_orReturn run_retE split: if_splits prod.splits result.splits)

lemma merged_same [simp]:
  "offboarded_names (MergeClusterDefaults d po) = offboarded_names po"
  "cleanup_target (MergeClusterDefaults d po) e x = cleanup_target po e x"
  by (simp_all add: offboarded_names_def cleanup_target_def project_of_def owned_def)

lemma entries_error: "reconcileEntries lb c sch po eff es (a, Some x, ss) s = (Ok (a', f', ss'), s') \<Longrightarrow> f' \<noteq> None"
proof (induction es arbitrary: a x ss s)
  case (Cons e es)
  then obtain st err s1 where "reconcileEntries lb c sch po eff es (case err of None \<Rightarrow> (a, Some x, ss @ [st])
      | Some y \<Rightarrow> (False, if Some x = None then Some y else Some x, ss @ [st])) s1 = (Ok (a', f', ss'), s')"
    by (auto dest!: Ok_bind split: prod.splits)
  with Cons.IH show ?case by (cases err) simp_all
qed (auto simp: run_retE)

text \<open>A resource that a run can bring to rest.\<close>

definition restable :: "scheme option \<Rightarrow> ProjectOnboarding \<Rightarrow> bool" where
  "restable sch po \<longleftrightarrow> settled_scheme sch \<and> tenants_apart po \<and> po_Name po \<noteq> []"

lemma tenants_apart_distinct: "tenants_apart po \<Longrightarrow> distinct (po_Namespaces po)"
  by (auto simp: tenants_apart_def Let_def distinct_map)

context resting_operator
begin

lemma entry_rests:
  fixes d po lb
  defines "eff \<equiv> MergeClusterDefaults d po"
  assumes ok: "restable (por_Scheme r) eff" and e: "e \<in> set (po_Namespaces po)"
    and res: "resolves lb (inputs s) res"
    and run: "reconcileEntry lb (por_Client r) (por_Scheme r) po eff e s = (Ok (st, None), s')"
  shows "rested lb (por_Scheme r) eff res (view s') e \<and>
    (\<exists>A. (\<forall>w \<in> A. active_entry e \<and> (\<exists>t. w \<in> tenant_wants lb (por_Scheme r) eff res e t)) \<and>
       evolves A (unwanted eff res) (set (offboarded_names eff)) (view s) (view s'))"
proof -
  have sch: "settled_scheme (por_Scheme r)" and ap: "tenants_apart eff" and nm: "po_Name eff \<noteq> []"
    using ok by (simp_all add: restable_def)
  have e': "e \<in> set (po_Namespaces eff)" using e by (simp add: eff_def)
  consider (off) "IsOffboard (ns_Offboard e)" "CleanupNamespace (por_Client r) po e s = (Ok (), s')"
    | (idle) "\<not> IsOffboard (ns_Offboard e)" "\<not> IsEnabled (ns_Enabled e)" "s' = s"
    | (active) "active_entry e" "ReconcileNamespace lb (por_Client r) (por_Scheme r) eff e s = (Ok (), s')"
    using entry_done [OF run] by blast
  then show ?thesis
  proof cases
    case off
    have "trims (unwanted eff res) (set (offboarded_names eff)) (view s) (view s')"
    proof (rule keepsD [OF cleanup_trims _ off(2)])
      show "closing (unwanted eff res) (set (offboarded_names eff)) (view s) (SanitizeName (ns_Name e))"
        using offboarded_nameI [OF e' off(1)] by (simp add: closing_def)
    qed (use nm off(1) e' in \<open>auto simp: unwanted_def eff_def\<close>)
    moreover have "rested lb (por_Scheme r) eff res (view s') e"
      using cleansD [OF CleanupNamespace_cleans off(2)] off(1)
      unfolding rested_def none_left_def active_entry_def eff_def merged_same by blast
    ultimately show ?thesis using evolves_trims by blast
  next
    case idle
    then have "rested lb (por_Scheme r) eff res (view s') e" by (simp add: rested_def active_entry_def)
    moreover have "evolves {} (unwanted eff res) (set (offboarded_names eff)) (view s) (view s')"
      using idle(3) by (simp add: evolves_def)
    ultimately show ?thesis by blast
  next
    case active
    have d: "distinct_names eff e" using tenants_apartD(3) [OF ap e' active(1)] by blast
    obtain x s1 where x: "ResolveNamespaceSpec lb (por_Client r) e s = (Ok x, s1)"
      using active(2) unfolding ReconcileNamespace_phases by (auto dest!: Ok_bind)
    note x = x [unfolded resolvesD [OF res refl x]]
    have "settled lb (por_Scheme r) eff e (res e) (view s')"
      by (rule ReconcileNamespace_settles [OF sch d nm active(2) x])
    with active(1) have "rested lb (por_Scheme r) eff res (view s') e" by (simp add: rested_def active_entry_def)
    moreover obtain t where "evolves (tenant_wants lb (por_Scheme r) eff res e t) (prune_target eff e (res e)) {} (view s) (view s')"
      using ReconcileNamespace_evolves [where res = res, OF sch d nm active(2) x] by blast
    then have "evolves (tenant_wants lb (por_Scheme r) eff res e t) (unwanted eff res) (set (offboarded_names eff)) (view s) (view s')"
      by (rule evolves_mono) (use e' active(1) in \<open>auto simp: unwanted_def\<close>)
    ultimately show ?thesis using active(1) by blast
  qed
qed

lemma reads_kept:
  "inputs s = i \<Longrightarrow> e \<in> set (po_Namespaces po) \<Longrightarrow>
     reconcileEntry lb (por_Client r) (por_Scheme r) po (MergeClusterDefaults d po) e s = (x, s') \<Longrightarrow> inputs s' = i"
  by (rule keepsD [OF reads.reconcileEntry_keeps]) simp_all

lemma entries_rest:
  fixes d po lb
  defines "eff \<equiv> MergeClusterDefaults d po"
  assumes ok: "restable (por_Scheme r) eff" and res: "resolves lb i res"
    and "inputs s = i" and "po_Namespaces po = before @ es" and "\<forall>e \<in> set before. rested lb (por_Scheme r) eff res (view s) e"
    and "reconcileEntries lb (por_Client r) (por_Scheme r) po eff es (a, None, ss) s = (Ok (a', None, ss'), s')"
  shows "\<forall>e \<in> set (po_Namespaces po). rested lb (por_Scheme r) eff res (view s') e"
  using assms(4-)
proof (induction es arbitrary: before a ss s)
  case Nil
  then show ?case by (simp add: run_retE)
next
  case (Cons e es)
  have ap: "tenants_apart eff" using ok by (simp add: restable_def)
  have ns: "po_Namespaces eff = po_Namespaces po" by (simp add: eff_def)
  obtain st err s1 where one: "reconcileEntry lb (por_Client r) (por_Scheme r) po eff e s = (Ok (st, err), s1)"
    and rest: "reconcileEntries lb (por_Client r) (por_Scheme r) po eff es (case err of None \<Rightarrow> (a, None, ss @ [st])
      | Some y \<Rightarrow> (False, Some y, ss @ [st])) s1 = (Ok (a', None, ss'), s')"
    using Cons.prems(4) by (auto dest!: Ok_bind split: prod.splits option.splits)
  have err: "err = None" using rest entries_error by (cases err) fastforce+
  have e: "e \<in> set (po_Namespaces po)" and other: "e' \<noteq> e" if "e' \<in> set before" for e'
    using Cons.prems(2) tenants_apart_distinct [OF ap] that by (auto simp: ns)
  have e: "e \<in> set (po_Namespaces po)" using Cons.prems(2) by simp
  note step = entry_rests [OF ok [unfolded eff_def] e _ one [unfolded eff_def err], folded eff_def]
  obtain A where r1: "rested lb (por_Scheme r) eff res (view s1) e"
    and A: "\<forall>w \<in> A. active_entry e \<and> (\<exists>t. w \<in> tenant_wants lb (por_Scheme r) eff res e t)"
    and ev: "evolves A (unwanted eff res) (set (offboarded_names eff)) (view s) (view s1)"
    using step res Cons.prems(1) by blast
  have "rested lb (por_Scheme r) eff res (view s1) e'" if "e' \<in> set before" for e'
  proof (rule rested_stays [OF ap _ _ ev])
    show "e' \<in> set (po_Namespaces eff)" using that Cons.prems(2) by (simp add: ns)
    show "rested lb (por_Scheme r) eff res (view s) e'" using that Cons.prems(3) by blast
    show "\<forall>w \<in> A. foreign lb (por_Scheme r) eff res e' w"
      using A e other [OF that] unfolding foreign_def ns by metis
  qed
  with r1 have "\<forall>e' \<in> set (before @ [e]). rested lb (por_Scheme r) eff res (view s1) e'" by auto
  moreover have "inputs s1 = i" by (rule reads_kept [OF Cons.prems(1) e one [unfolded eff_def]])
  ultimately show ?case
    using Cons.IH [of s1 "before @ [e]" a "ss @ [st]"] Cons.prems(2) rest err by simp
qed

end

section \<open>The next run\<close>

text \<open>Calls that leave the objects alone.\<close>

definition no_object :: "api_call \<Rightarrow> bool" where
  "no_object call = (no_write call \<and> (case call of CallDelete obj \<Rightarrow> False | _ \<Rightarrow> True))"

lemma no_object_simps [simp]:
  "\<not> no_object (CallCreate obj)" "\<not> no_object (CallPatch base obj)" "\<not> no_object (CallDelete obj)"
  "no_object (CallStatusPO po)" "no_object (CountError reason)" "no_object (CallUpdatePO po)" "\<not> no_object (CallStatusTS t)"
  by (simp_all add: no_object_def)

sublocale resource_operator \<subseteq> still: guarded_operator r "\<lambda>s. view s = v" no_object m for v
  by unfold_locales
    (simp_all only: no_object_simps owner_refs record_frames simp_thms,
     (rule keeps_frame [where f = view], erule view_frames)+)

lemma keeps_both: "keeps I m \<Longrightarrow> keeps J m \<Longrightarrow> keeps (\<lambda>s. I s \<and> J s) m"
  by (auto simp: keeps_iff)

text \<open>What reads no more than the objects and the inputs, and writes neither.\<close>

lemma keeps_seen:
  assumes "\<And>v. keeps (\<lambda>s. view s = v) m" and "keeps (\<lambda>s. inputs s = i) m"
  shows "keeps (\<lambda>s. P (view s) \<and> inputs s = i) m"
  unfolding keeps_iff
proof (intro allI impI)
  fix s x s' assume s: "P (view s) \<and> inputs s = i" and run: "m s = (x, s')"
  have "view s' = view s" by (rule keepsD [OF assms(1) refl run])
  moreover have "inputs s' = i" by (rule keepsD [OF assms(2) conjunct2 [OF s] run])
  ultimately show "P (view s') \<and> inputs s' = i" using s by simp
qed

lemma entry_state:
  assumes "reconcileEntry lb c sch po eff e s = (x, s')"
  shows "IsOffboard (ns_Offboard e) \<and> (\<exists>y. CleanupNamespace c po e s = (y, s')) \<or> s' = s \<or>
    active_entry e \<and> (\<exists>y. ReconcileNamespace lb c sch eff e s = (y, s'))"
  using assms
  by (auto simp: reconcileEntry_def active_entry_def Let_def run_orReturn run_retE split: if_splits prod.splits result.splits)

lemma status_free_entries [simp]:
  "reconcileEntries (later now lb) c sch (reported st po) (reported st' eff) es acc = reconcileEntries lb c sch po eff es acc"
proof (induction es arbitrary: acc)
  case (Cons e es)
  obtain a f ss where "acc = (a, f, ss)" by (cases acc)
  then show ?case by (simp add: Cons)
qed simp

context resting_operator
begin

text \<open>The objects that the resource does not want are what a run may touch, and they are on their way out.\<close>

abbreviation calmly :: "(kobj \<Rightarrow> bool) \<Rightarrow> 's \<Rightarrow> 's \<Rightarrow> bool" where
  "calmly T s0 s \<equiv> trims T {} (view s0) (view s) \<and> inputs s = inputs s0"

lemma calmly_seen: "(\<And>v. keeps (\<lambda>s. view s = v) f) \<Longrightarrow> keeps (\<lambda>s. inputs s = inputs s0) f \<Longrightarrow> keeps (calmly T s0) f"
  by (rule keeps_seen [where P = "trims T {} (view s0)"])

lemma entry_calm:
  fixes d po lb
  defines "eff \<equiv> MergeClusterDefaults d po"
  assumes ok: "restable (por_Scheme r) eff" and e: "e \<in> set (po_Namespaces po)" and res: "resolves lb (inputs s0) res"
    and rests: "\<forall>e \<in> set (po_Namespaces po). rested lb (por_Scheme r) eff res (view s0) e"
  shows "keeps (calmly (unwanted eff res) s0) (reconcileEntry lb (por_Client r) (por_Scheme r) po eff e)"
  unfolding keeps_iff
proof (intro allI impI conjI)
  fix s x s' assume I: "calmly (unwanted eff res) s0 s"
    and run: "reconcileEntry lb (por_Client r) (por_Scheme r) po eff e s = (x, s')"
  have sch: "settled_scheme (por_Scheme r)" and ap: "tenants_apart eff" and nm: "po_Name eff \<noteq> []"
    using ok by (simp_all add: restable_def)
  have e': "e \<in> set (po_Namespaces eff)" and ns: "po_Namespaces eff = po_Namespaces po" using e by (simp_all add: eff_def)
  show "inputs s' = inputs s0" using reads_kept [OF _ e run [unfolded eff_def]] I by blast
  have "trims (unwanted eff res) {} (view s0) (view s')"
    if off: "IsOffboard (ns_Offboard e)" "CleanupNamespace (por_Client r) po e s = (y, s')" for y
  proof (rule keepsD [OF cleanup_trims _ off(2)])
    show "closing (unwanted eff res) {} (view s0) (SanitizeName (ns_Name e))"
      using rested_unwanted [of eff] rests unfolding closing_def ns by blast
  qed (use nm off(1) e' I in \<open>auto simp: unwanted_def eff_def\<close>)
  moreover have "trims (unwanted eff res) {} (view s0) (view s')"
    if act: "active_entry e" "ReconcileNamespace lb (por_Client r) (por_Scheme r) eff e s = (y, s')" for y
  proof -
    have "rested lb (por_Scheme r) eff res (view s) e"
    proof (rule rested_stays [OF ap e'])
      show "rested lb (por_Scheme r) eff res (view s0) e" using rests e by blast
      show "evolves {} (unwanted eff res) (set (offboarded_names eff)) (view s0) (view s)"
        using I by (blast intro: evolves_trims trims_mono)
    qed simp
    then have st: "settled lb (por_Scheme r) eff e (res e) (view s)" using act(1) by (simp add: rested_def)
    have "trims (prune_target eff e (res e)) {} (view s) (view s')"
      by (rule settled_trims [OF sch _ nm st _ act(2)])
        (use tenants_apartD(3) [OF ap e' act(1)] resolvesD [OF res] I in auto)
    then have "trims (unwanted eff res) {} (view s) (view s')"
      by (rule trims_mono) (use e' act(1) in \<open>auto simp: unwanted_def\<close>)
    with I show ?thesis by (blast intro: trims_trans)
  qed
  ultimately show "trims (unwanted eff res) {} (view s0) (view s')"
    using entry_state [OF run] I by blast
qed

lemma entries_calm:
  assumes "restable (por_Scheme r) (MergeClusterDefaults d po)" and "resolves lb (inputs s0) res"
    and "\<forall>e \<in> set (po_Namespaces po). rested lb (por_Scheme r) (MergeClusterDefaults d po) res (view s0) e"
    and "set es \<subseteq> set (po_Namespaces po)"
  shows "keeps (calmly (unwanted (MergeClusterDefaults d po) res) s0)
    (reconcileEntries lb (por_Client r) (por_Scheme r) po (MergeClusterDefaults d po) es acc)"
  using assms(4)
proof (induction es arbitrary: acc)
  case (Cons e es)
  obtain a f ss where acc: "acc = (a, f, ss)" by (cases acc)
  show ?case
    unfolding acc reconcileEntries.simps
    by (rule keeps_bind [OF entry_calm [OF assms(1) _ assms(2,3)]]) (use Cons in \<open>auto split: prod.split\<close>)
qed simp

lemma seen_calm:
  "keeps (calmly T s0) (recordWarning (por_Recorder r) obj reason msg)"
  "keeps (calmly T s0) (recordNormal (por_Recorder r) obj reason msg)"
  "keeps (calmly T s0) (SetActiveTenantCount m name n)"
  "keeps (calmly T s0) (cl_StatusPO (por_Client r) po)"
  "reason \<in> set error_reasons \<Longrightarrow> keeps (calmly T s0) (RecordAndReconcileError m err reason)"
proof -
  note c = calmly_seen and w = no_object_simps(4) no_call_simps(4)
  show "keeps (calmly T s0) (recordWarning (por_Recorder r) obj reason msg)"
    "keeps (calmly T s0) (recordNormal (por_Recorder r) obj reason msg)"
    "keeps (calmly T s0) (SetActiveTenantCount m name n)"
    by (rule c [OF still.records_keep(1) reads.records_keep(1)] c [OF still.records_keep(2) reads.records_keep(2)]
      c [OF still.records_keep(3) reads.records_keep(3)])+
  show "keeps (calmly T s0) (cl_StatusPO (por_Client r) po)"
    by (rule c [OF still.statuspo_keeps [OF w(1)] reads.statuspo_keeps [OF w(2)]])
  show "reason \<in> set error_reasons \<Longrightarrow> keeps (calmly T s0) (RecordAndReconcileError m err reason)"
    by (rule c [OF still.error_keeps reads.error_keeps])
qed

lemma tenants_calm:
  assumes "restable (por_Scheme r) (MergeClusterDefaults d po)" and "resolves lb (inputs s0) res"
    and "\<forall>e \<in> set (po_Namespaces po). rested lb (por_Scheme r) (MergeClusterDefaults d po) res (view s0) e"
  shows "keeps (calmly (unwanted (MergeClusterDefaults d po) res) s0)
    (reconcileTenants (later now lb) m r (reported st po) (reported st (MergeClusterDefaults d po)))"
  unfolding reconcileTenants_def Let_def record_outcome_def
  by (simp add: status_free_entries, intro keeps_intro entries_calm assms order_refl seen_calm)
    (auto intro: seen_calm simp: error_reasons_def split: prod.split)

lemma prune_calm:
  assumes "restable (por_Scheme r) (MergeClusterDefaults d po)"
    and "\<forall>e \<in> set (po_Namespaces po). rested lb (por_Scheme r) (MergeClusterDefaults d po) res (view s0) e"
  shows "keeps (calmly (unwanted (MergeClusterDefaults d po) res) s0) (PruneRemovedNamespaces (por_Client r) po)"
proof (rule keeps_both)
  let ?eff = "MergeClusterDefaults d po"
  show "keeps (\<lambda>s. inputs s = inputs s0) (PruneRemovedNamespaces (por_Client r) po)"
    by (rule reads.PruneRemovedNamespaces_keeps) simp
  show "keeps (\<lambda>s. trims (unwanted ?eff res) {} (view s0) (view s)) (PruneRemovedNamespaces (por_Client r) po)"
  proof (rule prune_removed_trims)
    show "closing (unwanted ?eff res) {} (view s0) n" for n
      using rested_unwanted [of ?eff] assms(2) unfolding closing_def by simp
  qed (use assms(1) in \<open>auto simp: restable_def unwanted_def\<close>)
qed

end

lemma error_outcome: "RecordAndReconcileError m (Some err) reason s = (Ok out, s') \<Longrightarrow> out \<noteq> (zero_ctrl_result, None)"
  by (auto simp: RecordAndReconcileError_def ReconcileResultForError_def eff_run whenE_def zero_ctrl_result_def
      RequeueAfterTransient_def time_Second_def split: if_splits prod.splits result.splits)

text \<open>What follows the loop over the entries.\<close>

definition finish_run ::
  "libs \<Rightarrow> 's metrics \<Rightarrow> 's ProjectOnboardingReconciler \<Rightarrow> ProjectOnboarding \<Rightarrow> loop_state \<Rightarrow> ('s, reconcile_outcome) eff" where
  "finish_run lb m r po acc = thenE (record_outcome r po acc) (
     orReturn (cl_StatusPO (por_Client r) (po\<lparr>po_Status := final_status (lb_Now lb) po acc\<rparr>))
       (\<lambda>err. if IsConflict err then retE (zero_ctrl_result\<lparr>cr_Requeue := True\<rparr>, None)
              else RecordAndReconcileError m (Some err) ''status_update'')
       (\<lambda>_. thenE (SetActiveTenantCount m (po_Name po) (ActiveTenantCount (po_Namespaces po)))
         (if fst (snd acc) \<noteq> None then RecordAndReconcileError m (fst (snd acc)) ''namespace_reconcile''
          else retE (zero_ctrl_result, None))))"

lemma reconcileTenants_finish:
  "reconcileTenants lb m r po eff = bindE (reconcileEntries lb (por_Client r) (por_Scheme r) po eff (po_Namespaces po) (True, None, []))
     (finish_run lb m r po)"
  by (simp add: reconcileTenants_def finish_run_def [abs_def] Let_def)

lemma Ok_orReturn: "orReturn f h k s = (Ok x, s') \<Longrightarrow> (\<exists>e s1. h e s1 = (Ok x, s')) \<or> (\<exists>y s1. k y s1 = (Ok x, s'))"
  by (auto simp: run_orReturn split: prod.splits result.splits)

lemma finish_ok: "finish_run lb m r po (a, f, ss) s = (Ok (zero_ctrl_result, None), s') \<Longrightarrow> f = None"
proof -
  have "zero_ctrl_result\<lparr>cr_Requeue := True\<rparr> \<noteq> zero_ctrl_result" by (simp add: zero_ctrl_result_def)
  then show "finish_run lb m r po (a, f, ss) s = (Ok (zero_ctrl_result, None), s') \<Longrightarrow> f = None"
    by (cases f) (auto simp: finish_run_def run_retE dest!: Ok_then Ok_orReturn dest: error_outcome split: if_splits)
qed

text \<open>The defaults that a run finds make a resource that can rest.\<close>

context resting_operator
begin

definition restable_with :: "libs \<Rightarrow> 'i \<Rightarrow> ProjectOnboarding \<Rightarrow> bool" where
  "restable_with lb i po \<longleftrightarrow> (\<forall>u d u'. inputs u = i \<longrightarrow>
     LoadClusterDefaults lb (por_Client r) (operatorNamespace lb r) u = (Ok d, u') \<longrightarrow>
     restable (por_Scheme r) (MergeClusterDefaults d po))"

definition at_rest :: "libs \<Rightarrow> ProjectOnboarding \<Rightarrow> 's \<Rightarrow> bool" where
  "at_rest lb po s \<longleftrightarrow> (\<exists>d u u' res. inputs u = inputs s \<and>
     LoadClusterDefaults lb (por_Client r) (operatorNamespace lb r) u = (Ok d, u') \<and> resolves lb (inputs s) res \<and>
     restable (por_Scheme r) (MergeClusterDefaults d po) \<and>
     (\<forall>e \<in> set (po_Namespaces po). rested lb (por_Scheme r) (MergeClusterDefaults d po) res (view s) e))"

lemma loads_keep:
  "LoadClusterDefaults lb (por_Client r) n s = (rd, s') \<Longrightarrow> inputs s' = inputs s \<and> view s' = view s"
  by (rule keepsD [OF keeps_both [OF reads.LoadClusterDefaults_keeps still.LoadClusterDefaults_keeps]]) auto

lemma finish_seen: "keeps (\<lambda>s. view s = v \<and> inputs s = i) (finish_run lb m r po acc)"
proof (rule keeps_both)
  obtain a f ss where acc: "acc = (a, f, ss)" by (cases acc)
  show "keeps (\<lambda>s. view s = v) (finish_run lb m r po acc)"
    unfolding finish_run_def record_outcome_def acc
    by (intro keeps_intro still.statuspo_keeps still.errors_keep) (simp_all add: still.records_keep)
  show "keeps (\<lambda>s. inputs s = i) (finish_run lb m r po acc)"
    unfolding finish_run_def record_outcome_def acc
    by (intro keeps_intro reads.statuspo_keeps reads.errors_keep) (simp_all add: reads.records_keep)
qed

lemma tenants_rest:
  assumes ok: "restable (por_Scheme r) (MergeClusterDefaults d po)" and res: "resolves lb (inputs s) res"
    and run: "reconcileTenants lb m r po (MergeClusterDefaults d po) s = (Ok (zero_ctrl_result, None), s')"
  shows "inputs s' = inputs s \<and>
    (\<forall>e \<in> set (po_Namespaces po). rested lb (por_Scheme r) (MergeClusterDefaults d po) res (view s') e)"
proof -
  let ?eff = "MergeClusterDefaults d po"
  obtain a f ss s1 where l: "reconcileEntries lb (por_Client r) (por_Scheme r) po ?eff (po_Namespaces po) (True, None, []) s = (Ok (a, f, ss), s1)"
    and rest: "finish_run lb m r po (a, f, ss) s1 = (Ok (zero_ctrl_result, None), s')"
    using run by (auto simp: reconcileTenants_finish dest!: Ok_bind)
  have s1: "inputs s1 = inputs s"
    by (rule keepsD [OF reads.reconcileEntries_keeps refl l]) simp_all
  have "\<forall>e \<in> set (po_Namespaces po). rested lb (por_Scheme r) ?eff res (view s1) e"
    by (rule entries_rest [OF ok res refl _ _ l [unfolded finish_ok [OF rest]], where before = "[]"]) simp_all
  moreover have "view s' = view s1 \<and> inputs s' = inputs s1"
    by (rule keepsD [OF finish_seen _ rest]) simp
  ultimately show ?thesis using s1 by simp
qed

lemma active_rests:
  assumes ok: "restable_with lb (inputs s) po"
    and run: "reconcileActive lb m r po s = (Ok (zero_ctrl_result, None), s')"
  shows "inputs s' = inputs s \<and> at_rest lb po s'"
proof -
  obtain rd s1 where d: "LoadClusterDefaults lb (por_Client r) (operatorNamespace lb r) s = (rd, s1)" by fastforce
  obtain rp s2 where p: "PruneRemovedNamespaces (por_Client r) po s1 = (rp, s2)" by fastforce
  obtain dv where dv: "rd = Ok dv"
    using run d by (cases rd) (auto simp: reconcileActive_def Let_def run_orReturn dest: error_outcome)
  obtain u where u: "rp = Ok u"
    using run d dv p
    by (cases rp) (auto simp: reconcileActive_def Let_def run_orReturn dest!: Ok_then dest: error_outcome)
  have t: "reconcileTenants lb m r po (MergeClusterDefaults dv po) s2 = (Ok (zero_ctrl_result, None), s')"
    using run d dv p u by (simp add: reconcileActive_def Let_def run_orReturn)
  have "inputs s1 = inputs s" using loads_keep [OF d] by simp
  moreover have "inputs s2 = inputs s1" by (rule keepsD [OF reads.PruneRemovedNamespaces_keeps refl p]) simp
  ultimately have s2: "inputs s2 = inputs s" by simp
  obtain res where res: "resolves lb (inputs s) res" using resolver by blast
  have r': "restable (por_Scheme r) (MergeClusterDefaults dv po)"
    using ok d dv unfolding restable_with_def by blast
  from tenants_rest [OF r' _ t, of res] res s2
  have "inputs s' = inputs s" "\<forall>e \<in> set (po_Namespaces po). rested lb (por_Scheme r) (MergeClusterDefaults dv po) res (view s') e"
    by simp_all
  with d dv res r' show ?thesis unfolding at_rest_def by metis
qed

lemma rest_calm:
  assumes "at_rest lb po t" and run: "reconcileActive (later now lb) m r (reported st po) t = (x, t')"
  shows "quiet (view t) (view t')"
proof -
  obtain d u u' res where u: "inputs u = inputs t" "LoadClusterDefaults lb (por_Client r) (operatorNamespace lb r) u = (Ok d, u')"
    and res: "resolves lb (inputs t) res" and ok: "restable (por_Scheme r) (MergeClusterDefaults d po)"
    and rests: "\<forall>e \<in> set (po_Namespaces po). rested lb (por_Scheme r) (MergeClusterDefaults d po) res (view t) e"
    using assms(1) unfolding at_rest_def by blast
  let ?T = "unwanted (MergeClusterDefaults d po) res"
  obtain rd t1 where l: "LoadClusterDefaults lb (por_Client r) (operatorNamespace lb r) t = (rd, t1)" by fastforce
  have I: "calmly ?T t t1" using loads_keep [OF l] by simp
  have "calmly ?T t t'"
  proof (cases rd)
    case (Ok dv)
    have dv: "dv = d" using defaults_same [OF u(2)] l Ok u(1) by auto
    let ?rest = "orReturn (PruneRemovedNamespaces (por_Client r) po)
        (\<lambda>err. thenE (recordWarning (por_Recorder r) (po_Name po) ''PruneFailed'' (error_string err))
                 (RecordAndReconcileError m (Some err) ''prune''))
        (\<lambda>_. reconcileTenants (later now lb) m r (reported st po) (reported st (MergeClusterDefaults d po)))"
    have "keeps (calmly ?T t) ?rest"
      by (intro keeps_intro seen_calm tenants_calm [OF ok res rests] prune_calm [OF ok rests]) (simp add: error_reasons_def)
    then show ?thesis
    proof (rule keepsD [of "calmly ?T t", OF _ I])
      have l': "LoadClusterDefaults (later now lb) (por_Client r) (operatorNamespace (later now lb) r) t = (Ok d, t1)"
        using l Ok dv by simp
      note first = orReturn_first(1) [where f = "LoadClusterDefaults (later now lb) (por_Client r) (operatorNamespace (later now lb) r)", OF l']
      show "?rest t1 = (x, t')"
        using run [unfolded reconcileActive_def Let_def first merge_reported] by simp
    qed
  next
    case (Err e)
    have "RecordAndReconcileError m (Some e) ''defaults_load'' t1 = (x, t')"
      using run l Err by (simp add: reconcileActive_def Let_def run_orReturn)
    moreover have "keeps (calmly ?T t) (RecordAndReconcileError m (Some e) ''defaults_load'')"
      by (rule seen_calm(5)) (simp add: error_reasons_def)
    ultimately show ?thesis by (intro keepsD [of "calmly ?T t", OF _ I])
  next
    case (Panic p)
    with run l I show ?thesis by (simp add: reconcileActive_def Let_def run_orReturn)
  qed
  then show ?thesis
    by (intro trims_quiet [of ?T]) (use rested_unwanted [of "MergeClusterDefaults d po"] rests in simp_all)
qed

lemma active_bare: "reconcileActive lb m r po s = (x, s') \<Longrightarrow> bare (stored s') = bare (stored s)"
  by (rule keepsD [OF bared.reconcileActive_keeps refl]) simp_all

lemma Reconcile_rests:
  assumes po: "stored s n = Some po" "om_deletionTimestamp (po_meta po) = None" "has_finalizer po"
    and ok: "restable_with lb (inputs s) po"
    and run: "Reconcile lb m r (projectOnboardingRequest n) s = (Ok (zero_ctrl_result, None), s')"
  shows "bare (stored s') = bare (stored s) \<and> (IsReconciliationPaused (Some po) \<or> at_rest lb po s')"
proof -
  obtain rp s1 where g: "cl_GetPO (por_Client r) n s = (rp, s1)" by fastforce
  have s1: "stored s1 = stored s" "inputs s1 = inputs s"
    using getpo_reads [OF g] keepsD [OF reads.getpo_keeps refl g] by simp_all
  note rest = run [unfolded Reconcile_def projectOnboardingRequest_def Let_def]
  show ?thesis
  proof (cases rp)
    case (Ok q)
    have "q = po" using getpo_ok g Ok po(1) by fastforce
    note rest = rest [unfolded orReturn_first(1) [where f = "cl_GetPO (por_Client r) n", OF g [unfolded Ok this]]]
    show ?thesis
    proof (cases "IsReconciliationPaused (Some po)")
      case True
      with rest po s1 show ?thesis by (simp add: EnsureFinalizer_def run_orReturn run_retE)
    next
      case False
      with rest po have "reconcileActive lb m r po s1 = (Ok (zero_ctrl_result, None), s')"
        by (simp add: EnsureFinalizer_def run_orReturn run_retE)
      with active_rests [OF _ this] active_bare [OF this] ok s1 show ?thesis by simp
    qed
  next
    case (Err e)
    with g rest po(1) getpo_there [of n s e s1] show ?thesis
      by (auto simp: run_orReturn run_retE split: if_splits)
  qed (use g rest in \<open>simp add: run_orReturn\<close>)
qed

lemma rest_stays_calm:
  assumes po: "stored t n = Some (reported st po)" "om_deletionTimestamp (po_meta po) = None" "has_finalizer po"
    and rest: "IsReconciliationPaused (Some po) \<or> at_rest lb po t"
    and run: "Reconcile (later now lb) m r (projectOnboardingRequest n) t = (x, t')"
  shows "quiet (view t) (view t')"
proof -
  have fin: "has_finalizer (reported st po)" and paused: "IsReconciliationPaused (Some (reported st po)) = IsReconciliationPaused (Some po)"
    using po(3) by (simp_all add: has_finalizer_def IsReconciliationPaused_def)
  obtain rp t1 where g: "cl_GetPO (por_Client r) n t = (rp, t1)" by fastforce
  have t1: "view t1 = view t" "inputs t1 = inputs t"
    using getpo_reads [OF g] keepsD [OF reads.getpo_keeps refl g] by simp_all
  note go = run [unfolded Reconcile_def projectOnboardingRequest_def Let_def]
  show ?thesis
  proof (cases rp)
    case (Ok q)
    have q: "q = reported st po" using getpo_ok g Ok po(1) by fastforce
    note go = go [unfolded orReturn_first(1) [where f = "cl_GetPO (por_Client r) n", OF g [unfolded Ok q]]]
    show ?thesis
    proof (cases "IsReconciliationPaused (Some po)")
      case True
      with go fin po(2) paused t1 show ?thesis by (simp add: EnsureFinalizer_def run_orReturn run_retE)
    next
      case False
      with go fin po(2) paused have "reconcileActive (later now lb) m r (reported st po) t1 = (x, t')"
        by (simp add: EnsureFinalizer_def run_orReturn run_retE)
      moreover have "at_rest lb po t1" using rest False t1 by (simp add: at_rest_def)
      ultimately show ?thesis using rest_calm t1(1) by metis
    qed
  qed (use g go t1 in \<open>auto simp: run_orReturn run_retE split: if_splits\<close>)
qed

lemma Reconcile_comes_to_rest:
  assumes po: "stored s n = Some po" "om_deletionTimestamp (po_meta po) = None" "has_finalizer po"
    and ok: "restable_with lb (inputs s) po"
    and run: "Reconcile lb m r (projectOnboardingRequest n) s = (Ok (zero_ctrl_result, None), s')"
    and same: "view t = view s'" "stored t = stored s'" "inputs t = inputs s'"
    and again: "Reconcile (later now lb) m r (projectOnboardingRequest n) t = (x, t')"
  shows "quiet (view t) (view t')"
proof -
  note first = Reconcile_rests [OF po ok run]
  obtain st where "stored t n = Some (reported st po)"
    using bare_reported [OF conjunct1 [OF first] po(1)] same(2) by auto
  moreover have "IsReconciliationPaused (Some po) \<or> at_rest lb po t"
    using first same(1,3) by (simp add: at_rest_def)
  ultimately show ?thesis using rest_stays_calm po(2,3) again by blast
qed

end

end
