(* ===== verification/Quantity_Validation.thy ===== *)
theory Quantity_Validation
  imports Quota_Build
begin

text \<open>
  \<^verbatim>\<open>internal/validation/quantity.go\<close>: admission checks of the quantities of quota and
  limit specifications.  A check is \<open>Ok ()\<close> or the error the webhook answers with.  The
  lemmas compare what the webhook accepts with what the reconciler's builders parse.
\<close>

section \<open>Checks\<close>

text \<open>Consecutive \<^verbatim>\<open>if err := ...; err != nil { return err }\<close> statements.\<close>

fun run_checks :: "unit result list \<Rightarrow> unit result" where
  "run_checks [] = Ok ()"
| "run_checks (r # rs) = (case r of Ok _ \<Rightarrow> run_checks rs | Err e \<Rightarrow> Err e | Panic p \<Rightarrow> Panic p)"

definition bareNumberQuantity :: "string \<Rightarrow> bool" where
  "bareNumberQuantity s \<longleftrightarrow> s \<noteq> [] \<and> (\<forall>c \<in> set s. (48 \<le> (of_char c :: nat) \<and> (of_char c :: nat) \<le> 57) \<or> c = CHR ''.'')"

definition normalizeQuantity :: "string \<Rightarrow> string" where
  "normalizeQuantity value = NormalizeQuantity value"

definition validateCPUQuantity :: "qparser \<Rightarrow> string \<Rightarrow> string \<Rightarrow> unit result" where
  "validateCPUQuantity pq fieldPath value = (let trimmed = trim_space value in
     if trimmed = [] then Ok ()
     else case pq trimmed of
       Inl err \<Rightarrow> Err (PlainError (fieldPath @ '': invalid CPU quantity '' @ go_quote value @ '': '' @ err))
     | Inr _ \<Rightarrow> Ok ())"

definition validateByteQuantity :: "qparser \<Rightarrow> string \<Rightarrow> string \<Rightarrow> unit result" where
  "validateByteQuantity pq fieldPath value = (let trimmed = trim_space value in
     if trimmed = [] then Ok ()
     else if bareNumberQuantity trimmed then
       Err (PlainError (fieldPath @ '': quantity '' @ go_quote value @
         '' must include a unit suffix (e.g. 4Gi, 500Mi); plain numbers are interpreted as bytes by Kubernetes''))
     else case pq (normalizeQuantity trimmed) of
       Inl err \<Rightarrow> Err (PlainError (fieldPath @ '': invalid quantity '' @ go_quote value @ '': '' @ err))
     | Inr _ \<Rightarrow> Ok ())"

definition validate_count :: "qparser \<Rightarrow> string \<Rightarrow> string \<Rightarrow> string \<Rightarrow> unit result" where
  "validate_count pq fieldPath value trimmed = (case pq trimmed of
       Inl err \<Rightarrow> Err (PlainError (fieldPath @ '': invalid count '' @ go_quote value @ '': '' @ err))
     | Inr _ \<Rightarrow> Ok ())"

definition validateStorageClassQuotaValue :: "qparser \<Rightarrow> string \<Rightarrow> string \<Rightarrow> string \<Rightarrow> unit result" where
  "validateStorageClassQuotaValue pq fieldPath key value = (let trimmed = trim_space value in
     if trimmed = [] then Ok ()
     else let keyLower = to_lower key in
       if contains_str keyLower ''persistentvolumeclaims'' \<and> bareNumberQuantity trimmed
       then validate_count pq fieldPath value trimmed
       else if contains_str keyLower ''storage'' then validateByteQuantity pq fieldPath trimmed
       else if bareNumberQuantity trimmed then validate_count pq fieldPath value trimmed
       else validateByteQuantity pq fieldPath trimmed)"

definition opt_check :: "(string \<Rightarrow> unit result) \<Rightarrow> string option \<Rightarrow> unit result" where
  "opt_check f v = (case v of None \<Rightarrow> Ok () | Some s \<Rightarrow> f s)"

definition validateResourceAmountSpec :: "qparser \<Rightarrow> string \<Rightarrow> ResourceAmountSpec option \<Rightarrow> unit result" where
  "validateResourceAmountSpec pq pre spec = (case spec of None \<Rightarrow> Ok ()
     | Some a \<Rightarrow> run_checks
        [opt_check (validateCPUQuantity pq (pre @ ''.cpu'')) (ra_CPU a),
         opt_check (validateByteQuantity pq (pre @ ''.memory'')) (ra_Memory a)])"

definition validateStorageAmountSpec :: "qparser \<Rightarrow> string \<Rightarrow> StorageAmountSpec option \<Rightarrow> unit result" where
  "validateStorageAmountSpec pq pre spec = (case spec of None \<Rightarrow> Ok ()
     | Some a \<Rightarrow> opt_check (validateByteQuantity pq (pre @ ''.storage'')) (sa_Storage a))"

definition validateResourceQuotaLimitSpec :: "qparser \<Rightarrow> string \<Rightarrow> ResourceQuotaLimitSpec option \<Rightarrow> unit result" where
  "validateResourceQuotaLimitSpec pq pre spec = (case spec of None \<Rightarrow> Ok ()
     | Some l \<Rightarrow> run_checks
        [opt_check (validateCPUQuantity pq (pre @ ''.cpu'')) (rl_CPU l),
         opt_check (validateByteQuantity pq (pre @ ''.memory'')) (rl_Memory l),
         opt_check (validateByteQuantity pq (pre @ ''.ephemeralStorage'')) (rl_EphemeralStorage l)])"

definition validateResourceQuotaRequestSpec :: "qparser \<Rightarrow> string \<Rightarrow> ResourceQuotaRequestSpec option \<Rightarrow> unit result" where
  "validateResourceQuotaRequestSpec pq pre spec = (case spec of None \<Rightarrow> Ok ()
     | Some r \<Rightarrow> run_checks
        [opt_check (validateCPUQuantity pq (pre @ ''.cpu'')) (rr_CPU r),
         opt_check (validateByteQuantity pq (pre @ ''.memory'')) (rr_Memory r),
         opt_check (validateByteQuantity pq (pre @ ''.ephemeralStorage'')) (rr_EphemeralStorage r),
         opt_check (validateByteQuantity pq (pre @ ''.storage'')) (rr_Storage r)])"

definition validate_storage_classes :: "qparser \<Rightarrow> string \<Rightarrow> StorageClassQuota list \<Rightarrow> unit result list" where
  "validate_storage_classes pq pre entries = map (\<lambda>(i, entry).
     validateStorageClassQuotaValue pq (pre @ ''.storageClasses['' @ string_of_nat i @ ''].value'')
       (sc_Key entry) (sc_Value entry)) (zip [0..<length entries] entries)"

definition validateResourceQuotaSpec :: "qparser \<Rightarrow> string \<Rightarrow> ResourceQuotaSpec option \<Rightarrow> unit result" where
  "validateResourceQuotaSpec pq pre spec = (case spec of None \<Rightarrow> Ok ()
     | Some q \<Rightarrow> run_checks
        ([opt_check (validateCPUQuantity pq (pre @ ''.cpu'')) (rq_CPU q),
          opt_check (validateByteQuantity pq (pre @ ''.memory'')) (rq_Memory q),
          opt_check (validateByteQuantity pq (pre @ ''.ephemeralStorage'')) (rq_EphemeralStorage q),
          validateResourceQuotaLimitSpec pq (pre @ ''.limits'') (rq_Limits q),
          validateResourceQuotaRequestSpec pq (pre @ ''.requests'') (rq_Requests q)] @
         validate_storage_classes pq pre (rq_StorageClasses q)))"

definition validateLimitRangeSpec :: "qparser \<Rightarrow> string \<Rightarrow> LimitRangeSpec option \<Rightarrow> unit result" where
  "validateLimitRangeSpec pq pre spec = (case spec of None \<Rightarrow> Ok ()
     | Some l \<Rightarrow> run_checks
        ((case lr_Pod l of None \<Rightarrow> [] | Some p \<Rightarrow>
            [validateResourceAmountSpec pq (pre @ ''.pod.max'') (lp_Max p),
             validateResourceAmountSpec pq (pre @ ''.pod.min'') (lp_Min p)]) @
         (case lr_Container l of None \<Rightarrow> [] | Some c \<Rightarrow>
            [validateResourceAmountSpec pq (pre @ ''.container.max'') (lc_Max c),
             validateResourceAmountSpec pq (pre @ ''.container.min'') (lc_Min c),
             validateResourceAmountSpec pq (pre @ ''.container.default'') (lc_Default c),
             validateResourceAmountSpec pq (pre @ ''.container.defaultRequest'') (lc_DefaultRequest c)]) @
         (case lr_PVC l of None \<Rightarrow> [] | Some v \<Rightarrow>
            [validateStorageAmountSpec pq (pre @ ''.pvc.min'') (lv_Min v),
             validateStorageAmountSpec pq (pre @ ''.pvc.max'') (lv_Max v)])))"

section \<open>What an accepted value is\<close>

lemma run_checks_Ok: "run_checks rs = Ok () \<longleftrightarrow> (\<forall>r \<in> set rs. r = Ok ())"
proof (induction rs)
  case (Cons r rs)
  then show ?case by (cases r) auto
qed simp

declare run_checks.simps(2) [simp del]

lemma opt_check_Ok: "opt_check f v = Ok () \<longleftrightarrow> (\<forall>s. v = Some s \<longrightarrow> f s = Ok ())"
  by (cases v) (simp_all add: opt_check_def)

lemma validateCPUQuantity_Ok:
  "validateCPUQuantity pq p v = Ok () \<longleftrightarrow> trim_space v = [] \<or> parses pq (trim_space v)"
  by (auto simp: validateCPUQuantity_def parses_def Let_def split: sum.split)

lemma validateByteQuantity_Ok:
  "validateByteQuantity pq p v = Ok () \<longleftrightarrow> trim_space v = [] \<or>
     \<not> bareNumberQuantity (trim_space v) \<and> parses pq (NormalizeQuantity (trim_space v))"
  by (auto simp: validateByteQuantity_def normalizeQuantity_def parses_def Let_def split: sum.split)

lemma grammar_parses:
  assumes "quantity_grammar pq" and "parses pq s"
  shows "s \<noteq> []" "is_trimmed s" "NormalizeQuantity s = s"
  using assms by (cases "pq s"; force simp: quantity_grammar_def parses_def)+

lemma grammar_counts: "quantity_grammar pq \<Longrightarrow> parses pq (string_of_int i)"
  unfolding quantity_grammar_def parses_def by (metis sum.simps(6))

lemma validateStorageClassQuotaValue_Ok:
  assumes "quantity_grammar pq" and "validateStorageClassQuotaValue pq p k v = Ok ()"
  shows "trim_space v = [] \<or> parses pq (NormalizeQuantity (trim_space v))"
proof -
  let ?t = "trim_space v"
  have "parses pq ?t \<Longrightarrow> parses pq (NormalizeQuantity ?t)"
    using grammar_parses(3) [OF assms(1)] by simp
  moreover have "validate_count pq p v ?t = Ok () \<Longrightarrow> parses pq ?t"
    by (auto simp: validate_count_def parses_def split: sum.splits)
  ultimately show ?thesis
    using assms(2) by (auto simp: validateStorageClassQuotaValue_def Let_def validateByteQuantity_Ok split: if_splits)
qed

section \<open>Accepted specifications and the builders\<close>

text \<open>
  The reconciler parses the texts as they stand, the webhook after trimming them and
  skipping blank ones.  \<open>tidy_quota\<close> and \<open>tidy_limits\<close> are the specifications on which
  the two agree: no text has white space around it, and no text that is parsed is empty.
\<close>

definition tidy :: "string option \<Rightarrow> bool" where
  "tidy v = (case v of None \<Rightarrow> True | Some s \<Rightarrow> is_trimmed s)"

definition tidy_quota :: "ResourceQuotaSpec \<Rightarrow> bool" where
  "tidy_quota q \<longleftrightarrow> tidy (rq_CPU q) \<and> tidy (rq_Memory q) \<and> tidy (rq_EphemeralStorage q) \<and>
     (case rq_Limits q of None \<Rightarrow> True
      | Some l \<Rightarrow> tidy (rl_CPU l) \<and> tidy (rl_Memory l) \<and> tidy (rl_EphemeralStorage l)) \<and>
     (case rq_Requests q of None \<Rightarrow> True
      | Some r \<Rightarrow> tidy (rr_CPU r) \<and> tidy (rr_Memory r) \<and> tidy (rr_Storage r) \<and> tidy (rr_EphemeralStorage r)) \<and>
     (\<forall>e \<in> set (rq_StorageClasses q). sc_Key e \<noteq> [] \<longrightarrow> sc_Value e \<noteq> [] \<and> is_trimmed (sc_Value e))"

lemma quantity_request_parses:
  assumes "quantity_grammar pq" "tidy v" "(k, t) \<in> set (quantity_request n v)"
    "(\<forall>s. v = Some s \<longrightarrow> trim_space s = [] \<or> parses pq (trim_space s) \<or> parses pq (NormalizeQuantity (trim_space s)))"
  shows "parses pq t"
  using assms grammar_parses(3) [OF assms(1)]
  by (cases v) (auto simp: quantity_request_def tidy_def is_trimmed_def split: if_splits)

lemma cpu_request_parses:
  "quantity_grammar pq \<Longrightarrow> tidy v \<Longrightarrow> opt_check (validateCPUQuantity pq p) v = Ok () \<Longrightarrow>
   (k, t) \<in> set (quantity_request n v) \<Longrightarrow> parses pq t"
  by (rule quantity_request_parses) (auto simp: opt_check_Ok validateCPUQuantity_Ok)

lemma byte_request_parses:
  "quantity_grammar pq \<Longrightarrow> tidy v \<Longrightarrow> opt_check (validateByteQuantity pq p) v = Ok () \<Longrightarrow>
   (k, t) \<in> set (quantity_request n v) \<Longrightarrow> parses pq t"
  by (rule quantity_request_parses) (auto simp: opt_check_Ok validateByteQuantity_Ok)

lemma count_request_parses:
  "quantity_grammar pq \<Longrightarrow> (k, t) \<in> set (count_request n v) \<Longrightarrow> parses pq t"
  by (cases v) (auto simp: count_request_def grammar_counts)

lemma class_request_parses:
  assumes "quantity_grammar pq" "validateStorageClassQuotaValue pq p (sc_Key e) (sc_Value e) = Ok ()"
    "sc_Key e \<noteq> [] \<longrightarrow> sc_Value e \<noteq> [] \<and> is_trimmed (sc_Value e)" "(k, t) \<in> set (class_request e)"
  shows "parses pq t"
  using validateStorageClassQuotaValue_Ok [OF assms(1,2)] assms(3,4)
  by (auto simp: class_request_def is_trimmed_def split: if_splits)

lemma validate_storage_classes_Ok:
  "\<forall>r \<in> set (validate_storage_classes pq pre es). r = Ok () \<Longrightarrow> e \<in> set es \<Longrightarrow>
   \<exists>p. validateStorageClassQuotaValue pq p (sc_Key e) (sc_Value e) = Ok ()"
  unfolding validate_storage_classes_def
  by (auto simp: in_set_conv_nth set_zip)

lemmas request_parses = cpu_request_parses byte_request_parses count_request_parses

lemma accepted_requests_parse:
  assumes g: "quantity_grammar pq" and v: "validateResourceQuotaSpec pq pre (Some q) = Ok ()"
    and td: "tidy_quota q" and k: "(k, t) \<in> set (quota_requests q)"
  shows "parses pq t"
proof -
  note ok = v [unfolded validateResourceQuotaSpec_def option.case run_checks_Ok]
  have cls: "\<exists>p. validateStorageClassQuotaValue pq p (sc_Key e) (sc_Value e) = Ok ()"
    if "e \<in> set (rq_StorageClasses q)" for e
    by (rule validate_storage_classes_Ok [OF _ that]) (use ok in auto)
  have lim: "validateResourceQuotaLimitSpec pq (pre @ ''.limits'') (rq_Limits q) = Ok ()"
    and req: "validateResourceQuotaRequestSpec pq (pre @ ''.requests'') (rq_Requests q) = Ok ()"
    and top: "opt_check (validateCPUQuantity pq (pre @ ''.cpu'')) (rq_CPU q) = Ok ()"
      "opt_check (validateByteQuantity pq (pre @ ''.memory'')) (rq_Memory q) = Ok ()"
      "opt_check (validateByteQuantity pq (pre @ ''.ephemeralStorage'')) (rq_EphemeralStorage q) = Ok ()"
    using ok by simp_all
  have td': "tidy (rq_CPU q)" "tidy (rq_Memory q)" "tidy (rq_EphemeralStorage q)"
    "\<And>e. e \<in> set (rq_StorageClasses q) \<Longrightarrow> sc_Key e \<noteq> [] \<longrightarrow> sc_Value e \<noteq> [] \<and> is_trimmed (sc_Value e)"
    using td by (simp_all add: tidy_quota_def)
  have L: "parses pq t" if "(k, t) \<in> set (case rq_Limits q of None \<Rightarrow> [] | Some l \<Rightarrow>
      quantity_request ''limits.cpu'' (rl_CPU l) @ quantity_request ''limits.memory'' (rl_Memory l) @
      quantity_request ''limits.ephemeral-storage'' (rl_EphemeralStorage l))"
    using that lim td
    by (cases "rq_Limits q") (auto simp: validateResourceQuotaLimitSpec_def run_checks_Ok tidy_quota_def
        intro: cpu_request_parses [OF g] byte_request_parses [OF g])
  have R: "parses pq t" if "(k, t) \<in> set (case rq_Requests q of None \<Rightarrow> [] | Some r \<Rightarrow>
      quantity_request ''requests.cpu'' (rr_CPU r) @ quantity_request ''requests.memory'' (rr_Memory r) @
      quantity_request ''requests.storage'' (rr_Storage r) @
      quantity_request ''requests.ephemeral-storage'' (rr_EphemeralStorage r))"
    using that req td
    by (cases "rq_Requests q") (auto simp: validateResourceQuotaRequestSpec_def run_checks_Ok tidy_quota_def
        intro: cpu_request_parses [OF g] byte_request_parses [OF g])
  have C: "parses pq t" if "(k, t) \<in> set (concat (map class_request (rq_StorageClasses q)))"
    using that cls td'(4) class_request_parses [OF g] by (auto; blast)
  note k' = k [unfolded quota_requests_def set_append Un_iff]
  show ?thesis
    by (insert k', (elim disjE)?) (erule L R C cpu_request_parses [OF g td'(1) top(1)]
        byte_request_parses [OF g td'(2) top(2)] byte_request_parses [OF g td'(3) top(3)]
        count_request_parses [OF g])+
qed

end
