(* ===== verification/Admission.thy ===== *)
theory Admission
  imports Quantity_Validation Kube
begin

text \<open>
  \<^verbatim>\<open>internal/validation/validate.go\<close> and \<^verbatim>\<open>internal/webhook\<close>: what the validating webhooks
  accept.  The answer is \<open>Ok ()\<close> (the code never returns warnings) or the error of the
  first check that fails, in the order of the code.
\<close>

section \<open>Namespace entries (validate.go)\<close>

fun unique_names :: "string list \<Rightarrow> NamespaceSpec list \<Rightarrow> unit result" where
  "unique_names seen [] = Ok ()"
| "unique_names seen (ns # nss) = (let name = trim_space (ns_Name ns) in
     if name = [] then unique_names seen nss
     else if name \<in> set seen
     then Err (PlainError (''duplicate tenant namespace name '' @ go_quote name @ '' in spec.namespaces''))
     else unique_names (name # seen) nss)"

definition validateUniqueNamespaceNames :: "NamespaceSpec list \<Rightarrow> unit result" where
  "validateUniqueNamespaceNames namespaces = unique_names [] namespaces"

definition isOptInEnabledPtr :: "bool option \<Rightarrow> bool" where
  "isOptInEnabledPtr enabled = (case enabled of None \<Rightarrow> False | Some b \<Rightarrow> b)"

definition isEnabledPtr :: "bool option \<Rightarrow> bool" where
  "isEnabledPtr enabled = (case enabled of None \<Rightarrow> True | Some b \<Rightarrow> b)"

fun gitops_requirements :: "ProjectOnboarding \<Rightarrow> NamespaceSpec list \<Rightarrow> unit result" where
  "gitops_requirements po [] = Ok ()"
| "gitops_requirements po (ns # nss) =
     (if \<not> isEnabledPtr (ns_Enabled ns) then gitops_requirements po nss
      else let hasProjects = list_ex (\<lambda>project. isOptInEnabledPtr (ac_Enabled project)) (ns_ArgoCDProjects ns) in
        if \<not> hasProjects then gitops_requirements po nss
        else if ResolveApplicationGitOpsNamespace po ns = []
        then Err (PlainError (''spec.namespaces['' @ go_quote (ns_Name ns) @
          ''].applicationGitOpsNamespace is required when argoCDProjects are enabled (legacy fallback: spec.gitOps.applicationNamespace or onboarding-defaults ConfigMap)''))
        else gitops_requirements po nss)"

definition validateGitOpsRequirements :: "ProjectOnboarding \<Rightarrow> unit result" where
  "validateGitOpsRequirements po = gitops_requirements po (po_Namespaces po)"

section \<open>Sizing of a catalogue entry (validate.go)\<close>

definition resourceQuotaSpecHasValues :: "ResourceQuotaSpec option \<Rightarrow> bool" where
  "resourceQuotaSpecHasValues spec = (case spec of None \<Rightarrow> False
     | Some q \<Rightarrow> if (case rq_Enabled q of None \<Rightarrow> False | Some b \<Rightarrow> \<not> b) then False
         else rq_Pods q \<noteq> None \<or> rq_CPU q \<noteq> None \<or> rq_Memory q \<noteq> None \<or> rq_EphemeralStorage q \<noteq> None \<or>
           rq_ReplicationControllers q \<noteq> None \<or> rq_ResourceQuotas q \<noteq> None \<or> rq_Services q \<noteq> None \<or>
           rq_Secrets q \<noteq> None \<or> rq_ConfigMaps q \<noteq> None \<or> rq_PersistentVolumeClaims q \<noteq> None \<or>
           rq_Limits q \<noteq> None \<or> rq_Requests q \<noteq> None \<or> rq_StorageClasses q \<noteq> [])"

definition limitRangeSpecHasValues :: "LimitRangeSpec option \<Rightarrow> bool" where
  "limitRangeSpecHasValues spec = (case spec of None \<Rightarrow> False
     | Some l \<Rightarrow> if (case lr_Enabled l of None \<Rightarrow> False | Some b \<Rightarrow> \<not> b) then False
         else lr_Pod l \<noteq> None \<or> lr_Container l \<noteq> None \<or> lr_PVC l \<noteq> None)"

definition TShirtSizeSpecHasSizing :: "TShirtSizeSpec \<Rightarrow> bool" where
  "TShirtSizeSpecHasSizing spec \<longleftrightarrow>
     resourceQuotaSpecHasValues (ts_ResourceQuotas spec) \<or> limitRangeSpecHasValues (ts_LimitRanges spec)"

section \<open>The validator (validate.go)\<close>

definition validateNamespaceSpec :: "libs \<Rightarrow> 's client \<Rightarrow> NamespaceSpec \<Rightarrow> ('s, unit) eff" where
  "validateNamespaceSpec lb c ns = (let pre = ''spec.namespaces['' @ go_quote (ns_Name ns) @ '']'' in
     thenE (resE (validateResourceQuotaSpec (lb_ParseQuantity lb) (pre @ ''.resourceQuotas'') (ns_ResourceQuotas ns))) (
     thenE (resE (validateLimitRangeSpec (lb_ParseQuantity lb) (pre @ ''.limitRanges'') (ns_LimitRanges ns))) (
     if ns_ProjectSize ns = [] then retE ()
     else bindE (tryE (cl_GetTS c (ns_ProjectSize ns))) (\<lambda>r. case r of
       Inl err \<Rightarrow> if IsNotFound err
         then failE (PlainError (''TShirtSize '' @ go_quote (ns_ProjectSize ns) @
                '' not found (referenced by namespace entry '' @ go_quote (ns_Name ns) @ '')''))
         else failE (WrapError (''get TShirtSize '' @ go_quote (ns_ProjectSize ns) @ '': '') err)
     | Inr tshirt \<Rightarrow> if \<not> TShirtSizeSpecHasSizing (ts_Spec tshirt)
         then failE (PlainError (''TShirtSize '' @ go_quote (ns_ProjectSize ns) @ '' has no quota or limit values''))
         else retE ()))))"

definition ValidateProjectOnboarding :: "libs \<Rightarrow> 's client \<Rightarrow> ProjectOnboarding \<Rightarrow> ('s, unit) eff" where
  "ValidateProjectOnboarding lb c po =
     thenE (resE (validateUniqueNamespaceNames (po_Namespaces po))) (
     thenE (resE (validateGitOpsRequirements po))
     (forE (po_Namespaces po) (validateNamespaceSpec lb c)))"

definition ValidateTShirtSize :: "libs \<Rightarrow> TShirtSize \<Rightarrow> unit result" where
  "ValidateTShirtSize lb tshirt = (let errs = lb_IsDNS1123Subdomain lb (ts_Name tshirt) in
     if errs \<noteq> [] then Err (PlainError (''metadata.name '' @ go_quote (ts_Name tshirt) @
          '' is not a valid DNS-1123 subdomain: '' @ join_str '', '' errs))
     else if \<not> TShirtSizeSpecHasSizing (ts_Spec tshirt)
     then Err (PlainError ''spec must define resourceQuotas and/or limitRanges with at least one limit value'')
     else run_checks
       [validateResourceQuotaSpec (lb_ParseQuantity lb) ''spec.resourceQuotas'' (ts_ResourceQuotas (ts_Spec tshirt)),
        validateLimitRangeSpec (lb_ParseQuantity lb) ''spec.limitRanges'' (ts_LimitRanges (ts_Spec tshirt))])"

fun count_size :: "string \<Rightarrow> NamespaceSpec list \<Rightarrow> nat \<Rightarrow> nat" where
  "count_size sizeName [] n = n"
| "count_size sizeName (ns # nss) n =
     count_size sizeName nss (if ns_ProjectSize ns = sizeName then n + 1 else n)"

definition CountProjectOnboardingReferences :: "'s client \<Rightarrow> string \<Rightarrow> ('s, nat) eff" where
  "CountProjectOnboardingReferences c sizeName =
     bindE (cl_ListPO c) (\<lambda>items.
     retE (foldl (\<lambda>k po. count_size sizeName (po_Namespaces po) k) 0 items))"

definition ValidateTShirtSizeDelete :: "'s client \<Rightarrow> TShirtSize \<Rightarrow> ('s, unit) eff" where
  "ValidateTShirtSizeDelete c tshirt =
     bindE (CountProjectOnboardingReferences c (ts_Name tshirt)) (\<lambda>refs.
     if 0 < refs then failE (PlainError (''TShirtSize '' @ go_quote (ts_Name tshirt) @ '' is referenced by '' @
          string_of_nat refs @ '' ProjectOnboarding namespace entries; remove references before delete''))
     else retE ())"

section \<open>The webhooks (projectonboarding\_webhook.go, tshirtsize\_webhook.go)\<close>

datatype 'a admission_request = OnCreate 'a | OnUpdate 'a 'a | OnDelete 'a

primrec ProjectOnboardingCustomValidator ::
  "libs \<Rightarrow> 's client \<Rightarrow> ProjectOnboarding admission_request \<Rightarrow> ('s, unit) eff" where
  "ProjectOnboardingCustomValidator lb c (OnCreate po) = ValidateProjectOnboarding lb c po"
| "ProjectOnboardingCustomValidator lb c (OnUpdate old po) = ValidateProjectOnboarding lb c po"
| "ProjectOnboardingCustomValidator lb c (OnDelete po) = retE ()"

primrec TShirtSizeCustomValidator ::
  "libs \<Rightarrow> 's client \<Rightarrow> TShirtSize admission_request \<Rightarrow> ('s, unit) eff" where
  "TShirtSizeCustomValidator lb c (OnCreate tshirt) = resE (ValidateTShirtSize lb tshirt)"
| "TShirtSizeCustomValidator lb c (OnUpdate old tshirt) = resE (ValidateTShirtSize lb tshirt)"
| "TShirtSizeCustomValidator lb c (OnDelete tshirt) = ValidateTShirtSizeDelete c tshirt"

section \<open>Lemmas\<close>

lemma ptr_flags [simp]: "isOptInEnabledPtr = IsOptInEnabled" "isEnabledPtr = IsEnabled"
  by (auto simp: fun_eq_iff isOptInEnabledPtr_def isEnabledPtr_def IsOptInEnabled_def IsEnabled_def)

abbreviation entry_names :: "NamespaceSpec list \<Rightarrow> string list" where
  "entry_names nss \<equiv> filter (\<lambda>n. n \<noteq> []) (map (\<lambda>ns. trim_space (ns_Name ns)) nss)"

lemma unique_names_Ok:
  "unique_names seen nss = Ok () \<longleftrightarrow> distinct (entry_names nss) \<and> set (entry_names nss) \<inter> set seen = {}"
  by (induction seen nss rule: unique_names.induct) (auto simp: Let_def)

lemma gitops_requirements_Ok:
  "gitops_requirements po nss = Ok () \<longleftrightarrow>
     (\<forall>ns \<in> set nss. IsEnabled (ns_Enabled ns) \<longrightarrow> (\<exists>p \<in> set (ns_ArgoCDProjects ns). IsOptInEnabled (ac_Enabled p)) \<longrightarrow>
        ResolveApplicationGitOpsNamespace po ns \<noteq> [])"
  by (induction nss) (auto simp: Let_def list_ex_iff)

lemma count_size_eq: "count_size n nss k = k + length (filter (\<lambda>ns. ns_ProjectSize ns = n) nss)"
  by (induction nss arbitrary: k) auto

lemma count_refs:
  "foldl (\<lambda>k po. count_size n (po_Namespaces po) k) k pos =
     k + length (filter (\<lambda>ns. ns_ProjectSize ns = n) (concat (map po_Namespaces pos)))"
  by (induction pos arbitrary: k) (auto simp: count_size_eq)

end
