(* ===== verification/Tshirt_Controller.thy ===== *)
theory Tshirt_Controller
  imports Controller Admission
begin

text \<open>
  \<^verbatim>\<open>internal/controller/tshirtsize_controller.go\<close>: the status of a catalogue entry, with
  the number of namespace entries that refer to it as an \<^verbatim>\<open>int32\<close>.
\<close>

record 's TShirtSizeReconciler =
  tsr_Client :: "'s client"
  tsr_Recorder :: "'s recorder option"

definition size_status :: "nat \<Rightarrow> TShirtSize \<Rightarrow> nat \<Rightarrow> TShirtSizeStatus" where
  "size_status now tshirt refs =
     (let st = (ts_Status tshirt)\<lparr>tst_ObservedGeneration := om_generation (ts_meta tshirt),
                                tst_ReferencedBy := of_nat refs\<rparr>
      in if TShirtSizeSpecHasSizing (ts_Spec tshirt) then
           st\<lparr>tst_Phase := TShirtSizePhaseReady, tst_Conditions := SetCondition now (tst_Conditions st)
                TShirtSizeConditionReady ''True'' ''CatalogueValid'' ''T-shirt size catalogue entry is valid''\<rparr>
         else
           st\<lparr>tst_Phase := TShirtSizePhaseInvalid, tst_Conditions := SetCondition now (tst_Conditions st)
                TShirtSizeConditionReady ''False'' ''CatalogueInvalid''
                ''spec must define resourceQuotas and/or limitRanges with at least one limit value''\<rparr>)"

definition record_size :: "'s TShirtSizeReconciler \<Rightarrow> TShirtSize \<Rightarrow> nat \<Rightarrow> ('s, unit) eff" where
  "record_size r tshirt refs =
     (if TShirtSizeSpecHasSizing (ts_Spec tshirt)
      then recordNormal (tsr_Recorder r) (ts_Name tshirt) ''CatalogueValid''
             (''referenced by '' @ string_of_nat refs @ '' ProjectOnboarding resources'')
      else recordWarning (tsr_Recorder r) (ts_Name tshirt) ''CatalogueInvalid''
             ''spec must define resourceQuotas and/or limitRanges with at least one limit value'')"

definition TShirtSize_Reconcile ::
  "libs \<Rightarrow> 's TShirtSizeReconciler \<Rightarrow> request \<Rightarrow> ('s, reconcile_outcome) eff" where
  "TShirtSize_Reconcile lb r req = (let c = tsr_Client r in
     orReturn (cl_GetTS c req)
       (\<lambda>err. if IsNotFound err then retE (zero_ctrl_result, None) else retE (ReconcileResultForError (Some err)))
       (\<lambda>tshirt. orReturn (CountProjectOnboardingReferences c (ts_Name tshirt))
         (\<lambda>err. retE (ReconcileResultForError (Some err)))
         (\<lambda>refs. thenE (record_size r tshirt refs) (
           orReturn (cl_StatusTS c (tshirt\<lparr>ts_Status := size_status (lb_Now lb) tshirt refs\<rparr>))
             (\<lambda>err. if IsConflict err then retE (zero_ctrl_result\<lparr>cr_Requeue := True\<rparr>, None)
                    else retE (ReconcileResultForError (Some (WrapError ''update TShirtSize status: '' err))))
             (\<lambda>_. retE (zero_ctrl_result, None))))))"

end
