(* ===== verification/Mem_Cluster.thy ===== *)
theory Mem_Cluster
  imports Settle_Run Tshirt_Controller
begin

text \<open>
  An executable cluster: a store of objects in memory that answers the client calls the way
  the API server does (not found, already exists, no match for a kind that is not installed,
  a Namespace that is marked before it goes), with a queue of faults for the calls to come.
  The interpretations show that it is a \<open>store_client\<close> and its reconciler a \<open>resource_operator\<close>
  (a \<open>reliable_operator\<close> while no fault is queued), that its logged version is guarded,
  and that the parameters of the model (quantity grammar, owner references, map order) have
  an instance.  The concrete runs of the development are evaluated on it.
\<close>

section \<open>The world\<close>

record world =
  w_objs :: "kobj list"
  w_noapi :: "kind list"
  w_pos :: "ProjectOnboarding list"
  w_sizes :: "TShirtSize list"
  w_configs :: "(objkey \<times> str_map) list"
  w_faults :: "go_error option list"
  w_events :: "(string \<times> string \<times> string \<times> string) list"
  w_errors :: "string list"
  w_tenants :: "(string \<times> nat) list"

definition empty_world :: world where
  "empty_world = \<lparr>w_objs = [], w_noapi = [], w_pos = [], w_sizes = [], w_configs = [], w_faults = [],
     w_events = [], w_errors = [], w_tenants = []\<rparr>"

definition not_found :: "string \<Rightarrow> go_error" where
  "not_found what = StatusError ReasonNotFound (what @ '' not found'')"

text \<open>The next call fails if a fault is queued; faults are errors of other kinds than a missing object or API.\<close>

definition faulty :: "(world, 'a) eff \<Rightarrow> (world, 'a) eff" where
  "faulty op s = (case w_faults s of
     [] \<Rightarrow> op s
   | f # fs \<Rightarrow> (let s' = s\<lparr>w_faults := fs\<rparr> in
       case f of None \<Rightarrow> op s'
       | Some e \<Rightarrow> if IsNotFound e \<or> IsNoMatchError e then op s' else (Err e, s')))"

definition lookup :: "world \<Rightarrow> view" where
  "lookup s k key = (if k \<in> set (w_noapi s) then None
     else List.find (\<lambda>x. kind_of x = k \<and> key_of x = key \<and>
            (k = KNamespace \<longrightarrow> fst key = [] \<and> snd key \<noteq> [])) (w_objs s))"

definition stored_po :: "world \<Rightarrow> string \<Rightarrow> ProjectOnboarding option" where
  "stored_po s n = List.find (\<lambda>po. po_Name po = n) (w_pos s)"

text \<open>No fault is queued, and every API of Kubernetes itself is there.\<close>

definition calm_world :: "world \<Rightarrow> bool" where
  "calm_world s \<longleftrightarrow> w_faults s = [] \<and> set (w_noapi s) \<subseteq> optional_kinds"

definition without :: "kind \<Rightarrow> objkey \<Rightarrow> kobj list \<Rightarrow> kobj list" where
  "without k key objs = filter (\<lambda>x. \<not> (kind_of x = k \<and> key_of x = key)) objs"

definition put :: "kobj \<Rightarrow> world \<Rightarrow> world" where
  "put obj s = s\<lparr>w_objs := obj # without (kind_of obj) (key_of obj) (w_objs s)\<rparr>"

definition storable :: "kobj \<Rightarrow> bool" where
  "storable obj \<longleftrightarrow> (kind_of obj = KNamespace \<longrightarrow> fst (key_of obj) = [] \<and> snd (key_of obj) \<noteq> [])"

fun firsts :: "kobj list \<Rightarrow> kobj list" where
  "firsts [] = []"
| "firsts (x # xs) = x # without (kind_of x) (key_of x) (firsts xs)"

definition mem_get :: "kind \<Rightarrow> objkey \<Rightarrow> (world, kobj) eff" where
  "mem_get k key = faulty (\<lambda>s. if k \<in> set (w_noapi s) then (Err (NoMatchError ''no matches for kind''), s)
     else case lookup s k key of None \<Rightarrow> (Err (not_found (snd key)), s) | Some x \<Rightarrow> (Ok x, s))"

definition mem_list :: "kind \<Rightarrow> list_options \<Rightarrow> (world, kobj list) eff" where
  "mem_list k opts = faulty (\<lambda>s. if k \<in> set (w_noapi s) then (Err (NoMatchError ''no matches for kind''), s)
     else (Ok (filter (\<lambda>x. selected opts x \<and> kind_of x = k \<and> storable x) (firsts (w_objs s))), s))"

definition mem_create :: "kobj \<Rightarrow> (world, kobj) eff" where
  "mem_create obj = faulty (\<lambda>s. if kind_of obj \<in> set (w_noapi s) then (Err (NoMatchError ''no matches for kind''), s)
     else if \<not> storable obj then (Err (StatusError (ReasonOther ''Invalid'') ''invalid object''), s)
     else if lookup s (kind_of obj) (key_of obj) \<noteq> None
     then (Err (StatusError ReasonAlreadyExists ''already exists''), s) else (Ok obj, put obj s))"

definition mem_patch :: "kobj \<Rightarrow> kobj \<Rightarrow> (world, kobj) eff" where
  "mem_patch base obj = faulty (\<lambda>s. if lookup s (kind_of obj) (key_of obj) = None
     then (Err (not_found (snd (key_of obj))), s) else (Ok obj, put obj s))"

definition mark_deleted :: "kobj \<Rightarrow> kobj" where
  "mark_deleted obj = obj\<lparr>ko_meta := (ko_meta obj)\<lparr>om_deletionTimestamp := Some 1\<rparr>\<rparr>"

definition mem_delete :: "kobj \<Rightarrow> (world, unit) eff" where
  "mem_delete obj = faulty (\<lambda>s. case lookup s (kind_of obj) (key_of obj) of
     None \<Rightarrow> (Err (not_found (snd (key_of obj))), s)
   | Some x \<Rightarrow> if kind_of obj = KNamespace then (Ok (), put (mark_deleted x) s)
               else (Ok (), s\<lparr>w_objs := without (kind_of obj) (key_of obj) (w_objs s)\<rparr>))"

definition put_status :: "ProjectOnboarding \<Rightarrow> ProjectOnboarding \<Rightarrow> ProjectOnboarding" where
  "put_status po p = (if po_Name p = po_Name po then p\<lparr>po_Status := po_Status po\<rparr> else p)"

definition mem_client :: "world client" where
  "mem_client = \<lparr>cl_Get = mem_get, cl_List = mem_list, cl_Create = mem_create, cl_Patch = mem_patch,
     cl_Delete = mem_delete,
     cl_GetPO = (\<lambda>n. faulty (\<lambda>s. case List.find (\<lambda>po. po_Name po = n) (w_pos s) of
        None \<Rightarrow> (Err (not_found n), s) | Some po \<Rightarrow> (Ok po, s))),
     cl_ListPO = faulty (\<lambda>s. (Ok (w_pos s), s)),
     cl_UpdatePO = (\<lambda>po. faulty (\<lambda>s. if po_Name po \<notin> set (map po_Name (w_pos s)) then (Err (not_found (po_Name po)), s)
        else (Ok po, s\<lparr>w_pos := if om_finalizers (po_meta po) = [] \<and> om_deletionTimestamp (po_meta po) \<noteq> None
          then filter (\<lambda>p. po_Name p \<noteq> po_Name po) (w_pos s)
          else map (\<lambda>p. if po_Name p = po_Name po then po else p) (w_pos s)\<rparr>))),
     cl_StatusPO = (\<lambda>po. faulty (\<lambda>s. (Ok (), s\<lparr>w_pos := map (put_status po) (w_pos s)\<rparr>))),
     cl_GetTS = (\<lambda>n. faulty (\<lambda>s. case List.find (\<lambda>ts. ts_Name ts = n) (w_sizes s) of
        None \<Rightarrow> (Err (not_found n), s) | Some ts \<Rightarrow> (Ok ts, s))),
     cl_StatusTS = (\<lambda>ts. faulty (\<lambda>s. (Ok (), s\<lparr>w_sizes :=
        map (\<lambda>t. if ts_Name t = ts_Name ts then t\<lparr>ts_Status := ts_Status ts\<rparr> else t) (w_sizes s)\<rparr>))),
     cl_GetConfigMap = (\<lambda>key. faulty (\<lambda>s. case map_of (w_configs s) key of
        None \<Rightarrow> (Err (not_found (snd key)), s) | Some m \<Rightarrow> (Ok m, s)))\<rparr>"

section \<open>The quantity parser\<close>

definition is_digit :: "char \<Rightarrow> bool" where
  "is_digit ch \<longleftrightarrow> ch \<in> set ''0123456789''"

lemma is_digit_props:
  assumes "is_digit ch"
  shows "\<not> is_space ch" "ch \<notin> set ''gGmM''"
proof -
  have "ch \<in> set ''0123456789''" using assms by (simp add: is_digit_def)
  then show "\<not> is_space ch" "ch \<notin> set ''gGmM''" by (auto simp: is_space_def)
qed

lemma is_trimmedI: "(\<And>ch. ch \<in> set s \<Longrightarrow> \<not> is_space ch) \<Longrightarrow> is_trimmed s"
proof -
  assume a: "\<And>ch. ch \<in> set s \<Longrightarrow> \<not> is_space ch"
  then have "dropWhile is_space s = s" by (cases s) auto
  moreover have "dropWhile is_space (rev s) = rev s" using a by (cases "rev s") (auto simp: rev_eq_Cons_iff)
  ultimately show ?thesis by (simp add: is_trimmed_def trim_space_def)
qed

lemma NormalizeQuantity_append:
  "set ps \<inter> set ''gGmM'' = {} \<Longrightarrow> NormalizeQuantity (ps @ s) = ps @ NormalizeQuantity s"
proof (induction ps)
  case (Cons p ps)
  then show ?case by (cases "ps @ s") auto
qed simp

lemma string_of_nat_digits: "set (string_of_nat n) \<subseteq> Collect is_digit"
proof (induction n rule: less_induct)
  case (less n)
  have "list_all (\<lambda>k. is_digit (char_of (48 + k))) [0..<10::nat]" by code_simp
  then have d: "is_digit (char_of (48 + k))" if "k < 10" for k :: nat
    using that by (auto simp: list_all_iff)
  show ?case
  proof (cases "n < 10")
    case True
    then show ?thesis by (subst string_of_nat.simps) (simp add: d)
  next
    case False
    then have "set (string_of_nat (n div 10)) \<subseteq> Collect is_digit" by (intro less) simp
    with False show ?thesis by (subst string_of_nat.simps) (simp add: d)
  qed
qed

lemma takeWhile_digits: "set t \<subseteq> Collect is_digit \<Longrightarrow> takeWhile is_digit t = t \<and> dropWhile is_digit t = []"
  by (auto simp: takeWhile_eq_all_conv dropWhile_eq_Nil_conv)

definition unit_suffixes :: "string list" where
  "unit_suffixes = ['''', ''m'', ''k'', ''M'', ''G'', ''T'', ''Ki'', ''Mi'', ''Gi'', ''Ti'']"

definition unsigned_part :: "string \<Rightarrow> string" where
  "unsigned_part s = (if s \<noteq> [] \<and> hd s = CHR ''-'' then tl s else s)"

definition sign :: "string \<Rightarrow> string" where
  "sign s = (if s \<noteq> [] \<and> hd s = CHR ''-'' then ''-'' else [])"

definition mem_parse :: qparser where
  "mem_parse s = (if takeWhile is_digit (unsigned_part s) \<noteq> [] \<and> dropWhile is_digit (unsigned_part s) \<in> set unit_suffixes
     then Inr (Quantity s) else Inl ''quantities must match the regular expression'')"

lemma sign_unsigned: "s = (sign s @ takeWhile is_digit (unsigned_part s)) @ dropWhile is_digit (unsigned_part s)"
  by (cases s) (simp_all add: sign_def unsigned_part_def)

lemma unit_suffixes_ok: "list_all (\<lambda>suf. NormalizeQuantity suf = suf \<and> list_all (\<lambda>ch. \<not> is_space ch) suf) unit_suffixes"
  by code_simp

lemma sign_chars: "ch \<in> set (sign s) \<Longrightarrow> \<not> is_space ch \<and> ch \<notin> set ''gGmM''"
  by (auto simp: sign_def is_space_def split: if_splits)

lemma mem_parse_Inr:
  assumes "mem_parse s = Inr q"
  shows "s \<noteq> []" "is_trimmed s" "NormalizeQuantity s = s"
proof -
  define ps where "ps = sign s @ takeWhile is_digit (unsigned_part s)"
  define suf where "suf = dropWhile is_digit (unsigned_part s)"
  have s: "s = ps @ suf" unfolding ps_def suf_def by (rule sign_unsigned)
  have ne: "ps \<noteq> []" and "suf \<in> set unit_suffixes"
    using assms by (auto simp: mem_parse_def ps_def suf_def split: if_splits)
  with unit_suffixes_ok have suf: "NormalizeQuantity suf = suf" "\<And>ch. ch \<in> set suf \<Longrightarrow> \<not> is_space ch"
    by (auto simp: list_all_iff)
  have c: "\<not> is_space ch \<and> ch \<notin> set ''gGmM''" if "ch \<in> set ps" for ch
    using that sign_chars is_digit_props unfolding ps_def by (metis UnE set_append set_takeWhileD)
  show "s \<noteq> []" using ne s by simp
  show "is_trimmed s" using c suf(2) by (intro is_trimmedI) (auto simp: s)
  have "NormalizeQuantity s = ps @ NormalizeQuantity suf"
    unfolding s using c by (intro NormalizeQuantity_append) blast
  then show "NormalizeQuantity s = s" using suf(1) s by simp
qed

lemma mem_parse_int: "\<exists>q. mem_parse (string_of_int i) = Inr q"
proof -
  obtain n where n: "string_of_int i = CHR ''-'' # string_of_nat n \<or> string_of_int i = string_of_nat n"
    by (metis string_of_int_def)
  note d = takeWhile_digits [OF string_of_nat_digits [of n]]
  have "is_digit (hd (string_of_nat n))" using string_of_nat_digits [of n] hd_in_set [OF string_of_nat_ne] by blast
  then have "hd (string_of_nat n) \<noteq> CHR ''-''" by (auto simp: is_digit_def)
  with n have "unsigned_part (string_of_int i) = string_of_nat n" by (auto simp: unsigned_part_def)
  moreover have "[] \<in> set unit_suffixes" by (simp add: unit_suffixes_def)
  ultimately have "mem_parse (string_of_int i) = Inr (Quantity (string_of_int i))"
    by (simp add: mem_parse_def d)
  then show ?thesis by blast
qed

lemma mem_parse_grammar: "quantity_grammar mem_parse"
  unfolding quantity_grammar_def using mem_parse_Inr mem_parse_int by blast

section \<open>Recorder, metrics, owner references and libraries\<close>

definition mem_recorder :: "world recorder" where
  "mem_recorder = \<lparr>rec_Event = (\<lambda>obj ty reason msg s. s\<lparr>w_events := w_events s @ [(obj, ty, reason, msg)]\<rparr>)\<rparr>"

definition mem_metrics :: "world metrics" where
  "mem_metrics = \<lparr>m_IncReconcileErrors = (\<lambda>reason s. s\<lparr>w_errors := w_errors s @ [reason]\<rparr>),
     m_SetTenants = (\<lambda>name n s. s\<lparr>w_tenants := AList.update name n (w_tenants s)\<rparr>),
     m_DeleteTenants = (\<lambda>name s. s\<lparr>w_tenants := AList.delete name (w_tenants s)\<rparr>)\<rparr>"

definition add_owner :: "bool \<Rightarrow> objmeta \<Rightarrow> kobj \<Rightarrow> kobj" where
  "add_owner ctl ow obj = (let ref = \<lparr>or_kind = [], or_name = om_name ow, or_uid = om_uid ow, or_controller = ctl\<rparr> in
     if ref \<in> set (om_ownerRefs (ko_meta obj)) then obj
     else obj\<lparr>ko_meta := (ko_meta obj)\<lparr>om_ownerRefs := om_ownerRefs (ko_meta obj) @ [ref]\<rparr>\<rparr>)"

definition mem_scheme :: scheme where
  "mem_scheme = \<lparr>sch_SetControllerReference = (\<lambda>ow obj. Ok (add_owner True ow obj)),
     sch_SetOwnerReference = (\<lambda>ow obj. Ok (add_owner False ow obj)),
     sch_IsControlledBy = (\<lambda>obj ow. \<exists>r \<in> set (om_ownerRefs (ko_meta obj)). or_controller r \<and> or_uid r = om_uid ow)\<rparr>"

definition mem_libs :: libs where
  "mem_libs = \<lparr>lb_ParseQuantity = mem_parse, lb_RangePairs = id, lb_RangeNames = id, lb_LabelsAlias = False,
     lb_Now = 7, lb_UnmarshalDefaults = (\<lambda>raw. Inr None), lb_IsDNS1123Subdomain = (\<lambda>n. []), lb_Getenv = (\<lambda>v. [])\<rparr>"

definition mem_reconciler :: "world ProjectOnboardingReconciler" where
  "mem_reconciler = \<lparr>por_Client = mem_client, por_Scheme = Some mem_scheme,
     por_OperatorNamespace = [], por_Recorder = Some mem_recorder\<rparr>"

section \<open>The store laws\<close>

lemma lookup_typed: "lookup s k key = Some x \<Longrightarrow>
   kind_of x = k \<and> key_of x = key \<and> x \<in> set (w_objs s) \<and> (k = KNamespace \<longrightarrow> fst key = [] \<and> snd key \<noteq> [])"
  by (auto simp: lookup_def find_Some_iff split: if_splits)

lemma lookup_faults [simp]: "lookup (s\<lparr>w_faults := fs\<rparr>) = lookup s"
  by (simp add: lookup_def fun_eq_iff)

lemma find_without:
  "List.find (\<lambda>x. kind_of x = k \<and> key_of x = key \<and> Q) (without k' key' objs) =
     (if k = k' \<and> key = key' then None else List.find (\<lambda>x. kind_of x = k \<and> key_of x = key \<and> Q) objs)"
  by (induction objs) (auto simp: without_def)

lemma lookup_put:
  "kind_of obj \<notin> set (w_noapi s) \<Longrightarrow> storable obj \<Longrightarrow>
   lookup (put obj s) k key = (if k = kind_of obj \<and> key = key_of obj then Some obj else lookup s k key)"
  by (auto simp: lookup_def put_def find_without storable_def)

lemma lookup_remove:
  "lookup (s\<lparr>w_objs := without k' key' (w_objs s)\<rparr>) k key = (if k = k' \<and> key = key' then None else lookup s k key)"
  by (auto simp: lookup_def find_without)

lemma mark_deleted_simps [simp]:
  "kind_of (mark_deleted x) = kind_of x" "key_of (mark_deleted x) = key_of x" "is_deleting (mark_deleted x)"
  by (simp_all add: mark_deleted_def kind_of_def key_of_def is_deleting_def)

text \<open>Reasoning about a call: it fails on a fault or runs on a state that differs in the queue only.\<close>

lemma faulty_cases:
  assumes "faulty op s = (r, s')"
  obtains fs where "op (s\<lparr>w_faults := fs\<rparr>) = (r, s')"
    | e fs where "r = Err e" "\<not> IsNotFound e" "\<not> IsNoMatchError e" "s' = s\<lparr>w_faults := fs\<rparr>"
proof (cases "w_faults s")
  case Nil
  then have e: "s\<lparr>w_faults := []\<rparr> = s" by (cases s) simp
  have "op s = (r, s')" using assms Nil by (simp add: faulty_def)
  then have "op (s\<lparr>w_faults := []\<rparr>) = (r, s')" by (simp only: e)
  then show ?thesis by (rule that(1))
next
  case (Cons f fs)
  show ?thesis
  proof (cases f)
    case None
    with assms Cons have "op (s\<lparr>w_faults := fs\<rparr>) = (r, s')" by (simp add: faulty_def)
    then show ?thesis by (rule that(1))
  next
    case (Some e)
    with assms Cons show ?thesis
      by (cases "IsNotFound e \<or> IsNoMatchError e") (auto simp: faulty_def Let_def intro: that)
  qed
qed

lemma mem_get_spec:
  assumes "mem_get k key s = (r, s')"
  shows "lookup s' = lookup s" "r = Ok x \<Longrightarrow> lookup s k key = Some x"
    "r = Err e \<Longrightarrow> IsNotFound e \<or> IsNoMatchError e \<Longrightarrow> lookup s k key = None"
  using assms unfolding mem_get_def
  by (rule faulty_cases; auto simp: lookup_def split: if_splits option.splits)+

lemma in_firsts:
  "x \<in> set (firsts objs) \<longleftrightarrow> List.find (\<lambda>y. kind_of y = kind_of x \<and> key_of y = key_of x) objs = Some x"
  by (induction objs) (auto simp: without_def)

lemma lookup_firsts:
  assumes "k \<notin> set (w_noapi s)"
  shows "lookup s k (key_of x) = Some x \<longleftrightarrow> kind_of x = k \<and> storable x \<and> x \<in> set (firsts (w_objs s))"
proof -
  have e: "lookup s k (key_of x) = List.find (\<lambda>y. kind_of y = kind_of x \<and> key_of y = key_of x) (w_objs s)"
    if "kind_of x = k" "storable x"
    using that assms by (auto simp: lookup_def storable_def)
  show ?thesis
  proof (cases "kind_of x = k \<and> storable x")
    case True
    then show ?thesis by (simp add: e in_firsts)
  next
    case False
    then have "lookup s k (key_of x) \<noteq> Some x" by (auto simp: storable_def dest: lookup_typed)
    with False show ?thesis by blast
  qed
qed

lemma mem_list_spec:
  assumes "mem_list k opts s = (r, s')"
  shows "lookup s' = lookup s"
    "r = Ok xs \<Longrightarrow> x \<in> set xs \<longleftrightarrow> lookup s k (key_of x) = Some x \<and> selected opts x"
    "r = Err e \<Longrightarrow> IsNoMatchError e \<Longrightarrow> lookup s k key = None"
proof -
  from assms show "lookup s' = lookup s"
    unfolding mem_list_def by (rule faulty_cases) (auto split: if_splits)
  from assms show "r = Ok xs \<Longrightarrow> x \<in> set xs \<longleftrightarrow> lookup s k (key_of x) = Some x \<and> selected opts x"
    unfolding mem_list_def by (rule faulty_cases) (auto simp: lookup_firsts split: if_splits)
  from assms show "r = Err e \<Longrightarrow> IsNoMatchError e \<Longrightarrow> lookup s k key = None"
    unfolding mem_list_def by (rule faulty_cases) (auto simp: lookup_def split: if_splits)
qed

lemma mem_write_spec:
  assumes "mem_create obj s = (Ok x, s') \<or> mem_patch base obj s = (Ok x, s')"
  shows "x = obj" "lookup s' k key = (if k = kind_of obj \<and> key = key_of obj then Some obj else lookup s k key)"
proof -
  obtain fs where "x = obj \<and> s' = put obj (s\<lparr>w_faults := fs\<rparr>) \<and> kind_of obj \<notin> set (w_noapi s) \<and> storable obj"
    using assms
  proof
    assume "mem_create obj s = (Ok x, s')"
    then show ?thesis
      unfolding mem_create_def by (rule faulty_cases) (auto split: if_splits intro: that)
  next
    assume "mem_patch base obj s = (Ok x, s')"
    then show ?thesis
      unfolding mem_patch_def
      by (rule faulty_cases) (auto simp: storable_def lookup_def dest: lookup_typed split: if_splits
          intro!: that simp: find_Some_iff)
  qed
  then show "x = obj" "lookup s' k key = (if k = kind_of obj \<and> key = key_of obj then Some obj else lookup s k key)"
    by (simp_all add: lookup_put)
qed

lemma lookup_mark:
  "lookup s KNamespace (key_of x) = Some x \<Longrightarrow>
   lookup (put (mark_deleted x) s) k key = (if k = KNamespace \<and> key = key_of x then Some (mark_deleted x) else lookup s k key)"
proof -
  assume a: "lookup s KNamespace (key_of x) = Some x"
  note t = lookup_typed [OF a]
  with a have "kind_of (mark_deleted x) \<notin> set (w_noapi s)" "storable (mark_deleted x)"
    by (auto simp: storable_def lookup_def split: if_splits)
  from lookup_put [OF this] t show ?thesis by simp
qed

lemma mem_delete_cases:
  assumes "mem_delete obj s = (r, s')"
  obtains e where "r = Err e" "\<not> IsNotFound e"
    | e where "r = Err e" "lookup s' = lookup s" "lookup s (kind_of obj) (key_of obj) = None"
    | v where "r = Ok ()" "kind_of obj \<noteq> KNamespace \<Longrightarrow> v = None" "\<And>x. v = Some x \<Longrightarrow> is_deleting x"
        "\<And>k key. lookup s' k key = (if k = kind_of obj \<and> key = key_of obj then v else lookup s k key)"
proof (rule faulty_cases [OF assms [unfolded mem_delete_def]])
  fix fs
  let ?s = "s\<lparr>w_faults := fs\<rparr>"
  assume op: "(case lookup ?s (kind_of obj) (key_of obj) of
     None \<Rightarrow> (Err (not_found (snd (key_of obj))), ?s)
   | Some x \<Rightarrow> if kind_of obj = KNamespace then (Ok (), put (mark_deleted x) ?s)
               else (Ok (), ?s\<lparr>w_objs := without (kind_of obj) (key_of obj) (w_objs ?s)\<rparr>)) = (r, s')"
  show thesis
  proof (cases "lookup ?s (kind_of obj) (key_of obj)")
    case None
    with op show ?thesis by (auto intro: that(2))
  next
    case (Some x)
    show ?thesis
    proof (cases "kind_of obj = KNamespace")
      case True
      have k: "key_of x = key_of obj" using lookup_typed [OF Some] by simp
      have "lookup ?s KNamespace (key_of x) = Some x" using Some True k by simp
      with lookup_mark [of ?s x] op Some True k show ?thesis
        by (auto intro!: that(3) [of "Some (mark_deleted x)"])
    next
      case False
      with op Some have "s' = ?s\<lparr>w_objs := without (kind_of obj) (key_of obj) (w_objs ?s)\<rparr>" "r = Ok ()" by auto
      then have "lookup s' k key = (if k = kind_of obj \<and> key = key_of obj then None else lookup ?s k key)" for k key
        by (metis lookup_remove)
      with False \<open>r = Ok ()\<close> show ?thesis by (auto intro!: that(3) [of None])
    qed
  qed
qed (auto intro: that(1))

lemma mem_delete_spec:
  assumes "mem_delete obj s = (r, s')"
  shows "r = Ok u \<Longrightarrow> deletes (delete_scope obj) (lookup s) (lookup s')"
    "r = Ok u \<Longrightarrow> lookup s' (kind_of obj) (key_of obj) = Some y \<Longrightarrow> is_deleting y"
    "r = Err e \<Longrightarrow> IsNotFound e \<Longrightarrow> lookup s' = lookup s \<and> lookup s (kind_of obj) (key_of obj) = None"
  using assms by (rule mem_delete_cases; auto simp: deletes_def delete_scope_def)+

lemma mem_delete_own:
  assumes "mem_delete obj s = (ru, s')"
  shows "deletes {(kind_of obj, key_of obj)} (lookup s) (lookup s')"
  using assms
proof (rule mem_delete_cases)
  fix e assume "ru = Err e" "\<not> IsNotFound e"
  with assms have "lookup s' = lookup s"
    unfolding mem_delete_def by (elim faulty_cases) (auto split: option.splits if_splits)
  then show ?thesis by simp
qed (auto simp: deletes_def)

lemma mem_patch_failed: "mem_patch base obj s = (r, s') \<Longrightarrow> (\<And>x. r \<noteq> Ok x) \<Longrightarrow> lookup s' = lookup s"
  unfolding mem_patch_def by (erule faulty_cases) (auto split: if_splits)

section \<open>Interpretations\<close>

interpretation mem: store_client mem_client lookup
proof unfold_locales
  show "returns (cl_Get mem_client k key) (\<lambda>x. kind_of x = k \<and> key_of x = key)" for k key
    by (auto simp: returns_def mem_client_def dest!: mem_get_spec(2) [OF _ refl] lookup_typed)
  show "returns (cl_List mem_client k opts) (\<lambda>xs. \<forall>x \<in> set xs. selected opts x \<and> kind_of x = k)" for k opts
    by (auto simp: returns_def mem_client_def mem_list_spec(2) [OF _ refl] dest!: lookup_typed)
  show "lookup s k key = Some x \<Longrightarrow> kind_of x = k \<and> key_of x = key" for s k key x
    by (simp add: lookup_typed)
  show "lookup s KNamespace key = Some x \<Longrightarrow> fst key = [] \<and> snd key \<noteq> []" for s key x
    by (simp add: lookup_typed)
  show "cl_GetTS mem_client name s = (r, s') \<Longrightarrow> lookup s' = lookup s" for name s r s'
    unfolding mem_client_def by simp (erule faulty_cases; auto split: option.splits)
next
  fix base obj x :: kobj and s s' k key
  show "cl_Create mem_client obj s = (Ok x, s') \<Longrightarrow> (k, key) \<noteq> (kind_of obj, key_of obj) \<Longrightarrow> lookup s' k key = lookup s k key"
    "cl_Create mem_client obj s = (Ok x, s') \<Longrightarrow> lookup s' (kind_of obj) (key_of obj) = Some x \<and>
      ko_labels obj \<subseteq>\<^sub>m ko_labels x \<and> (kind_of obj = KResourceQuota \<longrightarrow> ko_payload x = ko_payload obj)"
    using mem_write_spec [of obj s x s' base] by (auto simp: mem_client_def)
  show "cl_Patch mem_client base obj s = (Ok x, s') \<Longrightarrow> (k, key) \<noteq> (kind_of obj, key_of obj) \<Longrightarrow> lookup s' k key = lookup s k key"
    "cl_Patch mem_client base obj s = (Ok x, s') \<Longrightarrow> lookup s (kind_of base) (key_of base) = Some base \<Longrightarrow>
      kind_of obj = kind_of base \<Longrightarrow> key_of obj = key_of base \<Longrightarrow> lookup s' (kind_of obj) (key_of obj) = Some x \<and>
      ko_labels obj \<subseteq>\<^sub>m ko_labels x \<and> (kind_of obj = KResourceQuota \<longrightarrow> ko_payload x = ko_payload obj)"
    using mem_write_spec [of obj s x s' base] by (auto simp: mem_client_def)
qed (auto simp: mem_client_def dest: mem_get_spec mem_list_spec mem_delete_spec)

interpretation mem_settle: settling_client mem_client lookup "\<lambda>p x. ko_payload x = p"
proof unfold_locales
  fix base obj x :: kobj and s s' p r ru
  show "cl_Create mem_client obj s = (Ok x, s') \<Longrightarrow> kept_by (\<lambda>p x. ko_payload x = p) obj x"
    "cl_Patch mem_client base obj s = (Ok x, s') \<Longrightarrow> kept_by (\<lambda>p x. ko_payload x = p) obj x"
    using mem_write_spec(1) [of obj s x s' base] by (auto simp: mem_client_def kept_by_def)
  show "cl_Patch mem_client x (set_payload p x) s = (r, s') \<Longrightarrow> lookup s (kind_of x) (key_of x) = Some x \<Longrightarrow>
      ko_payload x = p \<Longrightarrow> lookup s' = lookup s"
  proof -
    assume run: "cl_Patch mem_client x (set_payload p x) s = (r, s')" and x: "lookup s (kind_of x) (key_of x) = Some x"
      and p: "ko_payload x = p"
    have "set_payload p x = x" using p by (cases x) (simp add: set_payload_def)
    with run have m: "mem_patch x x s = (r, s')" by (simp add: mem_client_def)
    show ?thesis
    proof (cases r)
      case (Ok y)
      show ?thesis
      proof (intro ext)
        fix k key
        show "lookup s' k key = lookup s k key"
          using mem_write_spec(2) [OF disjI2 [OF m [unfolded Ok]]] x by simp
      qed
    qed (use m mem_patch_failed in simp_all)
  qed
  have d: "deletes {(kind_of obj, key_of obj)} (lookup s) (lookup s')" if "cl_Delete mem_client obj s = (ru, s')"
    using that by (simp add: mem_client_def mem_delete_own)
  show "cl_Delete mem_client obj s = (ru, s') \<Longrightarrow> deletes (tenant_scope obj) (lookup s) (lookup s')"
    by (rule deletes_mono [OF d tenant_scope_own])
  show "cl_Delete mem_client obj s = (ru, s') \<Longrightarrow> lookup s (kind_of obj) (key_of obj) = Some x \<Longrightarrow> is_deleting x \<Longrightarrow>
      deletes {(kind_of obj, key_of obj)} (lookup s) (lookup s')"
    by (rule d)
qed

lemma mem_settling: "settling_client mem_client lookup (\<lambda>p x. ko_payload x = p)"
  by (rule mem_settle.settling_client_axioms)

text \<open>The logged client is guarded, and so is a reconciler that uses it.\<close>

lemma mem_selecting: "selecting_client mem_client"
  by (rule mem.selecting_client_axioms)

lemma mem_store: "store_client mem_client lookup"
  by (rule mem.store_client_axioms)

lemma mem_owner_scheme: "owner_scheme mem_scheme"
  by (auto simp: owner_scheme_def mem_scheme_def same_but_owners_def add_owner_def Let_def)

lemma mem_settled_scheme: "settled_scheme (Some mem_scheme)"
  by (auto simp: settled_scheme_def settled_owner_def mem_scheme_def same_but_owners_def add_owner_def Let_def)

lemma mem_owners_only: "owners_only (Some mem_scheme)"
  by (simp add: owners_only_def mem_owner_scheme)

interpretation mem_log: guarded_client "logged mem_client" "calls_ok W" W for W
  by (rule logged_guarded [OF mem_selecting])

text \<open>Every call allowed, error counts with the controller's reasons only.\<close>

definition any_call :: "api_call \<Rightarrow> bool" where
  "any_call call = (case call of CountError reason \<Rightarrow> reason \<in> set error_reasons | _ \<Rightarrow> True)"

interpretation mem_op: guarded_operator "logged_reconciler mem_reconciler" "calls_ok any_call" any_call "logged_metrics mem_metrics"
  by (rule logged_operator) (simp_all add: mem_reconciler_def mem_selecting mem_owners_only any_call_def)

text \<open>The store of the resources.\<close>

lemma stored_po_frame [simp]:
  "stored_po (s\<lparr>w_faults := fs\<rparr>) = stored_po s" "stored_po (put obj s) = stored_po s" "stored_po (s\<lparr>w_objs := xs\<rparr>) = stored_po s"
  "stored_po (s\<lparr>w_events := es\<rparr>) = stored_po s" "stored_po (s\<lparr>w_errors := rs\<rparr>) = stored_po s"
  "stored_po (s\<lparr>w_tenants := ts\<rparr>) = stored_po s"
  by (simp_all add: stored_po_def put_def fun_eq_iff)

lemma lookup_frame [simp]:
  "lookup (s\<lparr>w_pos := ps\<rparr>) = lookup s" "lookup (s\<lparr>w_events := es\<rparr>) = lookup s" "lookup (s\<lparr>w_errors := rs\<rparr>) = lookup s"
  "lookup (s\<lparr>w_tenants := ts\<rparr>) = lookup s"
  by (simp_all add: lookup_def fun_eq_iff)

lemma find_name_map:
  "(\<And>p. po_Name (f p) = po_Name p) \<Longrightarrow> List.find (\<lambda>po. po_Name po = n) (map f ps) = map_option f (List.find (\<lambda>po. po_Name po = n) ps)"
  by (induction ps) auto

lemma find_name_filter:
  "List.find (\<lambda>po. po_Name po = n) (filter (\<lambda>p. po_Name p \<noteq> k) ps) = (if n = k then None else List.find (\<lambda>po. po_Name po = n) ps)"
  by (induction ps) auto

lemma stored_po_name: "stored_po s n = Some p \<Longrightarrow> po_Name p = n"
  by (auto simp: stored_po_def find_Some_iff)

lemma find_name_in: "List.find (\<lambda>po. po_Name po = n) ps = None \<longleftrightarrow> n \<notin> set (map po_Name ps)"
  by (auto simp: find_None_iff)

lemma status_frame:
  assumes "\<And>n. st n = None \<Longrightarrow> st' n = None" and "\<And>n q. st n = Some q \<Longrightarrow> st' n = Some (q\<lparr>po_Status := f n\<rparr>)"
  shows "st' = (\<lambda>n. map_option (\<lambda>q. q\<lparr>po_Status := f n\<rparr>) (st n))"
proof
  fix n show "st' n = map_option (\<lambda>q. q\<lparr>po_Status := f n\<rparr>) (st n)"
    by (cases "st n") (simp_all add: assms)
qed

lemma mem_status_spec:
  assumes "cl_StatusPO mem_client po s = (ru, s')"
  shows "lookup s' = lookup s \<and> (\<exists>f. stored_po s' = (\<lambda>n. map_option (\<lambda>q. q\<lparr>po_Status := f n\<rparr>) (stored_po s n)))"
proof -
  let ?f = "\<lambda>n. if n = po_Name po then po_Status po else po_Status (the (stored_po s n))"
  let ?op = "\<lambda>s. (Ok (), s\<lparr>w_pos := map (put_status po) (w_pos s)\<rparr>)"
  have "faulty ?op s = (ru, s')" using assms by (simp add: mem_client_def)
  then show ?thesis
  proof (rule faulty_cases)
    fix fs assume "?op (s\<lparr>w_faults := fs\<rparr>) = (ru, s')"
    then have s': "s' = s\<lparr>w_faults := fs\<rparr>\<lparr>w_pos := map (put_status po) (w_pos s)\<rparr>" by simp
    have "stored_po s' n = map_option (put_status po) (stored_po s n)" for n
      unfolding s' stored_po_def by (simp add: find_name_map put_status_def)
    then show ?thesis
      by (intro conjI exI [of _ ?f] status_frame) (auto simp: s' put_status_def dest: stored_po_name)
  next
    fix e fs assume s': "s' = s\<lparr>w_faults := fs\<rparr>"
    then show ?thesis
      by (intro conjI exI [of _ "\<lambda>n. po_Status (the (stored_po s n))"] status_frame) simp_all
  qed
qed

lemma mem_update_spec:
  assumes "cl_UpdatePO mem_client po s = (rp, s')"
  shows "lookup s' = lookup s"
    "rp = Ok q \<Longrightarrow> om_finalizers (po_meta po) \<noteq> [] \<Longrightarrow> q = po \<and> stored_po s' (po_Name po) = Some po"
proof -
  let ?gone = "om_finalizers (po_meta po) = [] \<and> om_deletionTimestamp (po_meta po) \<noteq> None"
  let ?set = "\<lambda>p. if po_Name p = po_Name po then po else p"
  let ?op = "\<lambda>s. if po_Name po \<notin> set (map po_Name (w_pos s)) then (Err (not_found (po_Name po)), s)
     else (Ok po, s\<lparr>w_pos := if ?gone then filter (\<lambda>p. po_Name p \<noteq> po_Name po) (w_pos s) else map ?set (w_pos s)\<rparr>)"
  have run: "faulty ?op s = (rp, s')" using assms by (simp add: mem_client_def)
  have e: "List.find (\<lambda>p. po_Name p = n) (map (\<lambda>p. if po_Name p = n then x else p) ps) = Some x"
    if "po_Name x = n" "n \<in> po_Name ` set ps" for n ps x
    using that by (induction ps) auto
  from run show "lookup s' = lookup s" by (rule faulty_cases) (auto split: if_splits)
  from run show "rp = Ok q \<Longrightarrow> om_finalizers (po_meta po) \<noteq> [] \<Longrightarrow> q = po \<and> stored_po s' (po_Name po) = Some po"
    by (rule faulty_cases) (auto simp: stored_po_def intro!: e split: if_splits)
qed

text \<open>Calls on objects leave the resources alone.\<close>

lemma mem_stored_frames:
  "mem_get k key s = (rg, s') \<Longrightarrow> stored_po s' = stored_po s" "mem_list k opts s = (rl, s') \<Longrightarrow> stored_po s' = stored_po s"
  "mem_create obj s = (rc, s') \<Longrightarrow> stored_po s' = stored_po s" "mem_patch base obj s = (rc, s') \<Longrightarrow> stored_po s' = stored_po s"
  "mem_delete obj s = (rd, s') \<Longrightarrow> stored_po s' = stored_po s"
  unfolding mem_get_def mem_list_def mem_create_def mem_patch_def mem_delete_def
  by (erule faulty_cases; auto split: if_splits option.splits)+

lemma mem_delete_any: "mem_delete obj s = (rd, s') \<Longrightarrow> deletes UNIV (lookup s) (lookup s')"
proof -
  assume d: "mem_delete obj s = (rd, s')"
  then have "(\<exists>u. rd = Ok u) \<or> lookup s' = lookup s"
    unfolding mem_delete_def by (rule faulty_cases) (auto split: option.splits if_splits)
  then show ?thesis using mem_delete_spec(1) [OF d] by (auto intro: deletes_mono)
qed

lemma mem_po_reads:
  "cl_GetPO mem_client n s = (rp, s') \<Longrightarrow> lookup s' = lookup s \<and> stored_po s' = stored_po s"
  "cl_ListPO mem_client s = (rps, s') \<Longrightarrow> lookup s' = lookup s \<and> stored_po s' = stored_po s"
  "cl_GetConfigMap mem_client ck s = (rm, s') \<Longrightarrow> lookup s' = lookup s \<and> stored_po s' = stored_po s"
  "cl_GetTS mem_client name s = (rt, s') \<Longrightarrow> stored_po s' = stored_po s"
  unfolding mem_client_def client.simps by (erule faulty_cases; auto split: option.splits)+

lemma mem_getpo_ok: "cl_GetPO mem_client n s = (Ok po, s') \<Longrightarrow> stored_po s n = Some po \<and> po_Name po = n"
  unfolding mem_client_def client.simps
  by (erule faulty_cases) (auto simp: stored_po_def find_Some_iff split: option.splits)

lemma mem_call_simps:
  "cl_Get mem_client = mem_get" "cl_List mem_client = mem_list" "cl_Create mem_client = mem_create"
  "cl_Patch mem_client = mem_patch" "cl_Delete mem_client = mem_delete"
  by (simp_all add: mem_client_def)

lemma mem_reconciler_simps [simp]:
  "por_Client mem_reconciler = mem_client" "por_Scheme mem_reconciler = Some mem_scheme"
  "por_Recorder mem_reconciler = Some mem_recorder"
  by (simp_all add: mem_reconciler_def)

interpretation mem_life: resource_operator mem_reconciler lookup mem_metrics stored_po
proof (rule resource_operator.intro)
  show "store_client (por_Client mem_reconciler) lookup" by (simp add: mem_store)
  show "resource_operator_axioms mem_reconciler lookup mem_metrics stored_po"
    by unfold_locales (simp_all only: mem_reconciler_simps mem_call_simps mem_owners_only option.inject,
      ((erule mem_stored_frames mem_delete_any mem_po_reads mem_getpo_ok mem_status_spec mem_update_spec(1))+)?,
      auto simp: mem_recorder_def mem_metrics_def dest: mem_update_spec(2) [OF _ refl])
qed

text \<open>While no fault is queued and the core APIs are there, calls fail only where they may.\<close>

lemma calm_faulty: "calm_world s \<Longrightarrow> faulty op s = op s"
  by (simp add: calm_world_def faulty_def)

lemma calm_put [simp]:
  "calm_world (put obj s) = calm_world s" "calm_world (s\<lparr>w_objs := xs\<rparr>) = calm_world s"
  by (simp_all add: calm_world_def put_def)

lemma not_found_simps [simp]: "IsNotFound (not_found what)"
  by (simp add: not_found_def)

interpretation mem_calm: reliable_operator mem_reconciler lookup mem_metrics stored_po calm_world
proof unfold_locales
  fix s :: world and s' k key opts obj n fs po rp
  assume s: "calm_world s"
  then have k: "k \<in> set (w_noapi s) \<Longrightarrow> k \<in> optional_kinds" for k by (auto simp: calm_world_def)
  show "cl_Get (por_Client mem_reconciler) k key s = (rg, s') \<Longrightarrow>
      calm_world s' \<and> answered (\<lambda>e. IsNotFound e \<or> k \<in> optional_kinds \<and> IsNoMatchError e) rg" for rg
    using s k by (auto simp: mem_call_simps mem_get_def calm_faulty answered_def split: if_splits option.splits)
  show "cl_List (por_Client mem_reconciler) k opts s = (rl, s') \<Longrightarrow>
      calm_world s' \<and> answered (\<lambda>e. k \<in> optional_kinds \<and> IsNoMatchError e) rl" for rl
    using s k by (auto simp: mem_call_simps mem_list_def calm_faulty answered_def split: if_splits option.splits)
  show "cl_Delete (por_Client mem_reconciler) obj s = (rd, s') \<Longrightarrow> calm_world s' \<and> answered IsNotFound rd" for rd
    using s by (auto simp: mem_call_simps mem_delete_def calm_faulty answered_def split: if_splits option.splits)
  show "cl_GetPO (por_Client mem_reconciler) n s = (rp, s') \<Longrightarrow>
      calm_world s' \<and> answered (\<lambda>e. IsNotFound e \<and> stored_po s n = None) rp"
    using s by (auto simp: mem_client_def calm_faulty answered_def stored_po_def split: option.splits)
  assume "stored_po s (po_Name po) = Some po" "om_deletionTimestamp (po_meta po) \<noteq> None"
    "cl_UpdatePO (por_Client mem_reconciler) (set_finalizers fs po) s = (rp, s')"
  moreover have "po_Name po \<in> set (map po_Name (w_pos s))"
    using calculation(1) find_name_in [of "po_Name po" "w_pos s"] by (auto simp: stored_po_def)
  ultimately show "answered (\<lambda>e. False) rp \<and> (fs = [] \<longrightarrow> stored_po s' (po_Name po) = None)"
    using s by (auto simp: mem_client_def calm_faulty answered_def stored_po_def set_finalizers_def find_name_filter)
qed

text \<open>What a run reads besides the objects: sizes and configuration.\<close>

definition mem_inputs :: "world \<Rightarrow> TShirtSize list \<times> (objkey \<times> str_map) list" where
  "mem_inputs s = (w_sizes s, w_configs s)"

lemma mem_inputs_frame [simp]:
  "mem_inputs (s\<lparr>w_faults := fs\<rparr>) = mem_inputs s" "mem_inputs (put obj s) = mem_inputs s"
  "mem_inputs (s\<lparr>w_objs := xs\<rparr>) = mem_inputs s" "mem_inputs (s\<lparr>w_pos := ps\<rparr>) = mem_inputs s"
  "mem_inputs (s\<lparr>w_events := es\<rparr>) = mem_inputs s" "mem_inputs (s\<lparr>w_errors := rs\<rparr>) = mem_inputs s"
  "mem_inputs (s\<lparr>w_tenants := ts\<rparr>) = mem_inputs s"
  by (simp_all add: mem_inputs_def put_def)

lemma mem_inputs_kept:
  "mem_get k key s = (rg, s') \<Longrightarrow> mem_inputs s' = mem_inputs s" "mem_list k opts s = (rl, s') \<Longrightarrow> mem_inputs s' = mem_inputs s"
  "mem_create obj s = (rc, s') \<Longrightarrow> mem_inputs s' = mem_inputs s" "mem_patch base obj s = (rc, s') \<Longrightarrow> mem_inputs s' = mem_inputs s"
  "mem_delete obj s = (rd, s') \<Longrightarrow> mem_inputs s' = mem_inputs s"
  "cl_GetPO mem_client n s = (rp, s') \<Longrightarrow> mem_inputs s' = mem_inputs s"
  "cl_ListPO mem_client s = (rps, s') \<Longrightarrow> mem_inputs s' = mem_inputs s"
  "cl_UpdatePO mem_client po s = (rp, s') \<Longrightarrow> mem_inputs s' = mem_inputs s"
  "cl_StatusPO mem_client po s = (ru, s') \<Longrightarrow> mem_inputs s' = mem_inputs s"
  "cl_GetTS mem_client n s = (rt, s') \<Longrightarrow> mem_inputs s' = mem_inputs s"
  "cl_GetConfigMap mem_client ck s = (rm, s') \<Longrightarrow> mem_inputs s' = mem_inputs s"
  unfolding mem_get_def mem_list_def mem_create_def mem_patch_def mem_delete_def mem_client_def client.simps
  by (erule faulty_cases; auto split: if_splits option.splits)+

lemma mem_inputs_guarded: "guarded_operator mem_reconciler (\<lambda>s. mem_inputs s = i) no_update mem_metrics"
  by unfold_locales
    (simp_all only: mem_reconciler_simps mem_call_simps no_call_simps mem_owners_only simp_thms,
     ((rule keeps_frame [where f = mem_inputs], erule mem_inputs_kept)+)?,
     auto simp: mem_recorder_def mem_metrics_def mem_call_simps
       intro: mem.got mem.listed intro!: keeps_frame [where f = mem_inputs] dest: mem_inputs_kept)

interpretation mem_rest: resting_operator mem_reconciler lookup mem_metrics stored_po "\<lambda>p x. ko_payload x = p" mem_inputs
proof (intro resting_operator.intro resting_operator_axioms.intro)
  show "resource_operator mem_reconciler lookup mem_metrics stored_po" by (rule mem_life.resource_operator_axioms)
  show "settling_client (por_Client mem_reconciler) lookup (\<lambda>p x. ko_payload x = p)" by (simp add: mem_settling)
  show "guarded_operator mem_reconciler (\<lambda>s. mem_inputs s = i) no_update mem_metrics" for i by (rule mem_inputs_guarded)
next
  fix name s s' t t' x y
  assume "cl_GetTS (por_Client mem_reconciler) name s = (Ok x, s')" "cl_GetTS (por_Client mem_reconciler) name t = (Ok y, t')"
    "mem_inputs t = mem_inputs s"
  then show "y = x"
    by (auto simp: mem_client_def mem_inputs_def elim!: faulty_cases split: option.splits)
next
  fix key s s' t t' rs rt
  assume "cl_GetConfigMap (por_Client mem_reconciler) key s = (rs, s')" "cl_GetConfigMap (por_Client mem_reconciler) key t = (rt, t')"
    "mem_inputs t = mem_inputs s" "answered IsNotFound rs" "answered IsNotFound rt"
  then show "read_value rt = read_value rs"
    by (auto simp: mem_client_def mem_inputs_def answered_def elim!: faulty_cases split: option.splits)
next
  fix name s s' e
  assume "cl_GetPO (por_Client mem_reconciler) name s = (Err e, s')" "IsNotFound e"
  then show "stored_po s name = None"
    by (auto simp: mem_client_def stored_po_def elim!: faulty_cases split: option.splits)
qed

lemma map_order_id: "map_order id"
  by (simp add: map_order_def)

section \<open>A sample tenant\<close>

text \<open>
  One catalogue entry and a resource with two entries: \<^verbatim>\<open>team_a\<close>, sized by the catalogue with
  an override, and \<^verbatim>\<open>team-b\<close>, given up, whose Namespace and quota are still there.
\<close>

definition ex_size :: TShirtSize where
  "ex_size = \<lparr>ts_meta = zero_objmeta\<lparr>om_name := ''small''\<rparr>,
     ts_Spec = \<lparr>ts_Description = ''small tenant'', ts_ResourceQuotas = Some (zero_ResourceQuotaSpec\<lparr>rq_CPU := Some ''4'',
        rq_Memory := Some ''8gi''\<rparr>), ts_LimitRanges = None\<rparr>,
     ts_Status = zero_TShirtSizeStatus\<rparr>"

definition ex_entry :: NamespaceSpec where
  "ex_entry = zero_NamespaceSpec\<lparr>ns_Name := ''team_a'', ns_ProjectSize := ''small'', ns_OverwriteTshirt := Some True,
     ns_ResourceQuotas := Some (zero_ResourceQuotaSpec\<lparr>rq_Enabled := Some True, rq_CPU := Some ''6''\<rparr>)\<rparr>"

definition ex_off :: NamespaceSpec where
  "ex_off = zero_NamespaceSpec\<lparr>ns_Name := ''team-b'', ns_Offboard := Some True\<rparr>"

definition ex_po :: ProjectOnboarding where
  "ex_po = \<lparr>po_meta = zero_objmeta\<lparr>om_name := ''po1'', om_finalizers := [ProjectOnboardingFinalizer]\<rparr>,
     po_Spec = \<lparr>ps_GitOps = None, ps_Namespaces = [ex_entry, ex_off]\<rparr>,
     po_Status = zero_ProjectOnboardingStatus\<rparr>"

definition ex_min :: NamespaceSpec where
  "ex_min = zero_NamespaceSpec\<lparr>ns_Name := ''a'', ns_ResourceQuotas := Some (zero_ResourceQuotaSpec\<lparr>rq_CPU := Some ''6''\<rparr>)\<rparr>"

definition ex_world :: world where
  "ex_world = empty_world\<lparr>w_pos := [ex_po], w_sizes := [ex_size], w_objs :=
     [new_object [] ''team-b'' (ManagedLabels ex_po ex_off) PNamespace,
      new_object ''team-b'' ''team-b-quota'' (ManagedLabels ex_po ex_off) (PResourceQuota Map.empty)]\<rparr>"

end
