(* ===== verification/Sizing_Correct.thy ===== *)
theory Sizing_Correct
  imports Mem_Cluster
begin

text \<open>
  Properties of T-shirt sizing: the merge of catalogue and entry, the limits that follow from
  the merged specification, and what the admission checks guarantee to the builders.
\<close>

section \<open>Storage classes\<close>

text \<open>What a list of storage class quotas says of a class: its last entry with a key.\<close>

definition class_map :: "StorageClassQuota list \<Rightarrow> str_map" where
  "class_map es = map_of (rev (map (\<lambda>e. (sc_Key e, sc_Value e)) (filter (\<lambda>e. sc_Key e \<noteq> []) es)))"

lemma class_map_Nil [simp]: "class_map [] = Map.empty"
  by (simp add: class_map_def)

lemma class_map_snoc:
  "class_map (es @ [e]) = (if sc_Key e = [] then class_map es else (class_map es)(sc_Key e \<mapsto> sc_Value e))"
  by (simp add: class_map_def)

lemma class_map_ToMap: "map_of (storageClassQuotasToMap es) = class_map es"
  by (induction es rule: rev_induct)
    (simp_all add: storageClassQuotasToMap_snoc class_map_snoc update_conv' fun_upd_def, simp add: storageClassQuotasToMap_def)

definition put_classes :: "(string \<times> string) list \<Rightarrow> StorageClassQuota list \<Rightarrow> (string \<times> string) list" where
  "put_classes = foldl (\<lambda>m entry. if sc_Key entry = [] then m else AList.update (sc_Key entry) (sc_Value entry) m)"

lemma put_classes_map: "map_of (put_classes m es) = map_of m ++ class_map es"
  by (induction es rule: rev_induct) (auto simp: put_classes_def class_map_snoc update_conv' map_add_def fun_eq_iff)

lemma put_classes_keys:
  "distinct (map fst m) \<Longrightarrow> [] \<notin> fst ` set m \<Longrightarrow>
   distinct (map fst (put_classes m es)) \<and> [] \<notin> fst ` set (put_classes m es)"
  by (induction es rule: rev_induct) (auto simp: put_classes_def distinct_update dom_update)

lemma ToMap_keys: "[] \<notin> fst ` set (storageClassQuotasToMap es)"
  using put_classes_keys [of "[]" es] by (simp add: put_classes_def storageClassQuotasToMap_def)

lemma merge_storage_classes_put:
  "merge_storage_classes iter out ov = (if ov = [] then out
     else storageClassQuotasFromMap iter (put_classes (storageClassQuotasToMap out) ov))"
  by (simp add: merge_storage_classes_def put_classes_def)

lemma FromMap_map:
  assumes "map_order iter" "distinct (map fst m)" "[] \<notin> fst ` set m"
  shows "class_map (storageClassQuotasFromMap iter m) = map_of m"
    "distinct (map sc_Key (storageClassQuotasFromMap iter m))"
    "[] \<notin> sc_Key ` set (storageClassQuotasFromMap iter m)"
proof -
  let ?es = "storageClassQuotasFromMap iter m"
  have ms: "mset (iter m) = mset m" using assms(1) by (simp add: map_order_def)
  then have s: "set (iter m) = set m" by (rule mset_eq_setD)
  have d: "distinct (map fst (iter m))" using mset_distinct_fst [OF assms(2) ms] .
  have pairs: "map (\<lambda>e. (sc_Key e, sc_Value e)) ?es = (if m = [] then [] else iter m)"
    by (simp add: storageClassQuotasFromMap_def comp_def case_prod_beta)
  have keys: "map sc_Key ?es = (if m = [] then [] else map fst (iter m))"
    by (simp add: storageClassQuotasFromMap_def comp_def case_prod_beta)
  then show "distinct (map sc_Key ?es)" using d by simp
  have "set (map sc_Key ?es) \<subseteq> fst ` set m" unfolding keys using s by auto
  then show ne: "[] \<notin> sc_Key ` set ?es" using assms(3) by auto
  then have "filter (\<lambda>e. sc_Key e \<noteq> []) ?es = ?es" by (metis (mono_tags, lifting) filter_True imageI)
  then have "class_map ?es = map_of (rev (map (\<lambda>e. (sc_Key e, sc_Value e)) ?es))" by (simp add: class_map_def)
  also have "\<dots> = map_of m"
  proof -
    have "map_of (rev (iter m)) = map_of m" by (rule map_of_perm [OF assms(2)]) (simp add: ms)
    then show ?thesis by (simp only: pairs split: if_split) simp
  qed
  finally show "class_map ?es = map_of m" .
qed

lemma merged_class_map:
  assumes "map_order iter"
  shows "class_map (merge_storage_classes iter base ov) = class_map base ++ class_map ov"
proof -
  note k = put_classes_keys [OF storageClassQuotasToMap_distinct ToMap_keys]
  show ?thesis
    by (simp add: merge_storage_classes_put FromMap_map [OF assms conjunct1 [OF k] conjunct2 [OF k]] put_classes_map class_map_ToMap)
qed

text \<open>
  C16: Merging the storage classes of an entry over those of the catalogue overrides class by
  class, whatever the order in which Go visits the map: every class of the entry gets the
  entry's value, the others keep the catalogue's.  The merged list names each class once.
\<close>

theorem storage_classes_override:
  assumes "map_order iter"
  shows "class_map (merge_storage_classes iter base ov) = class_map base ++ class_map ov \<and>
    (ov \<noteq> [] \<longrightarrow> distinct (map sc_Key (merge_storage_classes iter base ov)) \<and>
       [] \<notin> sc_Key ` set (merge_storage_classes iter base ov))"
proof -
  note k = put_classes_keys [OF storageClassQuotasToMap_distinct ToMap_keys]
  note f = FromMap_map [OF assms conjunct1 [OF k] conjunct2 [OF k]]
  show ?thesis
    by (simp add: merge_storage_classes_put f put_classes_map class_map_ToMap)
qed

theorem storage_classes_override_witness:
  "class_map (merge_storage_classes rev [\<lparr>sc_Key = ''a'', sc_Value = ''1''\<rparr>, \<lparr>sc_Key = ''b'', sc_Value = ''2''\<rparr>]
     [\<lparr>sc_Key = ''b'', sc_Value = ''3''\<rparr>]) = [''a'' \<mapsto> ''1'', ''b'' \<mapsto> ''2''] ++ [''b'' \<mapsto> ''3''] \<and>
   distinct (map sc_Key (merge_storage_classes rev [\<lparr>sc_Key = ''a'', sc_Value = ''1''\<rparr>] [\<lparr>sc_Key = ''b'', sc_Value = ''3''\<rparr>]))"
proof -
  have r: "map_order rev" by (simp add: map_order_def)
  show ?thesis
    using storage_classes_override [OF r, of "[\<lparr>sc_Key = ''a'', sc_Value = ''1''\<rparr>, \<lparr>sc_Key = ''b'', sc_Value = ''2''\<rparr>]"
        "[\<lparr>sc_Key = ''b'', sc_Value = ''3''\<rparr>]"]
      storage_classes_override [OF r, of "[\<lparr>sc_Key = ''a'', sc_Value = ''1''\<rparr>]" "[\<lparr>sc_Key = ''b'', sc_Value = ''3''\<rparr>]"]
    by (simp add: class_map_def)
qed

section \<open>The limits of a merged specification\<close>

text \<open>The text of the limit that a field of the specification sets, if it sets one.\<close>

definition qtext :: "string option \<Rightarrow> string option" where
  "qtext v = (case v of None \<Rightarrow> None | Some t \<Rightarrow> if trim_space t = [] then None else Some (NormalizeQuantity t))"

definition ctext :: "i32 option \<Rightarrow> string option" where
  "ctext v = map_option (\<lambda>n. string_of_int (sint n)) v"

definition builtin_names :: "string list" where
  "builtin_names = [''pods'', ''cpu'', ''memory'', ''ephemeral-storage'', ''replicationcontrollers'',
     ''resourcequotas'', ''services'', ''secrets'', ''configmaps'', ''persistentvolumeclaims'',
     ''limits.cpu'', ''limits.memory'', ''limits.ephemeral-storage'',
     ''requests.cpu'', ''requests.memory'', ''requests.storage'', ''requests.ephemeral-storage'']"

definition limits_field :: "(ResourceQuotaLimitSpec \<Rightarrow> string option) \<Rightarrow> ResourceQuotaSpec \<Rightarrow> string option" where
  "limits_field f q = (case rq_Limits q of None \<Rightarrow> None | Some l \<Rightarrow> qtext (f l))"

definition requests_field :: "(ResourceQuotaRequestSpec \<Rightarrow> string option) \<Rightarrow> ResourceQuotaSpec \<Rightarrow> string option" where
  "requests_field f q = (case rq_Requests q of None \<Rightarrow> None | Some r \<Rightarrow> qtext (f r))"

definition field_texts :: "ResourceQuotaSpec \<Rightarrow> string option list" where
  "field_texts q = [ctext (rq_Pods q), qtext (rq_CPU q), qtext (rq_Memory q), qtext (rq_EphemeralStorage q),
     ctext (rq_ReplicationControllers q), ctext (rq_ResourceQuotas q), ctext (rq_Services q), ctext (rq_Secrets q),
     ctext (rq_ConfigMaps q), ctext (rq_PersistentVolumeClaims q),
     limits_field rl_CPU q, limits_field rl_Memory q, limits_field rl_EphemeralStorage q,
     requests_field rr_CPU q, requests_field rr_Memory q, requests_field rr_Storage q,
     requests_field rr_EphemeralStorage q]"

text \<open>The limits that a specification asks for: resource name to quantity text.\<close>

definition limits_of :: "ResourceQuotaSpec \<Rightarrow> str_map" where
  "limits_of q = map_of (rev (quota_requests q))"

definition entries :: "(string \<times> string option) list \<Rightarrow> (string \<times> string) list" where
  "entries fs = concat (map (\<lambda>(n, t). case t of None \<Rightarrow> [] | Some t \<Rightarrow> [(n, t)]) fs)"

lemma request_entries:
  "count_request n v = entries [(n, ctext v)]" "quantity_request n t = entries [(n, qtext t)]"
  by (auto simp: count_request_def quantity_request_def entries_def ctext_def qtext_def split: option.split)

lemma entries_append: "entries (xs @ ys) = entries xs @ entries ys"
  by (simp add: entries_def)

lemma entries_Cons: "entries (x # y # xs) = entries [x] @ entries (y # xs)"
  by (simp add: entries_def)

lemma entries_zip: "entries (zip (n # ns) (t # ts)) = entries [(n, t)] @ entries (zip ns ts)"
  by (simp add: entries_def)

lemma quota_requests_entries:
  "quota_requests q = entries (zip builtin_names (field_texts q)) @ concat (map class_request (rq_StorageClasses q))"
proof -
  have l: "(case rq_Limits q of None \<Rightarrow> [] | Some l \<Rightarrow>
        entries [(''limits.cpu'', qtext (rl_CPU l))] @ entries [(''limits.memory'', qtext (rl_Memory l))] @
        entries [(''limits.ephemeral-storage'', qtext (rl_EphemeralStorage l))]) =
      entries [(''limits.cpu'', limits_field rl_CPU q)] @ entries [(''limits.memory'', limits_field rl_Memory q)] @
      entries [(''limits.ephemeral-storage'', limits_field rl_EphemeralStorage q)]"
    by (cases "rq_Limits q") (simp_all add: limits_field_def, simp add: entries_def)
  have r: "(case rq_Requests q of None \<Rightarrow> [] | Some r \<Rightarrow>
        entries [(''requests.cpu'', qtext (rr_CPU r))] @ entries [(''requests.memory'', qtext (rr_Memory r))] @
        entries [(''requests.storage'', qtext (rr_Storage r))] @
        entries [(''requests.ephemeral-storage'', qtext (rr_EphemeralStorage r))]) =
      entries [(''requests.cpu'', requests_field rr_CPU q)] @ entries [(''requests.memory'', requests_field rr_Memory q)] @
      entries [(''requests.storage'', requests_field rr_Storage q)] @
      entries [(''requests.ephemeral-storage'', requests_field rr_EphemeralStorage q)]"
    by (cases "rq_Requests q") (simp_all add: requests_field_def, simp add: entries_def)
  show ?thesis
    unfolding quota_requests_def request_entries l r
    by (simp only: builtin_names_def field_texts_def zip_Cons_Cons zip_Nil entries_Cons append_assoc)
qed

lemma map_of_entries:
  "distinct ns \<Longrightarrow> length ts = length ns \<Longrightarrow> i < length ns \<Longrightarrow> map_of (rev (entries (zip ns ts))) (ns ! i) = ts ! i"
  "k \<notin> set ns \<Longrightarrow> map_of (rev (entries (zip ns ts))) k = None"
proof -
  have out: "k \<notin> set ns \<Longrightarrow> map_of (rev (entries (zip ns ts))) k = None" for k and ns :: "string list" and ts
    by (auto simp: map_of_eq_None_iff entries_def dest: set_zip_leftD split: option.splits)
  then show "k \<notin> set ns \<Longrightarrow> map_of (rev (entries (zip ns ts))) k = None" .
  show "distinct ns \<Longrightarrow> length ts = length ns \<Longrightarrow> i < length ns \<Longrightarrow> map_of (rev (entries (zip ns ts))) (ns ! i) = ts ! i"
  proof (induction ns arbitrary: ts i)
    case (Cons n ns)
    then obtain t ts' where ts: "ts = t # ts'" by (cases ts) auto
    show ?case
    proof (cases i)
      case 0
      with Cons.prems out [of n ns ts'] show ?thesis
        unfolding ts entries_zip by (auto simp: map_add_def entries_def split: option.split)
    next
      case (Suc j)
      with Cons.prems have "n \<noteq> ns ! j" by auto
      then have "map_of (entries [(n, t)]) (ns ! j) = None" by (auto simp: entries_def split: option.split)
      with Cons Suc ts show ?thesis
        unfolding ts entries_zip
        by (auto simp: map_add_def entries_def split: option.split)
    qed
  qed simp
qed

lemma builtin_distinct: "distinct builtin_names" "length (field_texts q) = length builtin_names"
  by (simp_all add: builtin_names_def field_texts_def)

lemma map_of_class_requests:
  "map_of (rev (concat (map class_request es))) = (\<lambda>k. map_option NormalizeQuantity (class_map es k))"
  by (induction es rule: rev_induct) (auto simp: class_map_snoc class_request_def fun_eq_iff)

lemma limits_of_alt:
  "limits_of q = map_of (rev (entries (zip builtin_names (field_texts q)))) ++
     (\<lambda>k. map_option NormalizeQuantity (class_map (rq_StorageClasses q) k))"
  by (simp add: limits_of_def quota_requests_entries map_of_class_requests)

text \<open>
  The limits of the fields and those of the storage classes; a class comes after the fields and
  so replaces a field whose resource name it bears.
\<close>

definition field_limits :: "ResourceQuotaSpec \<Rightarrow> str_map" where
  "field_limits q = (\<lambda>k. Option.bind (map_of (zip builtin_names (field_texts q)) k) id)"

definition class_limits :: "ResourceQuotaSpec \<Rightarrow> str_map" where
  "class_limits q = (\<lambda>k. map_option NormalizeQuantity (class_map (rq_StorageClasses q) k))"

lemma field_limits_nth: "i < length builtin_names \<Longrightarrow> field_limits q (builtin_names ! i) = field_texts q ! i"
  by (simp add: field_limits_def map_of_zip_nth builtin_distinct)

lemma field_limits_None: "k \<notin> set builtin_names \<Longrightarrow> field_limits q k = None"
  by (simp add: field_limits_def map_of_zip_is_None [THEN iffD2] builtin_distinct)

lemma limits_of_parts: "limits_of q = field_limits q ++ class_limits q"
proof -
  have "map_of (rev (entries (zip builtin_names (field_texts q)))) k = field_limits q k" for k
  proof (cases "k \<in> set builtin_names")
    case True
    then obtain i where "i < length builtin_names" "k = builtin_names ! i" by (auto simp: in_set_conv_nth)
    then show ?thesis by (simp add: map_of_entries(1) builtin_distinct field_limits_nth)
  qed (simp add: map_of_entries(2) field_limits_None)
  then have "map_of (rev (entries (zip builtin_names (field_texts q)))) = field_limits q" by blast
  then show ?thesis by (simp add: limits_of_alt class_limits_def)
qed

text \<open>The resource names whose field is given, be its text blank or not.\<close>

definition limits_given :: "(ResourceQuotaLimitSpec \<Rightarrow> string option) \<Rightarrow> ResourceQuotaSpec \<Rightarrow> bool" where
  "limits_given f q = (case rq_Limits q of None \<Rightarrow> False | Some l \<Rightarrow> f l \<noteq> None)"

definition requests_given :: "(ResourceQuotaRequestSpec \<Rightarrow> string option) \<Rightarrow> ResourceQuotaSpec \<Rightarrow> bool" where
  "requests_given f q = (case rq_Requests q of None \<Rightarrow> False | Some r \<Rightarrow> f r \<noteq> None)"

definition field_given :: "ResourceQuotaSpec \<Rightarrow> bool list" where
  "field_given q = [rq_Pods q \<noteq> None, rq_CPU q \<noteq> None, rq_Memory q \<noteq> None, rq_EphemeralStorage q \<noteq> None,
     rq_ReplicationControllers q \<noteq> None, rq_ResourceQuotas q \<noteq> None, rq_Services q \<noteq> None, rq_Secrets q \<noteq> None,
     rq_ConfigMaps q \<noteq> None, rq_PersistentVolumeClaims q \<noteq> None,
     limits_given rl_CPU q, limits_given rl_Memory q, limits_given rl_EphemeralStorage q,
     requests_given rr_CPU q, requests_given rr_Memory q, requests_given rr_Storage q,
     requests_given rr_EphemeralStorage q]"

definition given_fields :: "ResourceQuotaSpec \<Rightarrow> string set" where
  "given_fields q = set (map fst (filter snd (zip builtin_names (field_given q))))"

lemma given_fields_nth:
  assumes "i < length builtin_names"
  shows "builtin_names ! i \<in> given_fields q \<longleftrightarrow> field_given q ! i"
proof -
  have l: "length (field_given q) = length builtin_names" by (simp add: field_given_def builtin_names_def)
  show ?thesis
  proof
    assume "builtin_names ! i \<in> given_fields q"
    then obtain j where "j < length builtin_names" "builtin_names ! i = builtin_names ! j" "field_given q ! j"
      using l by (auto simp: given_fields_def set_zip)
    then show "field_given q ! i" using assms builtin_distinct(1) by (simp add: nth_eq_iff_index_eq)
  next
    assume "field_given q ! i"
    then show "builtin_names ! i \<in> given_fields q"
      using assms l by (auto simp: given_fields_def set_zip intro!: image_eqI [of _ _ "(builtin_names ! i, True)"])
  qed
qed

definition pick :: "bool list \<Rightarrow> 'a list \<Rightarrow> 'a list \<Rightarrow> 'a list" where
  "pick gs xs ys = map (\<lambda>(g, x, y). if g then x else y) (zip gs (zip xs ys))"

lemma pick_simps [simp]:
  "pick (g # gs) (x # xs) (y # ys) = (if g then x else y) # pick gs xs ys" "pick [] [] [] = []"
  by (simp_all add: pick_def)

lemma texts_or_else:
  "ctext (or_else x y) = (if x \<noteq> None then ctext x else ctext y)"
  "qtext (or_else v w) = (if v \<noteq> None then qtext v else qtext w)"
  by (auto simp: ctext_def qtext_def or_else_def split: option.splits)

lemma or_else_None [simp]: "or_else None y = y"
  by (simp add: or_else_def)

lemma fields_or_else:
  "rq_Limits m = mergeResourceQuotaLimits (rq_Limits b) (rq_Limits v) \<Longrightarrow> f \<in> {rl_CPU, rl_Memory, rl_EphemeralStorage} \<Longrightarrow>
   limits_field f m = (if limits_given f v then limits_field f v else limits_field f b)"
  "rq_Requests m = mergeResourceQuotaRequests (rq_Requests b) (rq_Requests v) \<Longrightarrow>
   g \<in> {rr_CPU, rr_Memory, rr_Storage, rr_EphemeralStorage} \<Longrightarrow>
   requests_field g m = (if requests_given g v then requests_field g v else requests_field g b)"
  by (cases "rq_Limits b"; cases "rq_Limits v";
      auto simp: limits_field_def limits_given_def mergeResourceQuotaLimits_eqs texts_or_else qtext_def)
    (cases "rq_Requests b"; cases "rq_Requests v";
      auto simp: requests_field_def requests_given_def mergeResourceQuotaRequests_eqs texts_or_else qtext_def)

lemma merged_quota:
  obtains m where "mergeResourceQuotaSpec iter (Some b) (Some v) = Some m"
    "field_texts m = pick (field_given v) (field_texts v) (field_texts b)"
    "rq_StorageClasses m = merge_storage_classes iter (rq_StorageClasses b) (rq_StorageClasses v)"
proof -
  obtain m where m: "mergeResourceQuotaSpec iter (Some b) (Some v) = Some m"
    by (simp add: mergeResourceQuotaSpec_def ensureQuotaEnabled_def)
  then have s: "rq_Limits m = mergeResourceQuotaLimits (rq_Limits b) (rq_Limits v)"
      "rq_Requests m = mergeResourceQuotaRequests (rq_Requests b) (rq_Requests v)"
      "rq_StorageClasses m = merge_storage_classes iter (rq_StorageClasses b) (rq_StorageClasses v)"
      "rq_CPU m = or_else (rq_CPU v) (rq_CPU b)" "rq_Memory m = or_else (rq_Memory v) (rq_Memory b)"
      "rq_EphemeralStorage m = or_else (rq_EphemeralStorage v) (rq_EphemeralStorage b)"
      "rq_Pods m = or_else (rq_Pods v) (rq_Pods b)"
      "rq_ReplicationControllers m = or_else (rq_ReplicationControllers v) (rq_ReplicationControllers b)"
      "rq_ResourceQuotas m = or_else (rq_ResourceQuotas v) (rq_ResourceQuotas b)"
      "rq_Services m = or_else (rq_Services v) (rq_Services b)" "rq_Secrets m = or_else (rq_Secrets v) (rq_Secrets b)"
      "rq_ConfigMaps m = or_else (rq_ConfigMaps v) (rq_ConfigMaps b)"
      "rq_PersistentVolumeClaims m = or_else (rq_PersistentVolumeClaims v) (rq_PersistentVolumeClaims b)"
    by (auto simp: mergeResourceQuotaSpec_def ensureQuotaEnabled_def Let_def split: if_splits)
  have "field_texts m = pick (field_given v) (field_texts v) (field_texts b)"
    unfolding field_texts_def field_given_def
    by (simp add: s(4-) texts_or_else fields_or_else(1) [OF s(1)] fields_or_else(2) [OF s(2)])
  then show ?thesis by (rule that [OF m _ s(3)])
qed

lemma pick_nth:
  "length gs = length xs \<Longrightarrow> length ys = length xs \<Longrightarrow> i < length xs \<Longrightarrow> pick gs xs ys ! i = (if gs ! i then xs ! i else ys ! i)"
  by (simp add: pick_def)

text \<open>
  C15: A specification merged with \<^verbatim>\<open>overwriteTshirt\<close> asks, for every resource name, for the
  limit of the storage class of that name if the entry or else the catalogue lists one;
  otherwise for what the field of the entry says if the entry gives the field, and for what the
  catalogue says if not.  A field that is given with a blank text, which the webhook admits, thus
  takes the limit of the catalogue away.
\<close>

theorem merged_limits:
  assumes "map_order iter"
  shows "\<exists>m. mergeResourceQuotaSpec iter (Some b) (Some v) = Some m \<and>
    limits_of m = (\<lambda>k. if k \<in> given_fields v then field_limits v k else field_limits b k) ++ (class_limits b ++ class_limits v)"
proof -
  obtain m where m: "mergeResourceQuotaSpec iter (Some b) (Some v) = Some m"
    and f: "field_texts m = pick (field_given v) (field_texts v) (field_texts b)"
    and c: "rq_StorageClasses m = merge_storage_classes iter (rq_StorageClasses b) (rq_StorageClasses v)"
    by (rule merged_quota)
  have l: "length (field_given v) = length (field_texts v)" "length (field_texts b) = length (field_texts v)"
    by (simp_all add: field_given_def field_texts_def)
  have F: "field_limits m k = (if k \<in> given_fields v then field_limits v k else field_limits b k)" for k
  proof (cases "k \<in> set builtin_names")
    case True
    then obtain i where "i < length builtin_names" "k = builtin_names ! i" by (auto simp: in_set_conv_nth)
    then show ?thesis by (simp add: field_limits_nth given_fields_nth f pick_nth [OF l] builtin_distinct)
  qed (simp add: field_limits_None)
  have C: "class_limits m = class_limits b ++ class_limits v"
    unfolding class_limits_def c merged_class_map [OF assms]
    by (auto simp: map_add_def fun_eq_iff split: option.split)
  show ?thesis using m by (simp add: limits_of_parts C F [abs_def])
qed

theorem merged_limits_witness:
  "\<exists>m. mergeResourceQuotaSpec id
      (Some (zero_ResourceQuotaSpec\<lparr>rq_CPU := Some ''4'', rq_Memory := Some ''8Gi'', rq_Pods := Some 10,
         rq_StorageClasses := [\<lparr>sc_Key = ''gold'', sc_Value = ''1Gi''\<rparr>]\<rparr>))
      (Some (zero_ResourceQuotaSpec\<lparr>rq_CPU := Some ''8'', rq_Memory := Some []\<rparr>)) = Some m \<and>
    limits_of m ''cpu'' = Some ''8'' \<and> limits_of m ''memory'' = None \<and> limits_of m ''pods'' = Some ''10'' \<and>
    limits_of m ''gold'' = Some ''1Gi''"
proof -
  let ?b = "zero_ResourceQuotaSpec\<lparr>rq_CPU := Some ''4'', rq_Memory := Some ''8Gi'', rq_Pods := Some 10,
     rq_StorageClasses := [\<lparr>sc_Key = ''gold'', sc_Value = ''1Gi''\<rparr>]\<rparr>"
  let ?v = "zero_ResourceQuotaSpec\<lparr>rq_CPU := Some ''8'', rq_Memory := Some []\<rparr>"
  let ?L = "(\<lambda>k. if k \<in> given_fields ?v then field_limits ?v k else field_limits ?b k) ++ (class_limits ?b ++ class_limits ?v)"
  have L: "?L ''cpu'' = Some ''8''" "?L ''memory'' = None" "?L ''pods'' = Some ''10''" "?L ''gold'' = Some ''1Gi''"
    by code_simp+
  obtain m where m: "mergeResourceQuotaSpec id (Some ?b) (Some ?v) = Some m" "limits_of m = ?L"
    using merged_limits [OF map_order_id] by blast
  show ?thesis by (intro exI [of _ m] conjI) (rule m(1), simp_all only: m(2) L)
qed

section \<open>Resolving the size of an entry\<close>

text \<open>
  C17: An entry with a size takes quotas and limit ranges from the catalogue only where the
  entry switches the block on with \<^verbatim>\<open>enabled: true\<close>; without \<^verbatim>\<open>overwriteTshirt\<close> the values
  written in the entry count for nothing; no other field of the entry changes.
\<close>

theorem resolve_gated:
  assumes "ResolveNamespaceSpec lb c ns s = (Ok r, s')" and "ns_ProjectSize ns \<noteq> []"
  shows "\<exists>ts. cl_GetTS c (ns_ProjectSize ns) s = (Ok ts, s') \<and>
    r = ns\<lparr>ns_ResourceQuotas := ns_ResourceQuotas r, ns_LimitRanges := ns_LimitRanges r\<rparr> \<and>
    (ns_ResourceQuotas r \<noteq> None \<longrightarrow> (\<exists>q. ns_ResourceQuotas ns = Some q \<and> rq_Enabled q = Some True)) \<and>
    (ns_LimitRanges r \<noteq> None \<longrightarrow> (\<exists>l. ns_LimitRanges ns = Some l \<and> lr_Enabled l = Some True)) \<and>
    (\<not> IsOverwriteTshirt (ns_OverwriteTshirt ns) \<longrightarrow>
       ns_ResourceQuotas r \<in> {None, ensureQuotaEnabled (ts_ResourceQuotas (ts_Spec ts))} \<and>
       ns_LimitRanges r \<in> {None, ensureLimitRangeEnabled (ts_LimitRanges (ts_Spec ts))})"
proof -
  obtain ts where ts: "cl_GetTS c (ns_ProjectSize ns) s = (Ok ts, s')"
    and r: "r = resolve_with (lb_RangePairs lb) ns (ts_Spec ts)"
    using assms by (auto simp: ResolveNamespaceSpec_def eff_run split: result.splits prod.splits if_splits)
  have gate: "isExplicitlyEnabled e \<longleftrightarrow> e = Some True" for e
    by (auto simp: isExplicitlyEnabled_def split: option.split)
  have quota: "shouldApplyTshirtResourceQuotas ns \<Longrightarrow> \<exists>q. ns_ResourceQuotas ns = Some q \<and> rq_Enabled q = Some True"
    by (auto simp: shouldApplyTshirtResourceQuotas_def gate split: option.splits)
  have limit: "shouldApplyTshirtLimitRanges ns \<Longrightarrow> \<exists>l. ns_LimitRanges ns = Some l \<and> lr_Enabled l = Some True"
    by (auto simp: shouldApplyTshirtLimitRanges_def gate split: option.splits)
  have frame: "r = ns\<lparr>ns_ResourceQuotas := ns_ResourceQuotas r, ns_LimitRanges := ns_LimitRanges r\<rparr>"
    unfolding r resolve_with_def Let_def by simp
  show ?thesis
    using ts frame quota limit unfolding r resolve_with_def Let_def shouldMergeTshirtOverrides_def
    by (intro exI [of _ ts]) (auto split: if_splits)
qed

theorem resolve_gated_witness:
  "\<exists>r s'. ResolveNamespaceSpec mem_libs mem_client ex_entry ex_world = (Ok r, s') \<and> ns_Name r = ''team_a''"
proof -
  have "succeeds (ResolveNamespaceSpec mem_libs mem_client ex_entry) ex_world" by code_simp
  then obtain r s' where run: "ResolveNamespaceSpec mem_libs mem_client ex_entry ex_world = (Ok r, s')"
    by (rule succeedsE)
  have "ns_ProjectSize ex_entry \<noteq> []" by (simp add: ex_entry_def)
  from resolve_gated [OF run this] have "r = ex_entry\<lparr>ns_ResourceQuotas := ns_ResourceQuotas r, ns_LimitRanges := ns_LimitRanges r\<rparr>"
    by blast
  then have "ns_Name r = ns_Name ex_entry" by (metis NamespaceSpec.select_convs(1) NamespaceSpec.surjective NamespaceSpec.update_convs(6,7))
  with run show ?thesis by (simp add: ex_entry_def)
qed

section \<open>Overrides laid on twice\<close>

text \<open>
  Laying the LimitRange override of an entry on a second time changes nothing, and an
  override that says what the catalogue says leaves the catalogue entry, switched on.
\<close>

theorem limit_range_override_idem:
  "mergeLimitRangeSpec (mergeLimitRangeSpec b v) v = mergeLimitRangeSpec b v \<and>
   mergeLimitRangeSpec b b = ensureLimitRangeEnabled b"
proof -
  have "mergeLimitRangeSpec (mergeLimitRangeSpec b v) v = mergeLimitRangeSpec b v"
    by (cases b; cases v)
      (auto simp: mergeLimitRangeSpec_def ensureLimitRangeEnabled_def Let_def pod.override_again pod.self pod.nil_base
        container.override_again container.self container.nil_base pvc.override_again pvc.self pvc.nil_base or_else_def
        split: option.splits)
  moreover have "mergeLimitRangeSpec b b = ensureLimitRangeEnabled b"
    by (cases b) (auto simp: mergeLimitRangeSpec_def ensureLimitRangeEnabled_def Let_def pod.self container.self pvc.self)
  ultimately show ?thesis ..
qed

section \<open>From the specification to the ResourceQuota\<close>

text \<open>
  C14: The builder computes exactly the limits of the specification: it succeeds if and only if
  every text is a quantity, then the result maps each resource to its last limit; otherwise it
  panics, and it never returns an error.
\<close>

theorem quota_build_reference:
  "(\<forall>hard. buildResourceQuotaHard pq q = Ok hard \<longleftrightarrow>
      (\<forall>(k, t) \<in> set (quota_requests q). parses pq t) \<and> hard = (\<lambda>k. map_option (quantity_of pq) (limits_of q k))) \<and>
   (\<forall>e. buildResourceQuotaHard pq q \<noteq> Err e)"
proof -
  have m: "map_of (rev (map (\<lambda>(k, t). (k, quantity_of pq t)) xs)) = (\<lambda>k. map_option (quantity_of pq) (map_of (rev xs) k))" for xs
    by (simp add: rev_map map_of_map fun_eq_iff)
  show ?thesis
    unfolding buildResourceQuotaHard_parse limits_of_def
    using parse_all_Ok_iff [of pq "quota_requests q" Map.empty] parse_all_Ok [of pq "quota_requests q" Map.empty]
    by (auto simp: m)
qed

theorem quota_build_reference_witness:
  "\<exists>hard. buildResourceQuotaHard mem_parse (zero_ResourceQuotaSpec\<lparr>rq_CPU := Some ''500m'', rq_Pods := Some 20\<rparr>) = Ok hard \<and>
     hard ''cpu'' = Some (Quantity ''500m'') \<and> hard ''pods'' = Some (Quantity ''20'') \<and> hard ''memory'' = None"
proof -
  let ?q = "zero_ResourceQuotaSpec\<lparr>rq_CPU := Some ''500m'', rq_Pods := Some 20\<rparr>"
  let ?hard = "\<lambda>k. map_option (quantity_of mem_parse) (limits_of ?q k)"
  have "list_all (\<lambda>(k, t). parses mem_parse t) (quota_requests ?q)" by code_simp
  then have "\<forall>(k, t) \<in> set (quota_requests ?q). parses mem_parse t" by (simp add: list_all_iff)
  then have "buildResourceQuotaHard mem_parse ?q = Ok ?hard"
    using quota_build_reference [of mem_parse ?q] by blast
  moreover have "?hard ''cpu'' = Some (Quantity ''500m'')" "?hard ''pods'' = Some (Quantity ''20'')" "?hard ''memory'' = None"
    by code_simp+
  ultimately show ?thesis by blast
qed

text \<open>
  C13: A quota specification that the webhook accepts and whose texts are tidy (no white space
  around them, no empty storage class value) is built without a panic.
\<close>

theorem accepted_quota_builds:
  assumes "quantity_grammar pq" and "validateResourceQuotaSpec pq pre (Some q) = Ok ()" and "tidy_quota q"
  shows "\<exists>hard. buildResourceQuotaHard pq q = Ok hard"
  unfolding buildResourceQuotaHard_parse parse_all_Ok_iff
  using accepted_requests_parse [OF assms] by auto

theorem accepted_quota_builds_witness:
  "\<exists>hard. buildResourceQuotaHard mem_parse (zero_ResourceQuotaSpec\<lparr>rq_CPU := Some ''500m'', rq_Memory := Some ''8gi''\<rparr>) = Ok hard"
proof (rule accepted_quota_builds [OF mem_parse_grammar, of "''p''"])
  let ?q = "zero_ResourceQuotaSpec\<lparr>rq_CPU := Some ''500m'', rq_Memory := Some ''8gi''\<rparr>"
  show "validateResourceQuotaSpec mem_parse ''p'' (Some ?q) = Ok ()" by code_simp
  show "tidy_quota ?q" by code_simp
qed

text \<open>
  C32: The webhook and the reconciler disagree on an empty storage class value: whatever the
  grammar, the specification is admitted, and building it panics.
\<close>

theorem empty_class_value_panics:
  assumes "quantity_grammar pq" and "k \<noteq> []"
  shows "validateResourceQuotaSpec pq pre (Some (zero_ResourceQuotaSpec\<lparr>rq_StorageClasses := [\<lparr>sc_Key = k, sc_Value = []\<rparr>]\<rparr>)) = Ok () \<and>
    (\<exists>p. buildResourceQuotaHard pq (zero_ResourceQuotaSpec\<lparr>rq_StorageClasses := [\<lparr>sc_Key = k, sc_Value = []\<rparr>]\<rparr>) = Panic p)"
proof
  let ?q = "zero_ResourceQuotaSpec\<lparr>rq_StorageClasses := [\<lparr>sc_Key = k, sc_Value = []\<rparr>]\<rparr>"
  show "validateResourceQuotaSpec pq pre (Some ?q) = Ok ()"
    by (simp add: validateResourceQuotaSpec_def run_checks_Ok opt_check_def validateResourceQuotaLimitSpec_def
        validateResourceQuotaRequestSpec_def validate_storage_classes_def validateStorageClassQuotaValue_def)
  obtain e where "pq [] = Inl e"
    using assms(1) unfolding quantity_grammar_def by (cases "pq []") auto
  then show "\<exists>p. buildResourceQuotaHard pq ?q = Panic p"
    using assms(2) by (simp add: buildResourceQuotaHard_parse quota_requests_def count_request_def
        quantity_request_def class_request_def MustParse_def)
qed

theorem empty_class_value_panics_witness:
  "\<exists>p. buildResourceQuotaHard mem_parse (zero_ResourceQuotaSpec\<lparr>rq_StorageClasses := [\<lparr>sc_Key = ''gold'', sc_Value = []\<rparr>]\<rparr>) = Panic p"
  using empty_class_value_panics [OF mem_parse_grammar, of "''gold''"] by simp

section \<open>From the specification to the LimitRange\<close>

definition tidy_text :: "string option \<Rightarrow> bool" where
  "tidy_text t = (case t of None \<Rightarrow> True | Some s \<Rightarrow> s \<noteq> [] \<and> is_trimmed s)"

definition tidy_amount :: "ResourceAmountSpec option \<Rightarrow> bool" where
  "tidy_amount a = (case a of None \<Rightarrow> True | Some x \<Rightarrow> tidy_text (ra_CPU x) \<and> tidy_text (ra_Memory x))"

definition tidy_bound :: "StorageAmountSpec option \<Rightarrow> bool" where
  "tidy_bound a = (case a of None \<Rightarrow> True | Some x \<Rightarrow> tidy_text (sa_Storage x))"

definition tidy_limits :: "LimitRangeSpec \<Rightarrow> bool" where
  "tidy_limits l \<longleftrightarrow>
     (case lr_Pod l of None \<Rightarrow> True | Some p \<Rightarrow> tidy_amount (lp_Max p) \<and> tidy_amount (lp_Min p)) \<and>
     (case lr_Container l of None \<Rightarrow> True | Some c \<Rightarrow> tidy_amount (lc_Max c) \<and> tidy_amount (lc_Min c) \<and>
        tidy_amount (lc_Default c) \<and> tidy_amount (lc_DefaultRequest c)) \<and>
     (case lr_PVC l of None \<Rightarrow> True | Some v \<Rightarrow> tidy_bound (lv_Min v) \<and> tidy_bound (lv_Max v))"

lemma tidy_parses:
  assumes "quantity_grammar pq" "tidy_text (Some t)"
  shows "validateCPUQuantity pq p t = Ok () \<Longrightarrow> \<exists>q. MustParse pq t = Ok q"
    "validateByteQuantity pq p t = Ok () \<Longrightarrow> \<exists>q. MustParse pq (NormalizeQuantity t) = Ok q"
  using assms by (auto simp: validateCPUQuantity_Ok validateByteQuantity_Ok tidy_text_def is_trimmed_def
      MustParse_def parses_def split: sum.splits)

lemma amount_builds:
  assumes "quantity_grammar pq" "tidy_amount a" "validateResourceAmountSpec pq p a = Ok ()"
  shows "\<exists>x. resourceAmount pq a = Ok x"
proof (cases a)
  case (Some am)
  have v: "\<And>t. ra_CPU am = Some t \<Longrightarrow> validateCPUQuantity pq (p @ ''.cpu'') t = Ok ()"
    "\<And>t. ra_Memory am = Some t \<Longrightarrow> validateByteQuantity pq (p @ ''.memory'') t = Ok ()"
    using assms(3) Some by (auto simp: validateResourceAmountSpec_def run_checks_Ok opt_check_Ok)
  have t: "tidy_text (ra_CPU am)" "tidy_text (ra_Memory am)" using assms(2) Some by (auto simp: tidy_amount_def)
  have "\<And>t. ra_CPU am = Some t \<Longrightarrow> \<exists>q. MustParse pq t = Ok q"
    "\<And>t. ra_Memory am = Some t \<Longrightarrow> \<exists>q. MustParse pq (NormalizeQuantity t) = Ok q"
    using tidy_parses [OF assms(1)] v t by metis+
  then show ?thesis
    by (cases "ra_CPU am"; cases "ra_Memory am") (force simp: resourceAmount_def Some)+
qed (simp add: resourceAmount_def)

lemma bound_builds:
  assumes "quantity_grammar pq" "tidy_bound a" "validateStorageAmountSpec pq p a = Ok ()"
  shows "\<exists>x. storageBound pq a = Ok x"
proof (cases a)
  case (Some am)
  show ?thesis
  proof (cases "sa_Storage am")
    case (Some t)
    have "\<exists>q. MustParse pq (NormalizeQuantity t) = Ok q"
      by (rule tidy_parses(2) [OF assms(1)])
        (use assms \<open>a = Some am\<close> Some in \<open>auto simp: tidy_bound_def validateStorageAmountSpec_def opt_check_Ok\<close>)
    then show ?thesis by (auto simp: storageBound_def \<open>a = Some am\<close> Some)
  qed (simp add: storageBound_def Some)
qed (simp add: storageBound_def)

text \<open>
  C31: A LimitRange specification that the webhook accepts and whose texts are tidy is built
  without a panic, into one item per block it has: Pod, Container, PersistentVolumeClaim.
\<close>

theorem accepted_limits_build:
  assumes "quantity_grammar pq" and "validateLimitRangeSpec pq pre (Some l) = Ok ()" and "tidy_limits l"
  shows "\<exists>items. buildLimitRangeItems pq l = Ok items \<and> map li_Type items =
    (if lr_Pod l = None then [] else [''Pod'']) @ (if lr_Container l = None then [] else [''Container'']) @
    (if lr_PVC l = None then [] else [''PersistentVolumeClaim''])"
proof -
  note ok = assms(2) [unfolded validateLimitRangeSpec_def option.case run_checks_Ok]
  note b = amount_builds [OF assms(1)] bound_builds [OF assms(1)]
  let ?pod = "\<lambda>items. (case lr_Pod l of None \<Rightarrow> Ok items | Some p \<Rightarrow>
        bindR (resourceAmount pq (lp_Max p)) (\<lambda>mx. bindR (resourceAmount pq (lp_Min p)) (\<lambda>mn.
        Ok (items @ [\<lparr>li_Type = ''Pod'', li_Max = mx, li_Min = mn, li_Default = None, li_DefaultRequest = None\<rparr>]))))"
  let ?con = "\<lambda>items. (case lr_Container l of None \<Rightarrow> Ok items | Some c \<Rightarrow>
        bindR (resourceAmount pq (lc_Max c)) (\<lambda>mx. bindR (resourceAmount pq (lc_Min c)) (\<lambda>mn.
        bindR (resourceAmount pq (lc_Default c)) (\<lambda>df. bindR (resourceAmount pq (lc_DefaultRequest c)) (\<lambda>dr.
        Ok (items @ [\<lparr>li_Type = ''Container'', li_Max = mx, li_Min = mn, li_Default = df, li_DefaultRequest = dr\<rparr>]))))))"
  let ?pvc = "\<lambda>items. (case lr_PVC l of None \<Rightarrow> Ok items | Some v \<Rightarrow>
        bindR (storageBound pq (lv_Min v)) (\<lambda>mn. bindR (storageBound pq (lv_Max v)) (\<lambda>mx.
        Ok (items @ [\<lparr>li_Type = ''PersistentVolumeClaim'', li_Max = mx, li_Min = mn,
                       li_Default = None, li_DefaultRequest = None\<rparr>]))))"
  have pod: "\<exists>i. (\<forall>items. ?pod items = Ok (items @ i)) \<and> map li_Type i = (if lr_Pod l = None then [] else [''Pod''])"
  proof (cases "lr_Pod l")
    case (Some p)
    then have "\<exists>x. resourceAmount pq (lp_Max p) = Ok x" "\<exists>x. resourceAmount pq (lp_Min p) = Ok x"
      using ok assms(3) by (auto simp: tidy_limits_def intro!: b(1))
    with Some show ?thesis by auto
  qed simp
  have con: "\<exists>i. (\<forall>items. ?con items = Ok (items @ i)) \<and> map li_Type i = (if lr_Container l = None then [] else [''Container''])"
  proof (cases "lr_Container l")
    case (Some p)
    then have "\<exists>x. resourceAmount pq (lc_Max p) = Ok x" "\<exists>x. resourceAmount pq (lc_Min p) = Ok x"
        "\<exists>x. resourceAmount pq (lc_Default p) = Ok x" "\<exists>x. resourceAmount pq (lc_DefaultRequest p) = Ok x"
      using ok assms(3) by (auto simp: tidy_limits_def intro!: b(1))
    with Some show ?thesis by auto
  qed simp
  have pvc: "\<exists>i. (\<forall>items. ?pvc items = Ok (items @ i)) \<and>
      map li_Type i = (if lr_PVC l = None then [] else [''PersistentVolumeClaim''])"
  proof (cases "lr_PVC l")
    case (Some p)
    then have "\<exists>x. storageBound pq (lv_Min p) = Ok x" "\<exists>x. storageBound pq (lv_Max p) = Ok x"
      using ok assms(3) by (auto simp: tidy_limits_def intro!: b(2))
    with Some show ?thesis by auto
  qed simp
  obtain i j k where "\<And>items. ?pod items = Ok (items @ i)" "\<And>items. ?con items = Ok (items @ j)"
      "\<And>items. ?pvc items = Ok (items @ k)"
    and ty: "map li_Type (i @ j @ k) = (if lr_Pod l = None then [] else [''Pod'']) @
      (if lr_Container l = None then [] else [''Container'']) @ (if lr_PVC l = None then [] else [''PersistentVolumeClaim''])"
    using pod con pvc by (elim exE conjE) (simp only: map_append)
  then have "buildLimitRangeItems pq l = Ok (i @ j @ k)"
    unfolding buildLimitRangeItems_def by (simp only: run_steps.simps bindR_simps append_Nil append_assoc)
  with ty show ?thesis by blast
qed

theorem accepted_limits_build_witness:
  "\<exists>items. buildLimitRangeItems mem_parse (zero_LimitRangeSpec\<lparr>lr_Pod := Some \<lparr>lp_Max = Some \<lparr>ra_CPU = Some ''4'',
      ra_Memory = Some ''4gi''\<rparr>, lp_Min = None\<rparr>\<rparr>) = Ok items \<and> map li_Type items = [''Pod'']"
proof -
  let ?l = "zero_LimitRangeSpec\<lparr>lr_Pod := Some \<lparr>lp_Max = Some \<lparr>ra_CPU = Some ''4'', ra_Memory = Some ''4gi''\<rparr>, lp_Min = None\<rparr>\<rparr>"
  have v: "validateLimitRangeSpec mem_parse ''p'' (Some ?l) = Ok ()" by code_simp
  have t: "tidy_limits ?l" by code_simp
  show ?thesis using accepted_limits_build [OF mem_parse_grammar v t] by simp
qed

end
