(* ===== verification/Watches.thy ===== *)
theory Watches
  imports Controller Tshirt_Controller
begin

text \<open>
  \<^verbatim>\<open>SetupWithManager\<close> of the two controllers: what is watched, under which predicate, and to
  which requests an object is mapped.  The mapping functions are those of \<open>Controller\<close>; the
  handlers of Go take any \<^verbatim>\<open>client.Object\<close> and look at its type first.  The answer of the
  discovery call is an argument.
\<close>

section \<open>Objects of any type\<close>

datatype api_object = ObjTenant kobj | ObjResource ProjectOnboarding | ObjSize TShirtSize

datatype watched = WatchTenant kind | WatchResource | WatchSize

primrec type_of_object :: "api_object \<Rightarrow> watched" where
  "type_of_object (ObjTenant x) = WatchTenant (kind_of x)"
| "type_of_object (ObjResource po) = WatchResource"
| "type_of_object (ObjSize t) = WatchSize"

primrec object_labels :: "api_object \<Rightarrow> str_map" where
  "object_labels (ObjTenant x) = ko_labels x"
| "object_labels (ObjResource po) = om_labels (po_meta po)"
| "object_labels (ObjSize t) = om_labels (ts_meta t)"

section \<open>Handlers and predicates\<close>

definition tShirtSizeEnqueueMapper :: "'s ProjectOnboardingReconciler \<Rightarrow> api_object \<Rightarrow> ('s, request list) eff" where
  "tShirtSizeEnqueueMapper r obj = (case obj of
     ObjSize t \<Rightarrow> findProjectOnboardingsForTShirtSize (por_Client r) t | _ \<Rightarrow> retE [])"

definition managed_handler :: "api_object \<Rightarrow> ('s, request list) eff" where
  "managed_handler obj = (if \<not> IsManagedResource (object_labels obj) then retE []
     else let poName = label_at (object_labels obj) ProjectOnboardingLabelKey in
       if poName = [] then retE [] else retE [projectOnboardingRequest poName])"

definition is_managed_app_project :: "api_object \<Rightarrow> bool" where
  "is_managed_app_project obj = (case obj of ObjTenant x \<Rightarrow> isManagedAppProject x | _ \<Rightarrow> False)"

definition app_project_handler :: "api_object \<Rightarrow> ('s, request list) eff" where
  "app_project_handler obj = (if \<not> is_managed_app_project obj then retE []
     else let poName = label_at (object_labels obj) ProjectOnboardingLabelKey in
       if poName = [] then retE [] else retE [projectOnboardingRequest poName])"

definition size_handler :: "api_object \<Rightarrow> ('s, request list) eff" where
  "size_handler obj = (case obj of
     ObjResource po \<Rightarrow> retE (projectOnboardingToTShirtSizeMapper po) | _ \<Rightarrow> retE [])"

section \<open>Controllers\<close>

record 's watch =
  wa_Object :: watched
  wa_Handler :: "api_object \<Rightarrow> ('s, request list) eff"
  wa_Predicate :: "api_object \<Rightarrow> bool"

record 's controller_setup =
  cs_Named :: string
  cs_MaxConcurrentReconciles :: nat
  cs_For :: watched
  cs_Watches :: "'s watch list"

text \<open>The REST mapping of the AppProject API either works or gives an error.\<close>

definition isArgocdAppProjectAPIAvailable :: "go_error option \<Rightarrow> bool" where
  "isArgocdAppProjectAPIAvailable err \<longleftrightarrow> err = None"

definition managed_watch :: "kind \<Rightarrow> 's watch" where
  "managed_watch k = \<lparr>wa_Object = WatchTenant k, wa_Handler = managed_handler,
     wa_Predicate = (\<lambda>obj. IsManagedResource (object_labels obj))\<rparr>"

definition ProjectOnboarding_SetupWithManager ::
  "go_error option \<Rightarrow> 's ProjectOnboardingReconciler \<Rightarrow> 's controller_setup" where
  "ProjectOnboarding_SetupWithManager mappingErr r = (let
     bldr = [\<lparr>wa_Object = WatchSize, wa_Handler = tShirtSizeEnqueueMapper r, wa_Predicate = (\<lambda>obj. True)\<rparr>,
       managed_watch KNamespace, managed_watch KResourceQuota, managed_watch KLimitRange,
       managed_watch KNetworkPolicy, managed_watch KRoleBinding];
     bldr = (if isArgocdAppProjectAPIAvailable mappingErr
       then bldr @ [\<lparr>wa_Object = WatchTenant KAppProject, wa_Handler = app_project_handler,
              wa_Predicate = is_managed_app_project\<rparr>]
       else bldr)
   in \<lparr>cs_Named = ''projectonboarding'', cs_MaxConcurrentReconciles = 2, cs_For = WatchResource, cs_Watches = bldr\<rparr>)"

definition TShirtSize_SetupWithManager :: "'s TShirtSizeReconciler \<Rightarrow> 's controller_setup" where
  "TShirtSize_SetupWithManager r =
     \<lparr>cs_Named = ''tshirtsize'', cs_MaxConcurrentReconciles = 2, cs_For = WatchSize,
      cs_Watches = [\<lparr>wa_Object = WatchResource, wa_Handler = size_handler, wa_Predicate = (\<lambda>obj. True)\<rparr>]\<rparr>"

text \<open>What the watches of a controller map an object to: those on its type whose predicate holds.\<close>

fun mapped :: "'s watch list \<Rightarrow> api_object \<Rightarrow> ('s, request list) eff" where
  "mapped [] obj = retE []"
| "mapped (w # ws) obj = bindE (if wa_Object w = type_of_object obj \<and> wa_Predicate w obj then wa_Handler w obj else retE [])
     (\<lambda>reqs. bindE (mapped ws obj) (\<lambda>rest. retE (reqs @ rest)))"

section \<open>Routing\<close>

text \<open>The kinds that a reconciliation writes and a controller with or without AppProjects watches.\<close>

definition watched_kinds :: "go_error option \<Rightarrow> kind set" where
  "watched_kinds mappingErr = {KNamespace, KResourceQuota, KLimitRange, KNetworkPolicy, KRoleBinding} \<union>
     (if mappingErr = None then {KAppProject} else {})"

lemma managed_handler_mapper: "managed_handler (ObjTenant x) = retE (managedResourceEnqueueMapper x)"
  by (simp add: managed_handler_def managedResourceEnqueueMapper_def Let_def)

lemma app_project_handler_mapper: "app_project_handler (ObjTenant x) = retE (appProjectEnqueueMapper x)"
  by (simp add: app_project_handler_def appProjectEnqueueMapper_def is_managed_app_project_def Let_def)

lemma managed_watch_simps [simp]:
  "wa_Object (managed_watch k) = WatchTenant k" "wa_Handler (managed_watch k) = managed_handler"
  "wa_Predicate (managed_watch k) obj = IsManagedResource (object_labels obj)"
  by (simp_all add: managed_watch_def)

lemma mapped_tenant:
  "mapped (cs_Watches (ProjectOnboarding_SetupWithManager mappingErr r)) (ObjTenant x) =
     retE (if kind_of x \<in> watched_kinds mappingErr then managedResourceEnqueueMapper x else [])"
  by (auto simp: ProjectOnboarding_SetupWithManager_def Let_def watched_kinds_def isArgocdAppProjectAPIAvailable_def
      managed_handler_mapper app_project_handler_mapper is_managed_app_project_def isManagedAppProject_def
      managedResourceEnqueueMapper_def appProjectEnqueueMapper_def)

lemma mapped_size:
  "mapped (cs_Watches (ProjectOnboarding_SetupWithManager mappingErr r)) (ObjSize t) =
     findProjectOnboardingsForTShirtSize (por_Client r) t"
  by (simp add: ProjectOnboarding_SetupWithManager_def Let_def tShirtSizeEnqueueMapper_def)

lemma mapped_resource: "mapped (cs_Watches (TShirtSize_SetupWithManager r)) (ObjResource po) =
    retE (projectOnboardingToTShirtSizeMapper po)"
  by (simp add: TShirtSize_SetupWithManager_def size_handler_def)

end
