(* ===== verification/Helpers_Correct.thy ===== *)
theory Helpers_Correct
  imports Mem_Cluster Watches
begin

text \<open>
  Properties of the helpers: conditions and messages of a status, retries after
  failures, quantity spelling, the labels of a tenant Namespace, and the mapping between objects,
  catalogue entries and the requests that the watches enqueue.
\<close>

section \<open>Status conditions\<close>

text \<open>
  C33: Setting a condition keeps at most one condition per type, gives the type the new status,
  reason and message, leaves the conditions of other types as they were and in their order,
  and setting it again, at any later time, changes nothing (not even the transition time).
\<close>

theorem set_condition_correct:
  assumes "distinct (map con_Type cs)"
  shows "distinct (map con_Type (SetCondition now cs t st rs msg)) \<and>
    (\<exists>!c. c \<in> set (SetCondition now cs t st rs msg) \<and> con_Type c = t) \<and>
    (\<exists>c \<in> set (SetCondition now cs t st rs msg). con_Type c = t \<and> con_Status c = st \<and> con_Reason c = rs \<and> con_Message c = msg) \<and>
    filter (\<lambda>c. con_Type c \<noteq> t) (SetCondition now cs t st rs msg) = filter (\<lambda>c. con_Type c \<noteq> t) cs \<and>
    SetCondition now' (SetCondition now cs t st rs msg) t st rs msg = SetCondition now cs t st rs msg"
proof -
  note d = SetCondition_keeps_distinct [OF assms, of now t st rs msg]
  from SetCondition_set [of now cs t st rs msg] obtain c where
    "c \<in> set (SetCondition now cs t st rs msg)" "con_Type c = t" by blast
  with d have "\<exists>!c. c \<in> set (SetCondition now cs t st rs msg) \<and> con_Type c = t"
    by (metis (mono_tags, lifting) distinct_map inj_on_def)
  with d show ?thesis by (simp add: SetCondition_set SetCondition_others SetCondition_again)
qed

theorem set_condition_correct_witness:
  "\<exists>!c. c \<in> set (SetCondition 5 [\<lparr>con_Type = ''Ready'', con_Status = ''False'', con_Reason = ''R'', con_Message = ''m'',
      con_LastTransitionTime = 1\<rparr>] ConditionDeletionBlocked ''True'' ''AwaitingOffboard'' ''x'') \<and> con_Type c = ConditionDeletionBlocked"
  by (rule set_condition_correct [THEN conjunct2, THEN conjunct1]) simp

section \<open>Retries\<close>

text \<open>The reasons of the API server that are worth a quiet retry.\<close>

definition retry_reasons :: "status_reason set" where
  "retry_reasons = {ReasonConflict, ReasonTimeout, ReasonServerTimeout, ReasonTooManyRequests,
     ReasonServiceUnavailable, ReasonInternalError}"

text \<open>
  What a run may return: an error that is not worth a quiet retry, or no error and one of three
  results: done, again at once, again after 30 seconds.
\<close>

definition sound_outcome :: "reconcile_outcome \<Rightarrow> bool" where
  "sound_outcome out \<longleftrightarrow> (case snd out of
     Some e \<Rightarrow> reason_of e \<notin> Some ` retry_reasons
   | None \<Rightarrow> fst out \<in> {zero_ctrl_result, zero_ctrl_result\<lparr>cr_Requeue := True\<rparr>,
       zero_ctrl_result\<lparr>cr_RequeueAfter := 30 * time_Second\<rparr>})"

lemma ReconcileResultForError_sound [simp]: "sound_outcome (ReconcileResultForError err)"
  by (auto simp: sound_outcome_def ReconcileResultForError_def IsTransientError_def retry_reasons_def RequeueAfterTransient_def)

lemma results_sound [simp]:
  "sound_outcome (zero_ctrl_result, None)" "sound_outcome (zero_ctrl_result\<lparr>cr_Requeue := True\<rparr>, None)"
  "sound_outcome (zero_ctrl_result\<lparr>cr_RequeueAfter := 30 * time_Second\<rparr>, None)"
  by (simp_all add: sound_outcome_def)













section \<open>Quantities and messages\<close>

lemma NormalizeQuantity_hd: "NormalizeQuantity s \<noteq> [] \<Longrightarrow> hd (NormalizeQuantity s) \<in> {hd s, CHR ''G'', CHR ''M''}"
  by (induction s rule: NormalizeQuantity.induct) auto

definition misspelt :: "char \<Rightarrow> char \<Rightarrow> bool" where
  "misspelt x y \<longleftrightarrow> (x = CHR ''g'' \<or> x = CHR ''m'') \<and> y = CHR ''i'' \<or> (x = CHR ''G'' \<or> x = CHR ''M'') \<and> y = CHR ''I''"

fun no_misspelt :: "string \<Rightarrow> bool" where
  "no_misspelt (x # y # s) = (\<not> misspelt x y \<and> no_misspelt (y # s))"
| "no_misspelt s = True"

lemma no_misspelt_Cons: "no_misspelt (x # s) \<longleftrightarrow> (s \<noteq> [] \<longrightarrow> \<not> misspelt x (hd s)) \<and> no_misspelt s"
  by (cases s) auto

lemma NormalizeQuantity_clean: "no_misspelt (NormalizeQuantity s)"
proof (induction s rule: NormalizeQuantity.induct)
  case (1 c d cs)
  have "\<not> misspelt CHR ''i'' y" for y by (simp add: misspelt_def)
  moreover have "\<not> misspelt c (hd (NormalizeQuantity (d # cs)))" if "\<not> misspelt c d"
    using that NormalizeQuantity_hd [of "d # cs"] by (auto simp: misspelt_def)
  ultimately show ?case using 1 by (auto simp: no_misspelt_Cons misspelt_def)
qed auto

lemma NormalizeQuantity_id: "no_misspelt s \<Longrightarrow> NormalizeQuantity s = s"
  by (induction s rule: NormalizeQuantity.induct) (auto simp: misspelt_def)

text \<open>
  After normalisation no misspelt binary suffix is left, the text has its old length, a
  text without one is left alone, and normalising again changes nothing.
\<close>

theorem normalize_quantity_correct:
  "no_misspelt (NormalizeQuantity s) \<and> length (NormalizeQuantity s) = length s \<and>
   (no_misspelt s \<longleftrightarrow> NormalizeQuantity s = s) \<and> NormalizeQuantity (NormalizeQuantity s) = NormalizeQuantity s"
  using NormalizeQuantity_clean NormalizeQuantity_id by (metis NormalizeQuantity_length)

text \<open>
  A status message never exceeds the limit of the CRD; one that fits is kept, a longer
  one keeps its beginning.
\<close>

lemma truncate_bounds:
  "length (TruncateStatusMessage m) \<le> maxStatusMessageLen \<and>
   (TruncateStatusMessage m = m \<longleftrightarrow> length m \<le> maxStatusMessageLen) \<and>
   prefix (take (maxStatusMessageLen - 3) m) (TruncateStatusMessage m)"
proof (cases "length m \<le> maxStatusMessageLen")
  case True
  then show ?thesis by (simp add: TruncateStatusMessage_def take_is_prefix)
next
  case False
  then have "length (TruncateStatusMessage m) = maxStatusMessageLen"
    by (simp add: TruncateStatusMessage_def maxStatusMessageLen_def)
  moreover from this False have "TruncateStatusMessage m \<noteq> m" by auto
  moreover have "prefix (take (maxStatusMessageLen - 3) m) (TruncateStatusMessage m)"
    using False by (simp add: TruncateStatusMessage_def)
  ultimately show ?thesis using False by simp
qed

section \<open>The labels of a tenant Namespace\<close>

text \<open>The label keys that the user of an entry sets.\<close>

definition user_keys :: "NamespaceSpec \<Rightarrow> string set" where
  "user_keys ns = dom (ns_Labels ns) \<union>
     (case ns_AdditionalSettings ns of None \<Rightarrow> {} | Some st \<Rightarrow> nl_Key ` set (as_AdditionalLabels st))"

definition managed_keys :: "string list" where
  "managed_keys = [ProjectOnboardingManagedByKey, ProjectOnboardingLabelKey, ProjectOnboardingNamespaceKey]"

definition operator_keys :: "string list" where
  "operator_keys = [userMonitoringLabel, podSecurityAuditLabel, podSecurityWarnLabel, podSecurityEnforceLabel,
     ''namespace-size'', ''env'', ArgoCDManagedByLabel]"

lemma operator_keys_apart: "set managed_keys \<inter> set operator_keys = {}" "distinct operator_keys"
  by (simp_all add: managed_keys_def operator_keys_def userMonitoringLabel_def podSecurityAuditLabel_def
      podSecurityWarnLabel_def podSecurityEnforceLabel_def ProjectOnboardingManagedByKey_def
      ProjectOnboardingLabelKey_def ProjectOnboardingNamespaceKey_def ArgoCDManagedByLabel_def)

lemma custom_labels:
  "k \<notin> nl_Key ` set ls \<Longrightarrow>
   foldl (\<lambda>ls label. if nl_Key label = [] then ls else ls(nl_Key label \<mapsto> nl_Value label)) m ls k = m k"
  by (induction ls arbitrary: m) auto

lemma monitoring_other: "k \<noteq> userMonitoringLabel \<Longrightarrow> ApplyUserMonitoringLabel m st k = m k"
  by (auto simp: ApplyUserMonitoringLabel_def split: option.split)

lemma additional_other:
  assumes "k \<notin> set operator_keys" and "k \<notin> (case st of None \<Rightarrow> {} | Some a \<Rightarrow> nl_Key ` set (as_AdditionalLabels a))"
  shows "ApplyAdditionalSettingsLabels m st k = m k"
  using assms by (cases st)
    (auto simp: ApplyAdditionalSettingsLabels_def monitoring_other operator_keys_def set_label_if_def custom_labels Let_def)

lemma desired_other:
  assumes "k \<notin> set operator_keys" and "k \<notin> user_keys ns"
  shows "desired_namespace_labels po ns n labels k = labels k"
proof -
  have "ns_Labels ns k = None" using assms(2) by (auto simp: user_keys_def)
  then have "(labels ++ ns_Labels ns) k = labels k" by (simp add: map_add_def)
  moreover have "k \<notin> (case ns_AdditionalSettings ns of None \<Rightarrow> {} | Some a \<Rightarrow> nl_Key ` set (as_AdditionalLabels a))"
    using assms(2) by (simp add: user_keys_def)
  moreover have "k \<noteq> ''namespace-size''" "k \<noteq> ''env''" "k \<noteq> ArgoCDManagedByLabel"
    using assms(1) by (auto simp: operator_keys_def)
  ultimately show ?thesis
    using additional_other [OF assms(1)] by (simp add: desired_namespace_labels_def Let_def)
qed

text \<open>
  A Namespace whose entry does not use the operator's own label keys is recognised as the
  resource's: the desired labels carry the management, owner and tenant labels, and the watch
  maps the Namespace back to exactly this resource.
\<close>

theorem desired_labels_managed:
  assumes "user_keys ns \<inter> set managed_keys = {}" and "po_Name po \<noteq> []"
    and "ko_labels obj = desired_namespace_labels po ns n (ManagedLabels po ns)"
  shows "isManagedByProjectOnboarding (ko_labels obj) po \<and>
    label_at (ko_labels obj) ProjectOnboardingNamespaceKey = ns_Name ns \<and>
    managedResourceEnqueueMapper obj = [po_Name po]"
proof -
  have l: "label_at (ko_labels obj) k = label_at (ManagedLabels po ns) k" if "k \<in> set managed_keys" for k
    unfolding assms(3) label_at_def
    by (subst desired_other) (use that assms(1) operator_keys_apart(1) in auto)
  then have "label_at (ko_labels obj) ProjectOnboardingManagedByKey = ProjectOnboardingManagedByVal"
    "label_at (ko_labels obj) ProjectOnboardingLabelKey = po_Name po"
    "label_at (ko_labels obj) ProjectOnboardingNamespaceKey = ns_Name ns"
    by (simp_all add: managed_keys_def)
  then show ?thesis
    using assms(2) by (simp add: isManagedByProjectOnboarding_def managedResourceEnqueueMapper_def IsManagedResource_def
        projectOnboardingRequest_def)
qed

text \<open>
  C40: The additional labels of an entry are applied after the operator's: an entry may replace
  the owner label, and then the operator does not recognise its own Namespace any more.
\<close>

theorem additional_label_disowns:
  assumes "ns_AdditionalSettings ns = Some st"
    and "as_AdditionalLabels st = [\<lparr>nl_Key = ProjectOnboardingLabelKey, nl_Value = v\<rparr>]" and "v \<noteq> po_Name po"
  shows "\<not> isManagedByProjectOnboarding (desired_namespace_labels po ns n (ManagedLabels po ns)) po"
proof -
  have "ProjectOnboardingLabelKey \<notin> set operator_keys"
    using operator_keys_apart(1) by (auto simp: managed_keys_def)
  then have ne: "ProjectOnboardingLabelKey \<noteq> k" if "k \<in> set operator_keys" for k using that by auto
  have a: "ApplyAdditionalSettingsLabels m (Some st) ProjectOnboardingLabelKey = Some v" for m
    using assms(2) ne by (simp add: ApplyAdditionalSettingsLabels_def Let_def monitoring_other set_label_if_def
        operator_keys_def, simp add: ProjectOnboardingLabelKey_def)
  have "desired_namespace_labels po ns n (ManagedLabels po ns) ProjectOnboardingLabelKey = Some v"
    using a ne assms(1) by (simp add: desired_namespace_labels_def Let_def operator_keys_def)
  then show ?thesis using assms(3) by (simp add: isManagedByProjectOnboarding_def label_at_def)
qed

theorem additional_label_disowns_witness:
  "\<not> isManagedByProjectOnboarding (desired_namespace_labels ex_po (ex_min\<lparr>ns_AdditionalSettings := Some
     \<lparr>as_PodSecurityEnforce = [], as_PodSecurityWarn = [], as_PodSecurityAudit = [], as_EnableClusterMonitoring = None,
      as_AdditionalLabels = [\<lparr>nl_Key = ProjectOnboardingLabelKey, nl_Value = ''other''\<rparr>]\<rparr>\<rparr>) ''a''
     (ManagedLabels ex_po ex_min)) ex_po"
proof -
  let ?ns = "ex_min\<lparr>ns_AdditionalSettings := Some
     \<lparr>as_PodSecurityEnforce = [], as_PodSecurityWarn = [], as_PodSecurityAudit = [], as_EnableClusterMonitoring = None,
      as_AdditionalLabels = [\<lparr>nl_Key = ProjectOnboardingLabelKey, nl_Value = ''other''\<rparr>]\<rparr>\<rparr>"
  have "ManagedLabels ex_po ?ns = ManagedLabels ex_po ex_min" by (simp add: ManagedLabels_def)
  with additional_label_disowns [of ?ns _ "''other''" ex_po "''a''"] show ?thesis
    by (simp add: ex_po_def)
qed

lemma monitoring_set:
  "ApplyUserMonitoringLabel m st userMonitoringLabel =
     Some (if (case st of None \<Rightarrow> True | Some a \<Rightarrow> IsDefaultTrue (as_EnableClusterMonitoring a)) then ''true'' else ''false'')"
  by (auto simp: ApplyUserMonitoringLabel_def IsDefaultTrue_def split: option.split)

lemma additional_monitoring:
  "ApplyAdditionalSettingsLabels m st userMonitoringLabel =
     Some (if (case st of None \<Rightarrow> True | Some a \<Rightarrow> IsDefaultTrue (as_EnableClusterMonitoring a)) then ''true'' else ''false'')"
  by (cases st) (simp_all add: ApplyAdditionalSettingsLabels_def monitoring_set Let_def)

text \<open>
  The labels that the operator computes win over those of the user: user workload
  monitoring is always stated and on unless switched off, and the size, the egress and the
  Argo CD label have the operator's value whenever the entry has a size, enabled egress IPs or
  a GitOps namespace.
\<close>

lemma operator_labels_win:
  "desired_namespace_labels po ns n labels userMonitoringLabel =
     Some (if (case ns_AdditionalSettings ns of None \<Rightarrow> True | Some a \<Rightarrow> IsDefaultTrue (as_EnableClusterMonitoring a))
           then ''true'' else ''false'') \<and>
   (ns_ProjectSize ns = [] \<or> desired_namespace_labels po ns n labels ''namespace-size'' = Some (ns_ProjectSize ns)) \<and>
   (block_disabled eip_Enabled IsOptInEnabled (ns_EgressIPs ns) \<or> desired_namespace_labels po ns n labels ''env'' = Some n) \<and>
   (ResolveApplicationGitOpsNamespace po ns = [] \<or>
      desired_namespace_labels po ns n labels ArgoCDManagedByLabel = Some (ResolveApplicationGitOpsNamespace po ns))"
  by (auto simp: desired_namespace_labels_def Let_def additional_monitoring gitOpsManagedByLabel_def
      userMonitoringLabel_def ArgoCDManagedByLabel_def block_disabled_def split: option.splits)
    (auto simp: additional_monitoring [unfolded userMonitoringLabel_def])

section \<open>Watches\<close>

text \<open>
  C34: An object of a tenant is mapped by the registered watches to exactly the resource whose
  labels it carries, once, if it is a Namespace, quota, limit range, policy, RoleBinding or,
  with the API installed at start, an AppProject; Groups and EgressIPs are mapped to nothing,
  although reconciliation writes them.  An object labelled for an entry maps back to its
  resource.
\<close>

theorem managed_watch_exact:
  "mapped (cs_Watches (ProjectOnboarding_SetupWithManager mappingErr r)) (ObjTenant obj) s =
     (Ok (let n = label_at (ko_labels obj) ProjectOnboardingLabelKey in
        if n \<noteq> [] \<and> label_at (ko_labels obj) ProjectOnboardingManagedByKey = ProjectOnboardingManagedByVal \<and>
           (kind_of obj \<in> {KNamespace, KResourceQuota, KLimitRange, KNetworkPolicy, KRoleBinding} \<or>
            kind_of obj = KAppProject \<and> isArgocdAppProjectAPIAvailable mappingErr)
        then [n] else []), s) \<and>
   (kind_of obj \<in> {KGroup, KEgressIP} \<longrightarrow>
      mapped (cs_Watches (ProjectOnboarding_SetupWithManager mappingErr r)) (ObjTenant obj) = retE []) \<and>
   managedResourceEnqueueMapper (new_object nsName name (ManagedLabels po ns) p) = (if po_Name po = [] then [] else [po_Name po]) \<and>
   managedResourceEnqueueMapper (new_object nsName name (project_labels po tenant (ManagedLabels po ns)) p) =
     (if po_Name po = [] then [] else [po_Name po])"
  unfolding mapped_tenant
  by (auto simp: managedResourceEnqueueMapper_def IsManagedResource_def watched_kinds_def isArgocdAppProjectAPIAvailable_def
      projectOnboardingRequest_def project_labels_def ManagedLabels_def label_at_def Let_def run_retE)

theorem managed_watch_exact_witness:
  "mapped (cs_Watches (ProjectOnboarding_SetupWithManager None mem_reconciler))
     (ObjTenant (new_object [] ''g'' (ManagedLabels ex_po ex_min) (PGroup []))) = retE []"
  using managed_watch_exact [of None mem_reconciler "new_object [] ''g'' (ManagedLabels ex_po ex_min) (PGroup [])"]
  by simp

lemma references_size_iff: "references_size nss n \<longleftrightarrow> n \<in> ns_ProjectSize ` set nss"
  by (induction nss) auto

lemma distinct_sizes_spec:
  "set (distinct_sizes seen nss) = (ns_ProjectSize ` set nss) - {[]} - set seen \<and> distinct (distinct_sizes seen nss)"
  by (induction seen nss rule: distinct_sizes.induct) auto

text \<open>
  C36: The two watches between resources and catalogue entries agree: a resource is mapped to
  each catalogue entry it names exactly once, and a catalogue entry to exactly the listed
  resources that name it.
\<close>

theorem size_watches_agree:
  assumes "cl_ListPO (por_Client r) s = (Ok pos, s')" and "ts_Name tshirt \<noteq> []"
  shows "\<exists>sizes. (\<forall>po. mapped (cs_Watches (TShirtSize_SetupWithManager tr)) (ObjResource po) = retE (sizes po) \<and> distinct (sizes po)) \<and>
    mapped (cs_Watches (ProjectOnboarding_SetupWithManager mappingErr r)) (ObjSize tshirt) s =
      (Ok (map po_Name (filter (\<lambda>po. ts_Name tshirt \<in> set (sizes po)) pos)), s')"
proof -
  have "ts_Name tshirt \<in> set (projectOnboardingToTShirtSizeMapper po) \<longleftrightarrow> references_size (po_Namespaces po) (ts_Name tshirt)" for po
    using distinct_sizes_spec [of "[]" "po_Namespaces po"] assms(2)
    by (auto simp: projectOnboardingToTShirtSizeMapper_def references_size_iff)
  then have "findProjectOnboardingsForTShirtSize (por_Client r) tshirt s =
      (Ok (map po_Name (filter (\<lambda>po. ts_Name tshirt \<in> set (projectOnboardingToTShirtSizeMapper po)) pos)), s')"
    using assms(1) by (simp add: findProjectOnboardingsForTShirtSize_def eff_run projectOnboardingRequest_def)
  moreover have "distinct (projectOnboardingToTShirtSizeMapper po)" for po
    using distinct_sizes_spec by (simp add: projectOnboardingToTShirtSizeMapper_def)
  ultimately show ?thesis unfolding mapped_resource mapped_size by blast
qed

theorem size_watches_agree_witness:
  "\<exists>pos. mapped (cs_Watches (ProjectOnboarding_SetupWithManager None mem_reconciler)) (ObjSize ex_size) ex_world = (Ok pos, ex_world)"
proof -
  have "cl_ListPO (por_Client mem_reconciler) ex_world = (Ok [ex_po], ex_world)"
    by (simp add: mem_client_def faulty_def ex_world_def empty_world_def)
  from size_watches_agree [OF this, of ex_size "\<lparr>tsr_Client = mem_client, tsr_Recorder = None\<rparr>" None] show ?thesis
    by (auto simp: ex_size_def)
qed

section \<open>Catalogue entries in use\<close>

text \<open>
  C37: A catalogue entry can be deleted exactly when no namespace entry of any listed resource
  names it, and its status reports the number of those entries, as an \<^verbatim>\<open>int32\<close>: exact below
  2 to the 31st, wrapped around beyond.
\<close>

theorem size_references:
  assumes "cl_ListPO c s = (Ok pos, s')"
  shows "\<exists>refs. CountProjectOnboardingReferences c (ts_Name tshirt) s = (Ok refs, s') \<and>
    refs = length (filter (\<lambda>ns. ns_ProjectSize ns = ts_Name tshirt) (concat (map po_Namespaces pos))) \<and>
    (fst (ValidateTShirtSizeDelete c tshirt s) = Ok () \<longleftrightarrow>
       (\<forall>po \<in> set pos. \<forall>ns \<in> set (po_Namespaces po). ns_ProjectSize ns \<noteq> ts_Name tshirt)) \<and>
    (refs < 2 ^ 31 \<longrightarrow> sint (tst_ReferencedBy (size_status now tshirt refs)) = int refs) \<and>
    uint (tst_ReferencedBy (size_status now tshirt refs)) = int refs mod 2 ^ 32"
proof -
  define refs where "refs = length (filter (\<lambda>ns. ns_ProjectSize ns = ts_Name tshirt) (concat (map po_Namespaces pos)))"
  have run: "CountProjectOnboardingReferences c (ts_Name tshirt) s = (Ok refs, s')"
    using assms by (simp add: CountProjectOnboardingReferences_def eff_run count_refs refs_def)
  have z: "refs = 0 \<longleftrightarrow> (\<forall>po \<in> set pos. \<forall>ns \<in> set (po_Namespaces po). ns_ProjectSize ns \<noteq> ts_Name tshirt)"
    by (auto simp: refs_def filter_empty_conv)
  have d: "fst (ValidateTShirtSizeDelete c tshirt s) = Ok () \<longleftrightarrow> refs = 0"
    using run by (simp add: ValidateTShirtSizeDelete_def eff_run)
  have r: "tst_ReferencedBy (size_status now tshirt refs) = of_nat refs"
    by (simp add: size_status_def Let_def)
  have w: "sint (of_nat refs :: i32) = int refs" if "refs < 2 ^ 31"
  proof -
    have "int refs < 2 ^ 31" using that by (metis of_nat_less_iff of_nat_numeral of_nat_power)
    then show ?thesis by (simp add: signed_of_nat signed_take_bit_int_eq_self)
  qed
  have u: "uint (of_nat refs :: i32) = int refs mod 2 ^ 32"
    by (simp add: unsigned_of_nat take_bit_eq_mod zmod_int)
  show ?thesis
    using run z d r w u refs_def by (intro exI [of _ refs]) simp
qed

theorem size_references_witness:
  "fst (ValidateTShirtSizeDelete mem_client ex_size ex_world) \<noteq> Ok ()"
proof -
  have "cl_ListPO mem_client ex_world = (Ok [ex_po], ex_world)"
    by (simp add: mem_client_def faulty_def ex_world_def empty_world_def)
  from size_references [OF this, of ex_size] show ?thesis
    by (simp add: ex_po_def ex_entry_def ex_size_def)
qed

text \<open>
  C38: A run for a catalogue entry that is there makes one status update and no other change.
  It touches neither metadata nor specification, says \<^verbatim>\<open>Ready\<close> exactly if the entry defines a
  limit, in the phase and in the condition, and counts the references; a conflict of the
  update is retried at once and is no error, any other failure decides the retry by its class.
\<close>

theorem size_run_reports:
  assumes "cl_GetTS c req s = (Ok tshirt, s1)" and "cl_ListPO c s1 = (Ok pos, s2)"
    and "distinct (map con_Type (tst_Conditions (ts_Status tshirt)))"
    and "TShirtSize_Reconcile lb \<lparr>tsr_Client = logged c, tsr_Recorder = Some (logged_recorder rcd)\<rparr> req (s, []) = (Ok res, (s', calls))"
  shows "\<exists>t ty reason. calls = [CallGetTS req, CallListPO, RecordEvent ty reason, CallStatusTS t] \<and>
      (ty = EventTypeNormal \<longleftrightarrow> TShirtSizeSpecHasSizing (ts_Spec tshirt)) \<and>
      ts_meta t = ts_meta tshirt \<and> ts_Spec t = ts_Spec tshirt \<and>
      (tst_Phase (ts_Status t) = TShirtSizePhaseReady \<longleftrightarrow> TShirtSizeSpecHasSizing (ts_Spec tshirt)) \<and>
      (\<exists>con \<in> set (tst_Conditions (ts_Status t)). con_Type con = TShirtSizeConditionReady \<and>
         (con_Status con = ''True'' \<longleftrightarrow> TShirtSizeSpecHasSizing (ts_Spec tshirt))) \<and>
      distinct (map con_Type (tst_Conditions (ts_Status t))) \<and>
      tst_ReferencedBy (ts_Status t) = of_nat (length (filter (\<lambda>ns. ns_ProjectSize ns = ts_Name tshirt) (concat (map po_Namespaces pos)))) \<and>
      (res = (zero_ctrl_result, None) \<or> res = (zero_ctrl_result\<lparr>cr_Requeue := True\<rparr>, None) \<or>
       (\<exists>e. \<not> IsConflict e \<and> res = ReconcileResultForError (Some (WrapError ''update TShirtSize status: '' e))))"
proof -
  define refs where "refs = length (filter (\<lambda>ns. ns_ProjectSize ns = ts_Name tshirt) (concat (map po_Namespaces pos)))"
  define st where "st = size_status (lb_Now lb) tshirt refs"
  define ty where "ty = (if TShirtSizeSpecHasSizing (ts_Spec tshirt) then EventTypeNormal else EventTypeWarning)"
  define ev where "ev = (if TShirtSizeSpecHasSizing (ts_Spec tshirt) then ''CatalogueValid'' else ''CatalogueInvalid'')"
  let ?r = "\<lparr>tsr_Client = logged c, tsr_Recorder = Some (logged_recorder rcd)\<rparr>" and ?t = "tshirt\<lparr>ts_Status := st\<rparr>"
  have get: "cl_GetTS (logged c) req (s, []) = (Ok tshirt, (s1, [CallGetTS req]))"
    using assms(1) by (simp add: logged_def log_call_def)
  have count: "CountProjectOnboardingReferences (logged c) (ts_Name tshirt) (s1, [CallGetTS req]) =
      (Ok refs, (s2, [CallGetTS req, CallListPO]))"
    using assms(2) by (simp add: CountProjectOnboardingReferences_def eff_run count_refs logged_def log_call_def refs_def)
  obtain s3 where rec: "record_size ?r tshirt refs (s2, [CallGetTS req, CallListPO]) =
      (Ok (), (s3, [CallGetTS req, CallListPO, RecordEvent ty ev]))"
    by (cases "TShirtSizeSpecHasSizing (ts_Spec tshirt)")
      (simp_all add: record_size_def recordNormal_def recordWarning_def logged_recorder_def eff_run ty_def ev_def)
  obtain ru s4 where upd: "cl_StatusTS (logged c) ?t (s3, [CallGetTS req, CallListPO, RecordEvent ty ev]) =
      (ru, (s4, [CallGetTS req, CallListPO, RecordEvent ty ev, CallStatusTS ?t]))"
    by (cases "cl_StatusTS c ?t s3") (simp add: logged_def log_call_def)
  have run: "calls = [CallGetTS req, CallListPO, RecordEvent ty ev, CallStatusTS ?t] \<and>
      (res = (zero_ctrl_result, None) \<or> res = (zero_ctrl_result\<lparr>cr_Requeue := True\<rparr>, None) \<or>
       (\<exists>e. \<not> IsConflict e \<and> res = ReconcileResultForError (Some (WrapError ''update TShirtSize status: '' e))))"
    using assms(4) count rec get upd
    by (cases ru) (auto simp: TShirtSize_Reconcile_def Let_def run_orReturn run_thenE run_retE st_def split: if_splits)
  show ?thesis
  proof (intro exI conjI)
    show "calls = [CallGetTS req, CallListPO, RecordEvent ty ev, CallStatusTS ?t]" using run by simp
    show "(ty = EventTypeNormal) = TShirtSizeSpecHasSizing (ts_Spec tshirt)"
      by (simp add: ty_def EventTypeNormal_def EventTypeWarning_def)
    show "(tst_Phase (ts_Status ?t) = TShirtSizePhaseReady) = TShirtSizeSpecHasSizing (ts_Spec tshirt)"
      by (simp add: st_def size_status_def Let_def TShirtSizePhaseReady_def TShirtSizePhaseInvalid_def)
    show "\<exists>con \<in> set (tst_Conditions (ts_Status ?t)). con_Type con = TShirtSizeConditionReady \<and>
        (con_Status con = ''True'') = TShirtSizeSpecHasSizing (ts_Spec tshirt)"
    proof (cases "TShirtSizeSpecHasSizing (ts_Spec tshirt)")
      case True
      then obtain msg rs where "tst_Conditions st = SetCondition (lb_Now lb) (tst_Conditions (ts_Status tshirt)) TShirtSizeConditionReady ''True'' rs msg"
        by (simp add: st_def size_status_def Let_def)
      with True show ?thesis
        using SetCondition_set [of "lb_Now lb" "tst_Conditions (ts_Status tshirt)" TShirtSizeConditionReady "''True''" rs msg] by auto
    next
      case False
      then obtain msg rs where "tst_Conditions st = SetCondition (lb_Now lb) (tst_Conditions (ts_Status tshirt)) TShirtSizeConditionReady ''False'' rs msg"
        by (simp add: st_def size_status_def Let_def)
      with False show ?thesis
        using SetCondition_set [of "lb_Now lb" "tst_Conditions (ts_Status tshirt)" TShirtSizeConditionReady "''False''" rs msg] by auto
    qed
    show "distinct (map con_Type (tst_Conditions (ts_Status ?t)))"
      using SetCondition_keeps_distinct [OF assms(3)] by (simp add: st_def size_status_def Let_def)
    show "tst_ReferencedBy (ts_Status ?t) = of_nat (length (filter (\<lambda>ns. ns_ProjectSize ns = ts_Name tshirt) (concat (map po_Namespaces pos))))"
      by (simp add: st_def size_status_def Let_def refs_def)
    show "res = (zero_ctrl_result, None) \<or> res = (zero_ctrl_result\<lparr>cr_Requeue := True\<rparr>, None) \<or>
       (\<exists>e. \<not> IsConflict e \<and> res = ReconcileResultForError (Some (WrapError ''update TShirtSize status: '' e)))" using run by simp
  qed simp_all
qed

theorem size_run_reports_witness:
  "\<exists>res s' t ev. TShirtSize_Reconcile mem_libs \<lparr>tsr_Client = logged mem_client, tsr_Recorder = Some (logged_recorder mem_recorder)\<rparr>
      ''small'' (ex_world, []) = (Ok res, (s', [CallGetTS ''small'', CallListPO, RecordEvent EventTypeNormal ev, CallStatusTS t])) \<and>
    tst_Phase (ts_Status t) = TShirtSizePhaseReady \<and> tst_ReferencedBy (ts_Status t) = 1"
proof -
  let ?run = "TShirtSize_Reconcile mem_libs \<lparr>tsr_Client = logged mem_client, tsr_Recorder = Some (logged_recorder mem_recorder)\<rparr> ''small''"
  have get: "cl_GetTS mem_client ''small'' ex_world = (Ok ex_size, ex_world)"
    by (simp add: mem_client_def faulty_def ex_world_def empty_world_def ex_size_def)
  have list: "cl_ListPO mem_client ex_world = (Ok [ex_po], ex_world)"
    by (simp add: mem_client_def faulty_def ex_world_def empty_world_def)
  have d: "distinct (map con_Type (tst_Conditions (ts_Status ex_size)))"
    by (simp add: ex_size_def zero_TShirtSizeStatus_def)
  have "succeeds ?run (ex_world, [])" by code_simp
  then obtain res s' calls where run: "?run (ex_world, []) = (Ok res, (s', calls))" by (metis succeedsE prod.collapse)
  have "TShirtSizeSpecHasSizing (ts_Spec ex_size)" by code_simp
  moreover have "length (filter (\<lambda>ns. ns_ProjectSize ns = ts_Name ex_size) (concat (map po_Namespaces [ex_po]))) = 1" by code_simp
  ultimately show ?thesis using size_run_reports [OF get list d run] run by fastforce
qed

section \<open>Names of tenants\<close>

text \<open>
  C24: A resource that the webhook admits, with names as the CRD pattern allows them, names its
  tenants apart: no two entries share a Namespace (nor therefore its quota, its policies or
  its egress IP), and the Namespace is the one the entry names.
\<close>

theorem admitted_names_apart:
  assumes "fst (ValidateProjectOnboarding lb c po s) = Ok ()"
    and "\<forall>ns \<in> set (po_Namespaces po). ns_Name ns \<noteq> [] \<and> is_trimmed (ns_Name ns) \<and> CHR ''_'' \<notin> set (ns_Name ns)"
  shows "distinct (namespaceNamesInSpec po) \<and> namespaceNamesInSpec po = map ns_Name (po_Namespaces po)"
proof -
  have "validateUniqueNamespaceNames (po_Namespaces po) = Ok ()"
    using assms(1) by (auto simp: ValidateProjectOnboarding_def eff_run split: result.splits)
  then have d: "distinct (entry_names (po_Namespaces po))"
    by (simp add: validateUniqueNamespaceNames_def unique_names_Ok)
  have e: "map (\<lambda>ns. trim_space (ns_Name ns)) (po_Namespaces po) = map ns_Name (po_Namespaces po)"
    using assms(2) by (auto simp: is_trimmed_def)
  have "filter (\<lambda>n. n \<noteq> []) (map ns_Name (po_Namespaces po)) = map ns_Name (po_Namespaces po)"
    using assms(2) by (auto simp: filter_id_conv)
  with d e have "distinct (map ns_Name (po_Namespaces po))" by simp
  moreover have "namespaceNamesInSpec po = map ns_Name (po_Namespaces po)"
    unfolding namespaceNamesInSpec_def using assms(2) by (simp add: SanitizeName_id)
  ultimately show ?thesis by simp
qed

theorem admitted_names_apart_witness:
  "distinct (namespaceNamesInSpec (ex_po\<lparr>po_Spec := \<lparr>ps_GitOps = None, ps_Namespaces = [ex_min, ex_off]\<rparr>\<rparr>))"
proof (rule admitted_names_apart [THEN conjunct1])
  let ?po = "ex_po\<lparr>po_Spec := \<lparr>ps_GitOps = None, ps_Namespaces = [ex_min, ex_off]\<rparr>\<rparr>"
  have "succeeds (ValidateProjectOnboarding mem_libs mem_client ?po) ex_world" by code_simp
  then show "fst (ValidateProjectOnboarding mem_libs mem_client ?po ex_world) = Ok ()"
    by (rule succeedsE) simp
  show "\<forall>ns \<in> set (po_Namespaces ?po). ns_Name ns \<noteq> [] \<and> is_trimmed (ns_Name ns) \<and> CHR ''_'' \<notin> set (ns_Name ns)"
    by code_simp
qed

end
