(* ===== verification/Policy_Correct.thy ===== *)
theory Policy_Correct
  imports Mem_Cluster
begin

text \<open>
  Properties of the NetworkPolicies and of the Argo CD configuration that an entry produces.
\<close>

section \<open>NetworkPolicies\<close>

text \<open>The policies that a reconciliation of the entry writes.\<close>

definition written_policies :: "NamespaceSpec \<Rightarrow> string \<Rightarrow> str_map \<Rightarrow> network_policy list" where
  "written_policies nsSpec nsName labels = defaultNetworkPolicies nsSpec nsName labels @
     map (\<lambda>p. buildCustomNetworkPolicy p nsName labels) (filter (\<lambda>p. IsEnabled (cnp_Active p)) (ns_NetworkPolicies nsSpec))"

text \<open>
  C22: What a reconciliation writes is what pruning keeps: the policies written are applied one
  by one, in this order, and their names are exactly the names that the pruning step of the
  same run does not delete; each is labelled as managed and lies in the tenant Namespace.
\<close>

theorem written_policies_kept:
  "thenE (reconcileDefaultNetworkPolicies c sch t nsSpec nsName labels)
         (reconcileCustomNetworkPolicies c sch t nsSpec nsName labels) =
     forE (written_policies nsSpec nsName labels) (\<lambda>p. apply_tenant_object c sch t labels (policy_object p)) \<and>
   map pol_Name (written_policies nsSpec nsName labels) = desiredNetworkPolicyNames nsSpec nsName labels \<and>
   (\<forall>p \<in> set (written_policies nsSpec nsName labels). pol_Labels p = labels \<and> pol_Namespace p = nsName)"
proof -
  have "reconcileCustomNetworkPolicies c sch t nsSpec nsName labels =
      forE (filter (\<lambda>p. IsEnabled (cnp_Active p)) (ns_NetworkPolicies nsSpec))
        (\<lambda>p. apply_tenant_object c sch t labels (policy_object (buildCustomNetworkPolicy p nsName labels)))"
    unfolding forE_filter reconcileCustomNetworkPolicies_def
    by (rule arg_cong [where f = "forE (ns_NetworkPolicies nsSpec)"]) auto
  then have "thenE (reconcileDefaultNetworkPolicies c sch t nsSpec nsName labels)
         (reconcileCustomNetworkPolicies c sch t nsSpec nsName labels) =
     forE (written_policies nsSpec nsName labels) (\<lambda>p. apply_tenant_object c sch t labels (policy_object p))"
    by (simp only: written_policies_def forE_append forE_map reconcileDefaultNetworkPolicies_def)
  moreover have "map pol_Name (written_policies nsSpec nsName labels) = desiredNetworkPolicyNames nsSpec nsName labels"
    by (simp add: written_policies_def desiredNetworkPolicyNames_def buildCustomNetworkPolicy_def Let_def)
  ultimately show ?thesis
    by (auto simp: written_policies_def buildCustomNetworkPolicy_def Let_def dest: defaultNetworkPolicies_meta)
qed

theorem written_policies_kept_witness:
  "map pol_Name (written_policies (ex_min\<lparr>ns_NetworkPolicies := [\<lparr>cnp_Name = ''a_b'', cnp_Active = None, cnp_PodSelector = None,
      cnp_IngressRules = [], cnp_EgressRules = []\<rparr>]\<rparr>) ''a'' Map.empty) = [''a-b'']"
proof -
  let ?e = "ex_min\<lparr>ns_NetworkPolicies := [\<lparr>cnp_Name = ''a_b'', cnp_Active = None, cnp_PodSelector = None,
      cnp_IngressRules = [], cnp_EgressRules = []\<rparr>]\<rparr>"
  have "map pol_Name (written_policies ?e ''a'' Map.empty) = desiredNetworkPolicyNames ?e ''a'' Map.empty"
    using written_policies_kept by blast
  also have "\<dots> = [''a-b'']"
    by (simp add: desiredNetworkPolicyNames_def ex_min_def zero_NamespaceSpec_def defaultNetworkPolicies_def SanitizeName_def)
  finally show ?thesis .
qed

text \<open>
  The standard policies have distinct names, each is there only if its switch is on, none
  is there without the block; the deny-all policies select every pod, state their direction
  and allow nothing in it, and every other standard policy has a rule to allow by.
\<close>

theorem default_policies_correct:
  "distinct (map pol_Name (defaultNetworkPolicies nsSpec nsName labels)) \<and>
   (ns_DefaultPolicies nsSpec = None \<longrightarrow> defaultNetworkPolicies nsSpec nsName labels = []) \<and>
   (\<forall>p \<in> set (defaultNetworkPolicies nsSpec nsName labels).
      np_PodSelector (pol_Spec p) = zero_LabelSelector \<and>
      (pol_Name p = ''deny-all-ingress'' \<longrightarrow> np_Ingress (pol_Spec p) = [] \<and> np_PolicyTypes (pol_Spec p) = [''Ingress'']) \<and>
      (pol_Name p = ''deny-all-egress'' \<longrightarrow> np_Egress (pol_Spec p) = [] \<and> np_PolicyTypes (pol_Spec p) = [''Egress'']) \<and>
      (pol_Name p \<notin> {''deny-all-ingress'', ''deny-all-egress''} \<longrightarrow> np_Ingress (pol_Spec p) @ np_Egress (pol_Spec p) \<noteq> [])) \<and>
   (\<forall>d. ns_DefaultPolicies nsSpec = Some d \<longrightarrow>
      (''deny-all-ingress'' \<in> pol_Name ` set (defaultNetworkPolicies nsSpec nsName labels) \<longleftrightarrow> dp_DenyAllIngress d = Some True) \<and>
      (''deny-all-egress'' \<in> pol_Name ` set (defaultNetworkPolicies nsSpec nsName labels) \<longleftrightarrow> dp_DenyAllEgress d = Some True))"
proof (cases "ns_DefaultPolicies nsSpec")
  case None
  then show ?thesis by (simp add: defaultNetworkPolicies_def)
next
  case (Some d)
  have opt: "IsOptInEnabled x \<longleftrightarrow> x = Some True" for x by (cases x) auto
  have "distinct (map pol_Name (defaultNetworkPolicies nsSpec nsName labels))"
    unfolding defaultNetworkPolicies_names Some option.case if_opted_def by simp
  moreover have "''deny-all-ingress'' \<in> pol_Name ` set (defaultNetworkPolicies nsSpec nsName labels) \<longleftrightarrow> dp_DenyAllIngress d = Some True"
    unfolding set_map [symmetric] defaultNetworkPolicies_names Some option.case by (auto simp: opt)
  moreover have "''deny-all-egress'' \<in> pol_Name ` set (defaultNetworkPolicies nsSpec nsName labels) \<longleftrightarrow> dp_DenyAllEgress d = Some True"
    unfolding set_map [symmetric] defaultNetworkPolicies_names Some option.case by (auto simp: opt)
  moreover have "\<forall>p \<in> set (defaultNetworkPolicies nsSpec nsName labels).
      np_PodSelector (pol_Spec p) = zero_LabelSelector \<and>
      (pol_Name p = ''deny-all-ingress'' \<longrightarrow> np_Ingress (pol_Spec p) = [] \<and> np_PolicyTypes (pol_Spec p) = [''Ingress'']) \<and>
      (pol_Name p = ''deny-all-egress'' \<longrightarrow> np_Egress (pol_Spec p) = [] \<and> np_PolicyTypes (pol_Spec p) = [''Egress'']) \<and>
      (pol_Name p \<notin> {''deny-all-ingress'', ''deny-all-egress''} \<longrightarrow> np_Ingress (pol_Spec p) @ np_Egress (pol_Spec p) \<noteq> [])"
    unfolding defaultNetworkPolicies_def Some option.case set_append ball_Un
    by (simp add: if_opted_def zero_np_spec_def)
  ultimately show ?thesis using Some by simp
qed

text \<open>
  A custom policy has one rule for each rule of its specification, names exactly the
  directions it has rules for, and selects all pods when no selector is given.
\<close>

lemma custom_policy_correct:
  "(''Ingress'' \<in> set (np_PolicyTypes (pol_Spec (buildCustomNetworkPolicy spec n l))) \<longleftrightarrow> cnp_IngressRules spec \<noteq> []) \<and>
   (''Egress'' \<in> set (np_PolicyTypes (pol_Spec (buildCustomNetworkPolicy spec n l))) \<longleftrightarrow> cnp_EgressRules spec \<noteq> []) \<and>
   distinct (np_PolicyTypes (pol_Spec (buildCustomNetworkPolicy spec n l))) \<and>
   length (np_Ingress (pol_Spec (buildCustomNetworkPolicy spec n l))) = length (cnp_IngressRules spec) \<and>
   (\<forall>i < length (cnp_EgressRules spec). np_Egress (pol_Spec (buildCustomNetworkPolicy spec n l)) ! i = build_rule (cnp_EgressRules spec ! i)) \<and>
   (cnp_PodSelector spec = None \<longrightarrow> np_PodSelector (pol_Spec (buildCustomNetworkPolicy spec n l)) = zero_LabelSelector) \<and>
   CHR ''_'' \<notin> set (pol_Name (buildCustomNetworkPolicy spec n l))"
  by (auto simp: buildCustomNetworkPolicy_def Let_def SanitizeName_clean)

section \<open>GitOps defaults\<close>

text \<open>
  A list field of the GitOps settings of a resource, and of the cluster defaults; without
  settings it is empty.
\<close>

definition gitops_list :: "(GitOpsSpec \<Rightarrow> 'a list) \<Rightarrow> GitOpsSpec option \<Rightarrow> 'a list" where
  "gitops_list f g = (case g of None \<Rightarrow> [] | Some g \<Rightarrow> f g)"

text \<open>
  C30: The cluster defaults fill in what a resource leaves out and nothing else.  Each of the
  four lists of its GitOps settings (destinations, allowed repositories, groups and source
  namespaces) stays as it is unless it is empty, and is the one of the defaults then; the GitOps
  namespace of an entry stays as it resolves unless there is none, and is the one of the
  defaults then.  Entries, metadata and status stay, and merging twice is merging once.
\<close>

theorem cluster_defaults_correct:
  "(let before = ps_GitOps (po_Spec po); after = ps_GitOps (po_Spec (MergeClusterDefaults d po)) in
    gitops_list go_Destinations after =
      (if gitops_list go_Destinations before \<noteq> [] then gitops_list go_Destinations before else gitops_list go_Destinations d) \<and>
    gitops_list go_AllowedSourceRepos after =
      (if gitops_list go_AllowedSourceRepos before \<noteq> [] then gitops_list go_AllowedSourceRepos before
       else gitops_list go_AllowedSourceRepos d) \<and>
    gitops_list go_AllowedOIDCGroups after =
      (if gitops_list go_AllowedOIDCGroups before \<noteq> [] then gitops_list go_AllowedOIDCGroups before
       else gitops_list go_AllowedOIDCGroups d) \<and>
    gitops_list go_AllowedSourceNamespaces after =
      (if gitops_list go_AllowedSourceNamespaces before \<noteq> [] then gitops_list go_AllowedSourceNamespaces before
       else gitops_list go_AllowedSourceNamespaces d)) \<and>
    ResolveApplicationGitOpsNamespace (MergeClusterDefaults d po) ns =
      (if ResolveApplicationGitOpsNamespace po ns \<noteq> [] then ResolveApplicationGitOpsNamespace po ns
       else case d of None \<Rightarrow> [] | Some g \<Rightarrow> trim_space (go_ApplicationNamespace g)) \<and>
    po_Namespaces (MergeClusterDefaults d po) = po_Namespaces po \<and>
    po_meta (MergeClusterDefaults d po) = po_meta po \<and> po_Status (MergeClusterDefaults d po) = po_Status po \<and>
    MergeClusterDefaults d (MergeClusterDefaults d po) = MergeClusterDefaults d po"
proof -
  have "MergeClusterDefaults d (MergeClusterDefaults d po) = MergeClusterDefaults d po"
    by (cases d; cases "ps_GitOps (po_Spec po)")
      (simp_all add: MergeClusterDefaults_def mergeGitOpsDefaults_absorb mergeGitOpsDefaults_self)
  moreover have "ResolveApplicationGitOpsNamespace (MergeClusterDefaults d po) ns =
     (if ResolveApplicationGitOpsNamespace po ns \<noteq> [] then ResolveApplicationGitOpsNamespace po ns
      else case d of None \<Rightarrow> [] | Some g \<Rightarrow> trim_space (go_ApplicationNamespace g))"
    by (cases d; cases "ps_GitOps (po_Spec po)")
      (auto simp: ResolveApplicationGitOpsNamespace_def MergeClusterDefaults_def mergeGitOpsDefaults_def Let_def)
  ultimately show ?thesis
    by (cases d; cases "ps_GitOps (po_Spec po)")
      (simp_all add: gitops_list_def MergeClusterDefaults_def mergeGitOpsDefaults_def)
qed

definition ex_project :: "bool \<Rightarrow> ArgoCDProjectSpec" where
  "ex_project on = \<lparr>ac_Enabled = Some on, ac_Name = ''apps'', ac_Description = [], ac_SourceRepos = [''https://git''],
     ac_SourceNamespaces = [], ac_Destinations = [], ac_OIDCGroups = [], ac_Roles = []\<rparr>"

section \<open>Argo CD projects\<close>

text \<open>
  C23: A resource that the webhook admits is never refused by the reconciler for want of a
  GitOps namespace while one of the projects of the entry is enabled, whatever the cluster
  defaults: every enabled project is reconciled, into a namespace that is not empty.
\<close>

theorem admitted_gitops_reconciled:
  assumes "fst (ValidateProjectOnboarding lb c po s) = Ok ()" and "ns \<in> set (po_Namespaces po)"
    and "IsEnabled (ns_Enabled ns)" and "p \<in> set (ns_ArgoCDProjects ns)" and "IsOptInEnabled (ac_Enabled p)"
  shows "\<exists>argoNS. argoNS \<noteq> [] \<and>
    reconcileArgoCDProjects c' sch (MergeClusterDefaults d po) ns n labels =
      forE (filter (\<lambda>p. IsOptInEnabled (ac_Enabled p)) (ns_ArgoCDProjects ns))
        (\<lambda>p. reconcileAppProject c' sch (MergeClusterDefaults d po) p n argoNS labels)"
proof -
  have "validateGitOpsRequirements po = Ok ()"
    using assms(1) by (auto simp: ValidateProjectOnboarding_def eff_run split: result.splits)
  then have "ResolveApplicationGitOpsNamespace po ns \<noteq> []"
    using assms unfolding validateGitOpsRequirements_def gitops_requirements_Ok by blast
  then have "ResolveApplicationGitOpsNamespace (MergeClusterDefaults d po) ns \<noteq> []"
    by (cases d; cases "ps_GitOps (po_Spec po)")
      (auto simp: ResolveApplicationGitOpsNamespace_def MergeClusterDefaults_def mergeGitOpsDefaults_def Let_def split: if_splits)
  moreover have "ns_ArgoCDProjects ns \<noteq> []" using assms(4) by auto
  moreover have "(\<lambda>p. if \<not> IsOptInEnabled (ac_Enabled p) then retE ()
       else reconcileAppProject c' sch (MergeClusterDefaults d po) p n a labels) =
     (\<lambda>p. if IsOptInEnabled (ac_Enabled p)
       then reconcileAppProject c' sch (MergeClusterDefaults d po) p n a labels else retE ())" for a
    by auto
  ultimately show ?thesis
    by (intro exI [of _ "ResolveApplicationGitOpsNamespace (MergeClusterDefaults d po) ns"])
      (simp add: reconcileArgoCDProjects_def Let_def forE_filter)
qed

definition ex_gitops :: NamespaceSpec where
  "ex_gitops = ex_min\<lparr>ns_ApplicationGitOpsNamespace := ''argo'', ns_ArgoCDProjects := [ex_project True]\<rparr>"

theorem admitted_gitops_reconciled_witness:
  "\<exists>argoNS. argoNS \<noteq> [] \<and>
    reconcileArgoCDProjects mem_client None (MergeClusterDefaults None (ex_po\<lparr>po_Spec := \<lparr>ps_GitOps = None, ps_Namespaces = [ex_gitops]\<rparr>\<rparr>))
      ex_gitops ''a'' Map.empty =
    forE [ex_project True] (\<lambda>p. reconcileAppProject mem_client None
      (MergeClusterDefaults None (ex_po\<lparr>po_Spec := \<lparr>ps_GitOps = None, ps_Namespaces = [ex_gitops]\<rparr>\<rparr>)) p ''a'' argoNS Map.empty)"
proof -
  let ?po = "ex_po\<lparr>po_Spec := \<lparr>ps_GitOps = None, ps_Namespaces = [ex_gitops]\<rparr>\<rparr>"
  have "succeeds (ValidateProjectOnboarding mem_libs mem_client ?po) ex_world" by code_simp
  then have v: "fst (ValidateProjectOnboarding mem_libs mem_client ?po ex_world) = Ok ()"
    by (rule succeedsE) simp
  have "IsEnabled (ns_Enabled ex_gitops)" "ex_project True \<in> set (ns_ArgoCDProjects ex_gitops)"
    "filter (\<lambda>p. IsOptInEnabled (ac_Enabled p)) (ns_ArgoCDProjects ex_gitops) = [ex_project True]"
    by (simp_all add: ex_gitops_def ex_min_def zero_NamespaceSpec_def ex_project_def)
  with admitted_gitops_reconciled [OF v, of ex_gitops "ex_project True" mem_client None None "''a''" Map.empty]
  show ?thesis by (simp add: ex_project_def)
qed

text \<open>
  With every project of an entry disabled the two disagree: the webhook asks for no GitOps
  namespace, and the reconciler fails the entry for want of one.
\<close>

lemma disabled_projects_fail:
  assumes "ns_ArgoCDProjects ns \<noteq> []" and "\<forall>p \<in> set (ns_ArgoCDProjects ns). \<not> IsOptInEnabled (ac_Enabled p)"
    and "ResolveApplicationGitOpsNamespace po ns = []" and "po_Namespaces po = [ns]"
  shows "validateGitOpsRequirements po = Ok () \<and> (\<exists>e. fst (reconcileArgoCDProjects c sch po ns n labels s) = Err e)"
  using assms by (auto simp: validateGitOpsRequirements_def list_ex_iff reconcileArgoCDProjects_def failE_def)

text \<open>
  C29: No role of an AppProject reaches beyond it: every policy line is for the role, about an
  object of the project itself or, with full access, about repositories; full access is these
  ten lines whatever policies are written down, and they name the tenant as the project.
\<close>

theorem role_policies_confined:
  "(\<forall>line \<in> set (buildRolePolicies pn tn role). \<exists>pre resource action object permission.
      line = policy_line pre (ar_Name role) resource action object permission \<and>
      (prefix (pn @ ''/'') object \<or> IsOptInEnabled (ar_FullAccess role) \<and> resource = ''repositories'') \<and>
      (pre = tn \<or> (\<exists>p \<in> set (ar_Policies role). pre = SanitizeName (trim_space (ap_AppProjectName p))))) \<and>
   (IsOptInEnabled (ar_FullAccess role) \<longrightarrow> length (buildRolePolicies pn tn role) = 10 \<and>
      buildRolePolicies pn tn role = buildRolePolicies pn tn (role\<lparr>ar_Policies := []\<rparr>)) \<and>
   (\<not> IsOptInEnabled (ar_FullAccess role) \<longrightarrow> length (buildRolePolicies pn tn role) = length (ar_Policies role))"
proof (intro conjI impI ballI)
  fix line assume l: "line \<in> set (buildRolePolicies pn tn role)"
  show "\<exists>pre resource action object permission.
      line = policy_line pre (ar_Name role) resource action object permission \<and>
      (prefix (pn @ ''/'') object \<or> IsOptInEnabled (ar_FullAccess role) \<and> resource = ''repositories'') \<and>
      (pre = tn \<or> (\<exists>p \<in> set (ar_Policies role). pre = SanitizeName (trim_space (ap_AppProjectName p))))"
  proof (cases "IsOptInEnabled (ar_FullAccess role)")
    case True
    with l obtain a where
      "line = policy_line tn (ar_Name role) ''applications'' a (pn @ ''/*'') ''allow'' \<or>
       line = policy_line tn (ar_Name role) ''repositories'' a ''*'' ''allow''"
      by (auto simp: buildRolePolicies_def)
    moreover have "prefix (pn @ ''/'') (pn @ ''/*'')" by simp
    ultimately show ?thesis using True by metis
  next
    case False
    with l obtain p where p: "p \<in> set (ar_Policies role)" and line:
      "line = policy_line (casbinProjectPrefix tn p) (ar_Name role)
         (if ap_Resource p = [] then ''applications'' else ap_Resource p) (ap_Action p)
         (pn @ ''/'' @ (if ap_Object p = [] then ''*'' else ap_Object p))
         (if ap_Permission p = [] then ''allow'' else ap_Permission p)"
      by (auto simp: buildRolePolicies_def Let_def)
    have "casbinProjectPrefix tn p = tn \<or> casbinProjectPrefix tn p = SanitizeName (trim_space (ap_AppProjectName p))"
      by (simp add: casbinProjectPrefix_def Let_def)
    with p have "casbinProjectPrefix tn p = tn \<or>
        (\<exists>p' \<in> set (ar_Policies role). casbinProjectPrefix tn p = SanitizeName (trim_space (ap_AppProjectName p')))" by blast
    moreover have "prefix (pn @ ''/'') (pn @ ''/'' @ x)" for x by simp
    ultimately show ?thesis by (intro exI conjI) (rule line, simp, assumption)
  qed
qed (simp_all add: buildRolePolicies_def)

theorem role_policies_confined_witness:
  "length (buildRolePolicies ''apps'' ''a'' \<lparr>ar_Name = ''r'', ar_Description = [], ar_OIDCGroups = [], ar_FullAccess = Some True,
     ar_Policies = []\<rparr>) = 10"
  using role_policies_confined [of "''apps''" "''a''" "\<lparr>ar_Name = ''r'', ar_Description = [], ar_OIDCGroups = [],
     ar_FullAccess = Some True, ar_Policies = []\<rparr>"] by simp

end
