(* ===== verification/Tenant_Correct.thy ===== *)
theory Tenant_Correct
  imports Mem_Cluster
begin

text \<open>
  Properties of the operator as a whole: which deletions a run may ask for, what a successful
  run leaves in the cluster, how a deleted or paused resource is handled, and what the status
  says.  The hypotheses on the client are the locales \<open>selecting_client\<close> and \<open>store_client\<close>,
  the one on owner references is \<open>owners_only\<close>; the concrete runs are on the cluster in memory.
\<close>

section \<open>Deletions\<close>

text \<open>
  C1: Whatever the cluster answers, a run for a resource, deleted or not, asks to delete only
  objects that carry its labels, and deletes a Namespace only if an entry of the resource has
  \<^verbatim>\<open>offboard: true\<close> and names it.
\<close>

theorem deletions_confined:
  assumes "selecting_client (por_Client r)" and "owners_only (por_Scheme r)"
    and "run \<in> {reconcileActive lb (logged_metrics m) (logged_reconciler r) po,
                reconcileDeletion lb (logged_metrics m) (logged_reconciler r) po}"
    and "run (s, []) = (res, (s', calls))" and "CallDelete obj \<in> set calls"
  shows "label_at (ko_labels obj) ProjectOnboardingLabelKey = po_Name po \<and>
    (kind_of obj \<noteq> KAppProject \<longrightarrow> isManagedByProjectOnboarding (ko_labels obj) po) \<and>
    (kind_of obj = KNamespace \<longrightarrow>
      (\<exists>ns \<in> set (po_Namespaces po). IsOffboard (ns_Offboard ns) \<and> om_name (ko_meta obj) = SanitizeName (ns_Name ns)))"
proof -
  let ?W = "\<lambda>call. \<forall>obj. call = CallDelete obj \<longrightarrow> deletable (po_Name po) (set (offboarded_names po)) obj"
  note g = logged_operator [where W = ?W, OF assms(1,2)]
  have may: "may_delete po ?W" "may_write (resolves_to lb (por_Client (logged_reconciler r))) po ?W" "may_update po ?W"
    by (simp_all add: may_delete_def may_write_def may_update_def allows_def)
  have "keeps (calls_ok ?W) run"
    using assms(3) guarded_operator.reconcileActive_keeps [OF g may(1,2)] guarded_operator.reconcileDeletion_keeps [OF g may(1,3)]
    by auto
  then have "calls_ok ?W (s', calls)" by (rule keepsD) (use assms(4) in auto)
  with assms(5) have "deletable (po_Name po) (set (offboarded_names po)) obj" by (auto dest: calls_okD)
  then show ?thesis by (auto simp: deletable_def isManagedByProjectOnboarding_def offboarded_names_def)
qed

definition deleted_kinds :: "api_call list \<Rightarrow> kind list" where
  "deleted_kinds calls = concat (map (\<lambda>call. case call of CallDelete obj \<Rightarrow> [kind_of obj] | _ \<Rightarrow> []) calls)"

lemma in_deleted_kinds: "k \<in> set (deleted_kinds calls) \<Longrightarrow> \<exists>obj. CallDelete obj \<in> set calls \<and> kind_of obj = k"
  by (auto simp: deleted_kinds_def split: api_call.splits)

theorem deletions_confined_witness:
  "\<exists>res s' calls obj. reconcileDeletion mem_libs (logged_metrics mem_metrics) (logged_reconciler mem_reconciler)
       (ex_po\<lparr>po_Spec := \<lparr>ps_GitOps = None, ps_Namespaces = [ex_off]\<rparr>\<rparr>) (ex_world, []) = (res, (s', calls)) \<and>
     CallDelete obj \<in> set calls \<and> kind_of obj = KNamespace \<and> om_name (ko_meta obj) = ''team-b''"
proof -
  let ?po = "ex_po\<lparr>po_Spec := \<lparr>ps_GitOps = None, ps_Namespaces = [ex_off]\<rparr>\<rparr>"
  let ?run = "reconcileDeletion mem_libs (logged_metrics mem_metrics) (logged_reconciler mem_reconciler) ?po"
  have k: "KNamespace \<in> set (deleted_kinds (snd (snd (?run (ex_world, [])))))" by code_simp
  obtain res s' calls where run: "?run (ex_world, []) = (res, (s', calls))" by (metis prod.collapse)
  with k obtain obj where obj: "CallDelete obj \<in> set calls" "kind_of obj = KNamespace"
    by (auto dest: in_deleted_kinds)
  have "selecting_client (por_Client mem_reconciler)" "owners_only (por_Scheme mem_reconciler)"
    by (simp_all add: mem_reconciler_def mem_selecting mem_owners_only)
  moreover have "?run \<in> {reconcileActive mem_libs (logged_metrics mem_metrics) (logged_reconciler mem_reconciler) ?po,
      reconcileDeletion mem_libs (logged_metrics mem_metrics) (logged_reconciler mem_reconciler) ?po}" by simp
  ultimately have "\<exists>ns \<in> set (po_Namespaces ?po). IsOffboard (ns_Offboard ns) \<and> om_name (ko_meta obj) = SanitizeName (ns_Name ns)"
    using deletions_confined [where run = ?run, OF _ _ _ run obj(1)] obj(2) by blast
  then
  have "om_name (ko_meta obj) = SanitizeName (ns_Name ex_off)" by simp
  moreover have "SanitizeName (ns_Name ex_off) = ''team-b''" by (simp add: ex_off_def zero_NamespaceSpec_def SanitizeName_def)
  ultimately show ?thesis using run obj by metis
qed

section \<open>Writes\<close>

text \<open>
  The way in which an entry is resolved does not depend on calls being recorded.
\<close>

lemma resolves_to_logged: "resolves_to lb (logged c) ns resolved \<longleftrightarrow> resolves_to lb c ns resolved"
proof -
  have "ResolveNamespaceSpec lb (logged c) ns (s, l) = (Ok resolved, (s', l')) \<Longrightarrow>
      ResolveNamespaceSpec lb c ns s = (Ok resolved, s')" for s l s' l'
    by (auto simp: ResolveNamespaceSpec_def eff_run logged_def log_call_def split: if_splits prod.splits result.splits)
  moreover have "ResolveNamespaceSpec lb c ns s = (Ok resolved, s') \<Longrightarrow>
      \<exists>l'. ResolveNamespaceSpec lb (logged c) ns (s, []) = (Ok resolved, (s', l'))" for s s'
    by (auto simp: ResolveNamespaceSpec_def eff_run logged_def log_call_def split: if_splits prod.splits result.splits)
  ultimately show ?thesis unfolding resolves_to_def by (metis prod.collapse)
qed

text \<open>
  C3: Whatever the cluster answers, a run creates and patches only the objects that an active
  entry of the resource asks for, with some cluster defaults merged in: at their names, in
  their namespaces, and only for what is switched on.  A ResourceQuota or LimitRange is
  written only if the entry, as some answer of the catalogue resolves it, has the block and
  does not say \<^verbatim>\<open>enabled: false\<close>; Group, RoleBinding and EgressIP only if the block says
  \<^verbatim>\<open>enabled: true\<close>; a policy or AppProject only if it is on itself.  A run for a resource that
  is being deleted creates and patches nothing.
\<close>

theorem writes_confined:
  assumes "selecting_client (por_Client r)" and "owners_only (por_Scheme r)"
    and "(if om_deletionTimestamp (po_meta po) \<noteq> None then reconcileDeletion lb (logged_metrics m) (logged_reconciler r) po
          else reconcileActive lb (logged_metrics m) (logged_reconciler r) po) (s, []) = (res, (s', calls))"
    and "CallCreate obj \<in> set calls \<or> CallPatch base obj \<in> set calls"
  shows "om_deletionTimestamp (po_meta po) = None \<and>
    (\<exists>d. \<exists>ns \<in> set (po_Namespaces po). active_entry ns \<and>
       writable (MergeClusterDefaults d po) ns (kind_of obj) (key_of obj) \<and>
       switched_on (resolves_to lb (por_Client r)) ns (kind_of obj))"
proof -
  let ?R = "resolves_to lb (por_Client (logged_reconciler r))"
  have R: "?R = resolves_to lb (por_Client r)" by (simp add: fun_eq_iff logged_reconciler_def resolves_to_logged)
  let ?P = "\<lambda>obj. om_deletionTimestamp (po_meta po) = None \<and> (\<exists>d. \<exists>ns \<in> set (po_Namespaces po). active_entry ns \<and>
      writable (MergeClusterDefaults d po) ns (kind_of obj) (key_of obj) \<and> switched_on ?R ns (kind_of obj))"
  let ?W = "\<lambda>call. \<forall>b obj. call = CallCreate obj \<or> call = CallPatch b obj \<longrightarrow> ?P obj"
  note g = logged_operator [where W = ?W, OF assms(1,2)]
  have may: "may_delete po ?W" "may_update po ?W"
    by (simp_all add: may_delete_def may_update_def)
  have "may_write ?R po ?W" if "om_deletionTimestamp (po_meta po) = None"
    using that by (auto simp: may_write_def allows_def)
  then have "keeps (calls_ok ?W) (if om_deletionTimestamp (po_meta po) \<noteq> None
      then reconcileDeletion lb (logged_metrics m) (logged_reconciler r) po
      else reconcileActive lb (logged_metrics m) (logged_reconciler r) po)"
    using guarded_operator.reconcileActive_keeps [OF g may(1)] guarded_operator.reconcileDeletion_keeps [OF g may]
    by auto
  then have "calls_ok ?W (s', calls)" by (rule keepsD) (use assms(3) in auto)
  with assms(4) show ?thesis unfolding R by (auto dest: calls_okD)
qed

definition created_kinds :: "api_call list \<Rightarrow> kind list" where
  "created_kinds calls = concat (map (\<lambda>call. case call of CallCreate obj \<Rightarrow> [kind_of obj] | _ \<Rightarrow> []) calls)"

lemma in_created_kinds: "k \<in> set (created_kinds calls) \<Longrightarrow> \<exists>obj. CallCreate obj \<in> set calls \<and> kind_of obj = k"
  by (auto simp: created_kinds_def split: api_call.splits)

text \<open>A concrete run: it creates the Namespace and then panics on the quota of the entry.\<close>

definition ex_panic :: NamespaceSpec where
  "ex_panic = ex_min\<lparr>ns_ResourceQuotas := Some (zero_ResourceQuotaSpec\<lparr>rq_StorageClasses := [\<lparr>sc_Key = ''gold'', sc_Value = []\<rparr>]\<rparr>)\<rparr>"

definition ex_panic_po :: ProjectOnboarding where
  "ex_panic_po = ex_po\<lparr>po_Spec := \<lparr>ps_GitOps = None, ps_Namespaces = [ex_panic]\<rparr>\<rparr>"

definition panics :: "('s, 'a) eff \<Rightarrow> 's \<Rightarrow> bool" where
  "panics m s = (case m s of (Panic p, s') \<Rightarrow> True | _ \<Rightarrow> False)"

lemma empty_world_defaults:
  "LoadClusterDefaults mem_libs (logged mem_client) ''onboarding'' (empty_world, l) =
     (Ok None, (empty_world, l @ [CallGetConfigMap (''onboarding'', DefaultsConfigMapName)]))"
proof -
  have "trim_space ''onboarding'' = ''onboarding''" by code_simp
  then show ?thesis
    by (simp add: LoadClusterDefaults_def Let_def eff_run logged_def log_call_def mem_client_def faulty_def empty_world_def not_found_def)
qed

lemma empty_world_prune:
  "PruneRemovedNamespaces (logged mem_client) po (empty_world, l) =
     (Ok (), (empty_world, l @ [CallList KNamespace (managedListOptions None po)]))"
  by (simp add: PruneRemovedNamespaces_def listManagedNamespaces_def eff_run logged_def log_call_def mem_client_def
      mem_list_def faulty_def empty_world_def)

lemma reconcileActive_panics:
  assumes "LoadClusterDefaults lb (por_Client r) (operatorNamespace lb r) s = (Ok None, s1)"
    and "PruneRemovedNamespaces (por_Client r) po s1 = (Ok u, s2)"
    and "po_Namespaces po = [ns]" and "active_entry ns"
    and "ReconcileNamespace lb (por_Client r) (por_Scheme r) po ns s2 = (Panic p, s3)"
  shows "reconcileActive lb m r po s = (Panic p, s3)"
  using assms by (simp add: reconcileActive_def reconcileTenants_def reconcileEntry_def Let_def eff_run active_entry_def
      MergeClusterDefaults_def)

theorem writes_confined_witness:
  "\<exists>res s' calls obj. reconcileActive mem_libs (logged_metrics mem_metrics)
       (logged_reconciler (mem_reconciler\<lparr>por_OperatorNamespace := ''onboarding''\<rparr>)) ex_panic_po (empty_world, []) = (res, (s', calls)) \<and>
     CallCreate obj \<in> set calls \<and> kind_of obj = KNamespace \<and> key_of obj = ([], ''a'')"
proof -
  let ?r = "mem_reconciler\<lparr>por_OperatorNamespace := ''onboarding''\<rparr>"
  let ?l = "[CallGetConfigMap (''onboarding'', DefaultsConfigMapName), CallList KNamespace (managedListOptions None ex_panic_po)]"
  let ?run = "ReconcileNamespace mem_libs (logged mem_client) (Some mem_scheme) ex_panic_po ex_panic"
  have "panics ?run (empty_world, ?l)" "KNamespace \<in> set (created_kinds (snd (snd (?run (empty_world, ?l)))))" by code_simp+
  then obtain p s' calls obj where run: "?run (empty_world, ?l) = (Panic p, (s', calls))"
    and obj: "CallCreate obj \<in> set calls" "kind_of obj = KNamespace"
    by (auto simp: panics_def split: prod.splits result.splits dest: in_created_kinds)
  have r: "por_Client (logged_reconciler ?r) = logged mem_client" "por_Scheme (logged_reconciler ?r) = Some mem_scheme"
    by (simp_all add: logged_reconciler_def mem_reconciler_def)
  have ns: "po_Namespaces ex_panic_po = [ex_panic]" by (simp add: ex_panic_po_def)
  have "trim_space ''onboarding'' = ''onboarding''" by code_simp
  then have "operatorNamespace mem_libs (logged_reconciler ?r) = ''onboarding''"
    by (simp add: operatorNamespace_def logged_reconciler_def)
  then have active: "reconcileActive mem_libs (logged_metrics mem_metrics) (logged_reconciler ?r) ex_panic_po (empty_world, []) =
      (Panic p, (s', calls))"
    by (intro reconcileActive_panics [where ns = ex_panic and ?s1.0 = "(empty_world, [hd ?l])" and ?s2.0 = "(empty_world, ?l)"])
      (simp_all only: r ns run empty_world_defaults empty_world_prune append.simps list.sel,
       simp_all add: active_entry_def ex_panic_def ex_min_def zero_NamespaceSpec_def)
  have live: "om_deletionTimestamp (po_meta ex_panic_po) = None" by (simp add: ex_panic_po_def ex_po_def zero_objmeta_def)
  have sel: "selecting_client (por_Client ?r)" "owners_only (por_Scheme ?r)"
    by (simp_all add: mem_reconciler_def mem_selecting mem_owners_only)
  have "key_of obj = ([], SanitizeName (ns_Name ex_panic))"
    using writes_confined [where po = ex_panic_po and r = ?r, OF sel _ disjI1 [OF obj(1)]] active live obj(2) ns by auto
  moreover have "SanitizeName (ns_Name ex_panic) = ''a''"
    by (simp add: ex_panic_def ex_min_def zero_NamespaceSpec_def SanitizeName_def)
  ultimately show ?thesis using active obj by auto
qed

section \<open>Offboarding\<close>



text \<open>The objects are stored and live after a run that succeeds.\<close>

definition still_live :: "(world, unit) eff \<Rightarrow> world \<Rightarrow> (kind \<times> objkey) list \<Rightarrow> bool" where
  "still_live m s ks = (case m s of (Ok u, s') \<Rightarrow> list_all (\<lambda>(k, key). case lookup s' k key of
       None \<Rightarrow> False | Some x \<Rightarrow> \<not> is_deleting x) ks
     | _ \<Rightarrow> False)"

text \<open>
  What is left behind by the teardown: the labelled Group and EgressIP of an entry whose blocks
  are dropped in the same change that sets \<^verbatim>\<open>offboard: true\<close>.
\<close>

lemma dropped_blocks_stay:
  "still_live (CleanupNamespace mem_client ex_po ex_off) (ex_world\<lparr>w_objs := w_objs ex_world @
       [new_object [] ''team-b-admins'' (ManagedLabels ex_po ex_off) (PGroup []),
        new_object [] ''team-b'' (ManagedLabels ex_po ex_off) (PEgressIP [] Map.empty)]\<rparr>)
     [(KGroup, ([], ''team-b-admins'')), (KEgressIP, ([], ''team-b''))]"
  by code_simp

section \<open>Guarded deletion of the resource\<close>

text \<open>
  C4: The finalizer may go only when no Namespace of the resource is live: if the
  finalization reports completion, every Namespace labelled as the resource's, in the
  specification or not, is gone or being deleted.
\<close>

theorem finalize_leaves_no_namespace:
  assumes "store_client c view" and "FinalizeProjectOnboardingDeletion lb c po s = (Ok (True, msg), s')"
    and "view s' KNamespace key = Some x" and "owned po x"
  shows "is_deleting x"
  using store_client.finalize_complete [OF assms(1,2)] assms(3,4) store_client.typed [OF assms(1,3)]
  unfolding store_client.none_left_def [OF assms(1)] by blast

definition completes :: "(world, bool \<times> string) eff \<Rightarrow> world \<Rightarrow> bool" where
  "completes m s = (case m s of (Ok (b, msg), s') \<Rightarrow> b | _ \<Rightarrow> False)"

definition blocked :: "('s, bool \<times> string) eff \<Rightarrow> 's \<Rightarrow> bool" where
  "blocked m s = (case m s of (Ok (b, msg), s') \<Rightarrow> \<not> b | _ \<Rightarrow> False)"

theorem finalize_leaves_no_namespace_witness:
  "\<exists>msg s'. FinalizeProjectOnboardingDeletion mem_libs mem_client
      (ex_po\<lparr>po_Spec := \<lparr>ps_GitOps = None, ps_Namespaces = [ex_off]\<rparr>\<rparr>) ex_world = (Ok (True, msg), s') \<and>
    (\<forall>x. lookup s' KNamespace ([], ''team-b'') = Some x \<longrightarrow>
       owned (ex_po\<lparr>po_Spec := \<lparr>ps_GitOps = None, ps_Namespaces = [ex_off]\<rparr>\<rparr>) x \<longrightarrow> is_deleting x)"
proof -
  let ?po = "ex_po\<lparr>po_Spec := \<lparr>ps_GitOps = None, ps_Namespaces = [ex_off]\<rparr>\<rparr>"
  have "completes (FinalizeProjectOnboardingDeletion mem_libs mem_client ?po) ex_world" by code_simp
  then obtain msg s' where run: "FinalizeProjectOnboardingDeletion mem_libs mem_client ?po ex_world = (Ok (True, msg), s')"
    by (auto simp: completes_def split: prod.splits result.splits)
  with finalize_leaves_no_namespace [OF mem_store run] show ?thesis by blast
qed

text \<open>
  C6: While the finalization is not complete the resource stays: the run sets the condition
  \<^verbatim>\<open>DeletionBlocked\<close> with the pending namespaces, removes no finalizer (its only call after the
  finalization is the status update, even if that fails; a warning or an error count may
  follow), and comes back after 30 seconds unless the status update failed for another reason
  than a conflict.
\<close>

theorem incomplete_deletion_blocks:
  assumes "FinalizeProjectOnboardingDeletion lb (logged (por_Client r)) po (s, []) = (Ok (False, msg), (s1, calls1))"
    and "reconcileDeletion lb (logged_metrics m) (logged_reconciler r) po (s, []) = (res, (s', calls))"
  shows "\<exists>po' records. calls = calls1 @ CallStatusPO po' # records \<and>
      set records \<subseteq> {RecordEvent EventTypeWarning ''DeletionBlocked'', CountError ''status_update''} \<and>
      po_meta po' = po_meta po \<and> po_Spec po' = po_Spec po \<and>
      (\<exists>c \<in> set (pst_Conditions (po_Status po')). con_Type c = ConditionDeletionBlocked \<and> con_Status c = ''True'' \<and>
         con_Message c = TruncateStatusMessage msg) \<and>
      (res = Ok (zero_ctrl_result\<lparr>cr_RequeueAfter := RequeueAfterTransient\<rparr>, None) \<or>
       (\<exists>e. res = Ok (zero_ctrl_result\<lparr>cr_RequeueAfter := RequeueAfterFailure\<rparr>, Some e)) \<or>
       (\<exists>p. res = Panic p))"
proof -
  let ?po' = "po\<lparr>po_Status := (po_Status po)\<lparr>pst_Conditions := SetCondition (lb_Now lb) (pst_Conditions (po_Status po))
     ConditionDeletionBlocked ''True'' ''AwaitingOffboard'' (TruncateStatusMessage msg)\<rparr>\<rparr>"
  obtain rs x where st: "cl_StatusPO (por_Client r) ?po' s1 = (rs, x)" by fastforce
  have cl: "por_Client (logged_reconciler r) = logged (por_Client r)"
    by (simp add: logged_reconciler_def)
  have run: "(\<exists>records. calls = calls1 @ CallStatusPO ?po' # records \<and>
        set records \<subseteq> {RecordEvent EventTypeWarning ''DeletionBlocked'', CountError ''status_update''}) \<and>
      (res = Ok (zero_ctrl_result\<lparr>cr_RequeueAfter := RequeueAfterTransient\<rparr>, None) \<or>
       (\<exists>e. res = Ok (zero_ctrl_result\<lparr>cr_RequeueAfter := RequeueAfterFailure\<rparr>, Some e)) \<or> (\<exists>p. res = Panic p))"
    using assms(2) st
    unfolding reconcileDeletion_def Let_def cl run_orReturn assms(1)
    by (cases rs)
      (auto simp: eff_run logged_def log_call_def recordWarning_def logged_reconciler_def logged_recorder_def
        RecordAndReconcileError_def RecordReconcileError_def logged_metrics_def ReconcileResultForError_def
        RequeueAfterTransient_def split: option.splits if_splits)
  moreover have "\<exists>c \<in> set (pst_Conditions (po_Status ?po')). con_Type c = ConditionDeletionBlocked \<and> con_Status c = ''True'' \<and>
      con_Message c = TruncateStatusMessage msg"
    using SetCondition_set [of "lb_Now lb" "pst_Conditions (po_Status po)" ConditionDeletionBlocked "''True''" "''AwaitingOffboard''"
      "TruncateStatusMessage msg"] by auto
  ultimately show ?thesis by (intro exI [of _ ?po']) (elim conjE exE, intro exI conjI, auto)
qed

theorem incomplete_deletion_blocks_witness:
  "\<exists>res s' calls1 po' records. reconcileDeletion mem_libs (logged_metrics mem_metrics) (logged_reconciler mem_reconciler)
      (ex_po\<lparr>po_Spec := \<lparr>ps_GitOps = None, ps_Namespaces = []\<rparr>\<rparr>) (ex_world, []) =
        (res, (s', calls1 @ CallStatusPO po' # records)) \<and>
      (\<forall>po''. CallUpdatePO po'' \<notin> set records)"
proof -
  let ?po = "ex_po\<lparr>po_Spec := \<lparr>ps_GitOps = None, ps_Namespaces = []\<rparr>\<rparr>"
  have "blocked (FinalizeProjectOnboardingDeletion mem_libs (logged mem_client) ?po) (ex_world, [])" by code_simp
  then obtain msg s1 calls1 where f: "FinalizeProjectOnboardingDeletion mem_libs (logged (por_Client mem_reconciler)) ?po (ex_world, []) =
      (Ok (False, msg), (s1, calls1))"
    by (auto simp: blocked_def mem_reconciler_def split: prod.splits result.splits)
  obtain res s' calls where run: "reconcileDeletion mem_libs (logged_metrics mem_metrics) (logged_reconciler mem_reconciler) ?po
      (ex_world, []) = (res, (s', calls))"
    by (metis prod.collapse)
  from incomplete_deletion_blocks [OF f run] obtain po' records where "calls = calls1 @ CallStatusPO po' # records"
    "set records \<subseteq> {RecordEvent EventTypeWarning ''DeletionBlocked'', CountError ''status_update''}" by blast
  with run show ?thesis by blast
qed

section \<open>Pausing\<close>

text \<open>
  A paused resource that is not being deleted and has its finalizer is read and nothing
  else: no call, no event, no metric, no retry.
\<close>

lemma paused_is_idle:
  assumes "cl_GetPO (por_Client r) req s = (Ok po, s1)" and "om_deletionTimestamp (po_meta po) = None"
    and "has_finalizer po" and "IsReconciliationPaused (Some po)"
  shows "Reconcile lb (logged_metrics m) (logged_reconciler r) req (s, []) = (Ok (zero_ctrl_result, None), (s1, [CallGetPO req]))"
  using assms by (simp add: Reconcile_def Let_def eff_run logged_reconciler_def logged_def log_call_def EnsureFinalizer_def)

section \<open>Status\<close>

lemma reconcileEntry_status:
  assumes "reconcileEntry lb c sch po eff ns s = (Ok (st, err), s')"
  shows "nst_Name st = ns_Name ns" "nst_Ready st \<longleftrightarrow> err = None"
    "\<And>e. err = Some e \<Longrightarrow> nst_Message st = TruncateStatusMessage (error_string e)"
  using assms by (auto simp: reconcileEntry_def Let_def eff_run split: if_splits prod.splits result.splits)

lemma reconcileEntries_status:
  "reconcileEntries lb c sch po eff nss (a, f, ss) s = (Ok (a', f', ss'), s') \<Longrightarrow> (a \<longleftrightarrow> f = None) \<Longrightarrow>
   (a' \<longleftrightarrow> f' = None) \<and> (\<exists>new. ss' = ss @ new \<and> map nst_Name new = map ns_Name nss \<and>
     (a' \<longleftrightarrow> a \<and> (\<forall>st \<in> set new. nst_Ready st)))"
proof (induction nss arbitrary: a f ss s)
  case (Cons ns nss)
  then obtain st err s1 where st: "reconcileEntry lb c sch po eff ns s = (Ok (st, err), s1)"
    and rest: "reconcileEntries lb c sch po eff nss (case err of None \<Rightarrow> (a, f, ss @ [st])
       | Some e \<Rightarrow> (False, (if f = None then Some e else f), ss @ [st])) s1 = (Ok (a', f', ss'), s')"
    by (auto dest!: Ok_bind)
  note n = reconcileEntry_status [OF st]
  show ?case
  proof (cases err)
    case None
    with rest have r: "reconcileEntries lb c sch po eff nss (a, f, ss @ [st]) s1 = (Ok (a', f', ss'), s')" by simp
    from Cons.IH [OF r Cons.prems(2)] obtain new where new: "(a' \<longleftrightarrow> f' = None)" "ss' = (ss @ [st]) @ new"
      "map nst_Name new = map ns_Name nss" "a' \<longleftrightarrow> a \<and> (\<forall>st \<in> set new. nst_Ready st)" by blast
    show ?thesis
      using new n None by (intro conjI exI [of _ "st # new"]) simp_all
  next
    case (Some e)
    with rest have r: "reconcileEntries lb c sch po eff nss (False, (if f = None then Some e else f), ss @ [st]) s1 = (Ok (a', f', ss'), s')"
      by simp
    have "False \<longleftrightarrow> (if f = None then Some e else f) = None" by simp
    from Cons.IH [OF r this] obtain new where new: "(a' \<longleftrightarrow> f' = None)" "ss' = (ss @ [st]) @ new"
      "map nst_Name new = map ns_Name nss" "\<not> a'" by blast
    show ?thesis
      using new n Some by (intro conjI exI [of _ "st # new"]) simp_all
  qed
qed (simp add: retE_def)

text \<open>
  C12: The status that a run reports has one entry for each entry of the specification, in its
  order and whatever happened to the entries before; the resource is Ready exactly when every
  entry is, Failed otherwise, and the Ready condition says the same.
\<close>

theorem status_reports_entries:
  assumes "reconcileEntries lb c sch po eff (po_Namespaces po) (True, None, []) s = (Ok acc, s')"
    and "distinct (map con_Type (pst_Conditions (po_Status po)))"
  shows "map nst_Name (pst_Namespaces (final_status now po acc)) = map ns_Name (po_Namespaces po) \<and>
    pst_Phase (final_status now po acc) =
      (if \<forall>st \<in> set (pst_Namespaces (final_status now po acc)). nst_Ready st then PhaseReady else PhaseFailed) \<and>
    (\<exists>con \<in> set (pst_Conditions (final_status now po acc)). con_Type con = ConditionReady \<and>
       (con_Status con = ''True'' \<longleftrightarrow> pst_Phase (final_status now po acc) = PhaseReady)) \<and>
    distinct (map con_Type (pst_Conditions (final_status now po acc))) \<and>
    pst_ObservedGeneration (final_status now po acc) = om_generation (po_meta po)"
proof -
  obtain a f ss where acc: "acc = (a, f, ss)" by (cases acc)
  with reconcileEntries_status [OF assms(1) [unfolded acc]]
  have n: "map nst_Name ss = map ns_Name (po_Namespaces po)" "a \<longleftrightarrow> (\<forall>st \<in> set ss. nst_Ready st)" by auto
  define st where "st = (if a then ''True'' else ''False'')"
  define rs where "rs = (if a then ''ReconcileSucceeded'' else ''ReconcileFailed'')"
  define msg where "msg = (if a then ''All namespaces reconciled''
    else TruncateStatusMessage (''one or more namespaces failed: '' @ (case f of None \<Rightarrow> ''<nil>'' | Some e \<Rightarrow> error_string e)))"
  have fin: "pst_Namespaces (final_status now po acc) = ss"
    "pst_Phase (final_status now po acc) = (if a then PhaseReady else PhaseFailed)"
    "pst_Conditions (final_status now po acc) = SetCondition now (pst_Conditions (po_Status po)) ConditionReady st rs msg"
    "pst_ObservedGeneration (final_status now po acc) = om_generation (po_meta po)"
    by (simp_all add: acc final_status_def Let_def st_def rs_def msg_def)
  have e: "\<exists>con \<in> set (SetCondition now (pst_Conditions (po_Status po)) ConditionReady st rs msg).
      con_Type con = ConditionReady \<and> con_Status con = st"
    using SetCondition_set by blast
  have "PhaseReady \<noteq> PhaseFailed" by (simp add: PhaseReady_def PhaseFailed_def)
  then have p: "(st = ''True'') \<longleftrightarrow> pst_Phase (final_status now po acc) = PhaseReady"
    unfolding fin st_def by simp
  have "\<exists>con \<in> set (pst_Conditions (final_status now po acc)). con_Type con = ConditionReady \<and>
       (con_Status con = ''True'' \<longleftrightarrow> pst_Phase (final_status now po acc) = PhaseReady)"
    using e unfolding fin(3) p [symmetric] by blast
  with n SetCondition_keeps_distinct [OF assms(2)] show ?thesis by (simp add: fin)
qed

definition ex_disabled :: NamespaceSpec where
  "ex_disabled = ex_min\<lparr>ns_Enabled := Some False\<rparr>"

theorem status_reports_entries_witness:
  "pst_Phase (final_status 9 (ex_po\<lparr>po_Spec := \<lparr>ps_GitOps = None, ps_Namespaces = [ex_disabled]\<rparr>\<rparr>)
     (True, None, [\<lparr>nst_Name = ''a'', nst_Ready = True, nst_Message = ''reconciliation disabled''\<rparr>])) = PhaseReady"
proof -
  let ?po = "ex_po\<lparr>po_Spec := \<lparr>ps_GitOps = None, ps_Namespaces = [ex_disabled]\<rparr>\<rparr>"
  have run: "reconcileEntries mem_libs mem_client None ?po ?po (po_Namespaces ?po) (True, None, []) ex_world =
      (Ok (True, None, [\<lparr>nst_Name = ''a'', nst_Ready = True, nst_Message = ''reconciliation disabled''\<rparr>]), ex_world)"
    by (simp add: reconcileEntry_def Let_def ex_disabled_def ex_min_def zero_NamespaceSpec_def eff_run)
  have "distinct (map con_Type (pst_Conditions (po_Status ?po)))"
    by (simp add: ex_po_def zero_ProjectOnboardingStatus_def)
  from status_reports_entries [OF run this, of 9] show ?thesis
    by (simp add: final_status_def Let_def)
qed

section \<open>What a successful reconciliation leaves\<close>




text \<open>
  The exceptions: after a change of the group name and of the GitOps namespace of an entry, the
  Group, the RoleBinding and the AppProject of before stay as they are.
\<close>

definition ex_moved :: NamespaceSpec where
  "ex_moved = zero_NamespaceSpec\<lparr>ns_Name := ''a'', ns_ApplicationGitOpsNamespace := ''argo'', ns_ArgoCDProjects :=
       [\<lparr>ac_Enabled = Some True, ac_Name = ''apps'', ac_Description = [], ac_SourceRepos = [], ac_SourceNamespaces = [],
         ac_Destinations = [], ac_OIDCGroups = [], ac_Roles = []\<rparr>],
     ns_LocalAdminGroup := Some \<lparr>lag_Enabled = Some True, lag_GroupName = ''g'', lag_ClusterRole = [], lag_Users = [''u'']\<rparr>\<rparr>"

lemma former_names_stay:
  "still_live (ReconcileNamespace mem_libs mem_client (Some mem_scheme) ex_po ex_moved)
     (empty_world\<lparr>w_objs := map (\<lambda>(ns, name, pl). new_object ns name (ManagedLabels ex_po ex_moved) pl)
       [([], ''old'', PGroup []), (''a'', ''old'', PRoleBinding [] \<lparr>rf_APIGroup = [], rf_Kind = [], rf_Name = []\<rparr>),
        (''old-argo'', ''apps'', PAppProject \<lparr>aps_description = [],
          aps_clusterResourceWhitelist = [], aps_roles = [], aps_sourceNamespaces = [], aps_sourceRepos = [], aps_destinations = []\<rparr>)]\<rparr>)
     [(KGroup, ([], ''old'')), (KRoleBinding, (''a'', ''old'')), (KAppProject, (''old-argo'', ''apps''))]"
  by code_simp

text \<open>
  C8: After a successful reconciliation of an entry whose quota is on, the tenant Namespace
  has the quota object, labelled as the resource's, and its hard limits are exactly those of
  the resolved specification.
\<close>

theorem reconcile_sets_quota:
  assumes "store_client c view" and "owners_only sch"
    and "ReconcileNamespace lb c sch po ns s = (Ok u, s')" and "ResolveNamespaceSpec lb c ns s = (Ok resolved, s1)"
    and "ns_ResourceQuotas resolved = Some q" and "IsEnabled (rq_Enabled q)"
  shows "\<exists>x hard. view s' KResourceQuota (SanitizeName (ns_Name ns), SanitizeName (ns_Name ns) @ ''-quota'') = Some x \<and>
    owned po x \<and> buildResourceQuotaHard (lb_ParseQuantity lb) q = Ok hard \<and> ko_payload x = PResourceQuota hard"
  by (rule store_client.ReconcileNamespace_quota [OF assms])

theorem reconcile_sets_quota_witness:
  "\<exists>s' x hard. ReconcileNamespace mem_libs mem_client (Some mem_scheme) ex_po ex_min empty_world = (Ok (), s') \<and>
     lookup s' KResourceQuota (''a'', ''a-quota'') = Some x \<and> ko_payload x = PResourceQuota hard"
proof -
  have "succeeds (ReconcileNamespace mem_libs mem_client (Some mem_scheme) ex_po ex_min) empty_world" by code_simp
  then obtain s' where run: "ReconcileNamespace mem_libs mem_client (Some mem_scheme) ex_po ex_min empty_world = (Ok (), s')"
    by (metis (full_types) old.unit.exhaust succeedsE)
  have res: "ResolveNamespaceSpec mem_libs mem_client ex_min empty_world = (Ok ex_min, empty_world)"
    by (simp add: ResolveNamespaceSpec_def ex_min_def zero_NamespaceSpec_def eff_run)
  have q: "ns_ResourceQuotas ex_min = Some (zero_ResourceQuotaSpec\<lparr>rq_CPU := Some ''6''\<rparr>)"
    by (simp add: ex_min_def zero_NamespaceSpec_def)
  have n: "SanitizeName (ns_Name ex_min) = ''a''" by (simp add: ex_min_def zero_NamespaceSpec_def SanitizeName_def)
  have "IsEnabled (rq_Enabled (zero_ResourceQuotaSpec\<lparr>rq_CPU := Some ''6''\<rparr>))" by simp
  from reconcile_sets_quota [OF mem_store mem_owners_only run res q this] run show ?thesis
    unfolding n by auto
qed

section \<open>Objects found in the cluster\<close>

lemma logged_owned_patch:
  assumes "bindE (resE (ensureProjectOnboardingControllerRef sch (Some po) new))
      (\<lambda>obj. thenE (cl_Patch (logged c) found obj) (retE ())) (s1, [CallGet k key]) = (res, (s', calls))"
    and "CallPatch base obj \<in> set calls"
  shows "base = found \<and> ensureProjectOnboardingControllerRef sch (Some po) new = Ok obj"
proof (cases "ensureProjectOnboardingControllerRef sch (Some po) new")
  case (Ok x)
  obtain rs t where p: "cl_Patch c found x s1 = (rs, t)" by fastforce
  have "calls = [CallGet k key, CallPatch found x]"
    using assms(1) Ok p by (cases rs) (simp_all add: eff_run logged_def log_call_def)
  with assms(2) Ok show ?thesis by simp
qed (use assms in \<open>auto simp: eff_run\<close>)

lemma logged_get:
  "cl_Get c k key s = (Ok x, s1) \<Longrightarrow> bindE (tryE (cl_Get (logged c) k key)) f (s, []) = f (Inr x) (s1, [CallGet k key])"
  by (simp add: eff_run logged_def log_call_def)

text \<open>
  C39: As \<^verbatim>\<open>GetLabels()\<close> of an unstructured object is a copy, adopting a Group or an EgressIP
  that is already there never labels it: what the run patches has the labels it found, and
  so an object that was not the resource's is not recognised, watched or cleaned up later.
\<close>

theorem adopted_objects_unlabelled:
  assumes "owners_only sch" and "\<not> lb_LabelsAlias lb"
    and "cl_Get c (if grp then KGroup else KEgressIP) (if grp then ([], GroupName ns) else ([], n)) s = (Ok found, s1)"
    and "(if grp then reconcileLocalAdminGroup lb (logged c) sch po ns labels
          else reconcileEgressIP lb (logged c) sch po ns n labels) (s, []) = (res, (s', calls))"
    and "CallPatch base obj \<in> set calls"
  shows "base = found \<and> ko_labels obj = ko_labels found \<and>
    (\<not> isManagedByProjectOnboarding (ko_labels found) po \<longrightarrow> deleteIfManaged c' obj po = retE ())"
proof -
  have own: "base = found \<and> ko_labels obj = ko_labels found"
    if "bindE (resE (ensureProjectOnboardingControllerRef sch (Some po) (set_payload p (write_labels lb labels found))))
      (\<lambda>obj. thenE (cl_Patch (logged c) found obj) (retE ())) (s1, [CallGet k key]) = (res, (s', calls))" for p k key
  proof -
    note u = logged_owned_patch [OF that assms(5)]
    then have "ko_labels obj = ko_labels (set_payload p (write_labels lb labels found))"
      using same_but_owners_simps(1) [OF ensure_owner_same(2) [OF assms(1)]] by blast
    with u assms(2) show ?thesis by (simp add: write_labels_def)
  qed
  have "base = found \<and> ko_labels obj = ko_labels found"
  proof (cases grp)
    case True
    then have get: "cl_Get c KGroup ([], GroupName ns) s = (Ok found, s1)"
      and run: "reconcileLocalAdminGroup lb (logged c) sch po ns labels (s, []) = (res, (s', calls))"
      using assms(3,4) by simp_all
    show ?thesis
    proof (cases "ns_LocalAdminGroup ns")
      case (Some g)
      from run [unfolded reconcileLocalAdminGroup_def Let_def logged_get [OF get]] Some show ?thesis
        by simp (erule own)
    qed (use run assms(5) in \<open>auto simp: reconcileLocalAdminGroup_def Let_def logged_get [OF get] run_resE\<close>)
  next
    case False
    then have get: "cl_Get c KEgressIP ([], n) s = (Ok found, s1)"
      and run: "reconcileEgressIP lb (logged c) sch po ns n labels (s, []) = (res, (s', calls))"
      using assms(3,4) by simp_all
    show ?thesis
    proof (cases "ns_EgressIPs ns")
      case (Some e)
      show ?thesis
      proof (cases "eip_IPs e = []")
        case False
        from run [unfolded reconcileEgressIP_def Let_def] Some False show ?thesis
          by (simp add: logged_get [OF get]) (erule own)
      qed (use run Some assms(5) in \<open>auto simp: reconcileEgressIP_def run_failE\<close>)
    qed (use run assms(5) in \<open>auto simp: reconcileEgressIP_def run_resE\<close>)
  qed
  then show ?thesis by (simp add: deleteIfManaged_def)
qed

definition ex_group :: NamespaceSpec where
  "ex_group = ex_min\<lparr>ns_LocalAdminGroup := Some \<lparr>lag_Enabled = Some True, lag_GroupName = ''g'', lag_ClusterRole = [],
     lag_Users = [''u'']\<rparr>\<rparr>"

definition ex_found :: kobj where
  "ex_found = new_object [] ''g'' Map.empty (PGroup [])"

theorem adopted_objects_unlabelled_witness:
  "\<exists>res s' base obj. reconcileLocalAdminGroup mem_libs (logged mem_client) None ex_po ex_group (ManagedLabels ex_po ex_group)
      (empty_world\<lparr>w_objs := [ex_found]\<rparr>, []) = (res, (s', [CallGet KGroup ([], ''g''), CallPatch base obj])) \<and>
    ko_labels obj = Map.empty"
proof -
  let ?w = "empty_world\<lparr>w_objs := [ex_found]\<rparr>"
  have g: "GroupName ex_group = ''g''"
    by (simp add: GroupName_def ex_group_def ex_min_def SanitizeName_def)
  have get: "cl_Get mem_client KGroup ([], ''g'') ?w = (Ok ex_found, ?w)"
    by (simp add: mem_client_def mem_get_def faulty_def lookup_def empty_world_def ex_found_def)
  obtain g' where g': "ns_LocalAdminGroup ex_group = Some g'" by (simp add: ex_group_def)
  let ?obj = "set_payload (PGroup (convertUsers (lag_Users g'))) ex_found"
  obtain rs s' where p: "cl_Patch mem_client ex_found ?obj ?w = (rs, s')" by fastforce
  obtain res where run: "reconcileLocalAdminGroup mem_libs (logged mem_client) None ex_po ex_group (ManagedLabels ex_po ex_group) (?w, []) =
      (res, (s', [CallGet KGroup ([], ''g''), CallPatch ex_found ?obj]))"
    using get p g'
    by (cases rs) (simp_all add: reconcileLocalAdminGroup_def Let_def eff_run logged_def log_call_def g write_labels_def mem_libs_def
        ensureProjectOnboardingControllerRef_def)
  have "ko_labels ?obj = ko_labels ex_found"
    using adopted_objects_unlabelled [of None mem_libs mem_client True ex_group "''a''" ?w ex_found ?w ex_po
        "ManagedLabels ex_po ex_group" res s' "[CallGet KGroup ([], ''g''), CallPatch ex_found ?obj]" ex_found ?obj]
      run get g by (simp add: owners_only_def mem_libs_def)
  moreover have "ko_labels ex_found = Map.empty" by (simp add: ex_found_def)
  ultimately show ?thesis using run by metis
qed

section \<open>Error metrics\<close>

text \<open>
  C28: Whatever fails during a reconciliation, the error counter is incremented only with the
  reasons of the seven call sites; the reason \<^verbatim>\<open>transient\<close>, which the classification of errors
  can give and the run book watches for, is never counted.
\<close>

theorem error_metric_reasons:
  assumes "selecting_client (por_Client r)" and "owners_only (por_Scheme r)"
    and "Reconcile lb (logged_metrics m) (logged_reconciler r) req (s, []) = (res, (s', calls))"
    and "CountError reason \<in> set calls"
  shows "reason \<in> set error_reasons \<and> reason \<noteq> ''transient''"
proof -
  have g: "guarded_operator (logged_reconciler r) (calls_ok any_call) any_call (logged_metrics m)"
    by (rule logged_operator [OF assms(1,2)]) (simp add: any_call_def)
  have "keeps (calls_ok any_call) (Reconcile lb (logged_metrics m) (logged_reconciler r) req)"
    by (rule guarded_operator.Reconcile_keeps [OF g])
      (simp_all add: may_delete_def may_write_def may_update_def allows_def any_call_def)
  then have "calls_ok any_call (s', calls)" by (rule keepsD) (use assms(3) in auto)
  with assms(4) have "any_call (CountError reason)" by (auto dest: calls_okD)
  then show ?thesis by (auto simp: any_call_def error_reasons_def)
qed

lemma Reconcile_defaults_error:
  assumes "cl_GetPO (por_Client r) req s = (Ok po, s1)" and "om_deletionTimestamp (po_meta po) = None"
    and "has_finalizer po" and "\<not> IsReconciliationPaused (Some po)"
    and "LoadClusterDefaults lb (por_Client r) (operatorNamespace lb r) s1 = (Err e, s2)"
  shows "Reconcile lb m r req s = RecordAndReconcileError m (Some e) ''defaults_load'' s2"
  using assms by (simp add: Reconcile_def Let_def eff_run EnsureFinalizer_def reconcileActive_def)

theorem error_metric_reasons_witness:
  "\<exists>res s' calls. Reconcile mem_libs (logged_metrics mem_metrics) (logged_reconciler mem_reconciler) ''po1''
      (ex_world\<lparr>w_faults := [None, Some (StatusError ReasonTimeout ''slow'')]\<rparr>, []) = (res, (s', calls)) \<and>
    (\<exists>reason. CountError reason \<in> set calls \<and> reason \<noteq> ''transient'')"
proof -
  let ?w = "ex_world\<lparr>w_faults := [None, Some (StatusError ReasonTimeout ''slow'')]\<rparr>"
  let ?r = "logged_reconciler mem_reconciler"
  let ?run = "Reconcile mem_libs (logged_metrics mem_metrics) ?r ''po1''"
  let ?w1 = "(ex_world\<lparr>w_faults := [Some (StatusError ReasonTimeout ''slow'')]\<rparr>, [CallGetPO ''po1''])"
  have get: "cl_GetPO (por_Client ?r) ''po1'' (?w, []) = (Ok ex_po, ?w1)"
    by (simp add: logged_reconciler_def mem_reconciler_def logged_def log_call_def mem_client_def faulty_def ex_world_def empty_world_def
        ex_po_def)
  have po: "om_deletionTimestamp (po_meta ex_po) = None" "has_finalizer ex_po"
    by (simp_all add: ex_po_def zero_objmeta_def has_finalizer_def)
  have live: "\<not> IsReconciliationPaused (Some ex_po)" by code_simp
  obtain key where "LoadClusterDefaults mem_libs (por_Client ?r) (operatorNamespace mem_libs ?r) ?w1 =
      (Err (StatusError ReasonTimeout ''slow''), (ex_world\<lparr>w_faults := []\<rparr>, [CallGetPO ''po1'', CallGetConfigMap key]))"
    by (simp add: LoadClusterDefaults_def Let_def eff_run logged_reconciler_def mem_reconciler_def logged_def log_call_def
        mem_client_def faulty_def ex_world_def empty_world_def)
  note run = Reconcile_defaults_error [OF get po live this, of "logged_metrics mem_metrics"]
  obtain res s' where "?run (?w, []) = (res, (s', [CallGetPO ''po1'', CallGetConfigMap key, CountError ''defaults_load'']))"
    unfolding run by (simp add: RecordAndReconcileError_def RecordReconcileError_def eff_run logged_metrics_def)
  moreover have "selecting_client (por_Client mem_reconciler)" "owners_only (por_Scheme mem_reconciler)"
    by (simp_all add: mem_reconciler_def mem_selecting mem_owners_only)
  ultimately show ?thesis
    using error_metric_reasons [of mem_reconciler mem_libs mem_metrics "''po1''" ?w res s'
      "[CallGetPO ''po1'', CallGetConfigMap key, CountError ''defaults_load'']" "''defaults_load''"] by auto
qed

end
