(* ===== verification/Startup.thy ===== *)
theory Startup
  imports Watches
begin

text \<open>
  \<^verbatim>\<open>cmd/main.go\<close>: how the operator is put together from its flags.  The calls into
  controller-runtime (certificate watchers, the manager, registration, start) are a parameter
  \<open>pf\<close>, one effect for each call; an error of a call is \<^verbatim>\<open>os.Exit(1)\<close>, so that nothing follows
  it.  The flags are an argument, \<open>default_flags\<close> their defaults; \<open>Command_Line\<close> parses them.
  Log output is left out.  Each TLS option slice is appended to at its full capacity, so that
  the two servers share no array and lists are faithful.
\<close>

section \<open>Flags\<close>

record flags =
  fl_MetricsAddr :: string
  fl_ProbeAddr :: string
  fl_LeaderElect :: bool
  fl_SecureMetrics :: bool
  fl_WebhookCertPath :: string
  fl_WebhookCertName :: string
  fl_WebhookCertKey :: string
  fl_MetricsCertPath :: string
  fl_MetricsCertName :: string
  fl_MetricsCertKey :: string
  fl_EnableHTTP2 :: bool

definition default_flags :: flags where
  "default_flags = \<lparr>fl_MetricsAddr = ''0'', fl_ProbeAddr = '':8081'', fl_LeaderElect = False, fl_SecureMetrics = True,
     fl_WebhookCertPath = [], fl_WebhookCertName = ''tls.crt'', fl_WebhookCertKey = ''tls.key'',
     fl_MetricsCertPath = [], fl_MetricsCertName = ''tls.crt'', fl_MetricsCertKey = ''tls.key'', fl_EnableHTTP2 = False\<rparr>"

definition debugEnabled :: "libs \<Rightarrow> bool" where
  "debugEnabled lb \<longleftrightarrow> to_lower (trim_space (lb_Getenv lb ''DEBUG'')) \<in> {''1'', ''true'', ''yes'', ''on''}"

section \<open>What is handed to the library\<close>

text \<open>\<^verbatim>\<open>filepath.Join\<close>, left as it is, and a watcher with the two files it watches.\<close>

datatype go_path = JoinPath string string

datatype cert_watcher = CertWatcher go_path go_path

datatype tls_option = NextProtosHTTP11 | GetCertificateOf cert_watcher

record metrics_options =
  mo_BindAddress :: string
  mo_SecureServing :: bool
  mo_TLSOpts :: "tls_option list"
  mo_Authorization :: bool

record manager_options =
  ma_Metrics :: metrics_options
  ma_WebhookTLSOpts :: "tls_option list"
  ma_HealthProbeBindAddress :: string
  ma_LeaderElection :: bool
  ma_LeaderElectionID :: string
  ma_SyncPeriod :: int

datatype start_call =
  NewCertWatcher go_path go_path
| NewManager manager_options
| SetupWebhook watched
| SetupController watched string
| AddRunnable cert_watcher
| AddHealthzCheck string
| AddReadyzCheck string
| StartManager

type_synonym 's platform = "start_call \<Rightarrow> ('s, unit) eff"

section \<open>main\<close>

text \<open>The block that creates a certificate watcher if its directory is given.\<close>

definition cert_watcher_for :: "'s platform \<Rightarrow> string \<Rightarrow> string \<Rightarrow> string \<Rightarrow> ('s, cert_watcher option) eff" where
  "cert_watcher_for pf dir crt key = (if dir = [] then retE None
     else thenE (pf (NewCertWatcher (JoinPath dir crt) (JoinPath dir key)))
       (retE (Some (CertWatcher (JoinPath dir crt) (JoinPath dir key)))))"

definition with_watcher :: "tls_option list \<Rightarrow> cert_watcher option \<Rightarrow> tls_option list" where
  "with_watcher opts w = (case w of None \<Rightarrow> opts | Some cw \<Rightarrow> opts @ [GetCertificateOf cw])"

definition add_watcher :: "'s platform \<Rightarrow> cert_watcher option \<Rightarrow> ('s, unit) eff" where
  "add_watcher pf w = (case w of None \<Rightarrow> retE () | Some cw \<Rightarrow> pf (AddRunnable cw))"

definition manager_options_for :: "flags \<Rightarrow> tls_option list \<Rightarrow> tls_option list \<Rightarrow> manager_options" where
  "manager_options_for f webhookTLSOpts metricsTLSOpts =
     \<lparr>ma_Metrics = \<lparr>mo_BindAddress = fl_MetricsAddr f, mo_SecureServing = fl_SecureMetrics f,
        mo_TLSOpts = metricsTLSOpts, mo_Authorization = fl_SecureMetrics f\<rparr>,
      ma_WebhookTLSOpts = webhookTLSOpts, ma_HealthProbeBindAddress = fl_ProbeAddr f,
      ma_LeaderElection = fl_LeaderElect f, ma_LeaderElectionID = ''f458a212.stderr.at'',
      ma_SyncPeriod = 5 * 60 * time_Second\<rparr>"

text \<open>\<^verbatim>\<open>internal/webhook\<close>: each registration is one call of the builder of the library.\<close>

definition SetupProjectOnboardingWebhookWithManager :: "'s platform \<Rightarrow> ('s, unit) eff" where
  "SetupProjectOnboardingWebhookWithManager pf = pf (SetupWebhook WatchResource)"

definition SetupTShirtSizeWebhookWithManager :: "'s platform \<Rightarrow> ('s, unit) eff" where
  "SetupTShirtSizeWebhookWithManager pf = pf (SetupWebhook WatchSize)"

definition main :: "libs \<Rightarrow> 's platform \<Rightarrow> flags \<Rightarrow> ('s, unit) eff" where
  "main lb pf f = (let tlsOpts = (if \<not> fl_EnableHTTP2 f then [NextProtosHTTP11] else []) in
     bindE (cert_watcher_for pf (fl_WebhookCertPath f) (fl_WebhookCertName f) (fl_WebhookCertKey f)) (\<lambda>webhookCertWatcher.
     bindE (cert_watcher_for pf (fl_MetricsCertPath f) (fl_MetricsCertName f) (fl_MetricsCertKey f)) (\<lambda>metricsCertWatcher.
     thenE (pf (NewManager (manager_options_for f (with_watcher tlsOpts webhookCertWatcher) (with_watcher tlsOpts metricsCertWatcher)))) (
     thenE (SetupProjectOnboardingWebhookWithManager pf) (
     thenE (SetupTShirtSizeWebhookWithManager pf) (
     thenE (pf (SetupController WatchResource (lb_Getenv lb ''POD_NAMESPACE''))) (
     thenE (pf (SetupController WatchSize [])) (
     thenE (add_watcher pf metricsCertWatcher) (
     thenE (add_watcher pf webhookCertWatcher) (
     thenE (pf (AddHealthzCheck ''healthz'')) (
     thenE (pf (AddReadyzCheck ''readyz'')) (
     thenE (pf (AddReadyzCheck ''webhook''))
     (pf StartManager)))))))))))))"

section \<open>The start as a sequence of calls\<close>

definition watcher_of :: "string \<Rightarrow> string \<Rightarrow> string \<Rightarrow> cert_watcher list" where
  "watcher_of dir crt key = (if dir = [] then [] else [CertWatcher (JoinPath dir crt) (JoinPath dir key)])"

definition webhook_watcher :: "flags \<Rightarrow> cert_watcher list" where
  "webhook_watcher f = watcher_of (fl_WebhookCertPath f) (fl_WebhookCertName f) (fl_WebhookCertKey f)"

definition metrics_watcher :: "flags \<Rightarrow> cert_watcher list" where
  "metrics_watcher f = watcher_of (fl_MetricsCertPath f) (fl_MetricsCertName f) (fl_MetricsCertKey f)"

primrec new_watcher :: "cert_watcher \<Rightarrow> start_call" where
  "new_watcher (CertWatcher crt key) = NewCertWatcher crt key"

definition server_tls :: "flags \<Rightarrow> cert_watcher list \<Rightarrow> tls_option list" where
  "server_tls f ws = (if fl_EnableHTTP2 f then [] else [NextProtosHTTP11]) @ map GetCertificateOf ws"

definition startup_calls :: "libs \<Rightarrow> flags \<Rightarrow> start_call list" where
  "startup_calls lb f = map new_watcher (webhook_watcher f @ metrics_watcher f) @
     [NewManager (manager_options_for f (server_tls f (webhook_watcher f)) (server_tls f (metrics_watcher f))),
      SetupWebhook WatchResource, SetupWebhook WatchSize,
      SetupController WatchResource (lb_Getenv lb ''POD_NAMESPACE''), SetupController WatchSize []] @
     map AddRunnable (metrics_watcher f @ webhook_watcher f) @
     [AddHealthzCheck ''healthz'', AddReadyzCheck ''readyz'', AddReadyzCheck ''webhook'', StartManager]"

text \<open>Sequences as loops over their calls.\<close>

lemma forE_last: "forE [x] f = f x"
proof -
  have "(\<lambda>_. retE ()) = (retE :: unit \<Rightarrow> ('s, unit) eff)" by (rule ext) simp
  then show ?thesis by simp
qed

lemma forE_step: "forE (x # y # ys) f = thenE (f x) (forE (y # ys) f)"
  by (simp add: thenE_def)

lemma then_bind: "bindE (thenE m (retE y)) f = thenE m (f y)" "thenE (retE u) n = n"
  by (simp_all add: thenE_def bindE_assoc)

lemma main_steps: "main lb pf f = forE (startup_calls lb f) pf"
  unfolding main_def startup_calls_def webhook_watcher_def metrics_watcher_def watcher_of_def cert_watcher_for_def Let_def
    SetupProjectOnboardingWebhookWithManager_def SetupTShirtSizeWebhookWithManager_def
  by (cases "fl_WebhookCertPath f = []"; cases "fl_MetricsCertPath f = []")
    (simp_all only: if_True if_False simp_thms then_bind bindE_ret append.simps list.map new_watcher.simps
      forE_step forE_last with_watcher_def add_watcher_def server_tls_def option.case if_not_P if_P split: if_split,
      simp_all)

text \<open>A platform that records its calls, and what a sequence of recorded calls looks like.\<close>

definition logged_platform :: "'s platform \<Rightarrow> ('s \<times> start_call list) platform" where
  "logged_platform pf call sl = (case pf call (fst sl) of (res, s') \<Rightarrow> (res, (s', snd sl @ [call])))"

lemma logged_sequence:
  "forE xs (logged_platform pf) (s, l) = (res, (s', calls)) \<Longrightarrow>
   \<exists>k \<le> length xs. calls = l @ take k xs \<and> (res = Ok () \<longrightarrow> k = length xs) \<and> (xs \<noteq> [] \<longrightarrow> 0 < k)"
proof (induction xs arbitrary: s l)
  case (Cons x xs)
  obtain r1 s1 where x: "pf x s = (r1, s1)" by fastforce
  show ?case
  proof (cases r1)
    case (Ok u)
    with x have "logged_platform pf x (s, l) = (Ok (), (s1, l @ [x]))" by (simp add: logged_platform_def)
    with Cons.prems have "forE xs (logged_platform pf) (s1, l @ [x]) = (res, (s', calls))" by (simp add: run_bindE)
    from Cons.IH [OF this] obtain k where "k \<le> length xs" "calls = (l @ [x]) @ take k xs" "res = Ok () \<longrightarrow> k = length xs" by blast
    then show ?thesis by (intro exI [of _ "Suc k"]) simp
  qed (use Cons.prems x in \<open>auto simp: run_bindE logged_platform_def intro!: exI [of _ 1]\<close>)
qed (simp add: retE_def)

end
