(* ===== verification/Command_Line.thy ===== *)
theory Command_Line
  imports Startup
begin

text \<open>
  From the command line to \<^verbatim>\<open>main\<close>: the initialisation of the packages (types into the scheme,
  metrics into the registry), the flags that \<^verbatim>\<open>main\<close> declares, and the parser of Go's package
  \<^verbatim>\<open>flag\<close> with its exit on errors.  What other packages declare on the same command line (the
  flags of the logger, \<^verbatim>\<open>kubeconfig\<close>) is a parameter \<open>ext\<close>, and so are the registrations
  (\<open>rg\<close>) of apimachinery, controller-runtime and the Prometheus client.
\<close>

section \<open>Types and metrics: groupversion\_info.go, metrics.go\<close>

record group_version =
  gv_Group :: string
  gv_Version :: string

definition GroupVersion :: group_version where
  "GroupVersion = \<lparr>gv_Group = ''onboarding.stderr.at'', gv_Version = ''v1beta1''\<rparr>"

datatype api_type = Type_ProjectOnboarding | Type_ProjectOnboardingList | Type_TShirtSize | Type_TShirtSizeList

text \<open>
  \<^verbatim>\<open>SchemeBuilder\<close> after the \<^verbatim>\<open>init\<close> functions of the package, which run in the order of their
  files: one registration for each call of \<^verbatim>\<open>Register\<close>.
\<close>

definition init_projectonboarding_types :: "api_type list list \<Rightarrow> api_type list list" where
  "init_projectonboarding_types builder = builder @ [[Type_ProjectOnboarding, Type_ProjectOnboardingList]]"

definition init_tshirtsize_types :: "api_type list list \<Rightarrow> api_type list list" where
  "init_tshirtsize_types builder = builder @ [[Type_TShirtSize, Type_TShirtSizeList]]"

definition SchemeBuilder :: "api_type list list" where
  "SchemeBuilder = init_tshirtsize_types (init_projectonboarding_types [])"

record metric_vec =
  mv_Name :: string
  mv_Labels :: "string list"

definition projectOnboardingTenantsTotal :: metric_vec where
  "projectOnboardingTenantsTotal = \<lparr>mv_Name = ''projectonboarding_tenants_total'', mv_Labels = [''project_onboarding'']\<rparr>"

definition projectOnboardingReconcileErrorsTotal :: metric_vec where
  "projectOnboardingReconcileErrorsTotal = \<lparr>mv_Name = ''projectonboarding_reconcile_errors_total'', mv_Labels = [''reason'']\<rparr>"

record 's registrar =
  rg_ClientGoScheme :: "('s, unit) eff"
  rg_AddKnownTypes :: "group_version \<Rightarrow> api_type list \<Rightarrow> ('s, unit) eff"
  rg_Register :: "metric_vec \<Rightarrow> ('s, unit) eff"

text \<open>\<^verbatim>\<open>utilruntime.Must\<close> and \<^verbatim>\<open>MustRegister\<close>: an error is a panic.\<close>

definition mustE :: "('s, unit) eff \<Rightarrow> ('s, unit) eff" where
  "mustE m = bindE (tryE m) (\<lambda>r. case r of Inl e \<Rightarrow> resE (Panic (error_string e)) | Inr x \<Rightarrow> retE x)"

definition AddToScheme :: "'s registrar \<Rightarrow> ('s, unit) eff" where
  "AddToScheme rg = forE SchemeBuilder (rg_AddKnownTypes rg GroupVersion)"

definition init_onboarding :: "'s registrar \<Rightarrow> ('s, unit) eff" where
  "init_onboarding rg = forE [projectOnboardingTenantsTotal, projectOnboardingReconcileErrorsTotal] (\<lambda>v. mustE (rg_Register rg v))"

definition init_main :: "'s registrar \<Rightarrow> ('s, unit) eff" where
  "init_main rg = thenE (mustE (rg_ClientGoScheme rg)) (mustE (AddToScheme rg))"

section \<open>The flags of main.go\<close>

datatype flag_var = StringVar "string \<Rightarrow> flags \<Rightarrow> flags" | BoolVar "bool \<Rightarrow> flags \<Rightarrow> flags"

definition flag_table :: "(string \<times> flag_var) list" where
  "flag_table =
     [(''metrics-bind-address'', StringVar (\<lambda>v f. f\<lparr>fl_MetricsAddr := v\<rparr>)),
      (''health-probe-bind-address'', StringVar (\<lambda>v f. f\<lparr>fl_ProbeAddr := v\<rparr>)),
      (''leader-elect'', BoolVar (\<lambda>v f. f\<lparr>fl_LeaderElect := v\<rparr>)),
      (''metrics-secure'', BoolVar (\<lambda>v f. f\<lparr>fl_SecureMetrics := v\<rparr>)),
      (''webhook-cert-path'', StringVar (\<lambda>v f. f\<lparr>fl_WebhookCertPath := v\<rparr>)),
      (''webhook-cert-name'', StringVar (\<lambda>v f. f\<lparr>fl_WebhookCertName := v\<rparr>)),
      (''webhook-cert-key'', StringVar (\<lambda>v f. f\<lparr>fl_WebhookCertKey := v\<rparr>)),
      (''metrics-cert-path'', StringVar (\<lambda>v f. f\<lparr>fl_MetricsCertPath := v\<rparr>)),
      (''metrics-cert-name'', StringVar (\<lambda>v f. f\<lparr>fl_MetricsCertName := v\<rparr>)),
      (''metrics-cert-key'', StringVar (\<lambda>v f. f\<lparr>fl_MetricsCertKey := v\<rparr>)),
      (''enable-http2'', BoolVar (\<lambda>v f. f\<lparr>fl_EnableHTTP2 := v\<rparr>))]"

section \<open>flag.Parse\<close>

definition ParseBool :: "string \<Rightarrow> bool option" where
  "ParseBool s = (if s \<in> {''1'', ''t'', ''T'', ''true'', ''TRUE'', ''True''} then Some True
     else if s \<in> {''0'', ''f'', ''F'', ''false'', ''FALSE'', ''False''} then Some False else None)"

text \<open>The text of an argument after its dashes, if it is a flag at all.\<close>

definition flag_text :: "string \<Rightarrow> string option" where
  "flag_text s = (case s of
     CHR ''-'' # CHR ''-'' # name \<Rightarrow> if name = [] then None else Some name
   | CHR ''-'' # name \<Rightarrow> if name = [] then None else Some name
   | _ \<Rightarrow> None)"

text \<open>The name and, after the first \<open>=\<close>, the value.\<close>

definition split_value :: "string \<Rightarrow> string \<times> string option" where
  "split_value t = (takeWhile (\<lambda>c. c \<noteq> CHR ''='') t,
     case dropWhile (\<lambda>c. c \<noteq> CHR ''='') t of [] \<Rightarrow> None | _ # v \<Rightarrow> Some v)"

text \<open>A flag of another package: whether it is boolean, and the values that it takes.\<close>

record ext_flag =
  ef_IsBool :: bool
  ef_Accepts :: "string \<Rightarrow> bool"

datatype parsed = Parsed flags | Exit nat

text \<open>What setting a flag does: the flags set, or an exit.  Bad values exit with status 2.\<close>

definition set_flag :: "(string \<Rightarrow> ext_flag option) \<Rightarrow> string \<Rightarrow> string \<Rightarrow> flags \<Rightarrow> parsed" where
  "set_flag ext name v f = (case map_of flag_table name of
     Some (StringVar g) \<Rightarrow> Parsed (g v f)
   | Some (BoolVar g) \<Rightarrow> (case ParseBool v of None \<Rightarrow> Exit 2 | Some b \<Rightarrow> Parsed (g b f))
   | None \<Rightarrow> (case ext name of None \<Rightarrow> Exit 2 | Some e \<Rightarrow> if ef_Accepts e v then Parsed f else Exit 2))"

text \<open>Whether the flag is known, and if so whether it is boolean.\<close>

definition bool_flag :: "(string \<Rightarrow> ext_flag option) \<Rightarrow> string \<Rightarrow> bool option" where
  "bool_flag ext name = (case map_of flag_table name of
     Some (StringVar g) \<Rightarrow> Some False | Some (BoolVar g) \<Rightarrow> Some True
   | None \<Rightarrow> map_option ef_IsBool (ext name))"

definition unknown_flag :: "string \<Rightarrow> parsed" where
  "unknown_flag name = Exit (if name \<in> {''help'', ''h''} then 0 else 2)"

fun parse_flags :: "(string \<Rightarrow> ext_flag option) \<Rightarrow> string list \<Rightarrow> flags \<Rightarrow> parsed" where
  "parse_flags ext [] f = Parsed f"
| "parse_flags ext (s # args) f = (case flag_text s of None \<Rightarrow> Parsed f
     | Some t \<Rightarrow> if hd t \<in> {CHR ''-'', CHR ''=''} then Exit 2
       else case split_value t of (name, v) \<Rightarrow>
         (case bool_flag ext name of None \<Rightarrow> unknown_flag name
          | Some isBool \<Rightarrow>
            (case v of Some x \<Rightarrow> (case set_flag ext name x f of Exit k \<Rightarrow> Exit k | Parsed f' \<Rightarrow> parse_flags ext args f')
             | None \<Rightarrow> if isBool
                 then (case set_flag ext name ''true'' f of Exit k \<Rightarrow> Exit k | Parsed f' \<Rightarrow> parse_flags ext args f')
                 else (case args of [] \<Rightarrow> Exit 2
                       | x # rest \<Rightarrow> (case set_flag ext name x f of Exit k \<Rightarrow> Exit k | Parsed f' \<Rightarrow> parse_flags ext rest f')))))"

section \<open>The process\<close>

text \<open>
  The options of the logger that the environment chooses, and the process from the \<^verbatim>\<open>init\<close>
  functions to its exit status: 1 for \<^verbatim>\<open>os.Exit(1)\<close>, 2 for a panic.
\<close>

record zap_options =
  zo_Development :: bool
  zo_DebugLevel :: bool

definition logger_options :: "libs \<Rightarrow> zap_options" where
  "logger_options lb = (let debugLogging = debugEnabled lb; opts = \<lparr>zo_Development = debugLogging, zo_DebugLevel = False\<rparr>
     in if debugLogging then opts\<lparr>zo_DebugLevel := True\<rparr> else opts)"

definition exit_status :: "unit result \<Rightarrow> nat" where
  "exit_status r = (case r of Ok u \<Rightarrow> 0 | Err e \<Rightarrow> 1 | Panic p \<Rightarrow> 2)"

definition process ::
  "libs \<Rightarrow> 's registrar \<Rightarrow> 's platform \<Rightarrow> (string \<Rightarrow> ext_flag option) \<Rightarrow> string list \<Rightarrow> 's \<Rightarrow> nat \<times> 's" where
  "process lb rg pf ext args s = (case thenE (init_onboarding rg) (init_main rg) s of
     (Ok u, s1) \<Rightarrow> (case parse_flags ext args default_flags of
         Exit k \<Rightarrow> (k, s1)
       | Parsed f \<Rightarrow> (case main lb pf f s1 of (r, s2) \<Rightarrow> (exit_status r, s2)))
   | (r, s1) \<Rightarrow> (exit_status r, s1))"

section \<open>Flags as arguments\<close>

definition assign :: "string \<Rightarrow> string \<Rightarrow> string" where
  "assign name v = ''--'' @ name @ ''='' @ v"

definition bool_text :: "bool \<Rightarrow> string" where
  "bool_text b = (if b then ''true'' else ''false'')"

text \<open>The command line that asks for the flags \<open>f\<close>.\<close>

definition render_flags :: "flags \<Rightarrow> string list" where
  "render_flags f =
     [assign ''metrics-bind-address'' (fl_MetricsAddr f), assign ''health-probe-bind-address'' (fl_ProbeAddr f),
      assign ''leader-elect'' (bool_text (fl_LeaderElect f)), assign ''metrics-secure'' (bool_text (fl_SecureMetrics f)),
      assign ''webhook-cert-path'' (fl_WebhookCertPath f), assign ''webhook-cert-name'' (fl_WebhookCertName f),
      assign ''webhook-cert-key'' (fl_WebhookCertKey f), assign ''metrics-cert-path'' (fl_MetricsCertPath f),
      assign ''metrics-cert-name'' (fl_MetricsCertName f), assign ''metrics-cert-key'' (fl_MetricsCertKey f),
      assign ''enable-http2'' (bool_text (fl_EnableHTTP2 f))]"

lemma ParseBool_text [simp]: "ParseBool (bool_text b) = Some b"
  by (simp add: ParseBool_def bool_text_def)

lemma split_assigned: "CHR ''='' \<notin> set name \<Longrightarrow> split_value (name @ CHR ''='' # v) = (name, Some v)"
  by (induction name) (auto simp: split_value_def)

lemma parse_assign:
  assumes "name \<noteq> []" "hd name \<noteq> CHR ''-''" "CHR ''='' \<notin> set name"
  shows "parse_flags ext (assign name v # args) f = (case bool_flag ext name of None \<Rightarrow> unknown_flag name
    | Some b \<Rightarrow> (case set_flag ext name v f of Exit k \<Rightarrow> Exit k | Parsed f' \<Rightarrow> parse_flags ext args f'))"
proof -
  have "flag_text (assign name v) = Some (name @ CHR ''='' # v)"
    using assms(1) by (simp add: flag_text_def assign_def)
  moreover have "hd (name @ CHR ''='' # v) \<notin> {CHR ''-'', CHR ''=''}"
    using assms by (cases name) auto
  ultimately show ?thesis using split_assigned [OF assms(3)] by (simp split: option.split)
qed

lemma parse_rendered: "parse_flags ext (render_flags f @ args) g = parse_flags ext args f"
  by (cases f; cases g) (simp add: render_flags_def parse_assign bool_flag_def set_flag_def flag_table_def del: parse_flags.simps)

lemma set_flag_exit: "set_flag ext name v f = Exit k \<Longrightarrow> k = 2"
  by (auto simp: set_flag_def split: option.splits flag_var.splits if_splits)

lemma parse_exit: "parse_flags ext args f = Exit k \<Longrightarrow> k \<in> {0, 2}"
proof (induction ext args f rule: parse_flags.induct)
  case (2 ext s args f)
  show ?case
    using 2(4) by (auto simp: unknown_flag_def split: option.splits if_splits prod.splits parsed.splits list.splits
        dest: set_flag_exit 2(1,2,3))
qed simp

lemma process_exits:
  "thenE (init_onboarding rg) (init_main rg) s = (Ok (), s1) \<Longrightarrow> process lb rg pf ext args s =
     (case parse_flags ext args default_flags of Exit k \<Rightarrow> (k, s1) | Parsed f \<Rightarrow> map_prod exit_status id (main lb pf f s1))"
  by (auto simp: process_def map_prod_def split: prod.splits parsed.splits)

end
