(* ===== verification/Life_Correct.thy ===== *)
theory Life_Correct
  imports Tenant_Correct Command_Line
begin

text \<open>
  Properties of the operator over the life of a resource: what holds after any number of runs
  with other actors in between, and that a deleted resource comes to its end.  The hypotheses
  are the locales \<open>resource_operator\<close> and \<open>reliable_operator\<close>; the cluster in memory is an
  instance of both.  The last section is about the start of the operator itself.
\<close>

section \<open>No tenant is left without its resource\<close>

text \<open>
  C2: After any sequence of runs of the controller, successful or not, interleaved with steps
  of others that neither bring a Namespace of the resource to life nor take its finalizer
  away, a live Namespace labelled as the resource's has its resource in the cluster, with the
  finalizer on it: a tenant Namespace is never left behind by a resource that is gone.
\<close>

theorem no_orphaned_namespace:
  assumes "resource_operator r view m stored" and "(life_step m r view stored n)\<^sup>*\<^sup>* s s'"
    and "live_tenant (view s) n \<longrightarrow> tended (stored s) n"
    and "view s' KNamespace key = Some x" and "carries n x" and "\<not> is_deleting x"
  shows "\<exists>q. stored s' n = Some q \<and> has_finalizer q"
proof -
  have "live_tenant (view s') n" using assms(4-6) unfolding live_tenant_def by blast
  then show ?thesis using resource_operator.life_guarded [OF assms(1-3)] by (simp add: tended_def)
qed

definition has_live_tenant :: "world \<Rightarrow> objkey \<Rightarrow> string \<Rightarrow> bool" where
  "has_live_tenant s key n = (case lookup s KNamespace key of None \<Rightarrow> False | Some x \<Rightarrow> carries n x \<and> \<not> is_deleting x)"

text \<open>The run of the witness creates the Namespace and then panics.\<close>

definition panic_world :: world where
  "panic_world = empty_world\<lparr>w_pos := [ex_panic_po]\<rparr>"

lemma panic_run:
  assumes "ReconcileNamespace mem_libs mem_client (Some mem_scheme) ex_panic_po ex_panic panic_world = (Panic p, s')"
  shows "Reconcile mem_libs mem_metrics mem_reconciler ''po1'' panic_world = (Panic p, s')"
proof -
  have get: "cl_GetPO mem_client ''po1'' panic_world = (Ok ex_panic_po, panic_world)"
    by (simp add: mem_client_def faulty_def panic_world_def empty_world_def ex_panic_po_def ex_po_def)
  have po: "om_deletionTimestamp (po_meta ex_panic_po) = None" "has_finalizer ex_panic_po" "po_Namespaces ex_panic_po = [ex_panic]"
    by (simp_all add: ex_panic_po_def ex_po_def zero_objmeta_def has_finalizer_def)
  have live: "\<not> IsReconciliationPaused (Some ex_panic_po)" by code_simp
  have ns: "active_entry ex_panic"
    by (simp add: active_entry_def ex_panic_def ex_min_def zero_NamespaceSpec_def)
  have d: "LoadClusterDefaults mem_libs mem_client op panic_world = (Ok None, panic_world)" for op
    by (simp add: LoadClusterDefaults_def Let_def eff_run mem_client_def faulty_def panic_world_def empty_world_def)
  have pr: "PruneRemovedNamespaces mem_client ex_panic_po panic_world = (Ok (), panic_world)"
    by (simp add: PruneRemovedNamespaces_def listManagedNamespaces_def eff_run mem_client_def mem_list_def faulty_def
        panic_world_def empty_world_def)
  have "reconcileActive mem_libs mem_metrics mem_reconciler ex_panic_po panic_world = (Panic p, s')"
    by (rule reconcileActive_panics [where ?s1.0 = panic_world and ?s2.0 = panic_world and ns = ex_panic])
      (simp_all add: d pr po ns assms)
  with get po live show ?thesis by (simp add: Reconcile_def Let_def eff_run EnsureFinalizer_def)
qed

theorem no_orphaned_namespace_witness:
  "\<exists>s' x q. (life_step mem_metrics mem_reconciler lookup stored_po ''po1'')\<^sup>*\<^sup>* panic_world s' \<and>
     lookup s' KNamespace ([], ''a'') = Some x \<and> carries ''po1'' x \<and> stored_po s' ''po1'' = Some q \<and> has_finalizer q"
proof -
  let ?run = "ReconcileNamespace mem_libs mem_client (Some mem_scheme) ex_panic_po ex_panic"
  have "panics ?run panic_world" "has_live_tenant (snd (?run panic_world)) ([], ''a'') ''po1''" by code_simp+
  then obtain p s' x where run: "?run panic_world = (Panic p, s')"
    and x: "lookup s' KNamespace ([], ''a'') = Some x" "carries ''po1'' x" "\<not> is_deleting x"
    by (auto simp: panics_def has_live_tenant_def split: prod.splits result.splits option.splits)
  have step: "(life_step mem_metrics mem_reconciler lookup stored_po ''po1'')\<^sup>*\<^sup>* panic_world s'"
    by (intro r_into_rtranclp life_step.controller, unfold projectOnboardingRequest_def) (rule panic_run [OF run])
  have "\<not> live_tenant (lookup panic_world) ''po1''"
    by (simp add: live_tenant_def lookup_def panic_world_def empty_world_def)
  then have "live_tenant (lookup panic_world) ''po1'' \<longrightarrow> tended (stored_po panic_world) ''po1''" by simp
  from no_orphaned_namespace [OF mem_life.resource_operator_axioms step this x] step x show ?thesis by blast
qed

section \<open>A deleted resource comes to its end\<close>

text \<open>
  C5: While the cluster answers, one run is enough for a deleted resource that has no finalizer
  of others and whose live Namespaces all belong to offboarded entries (and to no other entry):
  it asks for their deletion, takes the finalizer off without waiting for them to go, asks for
  no retry, the resource is gone afterwards, and every Namespace of it is gone or being deleted.
\<close>

theorem deletion_completes:
  assumes "reliable_operator r view m stored calm" and "calm s" and "stored s n = Some po"
    and "om_deletionTimestamp (po_meta po) \<noteq> None" and "has_finalizer po"
    and "\<forall>f \<in> set (om_finalizers (po_meta po)). f = ProjectOnboardingFinalizer" and "given_up po (view s)"
  shows "\<exists>s'. Reconcile lb m r (projectOnboardingRequest n) s = (Ok (zero_ctrl_result, None), s') \<and>
    stored s' n = None \<and> \<not> live_tenant (view s') n"
proof -
  obtain s' where run: "Reconcile lb m r (projectOnboardingRequest n) s = (Ok (zero_ctrl_result, None), s')" "stored s' n = None"
    using reliable_operator.Reconcile_ends [OF assms(1-3,7,4-6)] by blast
  have "resource_operator r view m stored" using assms(1) by (simp add: reliable_operator_def)
  then have "live_tenant (view s') n \<longrightarrow> tended (stored s') n"
    by (rule resource_operator.Reconcile_guarded [OF _ _ run(1)]) (use assms(3,5) in \<open>simp add: tended_def\<close>)
  with run show ?thesis by (auto simp: tended_def)
qed

definition ex_leaving :: ProjectOnboarding where
  "ex_leaving = ex_po\<lparr>po_meta := (po_meta ex_po)\<lparr>om_deletionTimestamp := Some 5\<rparr>,
     po_Spec := \<lparr>ps_GitOps = None, ps_Namespaces = [ex_off]\<rparr>\<rparr>"

definition leaving_world :: world where
  "leaving_world = ex_world\<lparr>w_pos := [ex_leaving], w_noapi := [KEgressIP]\<rparr>"

theorem deletion_completes_witness:
  "\<exists>s'. Reconcile mem_libs mem_metrics mem_reconciler ''po1'' leaving_world = (Ok (zero_ctrl_result, None), s') \<and>
     stored_po s' ''po1'' = None \<and> live_tenant (lookup leaving_world) ''po1'' \<and> \<not> live_tenant (lookup s') ''po1''"
proof -
  have calm: "calm_world leaving_world"
    by (simp add: calm_world_def leaving_world_def ex_world_def empty_world_def optional_kinds_def)
  have po: "stored_po leaving_world ''po1'' = Some ex_leaving" "om_deletionTimestamp (po_meta ex_leaving) \<noteq> None"
    "has_finalizer ex_leaving" "\<forall>f \<in> set (om_finalizers (po_meta ex_leaving)). f = ProjectOnboardingFinalizer"
    by (simp_all add: stored_po_def leaving_world_def ex_leaving_def ex_po_def zero_objmeta_def has_finalizer_def)
  have names: "set (offboarded_names ex_leaving) = {''team-b''}" "desiredTenantNamespaceNames ex_leaving = []"
    by (simp_all add: offboarded_names_def desiredTenantNamespaceNames_def ex_leaving_def ex_off_def zero_NamespaceSpec_def SanitizeName_def)
  have "snd key = ''team-b''" if "lookup leaving_world KNamespace key = Some x" for key x
    using lookup_typed [OF that] by (auto simp: leaving_world_def ex_world_def)
  then have up: "given_up ex_leaving (lookup leaving_world)" unfolding given_up_def names by simp
  have "has_live_tenant leaving_world ([], ''team-b'') ''po1''" by code_simp
  then have "live_tenant (lookup leaving_world) ''po1''"
    by (auto simp: has_live_tenant_def live_tenant_def split: option.splits)
  with deletion_completes [OF mem_calm.reliable_operator_axioms calm po up, of mem_libs] show ?thesis
    by (simp add: projectOnboardingRequest_def)
qed

text \<open>
  The Namespace may still be there when the finalizer goes: it is only marked as being deleted.
\<close>

lemma released_while_terminating:
  "(case FinalizeProjectOnboardingDeletion mem_libs mem_client ex_leaving leaving_world of
     (Ok (complete, msg), s') \<Rightarrow> complete \<and>
       (case lookup s' KNamespace ([], ''team-b'') of None \<Rightarrow> False | Some x \<Rightarrow> owned ex_leaving x \<and> is_deleting x)
   | _ \<Rightarrow> False)"
  by code_simp

section \<open>The operator starts whole or not at all\<close>

text \<open>
  C26: The manager is started last, and only after both webhooks, both controllers, the checks
  and the certificate watcher of a given webhook certificate were set up without an error; any
  failing call ends the program.  Unless HTTP/2 is asked for, both servers are restricted to
  HTTP/1.1, and metrics over HTTPS are behind authorisation.
\<close>

theorem start_in_order:
  assumes "main lb (logged_platform pf) f (s, []) = (res, (s', calls))"
  shows "(res = Ok () \<longrightarrow> StartManager \<in> set calls) \<and>
    (StartManager \<in> set calls \<longrightarrow> (\<exists>before. calls = before @ [StartManager] \<and>
       {SetupWebhook WatchResource, SetupWebhook WatchSize, SetupController WatchResource (lb_Getenv lb ''POD_NAMESPACE''),
        SetupController WatchSize [], AddHealthzCheck ''healthz'', AddReadyzCheck ''readyz'', AddReadyzCheck ''webhook''} \<subseteq> set before \<and>
       (fl_WebhookCertPath f \<noteq> [] \<longrightarrow> AddRunnable (CertWatcher (JoinPath (fl_WebhookCertPath f) (fl_WebhookCertName f))
          (JoinPath (fl_WebhookCertPath f) (fl_WebhookCertKey f))) \<in> set before))) \<and>
    (\<forall>opts. NewManager opts \<in> set calls \<longrightarrow>
       (\<not> fl_EnableHTTP2 f \<longrightarrow> NextProtosHTTP11 \<in> set (ma_WebhookTLSOpts opts) \<and> NextProtosHTTP11 \<in> set (mo_TLSOpts (ma_Metrics opts))) \<and>
       (mo_Authorization (ma_Metrics opts) \<longleftrightarrow> fl_SecureMetrics f))"
proof -
  obtain before where all: "startup_calls lb f = before @ [StartManager]" "StartManager \<notin> set before"
    "{SetupWebhook WatchResource, SetupWebhook WatchSize, SetupController WatchResource (lb_Getenv lb ''POD_NAMESPACE''),
        SetupController WatchSize [], AddHealthzCheck ''healthz'', AddReadyzCheck ''readyz'', AddReadyzCheck ''webhook''} \<subseteq> set before"
    "fl_WebhookCertPath f \<noteq> [] \<longrightarrow> AddRunnable (CertWatcher (JoinPath (fl_WebhookCertPath f) (fl_WebhookCertName f))
          (JoinPath (fl_WebhookCertPath f) (fl_WebhookCertKey f))) \<in> set before"
    by (auto simp: startup_calls_def webhook_watcher_def metrics_watcher_def watcher_of_def)
  from logged_sequence [OF assms [unfolded main_steps]]
  obtain k where k: "k \<le> length (startup_calls lb f)" "calls = take k (startup_calls lb f)"
    "res = Ok () \<longrightarrow> k = length (startup_calls lb f)" by auto
  have whole: "calls = before @ [StartManager]" if "StartManager \<in> set calls"
  proof (cases "k \<le> length before")
    case True
    then have "set calls \<subseteq> set before" using k(2) all(1) by (auto dest: in_set_takeD)
    with that all(2) show ?thesis by blast
  qed (use k all(1) in auto)
  have sub: "set calls \<subseteq> set (startup_calls lb f)" using k(2) by (simp add: set_take_subset)
  have opts: "(\<not> fl_EnableHTTP2 f \<longrightarrow> NextProtosHTTP11 \<in> set (ma_WebhookTLSOpts opts) \<and> NextProtosHTTP11 \<in> set (mo_TLSOpts (ma_Metrics opts))) \<and>
      (mo_Authorization (ma_Metrics opts) \<longleftrightarrow> fl_SecureMetrics f)" if "NewManager opts \<in> set calls" for opts
  proof -
    have "new_watcher w \<noteq> NewManager opts" for w by (cases w) simp
    then have "NewManager opts \<notin> new_watcher ` ws" for ws by (metis imageE)
    moreover have "NewManager opts \<in> set (startup_calls lb f)" using that sub by blast
    ultimately have "opts = manager_options_for f (server_tls f (webhook_watcher f)) (server_tls f (metrics_watcher f))"
      unfolding startup_calls_def by auto
    then show ?thesis by (simp add: manager_options_for_def server_tls_def)
  qed
  have "res = Ok () \<longrightarrow> StartManager \<in> set calls" using k all(1) by auto
  moreover have "StartManager \<in> set calls \<longrightarrow> (\<exists>before. calls = before @ [StartManager] \<and>
       {SetupWebhook WatchResource, SetupWebhook WatchSize, SetupController WatchResource (lb_Getenv lb ''POD_NAMESPACE''),
        SetupController WatchSize [], AddHealthzCheck ''healthz'', AddReadyzCheck ''readyz'', AddReadyzCheck ''webhook''} \<subseteq> set before \<and>
       (fl_WebhookCertPath f \<noteq> [] \<longrightarrow> AddRunnable (CertWatcher (JoinPath (fl_WebhookCertPath f) (fl_WebhookCertName f))
          (JoinPath (fl_WebhookCertPath f) (fl_WebhookCertKey f))) \<in> set before))"
    using whole all(3,4) by blast
  ultimately show ?thesis using opts by blast
qed

theorem start_in_order_witness:
  "\<exists>n calls. main mem_libs (logged_platform (\<lambda>call n. (Ok (), Suc n))) (default_flags\<lparr>fl_WebhookCertPath := ''/certs''\<rparr>) (0, []) =
     (Ok (), (n, calls)) \<and> StartManager \<in> set calls \<and> n = length calls"
proof -
  let ?f = "default_flags\<lparr>fl_WebhookCertPath := ''/certs''\<rparr>"
  let ?run = "main mem_libs (logged_platform (\<lambda>call n. (Ok (), Suc n))) ?f (0, [])"
  have "fst ?run = Ok ()" "fst (snd ?run) = length (snd (snd ?run))" by code_simp+
  then obtain n calls where run: "?run = (Ok (), (n, calls))" and n: "n = length calls"
    by (metis prod.collapse)
  from start_in_order [OF run] have "StartManager \<in> set calls" by blast
  with run n show ?thesis by blast
qed

text \<open>
  C27: The command line decides how the operator runs.  Once the packages are initialised, the
  arguments that spell out a configuration start the manager with exactly this configuration,
  no arguments with the defaults, and of repeated flags the last one counts; arguments that are
  refused end the process, with status 0 for help and 2 otherwise, before any call is made.
\<close>

theorem command_line_decides:
  assumes "thenE (init_onboarding rg) (init_main rg) s = (Ok (), s1)"
  shows "process lb rg pf ext (render_flags f) s = map_prod exit_status id (main lb pf f s1) \<and>
    process lb rg pf ext [] s = map_prod exit_status id (main lb pf default_flags s1) \<and>
    parse_flags ext (render_flags f @ args) g = parse_flags ext args f \<and>
    (\<forall>k. parse_flags ext args default_flags = Exit k \<longrightarrow> k \<in> {0, 2} \<and> process lb rg pf ext args s = (k, s1))"
proof (intro conjI allI impI)
  show "process lb rg pf ext (render_flags f) s = map_prod exit_status id (main lb pf f s1)"
    using parse_rendered [of ext f "[]"] by (simp add: process_exits [OF assms])
  show "process lb rg pf ext [] s = map_prod exit_status id (main lb pf default_flags s1)"
    by (simp add: process_exits [OF assms])
  show "parse_flags ext (render_flags f @ args) g = parse_flags ext args f"
    by (rule parse_rendered)
  fix k assume "parse_flags ext args default_flags = Exit k"
  then show "k \<in> {0, 2}" by (rule parse_exit)
  from \<open>parse_flags ext args default_flags = Exit k\<close> show "process lb rg pf ext args s = (k, s1)"
    by (simp add: process_exits [OF assms])
qed

definition no_registrar :: "'s registrar" where
  "no_registrar = \<lparr>rg_ClientGoScheme = retE (), rg_AddKnownTypes = (\<lambda>gv ts. retE ()), rg_Register = (\<lambda>v. retE ())\<rparr>"

theorem command_line_decides_witness:
  "process mem_libs no_registrar (\<lambda>call n. (Ok (), Suc n)) (\<lambda>name. None)
     (render_flags (default_flags\<lparr>fl_MetricsAddr := '':8443'', fl_LeaderElect := True\<rparr>)) (0::nat) =
   map_prod exit_status id (main mem_libs (\<lambda>call n. (Ok (), Suc n)) (default_flags\<lparr>fl_MetricsAddr := '':8443'', fl_LeaderElect := True\<rparr>) 0)"
proof -
  have "thenE (init_onboarding no_registrar) (init_main no_registrar) (0::nat) = (Ok (), 0)" by code_simp
  from conjunct1 [OF command_line_decides [OF this]] show ?thesis .
qed

end
