(* ===== verification/Go_Heap.thy ===== *)
theory Go_Heap
  imports Prelude
begin

text \<open>
  Go memory, for the code whose point is what it shares: the generated deep copies and the
  routines that write through pointers.  A heap is a list of blocks, an address is a position
  in it, and a block is an array of values of one type; allocation appends a block, so a block
  once allocated keeps its address and the addresses from \<open>length h\<close> on are the fresh ones.  A
  pointer names an element of a block, a slice a section of one.  A computation is a function of
  the heap; \<open>None\<close> is the run-time panic of a nil dereference or of an index out of range.

  What a pointer stands for is a relation \<open>r h v x\<close>: in the heap \<open>h\<close> the value \<open>v\<close>, with its
  pointers, represents \<open>x\<close>, which has none.  \<open>lives r n s v x\<close> says that the representation
  needs nothing but the blocks \<open>s\<close> that begin at address \<open>n\<close>.  The locale \<open>deep_copy\<close> is the
  contract of a copying function: it does not panic, it only allocates, and the copy lives in
  what it allocated.
\<close>

section \<open>Memory\<close>

type_synonym 'b heap = "'b list"
type_synonym addr = "nat \<times> nat"
type_synonym ptr = "addr option"
type_synonym slice = "(nat \<times> nat \<times> nat) option"
type_synonym ('b, 'a) mem = "'b heap \<Rightarrow> ('a \<times> 'b heap) option"

text \<open>The blocks of one Go type: how an array of its values becomes a block, and back.\<close>

record ('b, 'c) kind =
  mk :: "'c list \<Rightarrow> 'b"
  un :: "'b \<Rightarrow> 'c list option"

definition kind_ok :: "('b, 'c) kind \<Rightarrow> bool" where
  "kind_ok k \<longleftrightarrow> (\<forall>xs. un k (mk k xs) = Some xs)"

named_theorems mem_mono "what is represented stays so when more memory is allocated"
named_theorems copy_step "one copying call at the head of a computation"

definition retM :: "'a \<Rightarrow> ('b, 'a) mem" where
  "retM x = (\<lambda>h. Some (x, h))"

definition faultM :: "('b, 'a) mem" where
  "faultM = (\<lambda>h. None)"

definition bindM :: "('b, 'a) mem \<Rightarrow> ('a \<Rightarrow> ('b, 'c) mem) \<Rightarrow> ('b, 'c) mem" where
  "bindM m f = (\<lambda>h. case m h of None \<Rightarrow> None | Some (x, h') \<Rightarrow> f x h')"

fun mapM :: "('a \<Rightarrow> ('b, 'c) mem) \<Rightarrow> 'a list \<Rightarrow> ('b, 'c list) mem" where
  "mapM f [] = retM []"
| "mapM f (x # xs) = bindM (f x) (\<lambda>y. bindM (mapM f xs) (\<lambda>ys. retM (y # ys)))"

definition array_at :: "('b, 'c) kind \<Rightarrow> nat \<Rightarrow> 'b heap \<Rightarrow> 'c list option" where
  "array_at k a h = (if a < length h then un k (h ! a) else None)"

definition deref :: "('b, 'c) kind \<Rightarrow> addr \<Rightarrow> 'b heap \<Rightarrow> 'c option" where
  "deref k q h = (case array_at k (fst q) h of None \<Rightarrow> None
     | Some vs \<Rightarrow> if snd q < length vs then Some (vs ! snd q) else None)"

definition load :: "('b, 'c) kind \<Rightarrow> ptr \<Rightarrow> ('b, 'c) mem" where
  "load k p = (\<lambda>h. case p of None \<Rightarrow> None
     | Some q \<Rightarrow> (case deref k q h of None \<Rightarrow> None | Some v \<Rightarrow> Some (v, h)))"

definition store :: "('b, 'c) kind \<Rightarrow> ptr \<Rightarrow> 'c \<Rightarrow> ('b, unit) mem" where
  "store k p v = (\<lambda>h. case p of None \<Rightarrow> None
     | Some (a, i) \<Rightarrow> (case array_at k a h of None \<Rightarrow> None
         | Some vs \<Rightarrow> if i < length vs then Some ((), h[a := mk k (vs[i := v])]) else None))"

definition load_slice :: "('b, 'c) kind \<Rightarrow> slice \<Rightarrow> ('b, 'c list) mem" where
  "load_slice k s = (\<lambda>h. case s of None \<Rightarrow> Some ([], h)
     | Some (a, off, n) \<Rightarrow> (case array_at k a h of None \<Rightarrow> None
         | Some vs \<Rightarrow> if off + n \<le> length vs then Some (take n (drop off vs), h) else None))"

definition new_cell :: "('b, 'c) kind \<Rightarrow> 'c \<Rightarrow> ('b, ptr) mem" where
  "new_cell k v = (\<lambda>h. Some (Some (length h, 0), h @ [mk k [v]]))"

definition new_array :: "('b, 'c) kind \<Rightarrow> 'c list \<Rightarrow> ('b, slice) mem" where
  "new_array k vs = (\<lambda>h. Some (Some (length h, 0, length vs), h @ [mk k vs]))"

text \<open>
  The two idioms of a deep copy.  \<open>copy_ptr\<close> is \<^verbatim>\<open>if in != nil { out = new(T);
  in.DeepCopyInto(out) }\<close> and, with \<open>retM\<close> for the elements, \<^verbatim>\<open>*out = *in\<close>; \<open>copy_slice\<close> is
  \<^verbatim>\<open>if in != nil { out = make([]T, len(in)); for i := range in { in[i].DeepCopyInto(&out[i]) } }\<close>
  and, with \<open>retM\<close>, \<^verbatim>\<open>copy(out, in)\<close>.  The block is appended once its contents are known; the
  order in which fresh addresses are handed out cannot be observed.
\<close>

definition copy_ptr :: "('b, 'c) kind \<Rightarrow> ('c \<Rightarrow> ('b, 'c) mem) \<Rightarrow> ptr \<Rightarrow> ('b, ptr) mem" where
  "copy_ptr k into p = (if p = None then retM None
     else bindM (load k p) (\<lambda>v. bindM (into v) (new_cell k)))"

definition copy_slice :: "('b, 'c) kind \<Rightarrow> ('c \<Rightarrow> ('b, 'c) mem) \<Rightarrow> slice \<Rightarrow> ('b, slice) mem" where
  "copy_slice k into s = (if s = None then retM None
     else bindM (load_slice k s) (\<lambda>vs. bindM (mapM into vs) (new_array k)))"

section \<open>What a value represents\<close>

type_synonym ('b, 'v, 'x) reads = "'b heap \<Rightarrow> 'v \<Rightarrow> 'x \<Rightarrow> bool"

definition rep_val :: "('b, 'v, 'v) reads" where
  "rep_val h v x \<longleftrightarrow> v = x"

definition rep_ptr :: "('b, 'v) kind \<Rightarrow> ('b, 'v, 'x) reads \<Rightarrow> ('b, ptr, 'x option) reads" where
  "rep_ptr k r h p x = (case p of None \<Rightarrow> x = None
     | Some q \<Rightarrow> (case deref k q h of None \<Rightarrow> False
         | Some v \<Rightarrow> (case x of None \<Rightarrow> False | Some y \<Rightarrow> r h v y)))"

definition rep_slice :: "('b, 'v) kind \<Rightarrow> ('b, 'v, 'x) reads \<Rightarrow> ('b, slice, 'x list) reads" where
  "rep_slice k r h s xs = (case s of None \<Rightarrow> xs = []
     | Some (a, off, n) \<Rightarrow> (case array_at k a h of None \<Rightarrow> False
         | Some vs \<Rightarrow> off + n \<le> length vs \<and> list_all2 (r h) (take n (drop off vs)) xs))"

text \<open>A nil map and an empty one read the same.\<close>

definition rep_map :: "('b, 'k \<rightharpoonup> 'w) kind \<Rightarrow> ('b, ptr, 'k \<rightharpoonup> 'w) reads" where
  "rep_map k h p m = (case p of None \<Rightarrow> m = Map.empty | Some q \<Rightarrow> deref k q h = Some m)"

definition lives :: "('b, 'v, 'x) reads \<Rightarrow> nat \<Rightarrow> 'b list \<Rightarrow> 'v \<Rightarrow> 'x \<Rightarrow> bool" where
  "lives r n s v x \<longleftrightarrow> (\<forall>g e. length g = n \<longrightarrow> r (g @ s @ e) v x)"

lemma livesD: "lives r n s v x \<Longrightarrow> length g = n \<Longrightarrow> r (g @ s @ e) v x"
  by (simp add: lives_def)

lemma lives_now: "lives r (length h) s v x \<Longrightarrow> r (h @ s) v x"
  using livesD [of r "length h" s v x h "[]"] by simp

lemma lives_append: "lives r n s v x \<Longrightarrow> lives r n (s @ t) v x"
  by (simp add: lives_def)

lemma lives_prepend:
  assumes "lives r (n + length s) t v x" shows "lives r n (s @ t) v x"
proof -
  have "r (g @ (s @ t) @ e) v x" if "length g = n" for g e
    using livesD [OF assms, of "g @ s" e] that by simp
  thus ?thesis by (simp add: lives_def)
qed

lemma lives_val [simp]: "lives rep_val n s v x \<longleftrightarrow> v = x"
  by (auto simp: lives_def rep_val_def intro: exI [of _ "replicate n undefined"])

text \<open>
  A result that shares nothing: the memory \<open>h\<close> from before is unchanged in \<open>h'\<close>, and the result
  keeps its value in every heap \<open>g\<close> that agrees with \<open>h'\<close> on the new blocks, whatever was written
  to the old ones.
\<close>

definition unshared :: "('b, 'v, 'x) reads \<Rightarrow> 'b heap \<Rightarrow> 'b heap \<Rightarrow> 'v \<Rightarrow> 'x \<Rightarrow> bool" where
  "unshared r h h' v x \<longleftrightarrow> take (length h) h' = h \<and> r h' v x \<and>
     (\<forall>g. length h' \<le> length g \<and> (\<forall>a. length h \<le> a \<and> a < length h' \<longrightarrow> g ! a = h' ! a) \<longrightarrow> r g v x)"

lemma lives_unshared:
  assumes "lives r (length h) s v x" shows "unshared r h (h @ s) v x"
proof -
  have "r g v x" if len: "length (h @ s) \<le> length g"
    and eq: "\<And>a. length h \<le> a \<Longrightarrow> a < length (h @ s) \<Longrightarrow> g ! a = (h @ s) ! a" for g
  proof -
    have "take (length s) (drop (length h) g) = s"
      by (rule nth_equalityI) (use len eq in \<open>auto simp: nth_append\<close>)
    hence "g = take (length h) g @ s @ drop (length h + length s) g"
      by (metis add.commute append_take_drop_id drop_drop)
    moreover have "r (take (length h) g @ s @ drop (length h + length s) g) v x"
      by (rule livesD [OF assms]) (use len in simp)
    ultimately show ?thesis by simp
  qed
  thus ?thesis using lives_now [OF assms] by (auto simp: unshared_def)
qed

section \<open>The contract of a copying function\<close>

text \<open>
  \<open>allocates m h s Q\<close>: run after \<open>s\<close> has been allocated on top of \<open>h\<close>, the computation ends, has
  only allocated more, and \<open>Q\<close> holds of everything allocated on top of \<open>h\<close> and of the result.
\<close>

definition allocates :: "('b, 'a) mem \<Rightarrow> 'b heap \<Rightarrow> 'b list \<Rightarrow> ('b list \<Rightarrow> 'a \<Rightarrow> bool) \<Rightarrow> bool" where
  "allocates m h s Q \<longleftrightarrow> (\<exists>v t. m (h @ s) = Some (v, h @ s @ t) \<and> Q (s @ t) v)"

lemma allocatesI: "m (h @ s) = Some (v, h @ s @ t) \<Longrightarrow> Q (s @ t) v \<Longrightarrow> allocates m h s Q"
  by (auto simp: allocates_def)

lemma allocatesE:
  assumes "allocates m h s Q"
  obtains v t where "m (h @ s) = Some (v, h @ s @ t)" "Q (s @ t) v"
  using assms by (auto simp: allocates_def)

lemma allocates_ret [simp]: "allocates (retM v) h s Q \<longleftrightarrow> Q s v"
  by (auto simp: allocates_def retM_def)

lemma allocates_bind:
  assumes "allocates m h s P" and "\<And>v t. P (s @ t) v \<Longrightarrow> allocates (f v) h (s @ t) Q"
  shows "allocates (bindM m f) h s Q"
proof -
  from assms(1) obtain v t where m: "m (h @ s) = Some (v, h @ s @ t)" "P (s @ t) v"
    by (rule allocatesE)
  from assms(2) [OF m(2)] obtain w u where "f v (h @ s @ t) = Some (w, h @ s @ t @ u)" "Q (s @ t @ u) w"
    by (auto elim: allocatesE)
  with m show ?thesis by (auto simp: bindM_def intro: allocatesI)
qed

lemma allocates_weaken: "allocates m h s P \<Longrightarrow> (\<And>t v. P (s @ t) v \<Longrightarrow> Q (s @ t) v) \<Longrightarrow> allocates m h s Q"
  by (auto simp: allocates_def)

lemma allocates_cell: "Q (s @ [mk k [v]]) (Some (length (h @ s), 0)) \<Longrightarrow> allocates (new_cell k v) h s Q"
  by (rule allocatesI) (simp_all add: new_cell_def)

lemma allocates_array:
  "Q (s @ [mk k vs]) (Some (length (h @ s), 0, length vs)) \<Longrightarrow> allocates (new_array k vs) h s Q"
  by (rule allocatesI) (simp_all add: new_array_def)

locale deep_copy =
  fixes r :: "('b, 'v, 'x) reads" and c :: "'v \<Rightarrow> ('b, 'v) mem"
  assumes mono [mem_mono]: "r h v x \<Longrightarrow> r (h @ e) v x"
    and copies: "r h v x \<Longrightarrow> \<exists>v' s. c v h = Some (v', h @ s) \<and> lives r (length h) s v' x"
begin

lemma copy:
  assumes "r h v x"
  obtains v' s where "c v h = Some (v', h @ s)" and "lives r (length h) s v' x"
  using copies [OF assms] by blast

lemma step [copy_step]:
  assumes "r h v x" and "\<And>y t. lives r (length h) (s @ t) y x \<Longrightarrow> allocates (f y) h (s @ t) Q"
  shows "allocates (bindM (c v) f) h s Q"
proof (rule allocates_bind)
  obtain y t where y: "c v (h @ s) = Some (y, (h @ s) @ t)" "lives r (length (h @ s)) t y x"
    by (rule copy [OF mono [OF assms(1)]])
  show "allocates (c v) h s (\<lambda>t y. lives r (length h) t y x)"
    by (rule allocatesI) (use y in \<open>auto intro: lives_prepend\<close>)
qed (rule assms(2))

lemma unshared_copy:
  assumes "r h v x"
  obtains v' h' where "c v h = Some (v', h')" and "unshared r h h' v' x"
    and "\<forall>g. take (length h) g = h \<longrightarrow> r g v x"
proof -
  obtain v' s where "c v h = Some (v', h @ s)" "lives r (length h) s v' x" by (rule copy [OF assms])
  moreover have "r g v x" if "take (length h) g = h" for g
    using mono [OF assms, of "drop (length h) g"] that by (metis append_take_drop_id)
  ultimately show thesis using lives_unshared by (intro that) auto
qed

end

lemma deep_copyI:
  assumes "\<And>h v x e. r h v x \<Longrightarrow> r (h @ e) v x"
    and "\<And>h v x. r h v x \<Longrightarrow> allocates (c v) h [] (\<lambda>s y. lives r (length h) s y x)"
  shows "deep_copy r c"
  by unfold_locales (use assms in \<open>auto simp: allocates_def\<close>)

section \<open>Copies of pointers, slices and maps\<close>

lemma array_at_append [simp]: "array_at k a h = Some vs \<Longrightarrow> array_at k a (h @ e) = Some vs"
  by (auto simp: array_at_def nth_append split: if_splits)

lemma array_at_new: "kind_ok k \<Longrightarrow> length g = n \<Longrightarrow> array_at k n (g @ mk k vs # e) = Some vs"
  by (auto simp: array_at_def kind_ok_def)

lemma deref_append: "deref k q h = Some v \<Longrightarrow> deref k q (h @ e) = Some v"
  by (auto simp: deref_def split: option.splits)

lemma deref_new: "kind_ok k \<Longrightarrow> length g = n \<Longrightarrow> deref k (n, 0) (g @ mk k [v] # e) = Some v"
  by (simp add: deref_def array_at_new)

lemma rep_ptr_cases:
  assumes "rep_ptr k r h p x"
  obtains "p = None" "x = None"
    | q v y where "p = Some q" "x = Some y" "deref k q h = Some v" "r h v y"
  using assms by (auto simp: rep_ptr_def split: option.splits)

lemma rep_ptr_None [simp]: "rep_ptr k r h None x \<longleftrightarrow> x = None" "rep_ptr k r h p None \<longleftrightarrow> p = None"
  by (auto simp: rep_ptr_def split: option.splits)

lemma rep_ptr_mono:
  "rep_ptr k r h p x \<Longrightarrow> (\<And>v y. r h v y \<Longrightarrow> r (h @ e) v y) \<Longrightarrow> rep_ptr k r (h @ e) p x"
  by (erule rep_ptr_cases) (auto simp: rep_ptr_def deref_append)

lemma rep_ptr_new:
  assumes "kind_ok k" and "lives r n s v y"
  shows "lives (rep_ptr k r) n (s @ [mk k [v]]) (Some (n + length s, 0)) (Some y)"
  unfolding lives_def
proof (intro allI impI)
  fix g e :: "'a list" assume g: "length g = n"
  have "deref k (n + length s, 0) ((g @ s) @ mk k [v] # e) = Some v"
    by (rule deref_new) (use assms(1) g in auto)
  moreover have "r (g @ s @ mk k [v] # e) v y" using livesD [OF assms(2) g] by simp
  ultimately show "rep_ptr k r (g @ (s @ [mk k [v]]) @ e) (Some (n + length s, 0)) (Some y)"
    by (simp add: rep_ptr_def)
qed

lemma rep_slice_mono:
  assumes "rep_slice k r h s xs" and "\<And>v y. r h v y \<Longrightarrow> r (h @ e) v y"
  shows "rep_slice k r (h @ e) s xs"
  using assms(1) by (auto simp: rep_slice_def split: option.splits intro: list_all2_mono assms(2))

lemma deep_copy_val: "deep_copy rep_val retM"
  by (rule deep_copyI) (simp_all add: rep_val_def)

lemma deep_copy_list:
  assumes "deep_copy r c" shows "deep_copy (\<lambda>h. list_all2 (r h)) (mapM c)"
proof (rule deep_copyI)
  show "list_all2 (r h) vs xs \<Longrightarrow> list_all2 (r (h @ e)) vs xs" for h e vs xs
    by (erule list_all2_mono) (rule deep_copy.mono [OF assms])
next
  fix h vs xs assume "list_all2 (r h) vs xs"
  hence "allocates (mapM c vs) h s (\<lambda>t ys. lives (\<lambda>h. list_all2 (r h)) (length h) t ys xs)" for s
  proof (induction arbitrary: s rule: list_all2_induct)
    case Nil
    show ?case by (simp add: lives_def)
  next
    case (Cons v vs x xs)
    show ?case
      unfolding mapM.simps
      by (rule deep_copy.step [OF assms Cons(1)], rule allocates_bind [OF Cons.IH])
         (auto simp: lives_def)
  qed
  thus "allocates (mapM c vs) h [] (\<lambda>s ys. lives (\<lambda>h. list_all2 (r h)) (length h) s ys xs)" .
qed

lemma copy_ptr_cell:
  assumes "deep_copy r c" and "deref k q h = Some v" and "r h v x"
  obtains w s where "copy_ptr k c (Some q) h = Some (Some (length h + length s, 0), h @ s @ [mk k [w]])"
    and "c v h = Some (w, h @ s)" and "lives r (length h) s w x"
proof -
  obtain w s where "c v h = Some (w, h @ s)" "lives r (length h) s w x"
    by (rule deep_copy.copy [OF assms(1,3)])
  with assms(2) show thesis
    by (intro that [of s w]) (simp_all add: copy_ptr_def bindM_def load_def new_cell_def)
qed

lemma deep_copy_ptr:
  assumes "kind_ok k" and "deep_copy r c" shows "deep_copy (rep_ptr k r) (copy_ptr k c)"
proof (rule deep_copyI)
  show "rep_ptr k r h p x \<Longrightarrow> rep_ptr k r (h @ e) p x" for h e p x
    by (erule rep_ptr_mono) (rule deep_copy.mono [OF assms(2)])
next
  fix h p x assume "rep_ptr k r h p x"
  thus "allocates (copy_ptr k c p) h [] (\<lambda>s y. lives (rep_ptr k r) (length h) s y x)"
  proof (cases rule: rep_ptr_cases)
    case 1
    thus ?thesis by (simp add: copy_ptr_def lives_def)
  next
    case (2 q v y)
    then obtain w s where w: "copy_ptr k c (Some q) h = Some (Some (length h + length s, 0), h @ s @ [mk k [w]])"
      "lives r (length h) s w y"
      by (metis copy_ptr_cell [OF assms(2)])
    show ?thesis
      by (rule allocatesI) (use w 2 rep_ptr_new [OF assms(1) w(2)] in auto)
  qed
qed

lemma deep_copy_slice:
  assumes "kind_ok k" and "deep_copy r c" shows "deep_copy (rep_slice k r) (copy_slice k c)"
proof (rule deep_copyI)
  show "rep_slice k r h p x \<Longrightarrow> rep_slice k r (h @ e) p x" for h e p x
    by (erule rep_slice_mono) (rule deep_copy.mono [OF assms(2)])
next
  fix h p xs assume rep: "rep_slice k r h p xs"
  show "allocates (copy_slice k c p) h [] (\<lambda>s y. lives (rep_slice k r) (length h) s y xs)"
  proof (cases p)
    case None
    thus ?thesis using rep by (simp add: copy_slice_def rep_slice_def lives_def)
  next
    case (Some q)
    then obtain a off n vs where q: "p = Some (a, off, n)" "array_at k a h = Some vs" "off + n \<le> length vs"
      "list_all2 (r h) (take n (drop off vs)) xs"
      using rep by (cases q) (auto simp: rep_slice_def split: option.splits)
    obtain ws s where ws: "mapM c (take n (drop off vs)) h = Some (ws, h @ s)"
      "lives (\<lambda>h. list_all2 (r h)) (length h) s ws xs"
      by (rule deep_copy.copy [OF deep_copy_list [OF assms(2)] q(4)])
    have "lives (rep_slice k r) (length h) (s @ [mk k ws]) (Some (length h + length s, 0, length ws)) xs"
      unfolding lives_def
    proof (intro allI impI)
      fix g e :: "'a list" assume g: "length g = length h"
      have "array_at k (length h + length s) ((g @ s) @ mk k ws # e) = Some ws"
        by (rule array_at_new) (use assms(1) g in auto)
      moreover have "list_all2 (r (g @ s @ mk k ws # e)) ws xs"
        using livesD [OF ws(2) g] by simp
      ultimately show "rep_slice k r (g @ (s @ [mk k ws]) @ e) (Some (length h + length s, 0, length ws)) xs"
        by (simp add: rep_slice_def)
    qed
    with q ws show ?thesis
      by (intro allocatesI) (auto simp: copy_slice_def bindM_def load_slice_def new_array_def)
  qed
qed

lemma deep_copy_map:
  assumes "kind_ok k" shows "deep_copy (rep_map k) (copy_ptr k retM)"
proof (rule deep_copyI)
  show "rep_map k h p m \<Longrightarrow> rep_map k (h @ e) p m" for h e p m
    by (auto simp: rep_map_def deref_append split: option.splits)
next
  fix h p m assume "rep_map k h p m"
  thus "allocates (copy_ptr k retM p) h [] (\<lambda>s y. lives (rep_map k) (length h) s y m)"
    by (auto simp: rep_map_def copy_ptr_def bindM_def retM_def load_def new_cell_def allocates_def
        lives_def deref_new [OF assms] split: option.splits)
qed

section \<open>Cells\<close>

lemma load_new:
  "kind_ok k \<Longrightarrow> n = length g \<Longrightarrow> load k (Some (n, 0)) (g @ mk k [v] # e) = Some (v, g @ mk k [v] # e)"
  by (simp add: load_def deref_new)

lemma store_new:
  "kind_ok k \<Longrightarrow> n = length g \<Longrightarrow>
   store k (Some (n, 0)) w (g @ mk k [v] # e) = Some ((), g @ mk k [w] # e)"
  by (simp add: store_def array_at_new)

lemma load_rep: "rep_ptr k r h (Some q) (Some y) \<Longrightarrow> \<exists>v. load k (Some q) h = Some (v, h) \<and> r h v y"
  by (auto simp: rep_ptr_def load_def split: option.splits)

text \<open>
  What \<open>copy_ptr\<close> leaves: nothing for nil, and otherwise the parts of the copy in \<open>t\<close> followed by
  the cell itself, which the caller may then overwrite without touching the parts.
\<close>

definition cell_copy :: "('b, 'v, 'x) reads \<Rightarrow> ('b, 'v) kind \<Rightarrow> nat \<Rightarrow> 'b list \<Rightarrow> ptr \<Rightarrow> 'x option \<Rightarrow> bool" where
  "cell_copy r k n s p x \<longleftrightarrow> (case x of None \<Rightarrow> p = None \<and> s = []
     | Some y \<Rightarrow> (\<exists>t v. s = t @ [mk k [v]] \<and> p = Some (n + length t, 0) \<and> lives r n t v y))"

lemma cell_copy_None [simp]: "cell_copy r k n s p None \<longleftrightarrow> p = None \<and> s = []"
  by (simp add: cell_copy_def)

lemma cell_copy_SomeE:
  assumes "cell_copy r k n s p (Some y)"
  obtains t v where "s = t @ [mk k [v]]" "p = Some (n + length t, 0)" "lives r n t v y"
  using assms by (auto simp: cell_copy_def)

lemma cell_copy_lives: "kind_ok k \<Longrightarrow> cell_copy r k n s p x \<Longrightarrow> lives (rep_ptr k r) n s p x"
  by (cases x) (auto simp: rep_ptr_new elim!: cell_copy_SomeE, simp add: lives_def)

text \<open>
  A copying function for the values of a kind of block gives one for the pointers to such
  blocks and one for the slices of them.
\<close>

locale deep_copy_kind = deep_copy r c for r :: "('b, 'v, 'x) reads" and c +
  fixes k :: "('b, 'v) kind"
  assumes ok: "kind_ok k"
begin

sublocale ptr: deep_copy "rep_ptr k r" "copy_ptr k c"
  by (rule deep_copy_ptr [OF ok]) unfold_locales

sublocale slice: deep_copy "rep_slice k r" "copy_slice k c"
  by (rule deep_copy_slice [OF ok]) unfold_locales

lemma cell:
  assumes "rep_ptr k r h p x"
  obtains q s where "copy_ptr k c p h = Some (q, h @ s)" and "cell_copy r k (length h) s q x"
  using assms
proof (cases rule: rep_ptr_cases)
  case 1
  thus ?thesis by (intro that [of None "[]"]) (simp_all add: copy_ptr_def retM_def)
next
  case (2 q v y)
  obtain w s where "copy_ptr k c (Some q) h = Some (Some (length h + length s, 0), h @ s @ [mk k [w]])"
    "lives r (length h) s w y"
    by (rule copy_ptr_cell [OF deep_copy_axioms 2(3,4)])
  with 2 show ?thesis by (intro that [of _ "s @ [mk k [w]]"]) (auto simp: cell_copy_def)
qed

end

lemma deep_copy_kindI:
  assumes "kind_ok k" and "\<And>h v x e. r h v x \<Longrightarrow> r (h @ e) v x"
    and "\<And>h v x. r h v x \<Longrightarrow> allocates (c v) h [] (\<lambda>s y. lives r (length h) s y x)"
  shows "deep_copy_kind r c k"
  using deep_copyI [OF assms(2,3)] assms(1) by (simp add: deep_copy_kind_def deep_copy_kind_axioms_def)

lemma deep_copy_kind_val: "kind_ok k \<Longrightarrow> deep_copy_kind rep_val retM k"
  by (rule deep_copy_kindI) (simp_all add: rep_val_def)

text \<open>A copy is nil exactly if the original is, for slices as for pointers.\<close>

lemma copy_nil:
  "copy_ptr k c p h = Some (p', h') \<Longrightarrow> p' = None \<longleftrightarrow> p = None"
  "copy_slice k c' s h = Some (s', h') \<Longrightarrow> s' = None \<longleftrightarrow> s = None"
  by (auto simp: copy_ptr_def copy_slice_def bindM_def new_cell_def new_array_def retM_def
      split: if_splits option.splits)

end
