(* ===== verification/Deep_Types.thy ===== *)
theory Deep_Types
  imports Go_Heap Api_Types
begin

text \<open>
  The structs of \<^verbatim>\<open>api/v1beta1\<close> as they lie in memory: a field that is a pointer, a slice or
  a map in Go is an address here.  A struct without such fields (a policy line, a destination,
  a label, a storage class, the status of a namespace) is the record of \<open>Api_Types\<close>.  A block
  is an array of the values of one type, and each type has its kind of block.  What the structs of
  apimachinery that the API embeds hold in memory is the parameter \<^typ>\<open>'x\<close>.
\<close>

section \<open>Structs with pointers\<close>

record h_AdditionalSettingsSpec =
  h_as_PodSecurityEnforce :: string
  h_as_PodSecurityWarn :: string
  h_as_PodSecurityAudit :: string
  h_as_EnableClusterMonitoring :: ptr
  h_as_AdditionalLabels :: slice

record h_ArgoCDRoleSpec =
  h_ar_Name :: string
  h_ar_Description :: string
  h_ar_OIDCGroups :: slice
  h_ar_FullAccess :: ptr
  h_ar_Policies :: slice

record h_ArgoCDProjectSpec =
  h_ac_Enabled :: ptr
  h_ac_Name :: string
  h_ac_Description :: string
  h_ac_SourceRepos :: slice
  h_ac_SourceNamespaces :: slice
  h_ac_Destinations :: slice
  h_ac_OIDCGroups :: slice
  h_ac_Roles :: slice

record h_DefaultPoliciesSpec =
  h_dp_AllowFromIngress :: ptr
  h_dp_AllowFromMonitoring :: ptr
  h_dp_AllowKubeAPIServer :: ptr
  h_dp_AllowToDNS :: ptr
  h_dp_DenyAllEgress :: ptr
  h_dp_DenyAllIngress :: ptr
  h_dp_AllowFromSameNamespace :: ptr

record h_EgressIPSpec =
  h_eip_Enabled :: ptr
  h_eip_IPs :: slice

record h_GitOpsSpec =
  h_go_ApplicationNamespace :: string
  h_go_Destinations :: slice
  h_go_AllowedSourceRepos :: slice
  h_go_AllowedOIDCGroups :: slice
  h_go_AllowedSourceNamespaces :: slice

record h_IPBlockSpec =
  h_ib_CIDR :: string
  h_ib_Except :: slice

record h_ResourceAmountSpec =
  h_ra_CPU :: ptr
  h_ra_Memory :: ptr

record h_StorageAmountSpec =
  h_sa_Storage :: ptr

record h_LimitRangeContainerSpec =
  h_lc_Max :: ptr
  h_lc_Min :: ptr
  h_lc_Default :: ptr
  h_lc_DefaultRequest :: ptr

record h_LimitRangePVCSpec =
  h_lv_Min :: ptr
  h_lv_Max :: ptr

record h_LimitRangePodSpec =
  h_lp_Max :: ptr
  h_lp_Min :: ptr

record h_LimitRangeSpec =
  h_lr_Enabled :: ptr
  h_lr_Pod :: ptr
  h_lr_Container :: ptr
  h_lr_PVC :: ptr

record h_LocalAdminGroupSpec =
  h_lag_Enabled :: ptr
  h_lag_GroupName :: string
  h_lag_ClusterRole :: string
  h_lag_Users :: slice

record h_ResourceQuotaLimitSpec =
  h_rl_CPU :: ptr
  h_rl_Memory :: ptr
  h_rl_EphemeralStorage :: ptr

record h_ResourceQuotaRequestSpec =
  h_rr_CPU :: ptr
  h_rr_Memory :: ptr
  h_rr_Storage :: ptr
  h_rr_EphemeralStorage :: ptr

record h_ResourceQuotaSpec =
  h_rq_Enabled :: ptr
  h_rq_CPU :: ptr
  h_rq_Memory :: ptr
  h_rq_EphemeralStorage :: ptr
  h_rq_Pods :: ptr
  h_rq_ReplicationControllers :: ptr
  h_rq_ResourceQuotas :: ptr
  h_rq_Services :: ptr
  h_rq_Secrets :: ptr
  h_rq_ConfigMaps :: ptr
  h_rq_PersistentVolumeClaims :: ptr
  h_rq_Limits :: ptr
  h_rq_Requests :: ptr
  h_rq_StorageClasses :: slice

record h_NetworkPolicyPortSpec =
  h_npo_Protocol :: ptr
  h_npo_Port :: ptr

record h_NetworkPolicyPeerSpec =
  h_npp_PodSelector :: ptr
  h_npp_NamespaceSelector :: ptr
  h_npp_IPBlock :: ptr

record h_NetworkPolicyRuleSpec =
  h_npr_Selectors :: slice
  h_npr_Ports :: slice

record h_CustomNetworkPolicySpec =
  h_cnp_Name :: string
  h_cnp_Active :: ptr
  h_cnp_PodSelector :: ptr
  h_cnp_IngressRules :: slice
  h_cnp_EgressRules :: slice

record h_NamespaceSpec =
  h_ns_Name :: string
  h_ns_Enabled :: ptr
  h_ns_Offboard :: ptr
  h_ns_AdditionalSettings :: ptr
  h_ns_OverwriteTshirt :: ptr
  h_ns_ResourceQuotas :: ptr
  h_ns_LimitRanges :: ptr
  h_ns_DefaultPolicies :: ptr
  h_ns_NetworkPolicies :: slice
  h_ns_LocalAdminGroup :: ptr
  h_ns_EgressIPs :: ptr
  h_ns_ApplicationGitOpsNamespace :: string
  h_ns_ArgoCDProjects :: slice
  h_ns_ProjectSize :: string
  h_ns_Labels :: ptr
  h_ns_Annotations :: ptr

record h_ProjectOnboardingSpec =
  h_ps_GitOps :: ptr
  h_ps_Namespaces :: slice

record h_ProjectOnboardingStatus =
  h_pst_ObservedGeneration :: int
  h_pst_Phase :: string
  h_pst_Conditions :: slice
  h_pst_Namespaces :: slice

record h_TShirtSizeSpec =
  h_ts_Description :: string
  h_ts_ResourceQuotas :: ptr
  h_ts_LimitRanges :: ptr

record h_TShirtSizeStatus =
  h_tst_ObservedGeneration :: int
  h_tst_Phase :: string
  h_tst_ReferencedBy :: i32
  h_tst_Conditions :: slice

text \<open>\<^verbatim>\<open>TypeMeta\<close> and \<^verbatim>\<open>ListMeta\<close> of apimachinery; the former has no pointers.\<close>

record TypeMeta =
  tm_Kind :: string
  tm_APIVersion :: string

record ListMeta =
  lm_SelfLink :: string
  lm_ResourceVersion :: string
  lm_Continue :: string
  lm_RemainingItemCount :: "int option"

record 'x h_ProjectOnboarding =
  h_po_TypeMeta :: TypeMeta
  h_po_ObjectMeta :: 'x
  h_po_Spec :: h_ProjectOnboardingSpec
  h_po_Status :: h_ProjectOnboardingStatus

record 'x h_ProjectOnboardingList =
  h_pol_TypeMeta :: TypeMeta
  h_pol_ListMeta :: 'x
  h_pol_Items :: slice

record 'x h_TShirtSize =
  h_tss_TypeMeta :: TypeMeta
  h_tss_ObjectMeta :: 'x
  h_tss_Spec :: h_TShirtSizeSpec
  h_tss_Status :: h_TShirtSizeStatus

record 'x h_TShirtSizeList =
  h_tsl_TypeMeta :: TypeMeta
  h_tsl_ListMeta :: 'x
  h_tsl_Items :: slice

section \<open>Blocks\<close>

datatype 'x block =
    Bools "bool list" | Strings "string list" | Int32s "i32 list" | Maps "str_map list"
  | Externs "'x list"
  | B_ArgoCDPolicySpec "ArgoCDPolicySpec list"
  | B_GitOpsDestinationSpec "GitOpsDestinationSpec list"
  | B_NamespaceLabel "NamespaceLabel list"
  | B_NamespaceStatus "NamespaceStatus list"
  | B_StorageClassQuota "StorageClassQuota list"
  | B_AdditionalSettingsSpec "h_AdditionalSettingsSpec list"
  | B_ArgoCDRoleSpec "h_ArgoCDRoleSpec list"
  | B_ArgoCDProjectSpec "h_ArgoCDProjectSpec list"
  | B_DefaultPoliciesSpec "h_DefaultPoliciesSpec list"
  | B_EgressIPSpec "h_EgressIPSpec list"
  | B_GitOpsSpec "h_GitOpsSpec list"
  | B_IPBlockSpec "h_IPBlockSpec list"
  | B_ResourceAmountSpec "h_ResourceAmountSpec list"
  | B_StorageAmountSpec "h_StorageAmountSpec list"
  | B_LimitRangeContainerSpec "h_LimitRangeContainerSpec list"
  | B_LimitRangePVCSpec "h_LimitRangePVCSpec list"
  | B_LimitRangePodSpec "h_LimitRangePodSpec list"
  | B_LimitRangeSpec "h_LimitRangeSpec list"
  | B_LocalAdminGroupSpec "h_LocalAdminGroupSpec list"
  | B_ResourceQuotaLimitSpec "h_ResourceQuotaLimitSpec list"
  | B_ResourceQuotaRequestSpec "h_ResourceQuotaRequestSpec list"
  | B_ResourceQuotaSpec "h_ResourceQuotaSpec list"
  | B_NetworkPolicyPortSpec "h_NetworkPolicyPortSpec list"
  | B_NetworkPolicyPeerSpec "h_NetworkPolicyPeerSpec list"
  | B_NetworkPolicyRuleSpec "h_NetworkPolicyRuleSpec list"
  | B_CustomNetworkPolicySpec "h_CustomNetworkPolicySpec list"
  | B_NamespaceSpec "h_NamespaceSpec list"
  | B_ProjectOnboardingSpec "h_ProjectOnboardingSpec list"
  | B_ProjectOnboardingStatus "h_ProjectOnboardingStatus list"
  | B_ProjectOnboarding "('x h_ProjectOnboarding) list"
  | B_ProjectOnboardingList "('x h_ProjectOnboardingList) list"
  | B_TShirtSizeSpec "h_TShirtSizeSpec list"
  | B_TShirtSizeStatus "h_TShirtSizeStatus list"
  | B_TShirtSize "('x h_TShirtSize) list"
  | B_TShirtSizeList "('x h_TShirtSizeList) list"

text \<open>The kind of block of each type.\<close>

definition kBool :: "('x block, bool) kind" where
  "kBool = \<lparr>mk = Bools, un = (\<lambda>b. case b of Bools xs \<Rightarrow> Some xs | _ \<Rightarrow> None)\<rparr>"

definition kString :: "('x block, string) kind" where
  "kString = \<lparr>mk = Strings, un = (\<lambda>b. case b of Strings xs \<Rightarrow> Some xs | _ \<Rightarrow> None)\<rparr>"

definition kInt32 :: "('x block, i32) kind" where
  "kInt32 = \<lparr>mk = Int32s, un = (\<lambda>b. case b of Int32s xs \<Rightarrow> Some xs | _ \<Rightarrow> None)\<rparr>"

definition kMap :: "('x block, str_map) kind" where
  "kMap = \<lparr>mk = Maps, un = (\<lambda>b. case b of Maps xs \<Rightarrow> Some xs | _ \<Rightarrow> None)\<rparr>"

definition kExtern :: "('x block, 'x) kind" where
  "kExtern = \<lparr>mk = Externs, un = (\<lambda>b. case b of Externs xs \<Rightarrow> Some xs | _ \<Rightarrow> None)\<rparr>"

definition kArgoCDPolicySpec :: "('x block, ArgoCDPolicySpec) kind" where
  "kArgoCDPolicySpec = \<lparr>mk = B_ArgoCDPolicySpec, un = (\<lambda>b. case b of B_ArgoCDPolicySpec xs \<Rightarrow> Some xs | _ \<Rightarrow> None)\<rparr>"

definition kGitOpsDestinationSpec :: "('x block, GitOpsDestinationSpec) kind" where
  "kGitOpsDestinationSpec = \<lparr>mk = B_GitOpsDestinationSpec, un = (\<lambda>b. case b of B_GitOpsDestinationSpec xs \<Rightarrow> Some xs | _ \<Rightarrow> None)\<rparr>"

definition kNamespaceLabel :: "('x block, NamespaceLabel) kind" where
  "kNamespaceLabel = \<lparr>mk = B_NamespaceLabel, un = (\<lambda>b. case b of B_NamespaceLabel xs \<Rightarrow> Some xs | _ \<Rightarrow> None)\<rparr>"

definition kNamespaceStatus :: "('x block, NamespaceStatus) kind" where
  "kNamespaceStatus = \<lparr>mk = B_NamespaceStatus, un = (\<lambda>b. case b of B_NamespaceStatus xs \<Rightarrow> Some xs | _ \<Rightarrow> None)\<rparr>"

definition kStorageClassQuota :: "('x block, StorageClassQuota) kind" where
  "kStorageClassQuota = \<lparr>mk = B_StorageClassQuota, un = (\<lambda>b. case b of B_StorageClassQuota xs \<Rightarrow> Some xs | _ \<Rightarrow> None)\<rparr>"

definition kAdditionalSettingsSpec :: "('x block, h_AdditionalSettingsSpec) kind" where
  "kAdditionalSettingsSpec = \<lparr>mk = B_AdditionalSettingsSpec, un = (\<lambda>b. case b of B_AdditionalSettingsSpec xs \<Rightarrow> Some xs | _ \<Rightarrow> None)\<rparr>"

definition kArgoCDRoleSpec :: "('x block, h_ArgoCDRoleSpec) kind" where
  "kArgoCDRoleSpec = \<lparr>mk = B_ArgoCDRoleSpec, un = (\<lambda>b. case b of B_ArgoCDRoleSpec xs \<Rightarrow> Some xs | _ \<Rightarrow> None)\<rparr>"

definition kArgoCDProjectSpec :: "('x block, h_ArgoCDProjectSpec) kind" where
  "kArgoCDProjectSpec = \<lparr>mk = B_ArgoCDProjectSpec, un = (\<lambda>b. case b of B_ArgoCDProjectSpec xs \<Rightarrow> Some xs | _ \<Rightarrow> None)\<rparr>"

definition kDefaultPoliciesSpec :: "('x block, h_DefaultPoliciesSpec) kind" where
  "kDefaultPoliciesSpec = \<lparr>mk = B_DefaultPoliciesSpec, un = (\<lambda>b. case b of B_DefaultPoliciesSpec xs \<Rightarrow> Some xs | _ \<Rightarrow> None)\<rparr>"

definition kEgressIPSpec :: "('x block, h_EgressIPSpec) kind" where
  "kEgressIPSpec = \<lparr>mk = B_EgressIPSpec, un = (\<lambda>b. case b of B_EgressIPSpec xs \<Rightarrow> Some xs | _ \<Rightarrow> None)\<rparr>"

definition kGitOpsSpec :: "('x block, h_GitOpsSpec) kind" where
  "kGitOpsSpec = \<lparr>mk = B_GitOpsSpec, un = (\<lambda>b. case b of B_GitOpsSpec xs \<Rightarrow> Some xs | _ \<Rightarrow> None)\<rparr>"

definition kIPBlockSpec :: "('x block, h_IPBlockSpec) kind" where
  "kIPBlockSpec = \<lparr>mk = B_IPBlockSpec, un = (\<lambda>b. case b of B_IPBlockSpec xs \<Rightarrow> Some xs | _ \<Rightarrow> None)\<rparr>"

definition kResourceAmountSpec :: "('x block, h_ResourceAmountSpec) kind" where
  "kResourceAmountSpec = \<lparr>mk = B_ResourceAmountSpec, un = (\<lambda>b. case b of B_ResourceAmountSpec xs \<Rightarrow> Some xs | _ \<Rightarrow> None)\<rparr>"

definition kStorageAmountSpec :: "('x block, h_StorageAmountSpec) kind" where
  "kStorageAmountSpec = \<lparr>mk = B_StorageAmountSpec, un = (\<lambda>b. case b of B_StorageAmountSpec xs \<Rightarrow> Some xs | _ \<Rightarrow> None)\<rparr>"

definition kLimitRangeContainerSpec :: "('x block, h_LimitRangeContainerSpec) kind" where
  "kLimitRangeContainerSpec = \<lparr>mk = B_LimitRangeContainerSpec, un = (\<lambda>b. case b of B_LimitRangeContainerSpec xs \<Rightarrow> Some xs | _ \<Rightarrow> None)\<rparr>"

definition kLimitRangePVCSpec :: "('x block, h_LimitRangePVCSpec) kind" where
  "kLimitRangePVCSpec = \<lparr>mk = B_LimitRangePVCSpec, un = (\<lambda>b. case b of B_LimitRangePVCSpec xs \<Rightarrow> Some xs | _ \<Rightarrow> None)\<rparr>"

definition kLimitRangePodSpec :: "('x block, h_LimitRangePodSpec) kind" where
  "kLimitRangePodSpec = \<lparr>mk = B_LimitRangePodSpec, un = (\<lambda>b. case b of B_LimitRangePodSpec xs \<Rightarrow> Some xs | _ \<Rightarrow> None)\<rparr>"

definition kLimitRangeSpec :: "('x block, h_LimitRangeSpec) kind" where
  "kLimitRangeSpec = \<lparr>mk = B_LimitRangeSpec, un = (\<lambda>b. case b of B_LimitRangeSpec xs \<Rightarrow> Some xs | _ \<Rightarrow> None)\<rparr>"

definition kLocalAdminGroupSpec :: "('x block, h_LocalAdminGroupSpec) kind" where
  "kLocalAdminGroupSpec = \<lparr>mk = B_LocalAdminGroupSpec, un = (\<lambda>b. case b of B_LocalAdminGroupSpec xs \<Rightarrow> Some xs | _ \<Rightarrow> None)\<rparr>"

definition kResourceQuotaLimitSpec :: "('x block, h_ResourceQuotaLimitSpec) kind" where
  "kResourceQuotaLimitSpec = \<lparr>mk = B_ResourceQuotaLimitSpec, un = (\<lambda>b. case b of B_ResourceQuotaLimitSpec xs \<Rightarrow> Some xs | _ \<Rightarrow> None)\<rparr>"

definition kResourceQuotaRequestSpec :: "('x block, h_ResourceQuotaRequestSpec) kind" where
  "kResourceQuotaRequestSpec = \<lparr>mk = B_ResourceQuotaRequestSpec, un = (\<lambda>b. case b of B_ResourceQuotaRequestSpec xs \<Rightarrow> Some xs | _ \<Rightarrow> None)\<rparr>"

definition kResourceQuotaSpec :: "('x block, h_ResourceQuotaSpec) kind" where
  "kResourceQuotaSpec = \<lparr>mk = B_ResourceQuotaSpec, un = (\<lambda>b. case b of B_ResourceQuotaSpec xs \<Rightarrow> Some xs | _ \<Rightarrow> None)\<rparr>"

definition kNetworkPolicyPortSpec :: "('x block, h_NetworkPolicyPortSpec) kind" where
  "kNetworkPolicyPortSpec = \<lparr>mk = B_NetworkPolicyPortSpec, un = (\<lambda>b. case b of B_NetworkPolicyPortSpec xs \<Rightarrow> Some xs | _ \<Rightarrow> None)\<rparr>"

definition kNetworkPolicyPeerSpec :: "('x block, h_NetworkPolicyPeerSpec) kind" where
  "kNetworkPolicyPeerSpec = \<lparr>mk = B_NetworkPolicyPeerSpec, un = (\<lambda>b. case b of B_NetworkPolicyPeerSpec xs \<Rightarrow> Some xs | _ \<Rightarrow> None)\<rparr>"

definition kNetworkPolicyRuleSpec :: "('x block, h_NetworkPolicyRuleSpec) kind" where
  "kNetworkPolicyRuleSpec = \<lparr>mk = B_NetworkPolicyRuleSpec, un = (\<lambda>b. case b of B_NetworkPolicyRuleSpec xs \<Rightarrow> Some xs | _ \<Rightarrow> None)\<rparr>"

definition kCustomNetworkPolicySpec :: "('x block, h_CustomNetworkPolicySpec) kind" where
  "kCustomNetworkPolicySpec = \<lparr>mk = B_CustomNetworkPolicySpec, un = (\<lambda>b. case b of B_CustomNetworkPolicySpec xs \<Rightarrow> Some xs | _ \<Rightarrow> None)\<rparr>"

definition kNamespaceSpec :: "('x block, h_NamespaceSpec) kind" where
  "kNamespaceSpec = \<lparr>mk = B_NamespaceSpec, un = (\<lambda>b. case b of B_NamespaceSpec xs \<Rightarrow> Some xs | _ \<Rightarrow> None)\<rparr>"

definition kProjectOnboardingSpec :: "('x block, h_ProjectOnboardingSpec) kind" where
  "kProjectOnboardingSpec = \<lparr>mk = B_ProjectOnboardingSpec, un = (\<lambda>b. case b of B_ProjectOnboardingSpec xs \<Rightarrow> Some xs | _ \<Rightarrow> None)\<rparr>"

definition kProjectOnboardingStatus :: "('x block, h_ProjectOnboardingStatus) kind" where
  "kProjectOnboardingStatus = \<lparr>mk = B_ProjectOnboardingStatus, un = (\<lambda>b. case b of B_ProjectOnboardingStatus xs \<Rightarrow> Some xs | _ \<Rightarrow> None)\<rparr>"

definition kProjectOnboarding :: "('x block, 'x h_ProjectOnboarding) kind" where
  "kProjectOnboarding = \<lparr>mk = B_ProjectOnboarding, un = (\<lambda>b. case b of B_ProjectOnboarding xs \<Rightarrow> Some xs | _ \<Rightarrow> None)\<rparr>"

definition kProjectOnboardingList :: "('x block, 'x h_ProjectOnboardingList) kind" where
  "kProjectOnboardingList = \<lparr>mk = B_ProjectOnboardingList, un = (\<lambda>b. case b of B_ProjectOnboardingList xs \<Rightarrow> Some xs | _ \<Rightarrow> None)\<rparr>"

definition kTShirtSizeSpec :: "('x block, h_TShirtSizeSpec) kind" where
  "kTShirtSizeSpec = \<lparr>mk = B_TShirtSizeSpec, un = (\<lambda>b. case b of B_TShirtSizeSpec xs \<Rightarrow> Some xs | _ \<Rightarrow> None)\<rparr>"

definition kTShirtSizeStatus :: "('x block, h_TShirtSizeStatus) kind" where
  "kTShirtSizeStatus = \<lparr>mk = B_TShirtSizeStatus, un = (\<lambda>b. case b of B_TShirtSizeStatus xs \<Rightarrow> Some xs | _ \<Rightarrow> None)\<rparr>"

definition kTShirtSize :: "('x block, 'x h_TShirtSize) kind" where
  "kTShirtSize = \<lparr>mk = B_TShirtSize, un = (\<lambda>b. case b of B_TShirtSize xs \<Rightarrow> Some xs | _ \<Rightarrow> None)\<rparr>"

definition kTShirtSizeList :: "('x block, 'x h_TShirtSizeList) kind" where
  "kTShirtSizeList = \<lparr>mk = B_TShirtSizeList, un = (\<lambda>b. case b of B_TShirtSizeList xs \<Rightarrow> Some xs | _ \<Rightarrow> None)\<rparr>"

lemma kinds:
  "kind_ok kBool"
  "kind_ok kString"
  "kind_ok kInt32"
  "kind_ok kMap"
  "kind_ok kExtern"
  "kind_ok kArgoCDPolicySpec"
  "kind_ok kGitOpsDestinationSpec"
  "kind_ok kNamespaceLabel"
  "kind_ok kNamespaceStatus"
  "kind_ok kStorageClassQuota"
  "kind_ok kAdditionalSettingsSpec"
  "kind_ok kArgoCDRoleSpec"
  "kind_ok kArgoCDProjectSpec"
  "kind_ok kDefaultPoliciesSpec"
  "kind_ok kEgressIPSpec"
  "kind_ok kGitOpsSpec"
  "kind_ok kIPBlockSpec"
  "kind_ok kResourceAmountSpec"
  "kind_ok kStorageAmountSpec"
  "kind_ok kLimitRangeContainerSpec"
  "kind_ok kLimitRangePVCSpec"
  "kind_ok kLimitRangePodSpec"
  "kind_ok kLimitRangeSpec"
  "kind_ok kLocalAdminGroupSpec"
  "kind_ok kResourceQuotaLimitSpec"
  "kind_ok kResourceQuotaRequestSpec"
  "kind_ok kResourceQuotaSpec"
  "kind_ok kNetworkPolicyPortSpec"
  "kind_ok kNetworkPolicyPeerSpec"
  "kind_ok kNetworkPolicyRuleSpec"
  "kind_ok kCustomNetworkPolicySpec"
  "kind_ok kNamespaceSpec"
  "kind_ok kProjectOnboardingSpec"
  "kind_ok kProjectOnboardingStatus"
  "kind_ok kProjectOnboarding"
  "kind_ok kProjectOnboardingList"
  "kind_ok kTShirtSizeSpec"
  "kind_ok kTShirtSizeStatus"
  "kind_ok kTShirtSize"
  "kind_ok kTShirtSizeList"
  by (simp_all add: kind_ok_def kBool_def kString_def kInt32_def kMap_def kExtern_def
      kArgoCDPolicySpec_def kGitOpsDestinationSpec_def kNamespaceLabel_def kNamespaceStatus_def
      kStorageClassQuota_def kAdditionalSettingsSpec_def kArgoCDRoleSpec_def kArgoCDProjectSpec_def
      kDefaultPoliciesSpec_def kEgressIPSpec_def kGitOpsSpec_def kIPBlockSpec_def
      kResourceAmountSpec_def kStorageAmountSpec_def kLimitRangeContainerSpec_def
      kLimitRangePVCSpec_def kLimitRangePodSpec_def kLimitRangeSpec_def kLocalAdminGroupSpec_def
      kResourceQuotaLimitSpec_def kResourceQuotaRequestSpec_def kResourceQuotaSpec_def
      kNetworkPolicyPortSpec_def kNetworkPolicyPeerSpec_def kNetworkPolicyRuleSpec_def
      kCustomNetworkPolicySpec_def kNamespaceSpec_def kProjectOnboardingSpec_def
      kProjectOnboardingStatus_def kProjectOnboarding_def kProjectOnboardingList_def
      kTShirtSizeSpec_def kTShirtSizeStatus_def kTShirtSize_def kTShirtSizeList_def)

end
