(* ===== verification/Deep_Copy.thy ===== *)
theory Deep_Copy
  imports Deep_Types
begin

text \<open>
  \<^verbatim>\<open>zz_generated.deepcopy.go\<close>, the structs that hold nothing of apimachinery.  \<open>DeepCopyInto_T\<close>
  is the method of \<open>T\<close> as a function of the struct it is called on to the struct it leaves in
  \<^verbatim>\<open>out\<close>: it begins with \<^verbatim>\<open>*out = *in\<close>, so a field that is not copied keeps the pointer of the
  original.  \<open>DeepCopy_T\<close> is \<^verbatim>\<open>if in == nil { return nil }; out := new(T); in.DeepCopyInto(out)\<close>,
  which is \<open>copy_ptr\<close>.  \<open>rep_T\<close> relates a struct in memory to the record of \<open>Api_Types\<close>.  Every
  type is an interpretation of \<open>deep_copy_kind\<close>, which yields the contract of its method, of
  the pointers to the type and of the slices of it.
\<close>

section \<open>Values without pointers\<close>

interpretation go_bool: deep_copy_kind rep_val retM kBool
  by (rule deep_copy_kind_val [OF kinds(1)])

interpretation go_string: deep_copy_kind rep_val retM kString
  by (rule deep_copy_kind_val [OF kinds(2)])

interpretation go_int32: deep_copy_kind rep_val retM kInt32
  by (rule deep_copy_kind_val [OF kinds(3)])

interpretation go_map: deep_copy "rep_map kMap" "copy_ptr kMap retM"
  by (rule deep_copy_map [OF kinds(4)])

definition DeepCopyInto_ArgoCDPolicySpec :: "ArgoCDPolicySpec \<Rightarrow> ('x block, ArgoCDPolicySpec) mem" where
  "DeepCopyInto_ArgoCDPolicySpec src = retM src"

definition DeepCopyInto_GitOpsDestinationSpec :: "GitOpsDestinationSpec \<Rightarrow> ('x block, GitOpsDestinationSpec) mem" where
  "DeepCopyInto_GitOpsDestinationSpec src = retM src"

definition DeepCopyInto_NamespaceLabel :: "NamespaceLabel \<Rightarrow> ('x block, NamespaceLabel) mem" where
  "DeepCopyInto_NamespaceLabel src = retM src"

definition DeepCopyInto_NamespaceStatus :: "NamespaceStatus \<Rightarrow> ('x block, NamespaceStatus) mem" where
  "DeepCopyInto_NamespaceStatus src = retM src"

definition DeepCopyInto_StorageClassQuota :: "StorageClassQuota \<Rightarrow> ('x block, StorageClassQuota) mem" where
  "DeepCopyInto_StorageClassQuota src = retM src"

definition DeepCopy_ArgoCDPolicySpec :: "ptr \<Rightarrow> ('x block, ptr) mem" where
  "DeepCopy_ArgoCDPolicySpec = copy_ptr kArgoCDPolicySpec DeepCopyInto_ArgoCDPolicySpec"

definition DeepCopy_GitOpsDestinationSpec :: "ptr \<Rightarrow> ('x block, ptr) mem" where
  "DeepCopy_GitOpsDestinationSpec = copy_ptr kGitOpsDestinationSpec DeepCopyInto_GitOpsDestinationSpec"

definition DeepCopy_NamespaceLabel :: "ptr \<Rightarrow> ('x block, ptr) mem" where
  "DeepCopy_NamespaceLabel = copy_ptr kNamespaceLabel DeepCopyInto_NamespaceLabel"

definition DeepCopy_NamespaceStatus :: "ptr \<Rightarrow> ('x block, ptr) mem" where
  "DeepCopy_NamespaceStatus = copy_ptr kNamespaceStatus DeepCopyInto_NamespaceStatus"

definition DeepCopy_StorageClassQuota :: "ptr \<Rightarrow> ('x block, ptr) mem" where
  "DeepCopy_StorageClassQuota = copy_ptr kStorageClassQuota DeepCopyInto_StorageClassQuota"

interpretation ArgoCDPolicySpec: deep_copy_kind rep_val retM kArgoCDPolicySpec
  by (rule deep_copy_kind_val) (rule kinds)

interpretation GitOpsDestinationSpec: deep_copy_kind rep_val retM kGitOpsDestinationSpec
  by (rule deep_copy_kind_val) (rule kinds)

interpretation NamespaceLabel: deep_copy_kind rep_val retM kNamespaceLabel
  by (rule deep_copy_kind_val) (rule kinds)

interpretation NamespaceStatus: deep_copy_kind rep_val retM kNamespaceStatus
  by (rule deep_copy_kind_val) (rule kinds)

interpretation StorageClassQuota: deep_copy_kind rep_val retM kStorageClassQuota
  by (rule deep_copy_kind_val) (rule kinds)

lemma DeepCopy_plain:
  "deep_copy (rep_ptr kArgoCDPolicySpec rep_val) DeepCopy_ArgoCDPolicySpec"
  "deep_copy (rep_ptr kGitOpsDestinationSpec rep_val) DeepCopy_GitOpsDestinationSpec"
  "deep_copy (rep_ptr kNamespaceLabel rep_val) DeepCopy_NamespaceLabel"
  "deep_copy (rep_ptr kNamespaceStatus rep_val) DeepCopy_NamespaceStatus"
  "deep_copy (rep_ptr kStorageClassQuota rep_val) DeepCopy_StorageClassQuota"
  unfolding DeepCopy_ArgoCDPolicySpec_def DeepCopy_GitOpsDestinationSpec_def DeepCopy_NamespaceLabel_def DeepCopy_NamespaceStatus_def DeepCopy_StorageClassQuota_def
    DeepCopyInto_ArgoCDPolicySpec_def DeepCopyInto_GitOpsDestinationSpec_def DeepCopyInto_NamespaceLabel_def DeepCopyInto_NamespaceStatus_def DeepCopyInto_StorageClassQuota_def
  by unfold_locales

section \<open>Structs\<close>

definition rep_AdditionalSettingsSpec :: "('x block, h_AdditionalSettingsSpec, AdditionalSettingsSpec) reads" where
  "rep_AdditionalSettingsSpec h v x \<longleftrightarrow>
     h_as_PodSecurityEnforce v = as_PodSecurityEnforce x \<and>
     h_as_PodSecurityWarn v = as_PodSecurityWarn x \<and>
     h_as_PodSecurityAudit v = as_PodSecurityAudit x \<and>
     rep_ptr kBool rep_val h (h_as_EnableClusterMonitoring v) (as_EnableClusterMonitoring x) \<and>
     rep_slice kNamespaceLabel rep_val h (h_as_AdditionalLabels v) (as_AdditionalLabels x)"

definition DeepCopyInto_AdditionalSettingsSpec :: "h_AdditionalSettingsSpec \<Rightarrow> ('x block, h_AdditionalSettingsSpec) mem" where
  "DeepCopyInto_AdditionalSettingsSpec src =
     bindM (copy_ptr kBool retM (h_as_EnableClusterMonitoring src)) (\<lambda>enableClusterMonitoring.
     bindM (copy_slice kNamespaceLabel retM (h_as_AdditionalLabels src)) (\<lambda>additionalLabels.
     retM (src\<lparr>h_as_EnableClusterMonitoring := enableClusterMonitoring,
       h_as_AdditionalLabels := additionalLabels\<rparr>)))"

definition DeepCopy_AdditionalSettingsSpec :: "ptr \<Rightarrow> ('x block, ptr) mem" where
  "DeepCopy_AdditionalSettingsSpec = copy_ptr kAdditionalSettingsSpec DeepCopyInto_AdditionalSettingsSpec"

interpretation AdditionalSettingsSpec: deep_copy_kind rep_AdditionalSettingsSpec DeepCopyInto_AdditionalSettingsSpec kAdditionalSettingsSpec
  by (rule deep_copy_kindI, rule kinds)
    (auto simp: rep_AdditionalSettingsSpec_def DeepCopyInto_AdditionalSettingsSpec_def lives_def intro: mem_mono elim!: copy_step)

definition rep_ArgoCDRoleSpec :: "('x block, h_ArgoCDRoleSpec, ArgoCDRoleSpec) reads" where
  "rep_ArgoCDRoleSpec h v x \<longleftrightarrow>
     h_ar_Name v = ar_Name x \<and>
     h_ar_Description v = ar_Description x \<and>
     rep_slice kString rep_val h (h_ar_OIDCGroups v) (ar_OIDCGroups x) \<and>
     rep_ptr kBool rep_val h (h_ar_FullAccess v) (ar_FullAccess x) \<and>
     rep_slice kArgoCDPolicySpec rep_val h (h_ar_Policies v) (ar_Policies x)"

definition DeepCopyInto_ArgoCDRoleSpec :: "h_ArgoCDRoleSpec \<Rightarrow> ('x block, h_ArgoCDRoleSpec) mem" where
  "DeepCopyInto_ArgoCDRoleSpec src =
     bindM (copy_slice kString retM (h_ar_OIDCGroups src)) (\<lambda>oidcGroups.
     bindM (copy_ptr kBool retM (h_ar_FullAccess src)) (\<lambda>fullAccess.
     bindM (copy_slice kArgoCDPolicySpec retM (h_ar_Policies src)) (\<lambda>policies.
     retM (src\<lparr>h_ar_OIDCGroups := oidcGroups, h_ar_FullAccess := fullAccess,
       h_ar_Policies := policies\<rparr>))))"

definition DeepCopy_ArgoCDRoleSpec :: "ptr \<Rightarrow> ('x block, ptr) mem" where
  "DeepCopy_ArgoCDRoleSpec = copy_ptr kArgoCDRoleSpec DeepCopyInto_ArgoCDRoleSpec"

interpretation ArgoCDRoleSpec: deep_copy_kind rep_ArgoCDRoleSpec DeepCopyInto_ArgoCDRoleSpec kArgoCDRoleSpec
  by (rule deep_copy_kindI, rule kinds)
    (auto simp: rep_ArgoCDRoleSpec_def DeepCopyInto_ArgoCDRoleSpec_def lives_def intro: mem_mono elim!: copy_step)

definition rep_ArgoCDProjectSpec :: "('x block, h_ArgoCDProjectSpec, ArgoCDProjectSpec) reads" where
  "rep_ArgoCDProjectSpec h v x \<longleftrightarrow>
     rep_ptr kBool rep_val h (h_ac_Enabled v) (ac_Enabled x) \<and>
     h_ac_Name v = ac_Name x \<and>
     h_ac_Description v = ac_Description x \<and>
     rep_slice kString rep_val h (h_ac_SourceRepos v) (ac_SourceRepos x) \<and>
     rep_slice kString rep_val h (h_ac_SourceNamespaces v) (ac_SourceNamespaces x) \<and>
     rep_slice kGitOpsDestinationSpec rep_val h (h_ac_Destinations v) (ac_Destinations x) \<and>
     rep_slice kString rep_val h (h_ac_OIDCGroups v) (ac_OIDCGroups x) \<and>
     rep_slice kArgoCDRoleSpec rep_ArgoCDRoleSpec h (h_ac_Roles v) (ac_Roles x)"

definition DeepCopyInto_ArgoCDProjectSpec :: "h_ArgoCDProjectSpec \<Rightarrow> ('x block, h_ArgoCDProjectSpec) mem" where
  "DeepCopyInto_ArgoCDProjectSpec src =
     bindM (copy_ptr kBool retM (h_ac_Enabled src)) (\<lambda>enabled.
     bindM (copy_slice kString retM (h_ac_SourceRepos src)) (\<lambda>sourceRepos.
     bindM (copy_slice kString retM (h_ac_SourceNamespaces src)) (\<lambda>sourceNamespaces.
     bindM (copy_slice kGitOpsDestinationSpec retM (h_ac_Destinations src)) (\<lambda>destinations.
     bindM (copy_slice kString retM (h_ac_OIDCGroups src)) (\<lambda>oidcGroups.
     bindM (copy_slice kArgoCDRoleSpec DeepCopyInto_ArgoCDRoleSpec (h_ac_Roles src)) (\<lambda>roles.
     retM (src\<lparr>h_ac_Enabled := enabled, h_ac_SourceRepos := sourceRepos,
       h_ac_SourceNamespaces := sourceNamespaces, h_ac_Destinations := destinations,
       h_ac_OIDCGroups := oidcGroups, h_ac_Roles := roles\<rparr>)))))))"

definition DeepCopy_ArgoCDProjectSpec :: "ptr \<Rightarrow> ('x block, ptr) mem" where
  "DeepCopy_ArgoCDProjectSpec = copy_ptr kArgoCDProjectSpec DeepCopyInto_ArgoCDProjectSpec"

interpretation ArgoCDProjectSpec: deep_copy_kind rep_ArgoCDProjectSpec DeepCopyInto_ArgoCDProjectSpec kArgoCDProjectSpec
  by (rule deep_copy_kindI, rule kinds)
    (auto simp: rep_ArgoCDProjectSpec_def DeepCopyInto_ArgoCDProjectSpec_def lives_def intro: mem_mono elim!: copy_step)

definition rep_DefaultPoliciesSpec :: "('x block, h_DefaultPoliciesSpec, DefaultPoliciesSpec) reads" where
  "rep_DefaultPoliciesSpec h v x \<longleftrightarrow>
     rep_ptr kBool rep_val h (h_dp_AllowFromIngress v) (dp_AllowFromIngress x) \<and>
     rep_ptr kBool rep_val h (h_dp_AllowFromMonitoring v) (dp_AllowFromMonitoring x) \<and>
     rep_ptr kBool rep_val h (h_dp_AllowKubeAPIServer v) (dp_AllowKubeAPIServer x) \<and>
     rep_ptr kBool rep_val h (h_dp_AllowToDNS v) (dp_AllowToDNS x) \<and>
     rep_ptr kBool rep_val h (h_dp_DenyAllEgress v) (dp_DenyAllEgress x) \<and>
     rep_ptr kBool rep_val h (h_dp_DenyAllIngress v) (dp_DenyAllIngress x) \<and>
     rep_ptr kBool rep_val h (h_dp_AllowFromSameNamespace v) (dp_AllowFromSameNamespace x)"

definition DeepCopyInto_DefaultPoliciesSpec :: "h_DefaultPoliciesSpec \<Rightarrow> ('x block, h_DefaultPoliciesSpec) mem" where
  "DeepCopyInto_DefaultPoliciesSpec src =
     bindM (copy_ptr kBool retM (h_dp_AllowFromIngress src)) (\<lambda>allowFromIngress.
     bindM (copy_ptr kBool retM (h_dp_AllowFromMonitoring src)) (\<lambda>allowFromMonitoring.
     bindM (copy_ptr kBool retM (h_dp_AllowKubeAPIServer src)) (\<lambda>allowKubeAPIServer.
     bindM (copy_ptr kBool retM (h_dp_AllowToDNS src)) (\<lambda>allowToDNS.
     bindM (copy_ptr kBool retM (h_dp_DenyAllEgress src)) (\<lambda>denyAllEgress.
     bindM (copy_ptr kBool retM (h_dp_DenyAllIngress src)) (\<lambda>denyAllIngress.
     bindM (copy_ptr kBool retM (h_dp_AllowFromSameNamespace src)) (\<lambda>allowFromSameNamespace.
     retM (src\<lparr>h_dp_AllowFromIngress := allowFromIngress,
       h_dp_AllowFromMonitoring := allowFromMonitoring,
       h_dp_AllowKubeAPIServer := allowKubeAPIServer, h_dp_AllowToDNS := allowToDNS,
       h_dp_DenyAllEgress := denyAllEgress, h_dp_DenyAllIngress := denyAllIngress,
       h_dp_AllowFromSameNamespace := allowFromSameNamespace\<rparr>))))))))"

definition DeepCopy_DefaultPoliciesSpec :: "ptr \<Rightarrow> ('x block, ptr) mem" where
  "DeepCopy_DefaultPoliciesSpec = copy_ptr kDefaultPoliciesSpec DeepCopyInto_DefaultPoliciesSpec"

interpretation DefaultPoliciesSpec: deep_copy_kind rep_DefaultPoliciesSpec DeepCopyInto_DefaultPoliciesSpec kDefaultPoliciesSpec
  by (rule deep_copy_kindI, rule kinds)
    (auto simp: rep_DefaultPoliciesSpec_def DeepCopyInto_DefaultPoliciesSpec_def lives_def intro: mem_mono elim!: copy_step)

definition rep_EgressIPSpec :: "('x block, h_EgressIPSpec, EgressIPSpec) reads" where
  "rep_EgressIPSpec h v x \<longleftrightarrow>
     rep_ptr kBool rep_val h (h_eip_Enabled v) (eip_Enabled x) \<and>
     rep_slice kString rep_val h (h_eip_IPs v) (eip_IPs x)"

definition DeepCopyInto_EgressIPSpec :: "h_EgressIPSpec \<Rightarrow> ('x block, h_EgressIPSpec) mem" where
  "DeepCopyInto_EgressIPSpec src =
     bindM (copy_ptr kBool retM (h_eip_Enabled src)) (\<lambda>enabled.
     bindM (copy_slice kString retM (h_eip_IPs src)) (\<lambda>ips.
     retM (src\<lparr>h_eip_Enabled := enabled, h_eip_IPs := ips\<rparr>)))"

definition DeepCopy_EgressIPSpec :: "ptr \<Rightarrow> ('x block, ptr) mem" where
  "DeepCopy_EgressIPSpec = copy_ptr kEgressIPSpec DeepCopyInto_EgressIPSpec"

interpretation EgressIPSpec: deep_copy_kind rep_EgressIPSpec DeepCopyInto_EgressIPSpec kEgressIPSpec
  by (rule deep_copy_kindI, rule kinds)
    (auto simp: rep_EgressIPSpec_def DeepCopyInto_EgressIPSpec_def lives_def intro: mem_mono elim!: copy_step)

definition rep_GitOpsSpec :: "('x block, h_GitOpsSpec, GitOpsSpec) reads" where
  "rep_GitOpsSpec h v x \<longleftrightarrow>
     h_go_ApplicationNamespace v = go_ApplicationNamespace x \<and>
     rep_slice kGitOpsDestinationSpec rep_val h (h_go_Destinations v) (go_Destinations x) \<and>
     rep_slice kString rep_val h (h_go_AllowedSourceRepos v) (go_AllowedSourceRepos x) \<and>
     rep_slice kString rep_val h (h_go_AllowedOIDCGroups v) (go_AllowedOIDCGroups x) \<and>
     rep_slice kString rep_val h (h_go_AllowedSourceNamespaces v) (go_AllowedSourceNamespaces x)"

definition DeepCopyInto_GitOpsSpec :: "h_GitOpsSpec \<Rightarrow> ('x block, h_GitOpsSpec) mem" where
  "DeepCopyInto_GitOpsSpec src =
     bindM (copy_slice kGitOpsDestinationSpec retM (h_go_Destinations src)) (\<lambda>destinations.
     bindM (copy_slice kString retM (h_go_AllowedSourceRepos src)) (\<lambda>allowedSourceRepos.
     bindM (copy_slice kString retM (h_go_AllowedOIDCGroups src)) (\<lambda>allowedOIDCGroups.
     bindM (copy_slice kString retM (h_go_AllowedSourceNamespaces src)) (\<lambda>allowedSourceNamespaces.
     retM (src\<lparr>h_go_Destinations := destinations,
       h_go_AllowedSourceRepos := allowedSourceRepos, h_go_AllowedOIDCGroups := allowedOIDCGroups,
       h_go_AllowedSourceNamespaces := allowedSourceNamespaces\<rparr>)))))"

definition DeepCopy_GitOpsSpec :: "ptr \<Rightarrow> ('x block, ptr) mem" where
  "DeepCopy_GitOpsSpec = copy_ptr kGitOpsSpec DeepCopyInto_GitOpsSpec"

interpretation GitOpsSpec: deep_copy_kind rep_GitOpsSpec DeepCopyInto_GitOpsSpec kGitOpsSpec
  by (rule deep_copy_kindI, rule kinds)
    (auto simp: rep_GitOpsSpec_def DeepCopyInto_GitOpsSpec_def lives_def intro: mem_mono elim!: copy_step)

definition rep_IPBlockSpec :: "('x block, h_IPBlockSpec, IPBlockSpec) reads" where
  "rep_IPBlockSpec h v x \<longleftrightarrow>
     h_ib_CIDR v = ib_CIDR x \<and>
     rep_slice kString rep_val h (h_ib_Except v) (ib_Except x)"

definition DeepCopyInto_IPBlockSpec :: "h_IPBlockSpec \<Rightarrow> ('x block, h_IPBlockSpec) mem" where
  "DeepCopyInto_IPBlockSpec src =
     bindM (copy_slice kString retM (h_ib_Except src)) (\<lambda>except.
     retM (src\<lparr>h_ib_Except := except\<rparr>))"

definition DeepCopy_IPBlockSpec :: "ptr \<Rightarrow> ('x block, ptr) mem" where
  "DeepCopy_IPBlockSpec = copy_ptr kIPBlockSpec DeepCopyInto_IPBlockSpec"

interpretation IPBlockSpec: deep_copy_kind rep_IPBlockSpec DeepCopyInto_IPBlockSpec kIPBlockSpec
  by (rule deep_copy_kindI, rule kinds)
    (auto simp: rep_IPBlockSpec_def DeepCopyInto_IPBlockSpec_def lives_def intro: mem_mono elim!: copy_step)

definition rep_ResourceAmountSpec :: "('x block, h_ResourceAmountSpec, ResourceAmountSpec) reads" where
  "rep_ResourceAmountSpec h v x \<longleftrightarrow>
     rep_ptr kString rep_val h (h_ra_CPU v) (ra_CPU x) \<and>
     rep_ptr kString rep_val h (h_ra_Memory v) (ra_Memory x)"

definition DeepCopyInto_ResourceAmountSpec :: "h_ResourceAmountSpec \<Rightarrow> ('x block, h_ResourceAmountSpec) mem" where
  "DeepCopyInto_ResourceAmountSpec src =
     bindM (copy_ptr kString retM (h_ra_CPU src)) (\<lambda>cpu.
     bindM (copy_ptr kString retM (h_ra_Memory src)) (\<lambda>memory.
     retM (src\<lparr>h_ra_CPU := cpu, h_ra_Memory := memory\<rparr>)))"

definition DeepCopy_ResourceAmountSpec :: "ptr \<Rightarrow> ('x block, ptr) mem" where
  "DeepCopy_ResourceAmountSpec = copy_ptr kResourceAmountSpec DeepCopyInto_ResourceAmountSpec"

interpretation ResourceAmountSpec: deep_copy_kind rep_ResourceAmountSpec DeepCopyInto_ResourceAmountSpec kResourceAmountSpec
  by (rule deep_copy_kindI, rule kinds)
    (auto simp: rep_ResourceAmountSpec_def DeepCopyInto_ResourceAmountSpec_def lives_def intro: mem_mono elim!: copy_step)

definition rep_StorageAmountSpec :: "('x block, h_StorageAmountSpec, StorageAmountSpec) reads" where
  "rep_StorageAmountSpec h v x \<longleftrightarrow>
     rep_ptr kString rep_val h (h_sa_Storage v) (sa_Storage x)"

definition DeepCopyInto_StorageAmountSpec :: "h_StorageAmountSpec \<Rightarrow> ('x block, h_StorageAmountSpec) mem" where
  "DeepCopyInto_StorageAmountSpec src =
     bindM (copy_ptr kString retM (h_sa_Storage src)) (\<lambda>storage.
     retM (src\<lparr>h_sa_Storage := storage\<rparr>))"

definition DeepCopy_StorageAmountSpec :: "ptr \<Rightarrow> ('x block, ptr) mem" where
  "DeepCopy_StorageAmountSpec = copy_ptr kStorageAmountSpec DeepCopyInto_StorageAmountSpec"

interpretation StorageAmountSpec: deep_copy_kind rep_StorageAmountSpec DeepCopyInto_StorageAmountSpec kStorageAmountSpec
  by (rule deep_copy_kindI, rule kinds)
    (auto simp: rep_StorageAmountSpec_def DeepCopyInto_StorageAmountSpec_def lives_def intro: mem_mono elim!: copy_step)

definition rep_LimitRangeContainerSpec :: "('x block, h_LimitRangeContainerSpec, LimitRangeContainerSpec) reads" where
  "rep_LimitRangeContainerSpec h v x \<longleftrightarrow>
     rep_ptr kResourceAmountSpec rep_ResourceAmountSpec h (h_lc_Max v) (lc_Max x) \<and>
     rep_ptr kResourceAmountSpec rep_ResourceAmountSpec h (h_lc_Min v) (lc_Min x) \<and>
     rep_ptr kResourceAmountSpec rep_ResourceAmountSpec h (h_lc_Default v) (lc_Default x) \<and>
     rep_ptr kResourceAmountSpec rep_ResourceAmountSpec h (h_lc_DefaultRequest v) (lc_DefaultRequest x)"

definition DeepCopyInto_LimitRangeContainerSpec :: "h_LimitRangeContainerSpec \<Rightarrow> ('x block, h_LimitRangeContainerSpec) mem" where
  "DeepCopyInto_LimitRangeContainerSpec src =
     bindM (copy_ptr kResourceAmountSpec DeepCopyInto_ResourceAmountSpec (h_lc_Max src)) (\<lambda>max.
     bindM (copy_ptr kResourceAmountSpec DeepCopyInto_ResourceAmountSpec (h_lc_Min src)) (\<lambda>min.
     bindM (copy_ptr kResourceAmountSpec DeepCopyInto_ResourceAmountSpec (h_lc_Default src)) (\<lambda>default.
     bindM (copy_ptr kResourceAmountSpec DeepCopyInto_ResourceAmountSpec (h_lc_DefaultRequest src)) (\<lambda>defaultRequest.
     retM (src\<lparr>h_lc_Max := max, h_lc_Min := min, h_lc_Default := default,
       h_lc_DefaultRequest := defaultRequest\<rparr>)))))"

definition DeepCopy_LimitRangeContainerSpec :: "ptr \<Rightarrow> ('x block, ptr) mem" where
  "DeepCopy_LimitRangeContainerSpec = copy_ptr kLimitRangeContainerSpec DeepCopyInto_LimitRangeContainerSpec"

interpretation LimitRangeContainerSpec: deep_copy_kind rep_LimitRangeContainerSpec DeepCopyInto_LimitRangeContainerSpec kLimitRangeContainerSpec
  by (rule deep_copy_kindI, rule kinds)
    (auto simp: rep_LimitRangeContainerSpec_def DeepCopyInto_LimitRangeContainerSpec_def lives_def intro: mem_mono elim!: copy_step)

definition rep_LimitRangePVCSpec :: "('x block, h_LimitRangePVCSpec, LimitRangePVCSpec) reads" where
  "rep_LimitRangePVCSpec h v x \<longleftrightarrow>
     rep_ptr kStorageAmountSpec rep_StorageAmountSpec h (h_lv_Min v) (lv_Min x) \<and>
     rep_ptr kStorageAmountSpec rep_StorageAmountSpec h (h_lv_Max v) (lv_Max x)"

definition DeepCopyInto_LimitRangePVCSpec :: "h_LimitRangePVCSpec \<Rightarrow> ('x block, h_LimitRangePVCSpec) mem" where
  "DeepCopyInto_LimitRangePVCSpec src =
     bindM (copy_ptr kStorageAmountSpec DeepCopyInto_StorageAmountSpec (h_lv_Min src)) (\<lambda>min.
     bindM (copy_ptr kStorageAmountSpec DeepCopyInto_StorageAmountSpec (h_lv_Max src)) (\<lambda>max.
     retM (src\<lparr>h_lv_Min := min, h_lv_Max := max\<rparr>)))"

definition DeepCopy_LimitRangePVCSpec :: "ptr \<Rightarrow> ('x block, ptr) mem" where
  "DeepCopy_LimitRangePVCSpec = copy_ptr kLimitRangePVCSpec DeepCopyInto_LimitRangePVCSpec"

interpretation LimitRangePVCSpec: deep_copy_kind rep_LimitRangePVCSpec DeepCopyInto_LimitRangePVCSpec kLimitRangePVCSpec
  by (rule deep_copy_kindI, rule kinds)
    (auto simp: rep_LimitRangePVCSpec_def DeepCopyInto_LimitRangePVCSpec_def lives_def intro: mem_mono elim!: copy_step)

definition rep_LimitRangePodSpec :: "('x block, h_LimitRangePodSpec, LimitRangePodSpec) reads" where
  "rep_LimitRangePodSpec h v x \<longleftrightarrow>
     rep_ptr kResourceAmountSpec rep_ResourceAmountSpec h (h_lp_Max v) (lp_Max x) \<and>
     rep_ptr kResourceAmountSpec rep_ResourceAmountSpec h (h_lp_Min v) (lp_Min x)"

definition DeepCopyInto_LimitRangePodSpec :: "h_LimitRangePodSpec \<Rightarrow> ('x block, h_LimitRangePodSpec) mem" where
  "DeepCopyInto_LimitRangePodSpec src =
     bindM (copy_ptr kResourceAmountSpec DeepCopyInto_ResourceAmountSpec (h_lp_Max src)) (\<lambda>max.
     bindM (copy_ptr kResourceAmountSpec DeepCopyInto_ResourceAmountSpec (h_lp_Min src)) (\<lambda>min.
     retM (src\<lparr>h_lp_Max := max, h_lp_Min := min\<rparr>)))"

definition DeepCopy_LimitRangePodSpec :: "ptr \<Rightarrow> ('x block, ptr) mem" where
  "DeepCopy_LimitRangePodSpec = copy_ptr kLimitRangePodSpec DeepCopyInto_LimitRangePodSpec"

interpretation LimitRangePodSpec: deep_copy_kind rep_LimitRangePodSpec DeepCopyInto_LimitRangePodSpec kLimitRangePodSpec
  by (rule deep_copy_kindI, rule kinds)
    (auto simp: rep_LimitRangePodSpec_def DeepCopyInto_LimitRangePodSpec_def lives_def intro: mem_mono elim!: copy_step)

definition rep_LimitRangeSpec :: "('x block, h_LimitRangeSpec, LimitRangeSpec) reads" where
  "rep_LimitRangeSpec h v x \<longleftrightarrow>
     rep_ptr kBool rep_val h (h_lr_Enabled v) (lr_Enabled x) \<and>
     rep_ptr kLimitRangePodSpec rep_LimitRangePodSpec h (h_lr_Pod v) (lr_Pod x) \<and>
     rep_ptr kLimitRangeContainerSpec rep_LimitRangeContainerSpec h (h_lr_Container v) (lr_Container x) \<and>
     rep_ptr kLimitRangePVCSpec rep_LimitRangePVCSpec h (h_lr_PVC v) (lr_PVC x)"

definition DeepCopyInto_LimitRangeSpec :: "h_LimitRangeSpec \<Rightarrow> ('x block, h_LimitRangeSpec) mem" where
  "DeepCopyInto_LimitRangeSpec src =
     bindM (copy_ptr kBool retM (h_lr_Enabled src)) (\<lambda>enabled.
     bindM (copy_ptr kLimitRangePodSpec DeepCopyInto_LimitRangePodSpec (h_lr_Pod src)) (\<lambda>pod.
     bindM (copy_ptr kLimitRangeContainerSpec DeepCopyInto_LimitRangeContainerSpec (h_lr_Container src)) (\<lambda>container.
     bindM (copy_ptr kLimitRangePVCSpec DeepCopyInto_LimitRangePVCSpec (h_lr_PVC src)) (\<lambda>pvc.
     retM (src\<lparr>h_lr_Enabled := enabled, h_lr_Pod := pod, h_lr_Container := container,
       h_lr_PVC := pvc\<rparr>)))))"

definition DeepCopy_LimitRangeSpec :: "ptr \<Rightarrow> ('x block, ptr) mem" where
  "DeepCopy_LimitRangeSpec = copy_ptr kLimitRangeSpec DeepCopyInto_LimitRangeSpec"

interpretation LimitRangeSpec: deep_copy_kind rep_LimitRangeSpec DeepCopyInto_LimitRangeSpec kLimitRangeSpec
  by (rule deep_copy_kindI, rule kinds)
    (auto simp: rep_LimitRangeSpec_def DeepCopyInto_LimitRangeSpec_def lives_def intro: mem_mono elim!: copy_step)

definition rep_LocalAdminGroupSpec :: "('x block, h_LocalAdminGroupSpec, LocalAdminGroupSpec) reads" where
  "rep_LocalAdminGroupSpec h v x \<longleftrightarrow>
     rep_ptr kBool rep_val h (h_lag_Enabled v) (lag_Enabled x) \<and>
     h_lag_GroupName v = lag_GroupName x \<and>
     h_lag_ClusterRole v = lag_ClusterRole x \<and>
     rep_slice kString rep_val h (h_lag_Users v) (lag_Users x)"

definition DeepCopyInto_LocalAdminGroupSpec :: "h_LocalAdminGroupSpec \<Rightarrow> ('x block, h_LocalAdminGroupSpec) mem" where
  "DeepCopyInto_LocalAdminGroupSpec src =
     bindM (copy_ptr kBool retM (h_lag_Enabled src)) (\<lambda>enabled.
     bindM (copy_slice kString retM (h_lag_Users src)) (\<lambda>users.
     retM (src\<lparr>h_lag_Enabled := enabled, h_lag_Users := users\<rparr>)))"

definition DeepCopy_LocalAdminGroupSpec :: "ptr \<Rightarrow> ('x block, ptr) mem" where
  "DeepCopy_LocalAdminGroupSpec = copy_ptr kLocalAdminGroupSpec DeepCopyInto_LocalAdminGroupSpec"

interpretation LocalAdminGroupSpec: deep_copy_kind rep_LocalAdminGroupSpec DeepCopyInto_LocalAdminGroupSpec kLocalAdminGroupSpec
  by (rule deep_copy_kindI, rule kinds)
    (auto simp: rep_LocalAdminGroupSpec_def DeepCopyInto_LocalAdminGroupSpec_def lives_def intro: mem_mono elim!: copy_step)

definition rep_ResourceQuotaLimitSpec :: "('x block, h_ResourceQuotaLimitSpec, ResourceQuotaLimitSpec) reads" where
  "rep_ResourceQuotaLimitSpec h v x \<longleftrightarrow>
     rep_ptr kString rep_val h (h_rl_CPU v) (rl_CPU x) \<and>
     rep_ptr kString rep_val h (h_rl_Memory v) (rl_Memory x) \<and>
     rep_ptr kString rep_val h (h_rl_EphemeralStorage v) (rl_EphemeralStorage x)"

definition DeepCopyInto_ResourceQuotaLimitSpec :: "h_ResourceQuotaLimitSpec \<Rightarrow> ('x block, h_ResourceQuotaLimitSpec) mem" where
  "DeepCopyInto_ResourceQuotaLimitSpec src =
     bindM (copy_ptr kString retM (h_rl_CPU src)) (\<lambda>cpu.
     bindM (copy_ptr kString retM (h_rl_Memory src)) (\<lambda>memory.
     bindM (copy_ptr kString retM (h_rl_EphemeralStorage src)) (\<lambda>ephemeralStorage.
     retM (src\<lparr>h_rl_CPU := cpu, h_rl_Memory := memory,
       h_rl_EphemeralStorage := ephemeralStorage\<rparr>))))"

definition DeepCopy_ResourceQuotaLimitSpec :: "ptr \<Rightarrow> ('x block, ptr) mem" where
  "DeepCopy_ResourceQuotaLimitSpec = copy_ptr kResourceQuotaLimitSpec DeepCopyInto_ResourceQuotaLimitSpec"

interpretation ResourceQuotaLimitSpec: deep_copy_kind rep_ResourceQuotaLimitSpec DeepCopyInto_ResourceQuotaLimitSpec kResourceQuotaLimitSpec
  by (rule deep_copy_kindI, rule kinds)
    (auto simp: rep_ResourceQuotaLimitSpec_def DeepCopyInto_ResourceQuotaLimitSpec_def lives_def intro: mem_mono elim!: copy_step)

definition rep_ResourceQuotaRequestSpec :: "('x block, h_ResourceQuotaRequestSpec, ResourceQuotaRequestSpec) reads" where
  "rep_ResourceQuotaRequestSpec h v x \<longleftrightarrow>
     rep_ptr kString rep_val h (h_rr_CPU v) (rr_CPU x) \<and>
     rep_ptr kString rep_val h (h_rr_Memory v) (rr_Memory x) \<and>
     rep_ptr kString rep_val h (h_rr_Storage v) (rr_Storage x) \<and>
     rep_ptr kString rep_val h (h_rr_EphemeralStorage v) (rr_EphemeralStorage x)"

definition DeepCopyInto_ResourceQuotaRequestSpec :: "h_ResourceQuotaRequestSpec \<Rightarrow> ('x block, h_ResourceQuotaRequestSpec) mem" where
  "DeepCopyInto_ResourceQuotaRequestSpec src =
     bindM (copy_ptr kString retM (h_rr_CPU src)) (\<lambda>cpu.
     bindM (copy_ptr kString retM (h_rr_Memory src)) (\<lambda>memory.
     bindM (copy_ptr kString retM (h_rr_Storage src)) (\<lambda>storage.
     bindM (copy_ptr kString retM (h_rr_EphemeralStorage src)) (\<lambda>ephemeralStorage.
     retM (src\<lparr>h_rr_CPU := cpu, h_rr_Memory := memory, h_rr_Storage := storage,
       h_rr_EphemeralStorage := ephemeralStorage\<rparr>)))))"

definition DeepCopy_ResourceQuotaRequestSpec :: "ptr \<Rightarrow> ('x block, ptr) mem" where
  "DeepCopy_ResourceQuotaRequestSpec = copy_ptr kResourceQuotaRequestSpec DeepCopyInto_ResourceQuotaRequestSpec"

interpretation ResourceQuotaRequestSpec: deep_copy_kind rep_ResourceQuotaRequestSpec DeepCopyInto_ResourceQuotaRequestSpec kResourceQuotaRequestSpec
  by (rule deep_copy_kindI, rule kinds)
    (auto simp: rep_ResourceQuotaRequestSpec_def DeepCopyInto_ResourceQuotaRequestSpec_def lives_def intro: mem_mono elim!: copy_step)

definition rep_ResourceQuotaSpec :: "('x block, h_ResourceQuotaSpec, ResourceQuotaSpec) reads" where
  "rep_ResourceQuotaSpec h v x \<longleftrightarrow>
     rep_ptr kBool rep_val h (h_rq_Enabled v) (rq_Enabled x) \<and>
     rep_ptr kString rep_val h (h_rq_CPU v) (rq_CPU x) \<and>
     rep_ptr kString rep_val h (h_rq_Memory v) (rq_Memory x) \<and>
     rep_ptr kString rep_val h (h_rq_EphemeralStorage v) (rq_EphemeralStorage x) \<and>
     rep_ptr kInt32 rep_val h (h_rq_Pods v) (rq_Pods x) \<and>
     rep_ptr kInt32 rep_val h (h_rq_ReplicationControllers v) (rq_ReplicationControllers x) \<and>
     rep_ptr kInt32 rep_val h (h_rq_ResourceQuotas v) (rq_ResourceQuotas x) \<and>
     rep_ptr kInt32 rep_val h (h_rq_Services v) (rq_Services x) \<and>
     rep_ptr kInt32 rep_val h (h_rq_Secrets v) (rq_Secrets x) \<and>
     rep_ptr kInt32 rep_val h (h_rq_ConfigMaps v) (rq_ConfigMaps x) \<and>
     rep_ptr kInt32 rep_val h (h_rq_PersistentVolumeClaims v) (rq_PersistentVolumeClaims x) \<and>
     rep_ptr kResourceQuotaLimitSpec rep_ResourceQuotaLimitSpec h (h_rq_Limits v) (rq_Limits x) \<and>
     rep_ptr kResourceQuotaRequestSpec rep_ResourceQuotaRequestSpec h (h_rq_Requests v) (rq_Requests x) \<and>
     rep_slice kStorageClassQuota rep_val h (h_rq_StorageClasses v) (rq_StorageClasses x)"

definition DeepCopyInto_ResourceQuotaSpec :: "h_ResourceQuotaSpec \<Rightarrow> ('x block, h_ResourceQuotaSpec) mem" where
  "DeepCopyInto_ResourceQuotaSpec src =
     bindM (copy_ptr kBool retM (h_rq_Enabled src)) (\<lambda>enabled.
     bindM (copy_ptr kString retM (h_rq_CPU src)) (\<lambda>cpu.
     bindM (copy_ptr kString retM (h_rq_Memory src)) (\<lambda>memory.
     bindM (copy_ptr kString retM (h_rq_EphemeralStorage src)) (\<lambda>ephemeralStorage.
     bindM (copy_ptr kInt32 retM (h_rq_Pods src)) (\<lambda>pods.
     bindM (copy_ptr kInt32 retM (h_rq_ReplicationControllers src)) (\<lambda>replicationControllers.
     bindM (copy_ptr kInt32 retM (h_rq_ResourceQuotas src)) (\<lambda>resourceQuotas.
     bindM (copy_ptr kInt32 retM (h_rq_Services src)) (\<lambda>services.
     bindM (copy_ptr kInt32 retM (h_rq_Secrets src)) (\<lambda>secrets.
     bindM (copy_ptr kInt32 retM (h_rq_ConfigMaps src)) (\<lambda>configMaps.
     bindM (copy_ptr kInt32 retM (h_rq_PersistentVolumeClaims src)) (\<lambda>persistentVolumeClaims.
     bindM (copy_ptr kResourceQuotaLimitSpec DeepCopyInto_ResourceQuotaLimitSpec (h_rq_Limits src)) (\<lambda>limits.
     bindM (copy_ptr kResourceQuotaRequestSpec DeepCopyInto_ResourceQuotaRequestSpec (h_rq_Requests src)) (\<lambda>requests.
     bindM (copy_slice kStorageClassQuota retM (h_rq_StorageClasses src)) (\<lambda>storageClasses.
     retM (src\<lparr>h_rq_Enabled := enabled, h_rq_CPU := cpu, h_rq_Memory := memory,
       h_rq_EphemeralStorage := ephemeralStorage, h_rq_Pods := pods,
       h_rq_ReplicationControllers := replicationControllers,
       h_rq_ResourceQuotas := resourceQuotas, h_rq_Services := services, h_rq_Secrets := secrets,
       h_rq_ConfigMaps := configMaps, h_rq_PersistentVolumeClaims := persistentVolumeClaims,
       h_rq_Limits := limits, h_rq_Requests := requests,
       h_rq_StorageClasses := storageClasses\<rparr>)))))))))))))))"

definition DeepCopy_ResourceQuotaSpec :: "ptr \<Rightarrow> ('x block, ptr) mem" where
  "DeepCopy_ResourceQuotaSpec = copy_ptr kResourceQuotaSpec DeepCopyInto_ResourceQuotaSpec"

interpretation ResourceQuotaSpec: deep_copy_kind rep_ResourceQuotaSpec DeepCopyInto_ResourceQuotaSpec kResourceQuotaSpec
  by (rule deep_copy_kindI, rule kinds)
    (auto simp: rep_ResourceQuotaSpec_def DeepCopyInto_ResourceQuotaSpec_def lives_def intro: mem_mono elim!: copy_step)

definition rep_NetworkPolicyPortSpec :: "('x block, h_NetworkPolicyPortSpec, NetworkPolicyPortSpec) reads" where
  "rep_NetworkPolicyPortSpec h v x \<longleftrightarrow>
     rep_ptr kString rep_val h (h_npo_Protocol v) (npo_Protocol x) \<and>
     rep_ptr kInt32 rep_val h (h_npo_Port v) (npo_Port x)"

definition DeepCopyInto_NetworkPolicyPortSpec :: "h_NetworkPolicyPortSpec \<Rightarrow> ('x block, h_NetworkPolicyPortSpec) mem" where
  "DeepCopyInto_NetworkPolicyPortSpec src =
     bindM (copy_ptr kString retM (h_npo_Protocol src)) (\<lambda>protocol.
     bindM (copy_ptr kInt32 retM (h_npo_Port src)) (\<lambda>port.
     retM (src\<lparr>h_npo_Protocol := protocol, h_npo_Port := port\<rparr>)))"

definition DeepCopy_NetworkPolicyPortSpec :: "ptr \<Rightarrow> ('x block, ptr) mem" where
  "DeepCopy_NetworkPolicyPortSpec = copy_ptr kNetworkPolicyPortSpec DeepCopyInto_NetworkPolicyPortSpec"

interpretation NetworkPolicyPortSpec: deep_copy_kind rep_NetworkPolicyPortSpec DeepCopyInto_NetworkPolicyPortSpec kNetworkPolicyPortSpec
  by (rule deep_copy_kindI, rule kinds)
    (auto simp: rep_NetworkPolicyPortSpec_def DeepCopyInto_NetworkPolicyPortSpec_def lives_def intro: mem_mono elim!: copy_step)

definition rep_TShirtSizeSpec :: "('x block, h_TShirtSizeSpec, TShirtSizeSpec) reads" where
  "rep_TShirtSizeSpec h v x \<longleftrightarrow>
     h_ts_Description v = ts_Description x \<and>
     rep_ptr kResourceQuotaSpec rep_ResourceQuotaSpec h (h_ts_ResourceQuotas v) (ts_ResourceQuotas x) \<and>
     rep_ptr kLimitRangeSpec rep_LimitRangeSpec h (h_ts_LimitRanges v) (ts_LimitRanges x)"

definition DeepCopyInto_TShirtSizeSpec :: "h_TShirtSizeSpec \<Rightarrow> ('x block, h_TShirtSizeSpec) mem" where
  "DeepCopyInto_TShirtSizeSpec src =
     bindM (copy_ptr kResourceQuotaSpec DeepCopyInto_ResourceQuotaSpec (h_ts_ResourceQuotas src)) (\<lambda>resourceQuotas.
     bindM (copy_ptr kLimitRangeSpec DeepCopyInto_LimitRangeSpec (h_ts_LimitRanges src)) (\<lambda>limitRanges.
     retM (src\<lparr>h_ts_ResourceQuotas := resourceQuotas,
       h_ts_LimitRanges := limitRanges\<rparr>)))"

definition DeepCopy_TShirtSizeSpec :: "ptr \<Rightarrow> ('x block, ptr) mem" where
  "DeepCopy_TShirtSizeSpec = copy_ptr kTShirtSizeSpec DeepCopyInto_TShirtSizeSpec"

interpretation TShirtSizeSpec: deep_copy_kind rep_TShirtSizeSpec DeepCopyInto_TShirtSizeSpec kTShirtSizeSpec
  by (rule deep_copy_kindI, rule kinds)
    (auto simp: rep_TShirtSizeSpec_def DeepCopyInto_TShirtSizeSpec_def lives_def intro: mem_mono elim!: copy_step)

end
