(* ===== verification/Deep_Resources.thy ===== *)
theory Deep_Resources
  imports Deep_Copy
begin

text \<open>
  \<^verbatim>\<open>zz_generated.deepcopy.go\<close>, the structs that embed one of apimachinery, up to the resources
  and their lists.  The \<^verbatim>\<open>DeepCopyInto\<close> of \<^verbatim>\<open>LabelSelector\<close>, \<^verbatim>\<open>ObjectMeta\<close>, \<^verbatim>\<open>ListMeta\<close> and
  \<^verbatim>\<open>Condition\<close> is library code: the record \<open>machinery\<close> holds the four functions, \<open>readings\<close> says
  what their structs represent, and the locale \<open>apimachinery\<close> states that they are deep copies,
  as their documentation promises.  \<open>Deep_Correct\<close> has an instance.
\<close>

section \<open>The structs of apimachinery\<close>

record 'x machinery =
  LabelSelector_into :: "'x \<Rightarrow> ('x block, 'x) mem"
  ObjectMeta_into :: "'x \<Rightarrow> ('x block, 'x) mem"
  ListMeta_into :: "'x \<Rightarrow> ('x block, 'x) mem"
  Condition_into :: "'x \<Rightarrow> ('x block, 'x) mem"

record 'x readings =
  LabelSelector_rep :: "('x block, 'x, LabelSelector) reads"
  ObjectMeta_rep :: "('x block, 'x, objmeta) reads"
  ListMeta_rep :: "('x block, 'x, ListMeta) reads"
  Condition_rep :: "('x block, 'x, condition) reads"

locale apimachinery =
  LabelSelector: deep_copy "LabelSelector_rep R" "LabelSelector_into M" +
  ObjectMeta: deep_copy "ObjectMeta_rep R" "ObjectMeta_into M" +
  ListMeta: deep_copy "ListMeta_rep R" "ListMeta_into M" +
  Condition: deep_copy "Condition_rep R" "Condition_into M"
  for R :: "'x readings" and M :: "'x machinery"
begin

sublocale LabelSelectors: deep_copy_kind "LabelSelector_rep R" "LabelSelector_into M" kExtern
  by unfold_locales (rule kinds)

sublocale Conditions: deep_copy_kind "Condition_rep R" "Condition_into M" kExtern
  by unfold_locales (rule kinds)

end

section \<open>Structs\<close>

definition rep_NetworkPolicyPeerSpec :: "'x readings \<Rightarrow> ('x block, h_NetworkPolicyPeerSpec, NetworkPolicyPeerSpec) reads" where
  "rep_NetworkPolicyPeerSpec R h v x \<longleftrightarrow>
     rep_ptr kExtern (LabelSelector_rep R) h (h_npp_PodSelector v) (npp_PodSelector x) \<and>
     rep_ptr kExtern (LabelSelector_rep R) h (h_npp_NamespaceSelector v) (npp_NamespaceSelector x) \<and>
     rep_ptr kIPBlockSpec rep_IPBlockSpec h (h_npp_IPBlock v) (npp_IPBlock x)"

definition DeepCopyInto_NetworkPolicyPeerSpec :: "'x machinery \<Rightarrow> h_NetworkPolicyPeerSpec \<Rightarrow> ('x block, h_NetworkPolicyPeerSpec) mem" where
  "DeepCopyInto_NetworkPolicyPeerSpec M src =
     bindM (copy_ptr kExtern (LabelSelector_into M) (h_npp_PodSelector src)) (\<lambda>podSelector.
     bindM (copy_ptr kExtern (LabelSelector_into M) (h_npp_NamespaceSelector src)) (\<lambda>namespaceSelector.
     bindM (copy_ptr kIPBlockSpec DeepCopyInto_IPBlockSpec (h_npp_IPBlock src)) (\<lambda>ipBlock.
     retM (src\<lparr>h_npp_PodSelector := podSelector,
       h_npp_NamespaceSelector := namespaceSelector, h_npp_IPBlock := ipBlock\<rparr>))))"

definition DeepCopy_NetworkPolicyPeerSpec :: "'x machinery \<Rightarrow> ptr \<Rightarrow> ('x block, ptr) mem" where
  "DeepCopy_NetworkPolicyPeerSpec M = copy_ptr kNetworkPolicyPeerSpec (DeepCopyInto_NetworkPolicyPeerSpec M)"

definition rep_NetworkPolicyRuleSpec :: "'x readings \<Rightarrow> ('x block, h_NetworkPolicyRuleSpec, NetworkPolicyRuleSpec) reads" where
  "rep_NetworkPolicyRuleSpec R h v x \<longleftrightarrow>
     rep_slice kNetworkPolicyPeerSpec (rep_NetworkPolicyPeerSpec R) h (h_npr_Selectors v) (npr_Selectors x) \<and>
     rep_slice kNetworkPolicyPortSpec rep_NetworkPolicyPortSpec h (h_npr_Ports v) (npr_Ports x)"

definition DeepCopyInto_NetworkPolicyRuleSpec :: "'x machinery \<Rightarrow> h_NetworkPolicyRuleSpec \<Rightarrow> ('x block, h_NetworkPolicyRuleSpec) mem" where
  "DeepCopyInto_NetworkPolicyRuleSpec M src =
     bindM (copy_slice kNetworkPolicyPeerSpec (DeepCopyInto_NetworkPolicyPeerSpec M) (h_npr_Selectors src)) (\<lambda>selectors.
     bindM (copy_slice kNetworkPolicyPortSpec DeepCopyInto_NetworkPolicyPortSpec (h_npr_Ports src)) (\<lambda>ports.
     retM (src\<lparr>h_npr_Selectors := selectors, h_npr_Ports := ports\<rparr>)))"

definition DeepCopy_NetworkPolicyRuleSpec :: "'x machinery \<Rightarrow> ptr \<Rightarrow> ('x block, ptr) mem" where
  "DeepCopy_NetworkPolicyRuleSpec M = copy_ptr kNetworkPolicyRuleSpec (DeepCopyInto_NetworkPolicyRuleSpec M)"

definition rep_CustomNetworkPolicySpec :: "'x readings \<Rightarrow> ('x block, h_CustomNetworkPolicySpec, CustomNetworkPolicySpec) reads" where
  "rep_CustomNetworkPolicySpec R h v x \<longleftrightarrow>
     h_cnp_Name v = cnp_Name x \<and>
     rep_ptr kBool rep_val h (h_cnp_Active v) (cnp_Active x) \<and>
     rep_ptr kExtern (LabelSelector_rep R) h (h_cnp_PodSelector v) (cnp_PodSelector x) \<and>
     rep_slice kNetworkPolicyRuleSpec (rep_NetworkPolicyRuleSpec R) h (h_cnp_IngressRules v) (cnp_IngressRules x) \<and>
     rep_slice kNetworkPolicyRuleSpec (rep_NetworkPolicyRuleSpec R) h (h_cnp_EgressRules v) (cnp_EgressRules x)"

definition DeepCopyInto_CustomNetworkPolicySpec :: "'x machinery \<Rightarrow> h_CustomNetworkPolicySpec \<Rightarrow> ('x block, h_CustomNetworkPolicySpec) mem" where
  "DeepCopyInto_CustomNetworkPolicySpec M src =
     bindM (copy_ptr kBool retM (h_cnp_Active src)) (\<lambda>active.
     bindM (copy_ptr kExtern (LabelSelector_into M) (h_cnp_PodSelector src)) (\<lambda>podSelector.
     bindM (copy_slice kNetworkPolicyRuleSpec (DeepCopyInto_NetworkPolicyRuleSpec M) (h_cnp_IngressRules src)) (\<lambda>ingressRules.
     bindM (copy_slice kNetworkPolicyRuleSpec (DeepCopyInto_NetworkPolicyRuleSpec M) (h_cnp_EgressRules src)) (\<lambda>egressRules.
     retM (src\<lparr>h_cnp_Active := active, h_cnp_PodSelector := podSelector,
       h_cnp_IngressRules := ingressRules, h_cnp_EgressRules := egressRules\<rparr>)))))"

definition DeepCopy_CustomNetworkPolicySpec :: "'x machinery \<Rightarrow> ptr \<Rightarrow> ('x block, ptr) mem" where
  "DeepCopy_CustomNetworkPolicySpec M = copy_ptr kCustomNetworkPolicySpec (DeepCopyInto_CustomNetworkPolicySpec M)"

definition rep_NamespaceSpec :: "'x readings \<Rightarrow> ('x block, h_NamespaceSpec, NamespaceSpec) reads" where
  "rep_NamespaceSpec R h v x \<longleftrightarrow>
     h_ns_Name v = ns_Name x \<and>
     rep_ptr kBool rep_val h (h_ns_Enabled v) (ns_Enabled x) \<and>
     rep_ptr kBool rep_val h (h_ns_Offboard v) (ns_Offboard x) \<and>
     rep_ptr kAdditionalSettingsSpec rep_AdditionalSettingsSpec h (h_ns_AdditionalSettings v) (ns_AdditionalSettings x) \<and>
     rep_ptr kBool rep_val h (h_ns_OverwriteTshirt v) (ns_OverwriteTshirt x) \<and>
     rep_ptr kResourceQuotaSpec rep_ResourceQuotaSpec h (h_ns_ResourceQuotas v) (ns_ResourceQuotas x) \<and>
     rep_ptr kLimitRangeSpec rep_LimitRangeSpec h (h_ns_LimitRanges v) (ns_LimitRanges x) \<and>
     rep_ptr kDefaultPoliciesSpec rep_DefaultPoliciesSpec h (h_ns_DefaultPolicies v) (ns_DefaultPolicies x) \<and>
     rep_slice kCustomNetworkPolicySpec (rep_CustomNetworkPolicySpec R) h (h_ns_NetworkPolicies v) (ns_NetworkPolicies x) \<and>
     rep_ptr kLocalAdminGroupSpec rep_LocalAdminGroupSpec h (h_ns_LocalAdminGroup v) (ns_LocalAdminGroup x) \<and>
     rep_ptr kEgressIPSpec rep_EgressIPSpec h (h_ns_EgressIPs v) (ns_EgressIPs x) \<and>
     h_ns_ApplicationGitOpsNamespace v = ns_ApplicationGitOpsNamespace x \<and>
     rep_slice kArgoCDProjectSpec rep_ArgoCDProjectSpec h (h_ns_ArgoCDProjects v) (ns_ArgoCDProjects x) \<and>
     h_ns_ProjectSize v = ns_ProjectSize x \<and>
     rep_map kMap h (h_ns_Labels v) (ns_Labels x) \<and>
     rep_map kMap h (h_ns_Annotations v) (ns_Annotations x)"

definition DeepCopyInto_NamespaceSpec :: "'x machinery \<Rightarrow> h_NamespaceSpec \<Rightarrow> ('x block, h_NamespaceSpec) mem" where
  "DeepCopyInto_NamespaceSpec M src =
     bindM (copy_ptr kBool retM (h_ns_Enabled src)) (\<lambda>enabled.
     bindM (copy_ptr kBool retM (h_ns_Offboard src)) (\<lambda>offboard.
     bindM (copy_ptr kAdditionalSettingsSpec DeepCopyInto_AdditionalSettingsSpec (h_ns_AdditionalSettings src)) (\<lambda>additionalSettings.
     bindM (copy_ptr kBool retM (h_ns_OverwriteTshirt src)) (\<lambda>overwriteTshirt.
     bindM (copy_ptr kResourceQuotaSpec DeepCopyInto_ResourceQuotaSpec (h_ns_ResourceQuotas src)) (\<lambda>resourceQuotas.
     bindM (copy_ptr kLimitRangeSpec DeepCopyInto_LimitRangeSpec (h_ns_LimitRanges src)) (\<lambda>limitRanges.
     bindM (copy_ptr kDefaultPoliciesSpec DeepCopyInto_DefaultPoliciesSpec (h_ns_DefaultPolicies src)) (\<lambda>defaultPolicies.
     bindM (copy_slice kCustomNetworkPolicySpec (DeepCopyInto_CustomNetworkPolicySpec M) (h_ns_NetworkPolicies src)) (\<lambda>networkPolicies.
     bindM (copy_ptr kLocalAdminGroupSpec DeepCopyInto_LocalAdminGroupSpec (h_ns_LocalAdminGroup src)) (\<lambda>localAdminGroup.
     bindM (copy_ptr kEgressIPSpec DeepCopyInto_EgressIPSpec (h_ns_EgressIPs src)) (\<lambda>egressIPs.
     bindM (copy_slice kArgoCDProjectSpec DeepCopyInto_ArgoCDProjectSpec (h_ns_ArgoCDProjects src)) (\<lambda>argoCDProjects.
     bindM (copy_ptr kMap retM (h_ns_Labels src)) (\<lambda>labels.
     bindM (copy_ptr kMap retM (h_ns_Annotations src)) (\<lambda>annotations.
     retM (src\<lparr>h_ns_Enabled := enabled, h_ns_Offboard := offboard,
       h_ns_AdditionalSettings := additionalSettings, h_ns_OverwriteTshirt := overwriteTshirt,
       h_ns_ResourceQuotas := resourceQuotas, h_ns_LimitRanges := limitRanges,
       h_ns_DefaultPolicies := defaultPolicies, h_ns_NetworkPolicies := networkPolicies,
       h_ns_LocalAdminGroup := localAdminGroup, h_ns_EgressIPs := egressIPs,
       h_ns_ArgoCDProjects := argoCDProjects, h_ns_Labels := labels,
       h_ns_Annotations := annotations\<rparr>))))))))))))))"

definition DeepCopy_NamespaceSpec :: "'x machinery \<Rightarrow> ptr \<Rightarrow> ('x block, ptr) mem" where
  "DeepCopy_NamespaceSpec M = copy_ptr kNamespaceSpec (DeepCopyInto_NamespaceSpec M)"

definition rep_ProjectOnboardingSpec :: "'x readings \<Rightarrow> ('x block, h_ProjectOnboardingSpec, ProjectOnboardingSpec) reads" where
  "rep_ProjectOnboardingSpec R h v x \<longleftrightarrow>
     rep_ptr kGitOpsSpec rep_GitOpsSpec h (h_ps_GitOps v) (ps_GitOps x) \<and>
     rep_slice kNamespaceSpec (rep_NamespaceSpec R) h (h_ps_Namespaces v) (ps_Namespaces x)"

definition DeepCopyInto_ProjectOnboardingSpec :: "'x machinery \<Rightarrow> h_ProjectOnboardingSpec \<Rightarrow> ('x block, h_ProjectOnboardingSpec) mem" where
  "DeepCopyInto_ProjectOnboardingSpec M src =
     bindM (copy_ptr kGitOpsSpec DeepCopyInto_GitOpsSpec (h_ps_GitOps src)) (\<lambda>gitOps.
     bindM (copy_slice kNamespaceSpec (DeepCopyInto_NamespaceSpec M) (h_ps_Namespaces src)) (\<lambda>namespaces.
     retM (src\<lparr>h_ps_GitOps := gitOps, h_ps_Namespaces := namespaces\<rparr>)))"

definition DeepCopy_ProjectOnboardingSpec :: "'x machinery \<Rightarrow> ptr \<Rightarrow> ('x block, ptr) mem" where
  "DeepCopy_ProjectOnboardingSpec M = copy_ptr kProjectOnboardingSpec (DeepCopyInto_ProjectOnboardingSpec M)"

definition rep_ProjectOnboardingStatus :: "'x readings \<Rightarrow> ('x block, h_ProjectOnboardingStatus, ProjectOnboardingStatus) reads" where
  "rep_ProjectOnboardingStatus R h v x \<longleftrightarrow>
     h_pst_ObservedGeneration v = pst_ObservedGeneration x \<and>
     h_pst_Phase v = pst_Phase x \<and>
     rep_slice kExtern (Condition_rep R) h (h_pst_Conditions v) (pst_Conditions x) \<and>
     rep_slice kNamespaceStatus rep_val h (h_pst_Namespaces v) (pst_Namespaces x)"

definition DeepCopyInto_ProjectOnboardingStatus :: "'x machinery \<Rightarrow> h_ProjectOnboardingStatus \<Rightarrow> ('x block, h_ProjectOnboardingStatus) mem" where
  "DeepCopyInto_ProjectOnboardingStatus M src =
     bindM (copy_slice kExtern (Condition_into M) (h_pst_Conditions src)) (\<lambda>conditions.
     bindM (copy_slice kNamespaceStatus retM (h_pst_Namespaces src)) (\<lambda>namespaces.
     retM (src\<lparr>h_pst_Conditions := conditions, h_pst_Namespaces := namespaces\<rparr>)))"

definition DeepCopy_ProjectOnboardingStatus :: "'x machinery \<Rightarrow> ptr \<Rightarrow> ('x block, ptr) mem" where
  "DeepCopy_ProjectOnboardingStatus M = copy_ptr kProjectOnboardingStatus (DeepCopyInto_ProjectOnboardingStatus M)"

definition rep_ProjectOnboarding :: "'x readings \<Rightarrow> ('x block, 'x h_ProjectOnboarding, TypeMeta \<times> ProjectOnboarding) reads" where
  "rep_ProjectOnboarding R h v x \<longleftrightarrow>
     h_po_TypeMeta v = fst x \<and>
     ObjectMeta_rep R h (h_po_ObjectMeta v) (po_meta (snd x)) \<and>
     rep_ProjectOnboardingSpec R h (h_po_Spec v) (po_Spec (snd x)) \<and>
     rep_ProjectOnboardingStatus R h (h_po_Status v) (po_Status (snd x))"

definition DeepCopyInto_ProjectOnboarding :: "'x machinery \<Rightarrow> 'x h_ProjectOnboarding \<Rightarrow> ('x block, 'x h_ProjectOnboarding) mem" where
  "DeepCopyInto_ProjectOnboarding M src =
     bindM (ObjectMeta_into M (h_po_ObjectMeta src)) (\<lambda>objectMeta.
     bindM (DeepCopyInto_ProjectOnboardingSpec M (h_po_Spec src)) (\<lambda>spec.
     bindM (DeepCopyInto_ProjectOnboardingStatus M (h_po_Status src)) (\<lambda>status.
     retM (src\<lparr>h_po_TypeMeta := h_po_TypeMeta src, h_po_ObjectMeta := objectMeta,
       h_po_Spec := spec, h_po_Status := status\<rparr>))))"

definition DeepCopy_ProjectOnboarding :: "'x machinery \<Rightarrow> ptr \<Rightarrow> ('x block, ptr) mem" where
  "DeepCopy_ProjectOnboarding M = copy_ptr kProjectOnboarding (DeepCopyInto_ProjectOnboarding M)"

definition rep_ProjectOnboardingList :: "'x readings \<Rightarrow> ('x block, 'x h_ProjectOnboardingList, TypeMeta \<times> ListMeta \<times> (TypeMeta \<times> ProjectOnboarding) list) reads" where
  "rep_ProjectOnboardingList R h v x \<longleftrightarrow>
     h_pol_TypeMeta v = fst x \<and>
     ListMeta_rep R h (h_pol_ListMeta v) (fst (snd x)) \<and>
     rep_slice kProjectOnboarding (rep_ProjectOnboarding R) h (h_pol_Items v) (snd (snd x))"

definition DeepCopyInto_ProjectOnboardingList :: "'x machinery \<Rightarrow> 'x h_ProjectOnboardingList \<Rightarrow> ('x block, 'x h_ProjectOnboardingList) mem" where
  "DeepCopyInto_ProjectOnboardingList M src =
     bindM (ListMeta_into M (h_pol_ListMeta src)) (\<lambda>listMeta.
     bindM (copy_slice kProjectOnboarding (DeepCopyInto_ProjectOnboarding M) (h_pol_Items src)) (\<lambda>items.
     retM (src\<lparr>h_pol_TypeMeta := h_pol_TypeMeta src, h_pol_ListMeta := listMeta,
       h_pol_Items := items\<rparr>)))"

definition DeepCopy_ProjectOnboardingList :: "'x machinery \<Rightarrow> ptr \<Rightarrow> ('x block, ptr) mem" where
  "DeepCopy_ProjectOnboardingList M = copy_ptr kProjectOnboardingList (DeepCopyInto_ProjectOnboardingList M)"

definition rep_TShirtSizeStatus :: "'x readings \<Rightarrow> ('x block, h_TShirtSizeStatus, TShirtSizeStatus) reads" where
  "rep_TShirtSizeStatus R h v x \<longleftrightarrow>
     h_tst_ObservedGeneration v = tst_ObservedGeneration x \<and>
     h_tst_Phase v = tst_Phase x \<and>
     h_tst_ReferencedBy v = tst_ReferencedBy x \<and>
     rep_slice kExtern (Condition_rep R) h (h_tst_Conditions v) (tst_Conditions x)"

definition DeepCopyInto_TShirtSizeStatus :: "'x machinery \<Rightarrow> h_TShirtSizeStatus \<Rightarrow> ('x block, h_TShirtSizeStatus) mem" where
  "DeepCopyInto_TShirtSizeStatus M src =
     bindM (copy_slice kExtern (Condition_into M) (h_tst_Conditions src)) (\<lambda>conditions.
     retM (src\<lparr>h_tst_Conditions := conditions\<rparr>))"

definition DeepCopy_TShirtSizeStatus :: "'x machinery \<Rightarrow> ptr \<Rightarrow> ('x block, ptr) mem" where
  "DeepCopy_TShirtSizeStatus M = copy_ptr kTShirtSizeStatus (DeepCopyInto_TShirtSizeStatus M)"

definition rep_TShirtSize :: "'x readings \<Rightarrow> ('x block, 'x h_TShirtSize, TypeMeta \<times> TShirtSize) reads" where
  "rep_TShirtSize R h v x \<longleftrightarrow>
     h_tss_TypeMeta v = fst x \<and>
     ObjectMeta_rep R h (h_tss_ObjectMeta v) (ts_meta (snd x)) \<and>
     rep_TShirtSizeSpec h (h_tss_Spec v) (ts_Spec (snd x)) \<and>
     rep_TShirtSizeStatus R h (h_tss_Status v) (ts_Status (snd x))"

definition DeepCopyInto_TShirtSize :: "'x machinery \<Rightarrow> 'x h_TShirtSize \<Rightarrow> ('x block, 'x h_TShirtSize) mem" where
  "DeepCopyInto_TShirtSize M src =
     bindM (ObjectMeta_into M (h_tss_ObjectMeta src)) (\<lambda>objectMeta.
     bindM (DeepCopyInto_TShirtSizeSpec (h_tss_Spec src)) (\<lambda>spec.
     bindM (DeepCopyInto_TShirtSizeStatus M (h_tss_Status src)) (\<lambda>status.
     retM (src\<lparr>h_tss_TypeMeta := h_tss_TypeMeta src, h_tss_ObjectMeta := objectMeta,
       h_tss_Spec := spec, h_tss_Status := status\<rparr>))))"

definition DeepCopy_TShirtSize :: "'x machinery \<Rightarrow> ptr \<Rightarrow> ('x block, ptr) mem" where
  "DeepCopy_TShirtSize M = copy_ptr kTShirtSize (DeepCopyInto_TShirtSize M)"

definition rep_TShirtSizeList :: "'x readings \<Rightarrow> ('x block, 'x h_TShirtSizeList, TypeMeta \<times> ListMeta \<times> (TypeMeta \<times> TShirtSize) list) reads" where
  "rep_TShirtSizeList R h v x \<longleftrightarrow>
     h_tsl_TypeMeta v = fst x \<and>
     ListMeta_rep R h (h_tsl_ListMeta v) (fst (snd x)) \<and>
     rep_slice kTShirtSize (rep_TShirtSize R) h (h_tsl_Items v) (snd (snd x))"

definition DeepCopyInto_TShirtSizeList :: "'x machinery \<Rightarrow> 'x h_TShirtSizeList \<Rightarrow> ('x block, 'x h_TShirtSizeList) mem" where
  "DeepCopyInto_TShirtSizeList M src =
     bindM (ListMeta_into M (h_tsl_ListMeta src)) (\<lambda>listMeta.
     bindM (copy_slice kTShirtSize (DeepCopyInto_TShirtSize M) (h_tsl_Items src)) (\<lambda>items.
     retM (src\<lparr>h_tsl_TypeMeta := h_tsl_TypeMeta src, h_tsl_ListMeta := listMeta,
       h_tsl_Items := items\<rparr>)))"

definition DeepCopy_TShirtSizeList :: "'x machinery \<Rightarrow> ptr \<Rightarrow> ('x block, ptr) mem" where
  "DeepCopy_TShirtSizeList M = copy_ptr kTShirtSizeList (DeepCopyInto_TShirtSizeList M)"

text \<open>
  \<^verbatim>\<open>DeepCopyObject\<close>: an interface value is nil or a pointer tagged with its type; a nil copy becomes
  the nil interface, not an interface around a nil pointer.
\<close>

datatype runtime_object = Obj_ProjectOnboarding ptr | Obj_ProjectOnboardingList ptr
  | Obj_TShirtSize ptr | Obj_TShirtSizeList ptr

definition DeepCopyObject_ProjectOnboarding :: "'x machinery \<Rightarrow> ptr \<Rightarrow> ('x block, runtime_object option) mem" where
  "DeepCopyObject_ProjectOnboarding M src = bindM (DeepCopy_ProjectOnboarding M src)
     (\<lambda>c. retM (if c \<noteq> None then Some (Obj_ProjectOnboarding c) else None))"

definition DeepCopyObject_TShirtSize :: "'x machinery \<Rightarrow> ptr \<Rightarrow> ('x block, runtime_object option) mem" where
  "DeepCopyObject_TShirtSize M src = bindM (DeepCopy_TShirtSize M src)
     (\<lambda>c. retM (if c \<noteq> None then Some (Obj_TShirtSize c) else None))"

definition DeepCopyObject_ProjectOnboardingList :: "'x machinery \<Rightarrow> ptr \<Rightarrow> ('x block, runtime_object option) mem" where
  "DeepCopyObject_ProjectOnboardingList M src = bindM (DeepCopy_ProjectOnboardingList M src)
     (\<lambda>c. retM (if c \<noteq> None then Some (Obj_ProjectOnboardingList c) else None))"

definition DeepCopyObject_TShirtSizeList :: "'x machinery \<Rightarrow> ptr \<Rightarrow> ('x block, runtime_object option) mem" where
  "DeepCopyObject_TShirtSizeList M src = bindM (DeepCopy_TShirtSizeList M src)
     (\<lambda>c. retM (if c \<noteq> None then Some (Obj_TShirtSizeList c) else None))"

section \<open>The copies\<close>

context apimachinery begin

sublocale NetworkPolicyPeerSpec: deep_copy_kind "rep_NetworkPolicyPeerSpec R" "DeepCopyInto_NetworkPolicyPeerSpec M" kNetworkPolicyPeerSpec
  by (rule deep_copy_kindI, rule kinds)
    (auto simp: rep_NetworkPolicyPeerSpec_def DeepCopyInto_NetworkPolicyPeerSpec_def lives_def intro: mem_mono elim!: copy_step)

sublocale NetworkPolicyRuleSpec: deep_copy_kind "rep_NetworkPolicyRuleSpec R" "DeepCopyInto_NetworkPolicyRuleSpec M" kNetworkPolicyRuleSpec
  by (rule deep_copy_kindI, rule kinds)
    (auto simp: rep_NetworkPolicyRuleSpec_def DeepCopyInto_NetworkPolicyRuleSpec_def lives_def intro: mem_mono elim!: copy_step)

sublocale CustomNetworkPolicySpec: deep_copy_kind "rep_CustomNetworkPolicySpec R" "DeepCopyInto_CustomNetworkPolicySpec M" kCustomNetworkPolicySpec
  by (rule deep_copy_kindI, rule kinds)
    (auto simp: rep_CustomNetworkPolicySpec_def DeepCopyInto_CustomNetworkPolicySpec_def lives_def intro: mem_mono elim!: copy_step)

sublocale NamespaceSpec: deep_copy_kind "rep_NamespaceSpec R" "DeepCopyInto_NamespaceSpec M" kNamespaceSpec
  by (rule deep_copy_kindI, rule kinds)
    (auto simp: rep_NamespaceSpec_def DeepCopyInto_NamespaceSpec_def lives_def intro: mem_mono elim!: copy_step)

sublocale ProjectOnboardingSpec: deep_copy_kind "rep_ProjectOnboardingSpec R" "DeepCopyInto_ProjectOnboardingSpec M" kProjectOnboardingSpec
  by (rule deep_copy_kindI, rule kinds)
    (auto simp: rep_ProjectOnboardingSpec_def DeepCopyInto_ProjectOnboardingSpec_def lives_def intro: mem_mono elim!: copy_step)

sublocale ProjectOnboardingStatus: deep_copy_kind "rep_ProjectOnboardingStatus R" "DeepCopyInto_ProjectOnboardingStatus M" kProjectOnboardingStatus
  by (rule deep_copy_kindI, rule kinds)
    (auto simp: rep_ProjectOnboardingStatus_def DeepCopyInto_ProjectOnboardingStatus_def lives_def intro: mem_mono elim!: copy_step)

sublocale ProjectOnboarding: deep_copy_kind "rep_ProjectOnboarding R" "DeepCopyInto_ProjectOnboarding M" kProjectOnboarding
  by (rule deep_copy_kindI, rule kinds)
    (auto simp: rep_ProjectOnboarding_def DeepCopyInto_ProjectOnboarding_def lives_def intro: mem_mono elim!: copy_step)

sublocale ProjectOnboardingList: deep_copy_kind "rep_ProjectOnboardingList R" "DeepCopyInto_ProjectOnboardingList M" kProjectOnboardingList
  by (rule deep_copy_kindI, rule kinds)
    (auto simp: rep_ProjectOnboardingList_def DeepCopyInto_ProjectOnboardingList_def lives_def intro: mem_mono elim!: copy_step)

sublocale TShirtSizeStatus: deep_copy_kind "rep_TShirtSizeStatus R" "DeepCopyInto_TShirtSizeStatus M" kTShirtSizeStatus
  by (rule deep_copy_kindI, rule kinds)
    (auto simp: rep_TShirtSizeStatus_def DeepCopyInto_TShirtSizeStatus_def lives_def intro: mem_mono elim!: copy_step)

sublocale TShirtSize: deep_copy_kind "rep_TShirtSize R" "DeepCopyInto_TShirtSize M" kTShirtSize
  by (rule deep_copy_kindI, rule kinds)
    (auto simp: rep_TShirtSize_def DeepCopyInto_TShirtSize_def lives_def intro: mem_mono elim!: copy_step)

sublocale TShirtSizeList: deep_copy_kind "rep_TShirtSizeList R" "DeepCopyInto_TShirtSizeList M" kTShirtSizeList
  by (rule deep_copy_kindI, rule kinds)
    (auto simp: rep_TShirtSizeList_def DeepCopyInto_TShirtSizeList_def lives_def intro: mem_mono elim!: copy_step)

text \<open>The contracts of the top-level methods, for use outside.\<close>

lemma DeepCopy_ProjectOnboarding: "deep_copy (rep_ptr kProjectOnboarding (rep_ProjectOnboarding R)) (DeepCopy_ProjectOnboarding M)"
  unfolding DeepCopy_ProjectOnboarding_def by unfold_locales

lemma DeepCopy_ProjectOnboardingList: "deep_copy (rep_ptr kProjectOnboardingList (rep_ProjectOnboardingList R)) (DeepCopy_ProjectOnboardingList M)"
  unfolding DeepCopy_ProjectOnboardingList_def by unfold_locales

lemma DeepCopy_TShirtSize: "deep_copy (rep_ptr kTShirtSize (rep_TShirtSize R)) (DeepCopy_TShirtSize M)"
  unfolding DeepCopy_TShirtSize_def by unfold_locales

lemma DeepCopy_TShirtSizeList: "deep_copy (rep_ptr kTShirtSizeList (rep_TShirtSizeList R)) (DeepCopy_TShirtSizeList M)"
  unfolding DeepCopy_TShirtSizeList_def by unfold_locales

end

end
