(* ===== verification/Deep_Merge.thy ===== *)
theory Deep_Merge
  imports Deep_Resources Tshirt_Merge Gitops
begin

text \<open>
  The routines that change what they copied: the merges of \<^verbatim>\<open>tshirt_merge.go\<close> and of
  \<^verbatim>\<open>defaults.go\<close>, with the pointers they pass on and the fields they assign.  \<open>f_mem\<close> is the
  function \<open>f\<close> of \<open>Tshirt_Merge\<close> or \<open>Gitops\<close> on addresses.  An intermediate result shares
  strings with the override; the last step of each merge copies it once more, so what it returns
  shares nothing.  A local \<^verbatim>\<open>var out T\<close> of which the address is returned is a value until then.
\<close>

section \<open>tshirt\_merge.go\<close>

definition zero_h_ResourceAmountSpec :: h_ResourceAmountSpec where
  "zero_h_ResourceAmountSpec = \<lparr>h_ra_CPU = None, h_ra_Memory = None\<rparr>"

definition zero_h_ResourceQuotaLimitSpec :: h_ResourceQuotaLimitSpec where
  "zero_h_ResourceQuotaLimitSpec = \<lparr>h_rl_CPU = None, h_rl_Memory = None, h_rl_EphemeralStorage = None\<rparr>"

definition zero_h_ResourceQuotaRequestSpec :: h_ResourceQuotaRequestSpec where
  "zero_h_ResourceQuotaRequestSpec =
     \<lparr>h_rr_CPU = None, h_rr_Memory = None, h_rr_Storage = None, h_rr_EphemeralStorage = None\<rparr>"

definition zero_h_ResourceQuotaSpec :: h_ResourceQuotaSpec where
  "zero_h_ResourceQuotaSpec = \<lparr>h_rq_Enabled = None, h_rq_CPU = None, h_rq_Memory = None,
     h_rq_EphemeralStorage = None, h_rq_Pods = None, h_rq_ReplicationControllers = None,
     h_rq_ResourceQuotas = None, h_rq_Services = None, h_rq_Secrets = None, h_rq_ConfigMaps = None,
     h_rq_PersistentVolumeClaims = None, h_rq_Limits = None, h_rq_Requests = None,
     h_rq_StorageClasses = None\<rparr>"

definition zero_h_StorageAmountSpec :: h_StorageAmountSpec where
  "zero_h_StorageAmountSpec = \<lparr>h_sa_Storage = None\<rparr>"

definition zero_h_LimitRangePodSpec :: h_LimitRangePodSpec where
  "zero_h_LimitRangePodSpec = \<lparr>h_lp_Max = None, h_lp_Min = None\<rparr>"

definition zero_h_LimitRangeContainerSpec :: h_LimitRangeContainerSpec where
  "zero_h_LimitRangeContainerSpec =
     \<lparr>h_lc_Max = None, h_lc_Min = None, h_lc_Default = None, h_lc_DefaultRequest = None\<rparr>"

definition zero_h_LimitRangePVCSpec :: h_LimitRangePVCSpec where
  "zero_h_LimitRangePVCSpec = \<lparr>h_lv_Min = None, h_lv_Max = None\<rparr>"

definition zero_h_LimitRangeSpec :: h_LimitRangeSpec where
  "zero_h_LimitRangeSpec =
     \<lparr>h_lr_Enabled = None, h_lr_Pod = None, h_lr_Container = None, h_lr_PVC = None\<rparr>"

lemmas zero_mem = zero_h_ResourceAmountSpec_def zero_h_ResourceQuotaLimitSpec_def
  zero_h_ResourceQuotaRequestSpec_def zero_h_ResourceQuotaSpec_def zero_h_StorageAmountSpec_def
  zero_h_LimitRangePodSpec_def zero_h_LimitRangeContainerSpec_def zero_h_LimitRangePVCSpec_def
  zero_h_LimitRangeSpec_def

text \<open>\<^verbatim>\<open>var out T; if base != nil { out = *base.DeepCopy() }\<close>\<close>

definition copy_of_base :: "('b, 'v) kind \<Rightarrow> (ptr \<Rightarrow> ('b, ptr) mem) \<Rightarrow> 'v \<Rightarrow> ptr \<Rightarrow> ('b, 'v) mem" where
  "copy_of_base k copy zero base = (if base \<noteq> None then bindM (copy base) (load k) else retM zero)"

text \<open>
  The frame of every pointer merge: both nil, the copy of the base, an absent override, and
  otherwise the assignments \<open>assign out ov\<close> and \<^verbatim>\<open>return &out\<close>.
\<close>

definition merge_frame :: "('b, 'v) kind \<Rightarrow> (ptr \<Rightarrow> ('b, ptr) mem) \<Rightarrow> 'v \<Rightarrow>
    ('v \<Rightarrow> 'v \<Rightarrow> ('b, 'v) mem) \<Rightarrow> ptr \<Rightarrow> ptr \<Rightarrow> ('b, ptr) mem" where
  "merge_frame k copy zero assign base override =
     (if base = None \<and> override = None then retM None
      else bindM (copy_of_base k copy zero base) (\<lambda>out.
        if override = None then (if base = None then retM None else new_cell k out)
        else bindM (load k override) (\<lambda>ov. bindM (assign out ov) (new_cell k))))"

definition mergeResourceAmount_mem :: "ptr \<Rightarrow> ptr \<Rightarrow> ('x block, ptr) mem" where
  "mergeResourceAmount_mem =
     merge_frame kResourceAmountSpec DeepCopy_ResourceAmountSpec zero_h_ResourceAmountSpec
       (\<lambda>out ov. retM (out\<lparr>h_ra_CPU := or_else (h_ra_CPU ov) (h_ra_CPU out),
                           h_ra_Memory := or_else (h_ra_Memory ov) (h_ra_Memory out)\<rparr>))"

definition mergeResourceQuotaLimits_mem :: "ptr \<Rightarrow> ptr \<Rightarrow> ('x block, ptr) mem" where
  "mergeResourceQuotaLimits_mem =
     merge_frame kResourceQuotaLimitSpec DeepCopy_ResourceQuotaLimitSpec zero_h_ResourceQuotaLimitSpec
       (\<lambda>out ov. retM (out\<lparr>h_rl_CPU := or_else (h_rl_CPU ov) (h_rl_CPU out),
          h_rl_Memory := or_else (h_rl_Memory ov) (h_rl_Memory out),
          h_rl_EphemeralStorage := or_else (h_rl_EphemeralStorage ov) (h_rl_EphemeralStorage out)\<rparr>))"

definition mergeResourceQuotaRequests_mem :: "ptr \<Rightarrow> ptr \<Rightarrow> ('x block, ptr) mem" where
  "mergeResourceQuotaRequests_mem =
     merge_frame kResourceQuotaRequestSpec DeepCopy_ResourceQuotaRequestSpec zero_h_ResourceQuotaRequestSpec
       (\<lambda>out ov. retM (out\<lparr>h_rr_CPU := or_else (h_rr_CPU ov) (h_rr_CPU out),
          h_rr_Memory := or_else (h_rr_Memory ov) (h_rr_Memory out),
          h_rr_Storage := or_else (h_rr_Storage ov) (h_rr_Storage out),
          h_rr_EphemeralStorage := or_else (h_rr_EphemeralStorage ov) (h_rr_EphemeralStorage out)\<rparr>))"

definition mergeLimitRangePod_mem :: "ptr \<Rightarrow> ptr \<Rightarrow> ('x block, ptr) mem" where
  "mergeLimitRangePod_mem =
     merge_frame kLimitRangePodSpec DeepCopy_LimitRangePodSpec zero_h_LimitRangePodSpec
       (\<lambda>out ov. bindM (mergeResourceAmount_mem (h_lp_Max out) (h_lp_Max ov)) (\<lambda>max'.
                  bindM (mergeResourceAmount_mem (h_lp_Min out) (h_lp_Min ov)) (\<lambda>min'.
                  retM (out\<lparr>h_lp_Max := max', h_lp_Min := min'\<rparr>))))"

definition mergeLimitRangeContainer_mem :: "ptr \<Rightarrow> ptr \<Rightarrow> ('x block, ptr) mem" where
  "mergeLimitRangeContainer_mem =
     merge_frame kLimitRangeContainerSpec DeepCopy_LimitRangeContainerSpec zero_h_LimitRangeContainerSpec
       (\<lambda>out ov. bindM (mergeResourceAmount_mem (h_lc_Max out) (h_lc_Max ov)) (\<lambda>max'.
                  bindM (mergeResourceAmount_mem (h_lc_Min out) (h_lc_Min ov)) (\<lambda>min'.
                  bindM (mergeResourceAmount_mem (h_lc_Default out) (h_lc_Default ov)) (\<lambda>default'.
                  bindM (mergeResourceAmount_mem (h_lc_DefaultRequest out) (h_lc_DefaultRequest ov)) (\<lambda>request'.
                  retM (out\<lparr>h_lc_Max := max', h_lc_Min := min', h_lc_Default := default',
                            h_lc_DefaultRequest := request'\<rparr>))))))"

text \<open>
  One bound of a PVC range: a missing one is allocated, and the storage is assigned through the
  pointer \<^verbatim>\<open>out.Min\<close>, into the cell that the copy of the base made.
\<close>

definition pvc_bound_mem :: "ptr \<Rightarrow> ptr \<Rightarrow> ('x block, ptr) mem" where
  "pvc_bound_mem out override = (if override = None then retM out
     else bindM (if out = None then new_cell kStorageAmountSpec zero_h_StorageAmountSpec else retM out) (\<lambda>p.
          bindM (load kStorageAmountSpec override) (\<lambda>ov.
          if h_sa_Storage ov = None then retM p
          else bindM (load kStorageAmountSpec p) (\<lambda>cur.
               bindM (store kStorageAmountSpec p (cur\<lparr>h_sa_Storage := h_sa_Storage ov\<rparr>)) (\<lambda>_. retM p)))))"

definition mergeLimitRangePVC_mem :: "ptr \<Rightarrow> ptr \<Rightarrow> ('x block, ptr) mem" where
  "mergeLimitRangePVC_mem =
     merge_frame kLimitRangePVCSpec DeepCopy_LimitRangePVCSpec zero_h_LimitRangePVCSpec
       (\<lambda>out ov. bindM (pvc_bound_mem (h_lv_Min out) (h_lv_Min ov)) (\<lambda>min'.
                  bindM (pvc_bound_mem (h_lv_Max out) (h_lv_Max ov)) (\<lambda>max'.
                  retM (out\<lparr>h_lv_Min := min', h_lv_Max := max'\<rparr>))))"

definition ensureQuotaEnabled_mem :: "ptr \<Rightarrow> ('x block, ptr) mem" where
  "ensureQuotaEnabled_mem q = (if q = None then retM None
     else bindM (DeepCopy_ResourceQuotaSpec q) (\<lambda>out.
          bindM (load kResourceQuotaSpec out) (\<lambda>cur.
          if h_rq_Enabled cur = None
          then bindM (new_cell kBool True) (\<lambda>yes.
               bindM (store kResourceQuotaSpec out (cur\<lparr>h_rq_Enabled := yes\<rparr>)) (\<lambda>_. retM out))
          else retM out)))"

definition ensureLimitRangeEnabled_mem :: "ptr \<Rightarrow> ('x block, ptr) mem" where
  "ensureLimitRangeEnabled_mem lr = (if lr = None then retM None
     else bindM (DeepCopy_LimitRangeSpec lr) (\<lambda>out.
          bindM (load kLimitRangeSpec out) (\<lambda>cur.
          if h_lr_Enabled cur = None
          then bindM (new_cell kBool True) (\<lambda>yes.
               bindM (store kLimitRangeSpec out (cur\<lparr>h_lr_Enabled := yes\<rparr>)) (\<lambda>_. retM out))
          else retM out)))"

definition storageClassQuotasFromMap_mem ::
  "((string \<times> string) list \<Rightarrow> (string \<times> string) list) \<Rightarrow> (string \<times> string) list \<Rightarrow> ('x block, slice) mem" where
  "storageClassQuotasFromMap_mem iter values = (if values = [] then retM None
     else new_array kStorageClassQuota (map (\<lambda>(k, v). \<lparr>sc_Key = k, sc_Value = v\<rparr>) (iter values)))"

definition merge_storage_classes_mem ::
  "((string \<times> string) list \<Rightarrow> (string \<times> string) list) \<Rightarrow> slice \<Rightarrow> slice \<Rightarrow> ('x block, slice) mem" where
  "merge_storage_classes_mem iter out override =
     bindM (load_slice kStorageClassQuota override) (\<lambda>entries.
     if entries = [] then retM out
     else bindM (load_slice kStorageClassQuota out) (\<lambda>items.
          storageClassQuotasFromMap_mem iter
            (foldl (\<lambda>m entry. if sc_Key entry = [] then m else AList.update (sc_Key entry) (sc_Value entry) m)
               (storageClassQuotasToMap items) entries)))"

definition mergeResourceQuotaSpec_mem ::
  "((string \<times> string) list \<Rightarrow> (string \<times> string) list) \<Rightarrow> ptr \<Rightarrow> ptr \<Rightarrow> ('x block, ptr) mem" where
  "mergeResourceQuotaSpec_mem iter base override =
     (if base = None \<and> override = None then retM None
      else bindM (copy_of_base kResourceQuotaSpec DeepCopy_ResourceQuotaSpec zero_h_ResourceQuotaSpec base) (\<lambda>out.
        if override = None then bindM (new_cell kResourceQuotaSpec out) ensureQuotaEnabled_mem
        else bindM (load kResourceQuotaSpec override) (\<lambda>ov.
             bindM (mergeResourceQuotaLimits_mem (h_rq_Limits out) (h_rq_Limits ov)) (\<lambda>limits.
             bindM (mergeResourceQuotaRequests_mem (h_rq_Requests out) (h_rq_Requests ov)) (\<lambda>requests.
             bindM (merge_storage_classes_mem iter (h_rq_StorageClasses out) (h_rq_StorageClasses ov)) (\<lambda>classes.
             bindM (new_cell kResourceQuotaSpec
               \<lparr>h_rq_Enabled = or_else (h_rq_Enabled ov) (h_rq_Enabled out),
                h_rq_CPU = or_else (h_rq_CPU ov) (h_rq_CPU out),
                h_rq_Memory = or_else (h_rq_Memory ov) (h_rq_Memory out),
                h_rq_EphemeralStorage = or_else (h_rq_EphemeralStorage ov) (h_rq_EphemeralStorage out),
                h_rq_Pods = or_else (h_rq_Pods ov) (h_rq_Pods out),
                h_rq_ReplicationControllers = or_else (h_rq_ReplicationControllers ov) (h_rq_ReplicationControllers out),
                h_rq_ResourceQuotas = or_else (h_rq_ResourceQuotas ov) (h_rq_ResourceQuotas out),
                h_rq_Services = or_else (h_rq_Services ov) (h_rq_Services out),
                h_rq_Secrets = or_else (h_rq_Secrets ov) (h_rq_Secrets out),
                h_rq_ConfigMaps = or_else (h_rq_ConfigMaps ov) (h_rq_ConfigMaps out),
                h_rq_PersistentVolumeClaims = or_else (h_rq_PersistentVolumeClaims ov) (h_rq_PersistentVolumeClaims out),
                h_rq_Limits = limits, h_rq_Requests = requests, h_rq_StorageClasses = classes\<rparr>)
               ensureQuotaEnabled_mem))))))"

definition mergeLimitRangeSpec_mem :: "ptr \<Rightarrow> ptr \<Rightarrow> ('x block, ptr) mem" where
  "mergeLimitRangeSpec_mem base override =
     (if base = None \<and> override = None then retM None
      else bindM (copy_of_base kLimitRangeSpec DeepCopy_LimitRangeSpec zero_h_LimitRangeSpec base) (\<lambda>out.
        if override = None then bindM (new_cell kLimitRangeSpec out) ensureLimitRangeEnabled_mem
        else bindM (load kLimitRangeSpec override) (\<lambda>ov.
             bindM (mergeLimitRangePod_mem (h_lr_Pod out) (h_lr_Pod ov)) (\<lambda>pod.
             bindM (mergeLimitRangeContainer_mem (h_lr_Container out) (h_lr_Container ov)) (\<lambda>container.
             bindM (mergeLimitRangePVC_mem (h_lr_PVC out) (h_lr_PVC ov)) (\<lambda>pvc.
             bindM (new_cell kLimitRangeSpec
               \<lparr>h_lr_Enabled = or_else (h_lr_Enabled ov) (h_lr_Enabled out),
                h_lr_Pod = pod, h_lr_Container = container, h_lr_PVC = pvc\<rparr>)
               ensureLimitRangeEnabled_mem))))))"

section \<open>Results of a merge\<close>

text \<open>
  \<open>gives m h r x\<close>: the computation ends, has only allocated, and its result represents \<open>x\<close>.
  \<open>gives_fresh m h r x\<close>: what it allocated is all that the result needs.
\<close>

definition gives :: "('b, 'a) mem \<Rightarrow> 'b heap \<Rightarrow> ('b, 'a, 'x) reads \<Rightarrow> 'x \<Rightarrow> bool" where
  "gives m h r x \<longleftrightarrow> (\<exists>v s. m h = Some (v, h @ s) \<and> r (h @ s) v x)"

definition gives_fresh :: "('b, 'a) mem \<Rightarrow> 'b heap \<Rightarrow> ('b, 'a, 'x) reads \<Rightarrow> 'x \<Rightarrow> bool" where
  "gives_fresh m h r x \<longleftrightarrow> (\<exists>v s. m h = Some (v, h @ s) \<and> lives r (length h) s v x)"

lemma gives_freshI:
  "m h = Some (v, h @ s) \<Longrightarrow> lives r (length h) s v x \<Longrightarrow> gives_fresh m h r x"
  by (auto simp: gives_fresh_def)

lemma gives_fresh_unshared:
  assumes "gives_fresh m h r x"
  obtains v h' where "m h = Some (v, h')" and "unshared r h h' v x"
proof -
  obtain v s where "m h = Some (v, h @ s)" "lives r (length h) s v x"
    using assms by (auto simp: gives_fresh_def)
  thus thesis by (intro that [OF _ lives_unshared])
qed

lemma gives_ret: "r h v x \<Longrightarrow> gives (retM v) h r x"
  unfolding gives_def retM_def by (rule exI [of _ v], rule exI [of _ "[]"]) simp

lemma gives_bind:
  assumes "gives m h r x" and "\<And>v s. r (h @ s) v x \<Longrightarrow> gives (f v) (h @ s) r' y"
  shows "gives (bindM m f) h r' y"
proof -
  obtain v s where m: "m h = Some (v, h @ s)" "r (h @ s) v x" using assms(1) by (auto simp: gives_def)
  obtain w t where "f v (h @ s) = Some (w, h @ s @ t)" "r' (h @ s @ t) w y"
    using assms(2) [OF m(2)] by (auto simp: gives_def)
  with m show ?thesis by (auto simp: bindM_def gives_def)
qed

lemma gives_bind_fresh:
  assumes "gives m h r x" and "\<And>v s. r (h @ s) v x \<Longrightarrow> gives_fresh (f v) (h @ s) r' y"
  shows "gives_fresh (bindM m f) h r' y"
proof -
  obtain v s where m: "m h = Some (v, h @ s)" "r (h @ s) v x" using assms(1) by (auto simp: gives_def)
  obtain w t where "f v (h @ s) = Some (w, h @ s @ t)" "lives r' (length (h @ s)) t w y"
    using assms(2) [OF m(2)] by (auto simp: gives_fresh_def)
  with m show ?thesis
    by (intro gives_freshI [of _ _ w "s @ t"]) (auto simp: bindM_def intro: lives_prepend)
qed

lemma gives_cell:
  assumes "deep_copy_kind r c k" and "r h v x"
  shows "gives (new_cell k v) h (rep_ptr k r) (Some x)"
proof -
  have "kind_ok k" by (rule deep_copy_kind.ok [OF assms(1)])
  moreover have "r (h @ [mk k [v]]) v x"
    using assms by (auto intro: deep_copy.mono simp: deep_copy_kind_def)
  ultimately show ?thesis by (auto simp: gives_def new_cell_def rep_ptr_def deref_new)
qed

lemma gives_load:
  assumes "rep_ptr k r h (Some q) (Some y)" and "\<And>v. r h v y \<Longrightarrow> P (f v h)"
  shows "P (bindM (load k (Some q)) f h)"
  using load_rep [OF assms(1)] assms(2) by (auto simp: bindM_def)

text \<open>What \<open>copy_of_base\<close> leaves in the segment \<open>t\<close>, whether there was a base or not.\<close>

definition based :: "('b, 'v, 'x) reads \<Rightarrow> ('v \<Rightarrow> ('b, 'v) mem) \<Rightarrow> ('b, 'v) kind \<Rightarrow> 'v \<Rightarrow> 'x \<Rightarrow>
    'b heap \<Rightarrow> 'x option \<Rightarrow> 'b list \<Rightarrow> 'v \<Rightarrow> 'x \<Rightarrow> bool" where
  "based r c k zero zx h x t out xo \<longleftrightarrow> (case x of
     None \<Rightarrow> t = [] \<and> out = zero \<and> xo = zx
   | Some y \<Rightarrow> xo = y \<and> (\<exists>v t0. r h v y \<and> c v h = Some (out, h @ t0) \<and>
                 lives r (length h) t0 out y \<and> t = t0 @ [mk k [out]]))"

lemma copy_of_base:
  assumes "deep_copy_kind r c k" and "rep_ptr k r h b x"
  obtains out t where "copy_of_base k (copy_ptr k c) zero b h = Some (out, h @ t)"
    and "based r c k zero zx h x t out (case x of None \<Rightarrow> zx | Some y \<Rightarrow> y)"
  using assms(2)
proof (cases rule: rep_ptr_cases)
  case 1
  thus ?thesis by (intro that [of zero "[]"]) (simp_all add: copy_of_base_def retM_def based_def)
next
  case (2 q v y)
  have dc: "deep_copy r c" and ok: "kind_ok k"
    using assms(1) by (simp_all add: deep_copy_kind_def deep_copy_kind_axioms_def)
  obtain w s where "copy_ptr k c (Some q) h = Some (Some (length h + length s, 0), h @ s @ [mk k [w]])"
    "c v h = Some (w, h @ s)" "lives r (length h) s w y"
    by (rule copy_ptr_cell [OF dc 2(3,4)])
  with 2 load_new [OF ok, of "length h + length s" "h @ s" w "[]"] show ?thesis
    by (intro that [of w "s @ [mk k [w]]"]) (auto simp: copy_of_base_def bindM_def based_def)
qed

lemma based_rep:
  assumes "based r c k zero zx h x t out xo" and "\<And>h. r h zero zx"
  shows "r (h @ t) out xo"
  using assms livesD [of r "length h" _ out xo h "[mk k [out]]"]
  by (auto simp: based_def split: option.splits)

lemma merge_frame_gives:
  assumes dc: "deep_copy_kind r c k" and zero: "\<And>h. r h zero zx"
    and base: "rep_ptr k r h b x" and ov: "rep_ptr k r h ov y"
    and assign: "\<And>t out xo v yo. based r c k zero zx h x t out xo \<Longrightarrow> r h v yo \<Longrightarrow>
        \<exists>w t'. assign out v (h @ t) = Some (w, h @ t') \<and> r (h @ t') w (f xo yo)"
  shows "gives (merge_frame k (copy_ptr k c) zero assign b ov) h (rep_ptr k r)
    (if x = None \<and> y = None then None
     else let out = (case x of None \<Rightarrow> zx | Some z \<Rightarrow> z)
     in case y of None \<Rightarrow> (if x = None then None else Some out) | Some z \<Rightarrow> Some (f out z))"
proof -
  have nil: "b = None \<longleftrightarrow> x = None" "ov = None \<longleftrightarrow> y = None"
    using base ov by (auto elim: rep_ptr_cases)
  obtain out t where out: "copy_of_base k (copy_ptr k c) zero b h = Some (out, h @ t)"
    "based r c k zero zx h x t out (case x of None \<Rightarrow> zx | Some y \<Rightarrow> y)"
    by (rule copy_of_base [OF dc base])
  have cell: "gives (new_cell k w) (h @ t') (rep_ptr k r) (Some z)" if "r (h @ t') w z" for w t' z
    by (rule gives_cell [OF dc that])
  show ?thesis
  proof (cases y)
    case None
    show ?thesis
    proof (cases "x = None")
      case True
      thus ?thesis using None nil by (auto simp: merge_frame_def intro: gives_ret)
    next
      case False
      thus ?thesis
        using None nil out(1) cell [OF based_rep [OF out(2) zero]]
        by (auto simp: merge_frame_def gives_def bindM_def)
    qed
  next
    case (Some z)
    then obtain q v where q: "ov = Some q" "deref k q h = Some v" "r h v z"
      using ov by (auto elim: rep_ptr_cases)
    obtain w t' where w: "assign out v (h @ t) = Some (w, h @ t')"
      "r (h @ t') w (f (case x of None \<Rightarrow> zx | Some y \<Rightarrow> y) z)"
      using assign [OF out(2) q(3)] by blast
    have "load k ov (h @ t) = Some (v, h @ t)" using q by (simp add: load_def deref_append)
    with w cell [OF w(2)] out(1) q(1) Some show ?thesis
      by (auto simp: merge_frame_def gives_def bindM_def Let_def)
  qed
qed

text \<open>The case of assignments that only read and allocate.\<close>

lemma merge_frame_reads:
  assumes dc: "deep_copy_kind r c k" and zero: "\<And>h. r h zero zx"
    and base: "rep_ptr k r h b x" and ov: "rep_ptr k r h ov y"
    and assign: "\<And>h out xo v yo. r h out xo \<Longrightarrow> r h v yo \<Longrightarrow> gives (assign out v) h r (f xo yo)"
  shows "gives (merge_frame k (copy_ptr k c) zero assign b ov) h (rep_ptr k r)
    (if x = None \<and> y = None then None
     else let out = (case x of None \<Rightarrow> zx | Some z \<Rightarrow> z)
     in case y of None \<Rightarrow> (if x = None then None else Some out) | Some z \<Rightarrow> Some (f out z))"
proof (rule merge_frame_gives [OF dc zero base ov])
  fix t out xo v yo assume b: "based r c k zero zx h x t out xo" and v: "r h v yo"
  have "r (h @ t) v yo" using dc v by (auto intro: deep_copy.mono simp: deep_copy_kind_def)
  hence "gives (assign out v) (h @ t) r (f xo yo)" by (rule assign [OF based_rep [OF b zero]])
  thus "\<exists>w t'. assign out v (h @ t) = Some (w, h @ t') \<and> r (h @ t') w (f xo yo)"
    by (auto simp: gives_def)
qed

section \<open>The merges of tshirt\_merge.go\<close>

lemma rep_or_else:
  "rep_ptr k r h p x \<Longrightarrow> rep_ptr k r h q y \<Longrightarrow> rep_ptr k r h (or_else p q) (or_else x y)"
  by (auto simp: or_else_def split: option.splits)

lemma mergeResourceAmount_gives:
  assumes "rep_ptr kResourceAmountSpec rep_ResourceAmountSpec h b x"
    and "rep_ptr kResourceAmountSpec rep_ResourceAmountSpec h ov y"
  shows "gives (mergeResourceAmount_mem b ov) h (rep_ptr kResourceAmountSpec rep_ResourceAmountSpec)
    (mergeResourceAmount x y)"
  unfolding mergeResourceAmount_mem_def mergeResourceAmount_def DeepCopy_ResourceAmountSpec_def
  by (rule merge_frame_reads [OF ResourceAmountSpec.deep_copy_kind_axioms _ assms])
     (auto simp: rep_ResourceAmountSpec_def zero_mem intro!: gives_ret rep_or_else)

lemma mergeResourceQuotaLimits_gives:
  assumes "rep_ptr kResourceQuotaLimitSpec rep_ResourceQuotaLimitSpec h b x"
    and "rep_ptr kResourceQuotaLimitSpec rep_ResourceQuotaLimitSpec h ov y"
  shows "gives (mergeResourceQuotaLimits_mem b ov) h
    (rep_ptr kResourceQuotaLimitSpec rep_ResourceQuotaLimitSpec) (mergeResourceQuotaLimits x y)"
  unfolding mergeResourceQuotaLimits_mem_def mergeResourceQuotaLimits_def DeepCopy_ResourceQuotaLimitSpec_def
  by (rule merge_frame_reads [OF ResourceQuotaLimitSpec.deep_copy_kind_axioms _ assms])
     (auto simp: rep_ResourceQuotaLimitSpec_def zero_mem intro!: gives_ret rep_or_else)

lemma mergeResourceQuotaRequests_gives:
  assumes "rep_ptr kResourceQuotaRequestSpec rep_ResourceQuotaRequestSpec h b x"
    and "rep_ptr kResourceQuotaRequestSpec rep_ResourceQuotaRequestSpec h ov y"
  shows "gives (mergeResourceQuotaRequests_mem b ov) h
    (rep_ptr kResourceQuotaRequestSpec rep_ResourceQuotaRequestSpec) (mergeResourceQuotaRequests x y)"
  unfolding mergeResourceQuotaRequests_mem_def mergeResourceQuotaRequests_def DeepCopy_ResourceQuotaRequestSpec_def
  by (rule merge_frame_reads [OF ResourceQuotaRequestSpec.deep_copy_kind_axioms _ assms])
     (auto simp: rep_ResourceQuotaRequestSpec_def zero_mem intro!: gives_ret rep_or_else)

lemma mergeLimitRangePod_gives:
  assumes "rep_ptr kLimitRangePodSpec rep_LimitRangePodSpec h b x"
    and "rep_ptr kLimitRangePodSpec rep_LimitRangePodSpec h ov y"
  shows "gives (mergeLimitRangePod_mem b ov) h (rep_ptr kLimitRangePodSpec rep_LimitRangePodSpec)
    (mergeLimitRangePod x y)"
  unfolding mergeLimitRangePod_mem_def mergeLimitRangePod_def DeepCopy_LimitRangePodSpec_def
  by (rule merge_frame_reads [OF LimitRangePodSpec.deep_copy_kind_axioms _ assms])
     (auto simp: rep_LimitRangePodSpec_def zero_mem
        intro!: gives_bind [OF mergeResourceAmount_gives] gives_ret intro: mem_mono simp del: append_assoc)

lemma mergeLimitRangeContainer_gives:
  assumes "rep_ptr kLimitRangeContainerSpec rep_LimitRangeContainerSpec h b x"
    and "rep_ptr kLimitRangeContainerSpec rep_LimitRangeContainerSpec h ov y"
  shows "gives (mergeLimitRangeContainer_mem b ov) h
    (rep_ptr kLimitRangeContainerSpec rep_LimitRangeContainerSpec) (mergeLimitRangeContainer x y)"
  unfolding mergeLimitRangeContainer_mem_def mergeLimitRangeContainer_def DeepCopy_LimitRangeContainerSpec_def
  by (rule merge_frame_reads [OF LimitRangeContainerSpec.deep_copy_kind_axioms _ assms])
     (auto simp: rep_LimitRangeContainerSpec_def zero_mem
        intro!: gives_bind [OF mergeResourceAmount_gives] gives_ret intro: mem_mono
        simp del: append_assoc, simp_all add: mem_mono del: append_assoc)

lemma storageClassQuotas_gives:
  assumes "rep_slice kStorageClassQuota rep_val h out xs" and "rep_slice kStorageClassQuota rep_val h ov ys"
  shows "gives (merge_storage_classes_mem iter out ov) h (rep_slice kStorageClassQuota rep_val)
    (merge_storage_classes iter xs ys)"
proof -
  have all: "list_all2 (rep_val h) vs zs \<longleftrightarrow> vs = zs" for vs zs :: "StorageClassQuota list" and h :: "'a block heap"
    by (auto simp: list_all2_conv_all_nth rep_val_def intro: nth_equalityI)
  have read: "load_slice kStorageClassQuota s h = Some (zs, h)"
    if "rep_slice kStorageClassQuota rep_val h s zs" for s zs
    using that by (auto simp: load_slice_def rep_slice_def all split: option.splits)
  have new: "gives (new_array kStorageClassQuota zs) h (rep_slice kStorageClassQuota rep_val) zs" for zs
    unfolding gives_def new_array_def
    by (simp add: rep_slice_def all array_at_new [OF StorageClassQuota.ok])
  have nil: "gives (retM None) h (rep_slice kStorageClassQuota rep_val) []"
    by (rule gives_ret) (simp add: rep_slice_def)
  show ?thesis
    using read [OF assms(1)] read [OF assms(2)] new nil gives_ret [of "rep_slice kStorageClassQuota rep_val" h, OF assms(1)]
    by (auto simp: merge_storage_classes_mem_def merge_storage_classes_def storageClassQuotasFromMap_mem_def
        storageClassQuotasFromMap_def gives_def bindM_def)
qed

text \<open>The write through \<^verbatim>\<open>out.Min\<close> stays in the cell of the copy: what lies after it is untouched.\<close>

lemma pvc_bound_writes:
  assumes out: "cell_copy rep_StorageAmountSpec kStorageAmountSpec (length a) t p x"
    and ov: "rep_ptr kStorageAmountSpec rep_StorageAmountSpec a ov y"
  obtains q t' e where "pvc_bound_mem p ov (a @ t @ b) = Some (q, a @ t' @ b @ e)"
    and "length t' = length t"
    and "\<And>b' f. length b' = length b \<Longrightarrow>
      rep_ptr kStorageAmountSpec rep_StorageAmountSpec (a @ t' @ b' @ e @ f) q (merge_pvc_bound x y)"
  using ov
proof (cases rule: rep_ptr_cases)
  case 1
  have "rep_ptr kStorageAmountSpec rep_StorageAmountSpec (a @ t @ b' @ f) p x" for b' f
    using livesD [OF cell_copy_lives [OF StorageAmountSpec.ok out] refl] by simp
  with 1 show ?thesis
    by (intro that [of p t "[]"]) (auto simp: pvc_bound_mem_def retM_def merge_pvc_bound_def)
next
  case (2 q v z)
  have str: "rep_ptr kString rep_val (a @ g) (h_sa_Storage v) (sa_Storage z)" for g
    using 2(4) by (auto simp: rep_StorageAmountSpec_def intro: mem_mono)
  have none: "h_sa_Storage v = None \<longleftrightarrow> sa_Storage z = None"
    using 2(4) by (auto simp: rep_StorageAmountSpec_def elim: rep_ptr_cases)
  have read: "load kStorageAmountSpec ov (a @ g) = Some (v, a @ g)" for g
    using 2(1,3) by (simp add: load_def deref_append)
  note cell = load_new [OF StorageAmountSpec.ok] store_new [OF StorageAmountSpec.ok]
  show ?thesis
  proof (cases x)
    case None
    let ?w = "zero_h_StorageAmountSpec\<lparr>h_sa_Storage := h_sa_Storage v\<rparr>"
    have "pvc_bound_mem p ov (a @ t @ b) =
        Some (Some (length (a @ b), 0), (a @ b) @ [mk kStorageAmountSpec [?w]])"
      using None out 2(1) read [of "b @ [mk kStorageAmountSpec [zero_h_StorageAmountSpec]]"]
        cell(1) [of "length (a @ b)" "a @ b" zero_h_StorageAmountSpec "[]"]
        cell(2) [of "length (a @ b)" "a @ b" ?w zero_h_StorageAmountSpec "[]"]
      by (auto simp: pvc_bound_mem_def bindM_def new_cell_def retM_def zero_mem)
    moreover have "rep_ptr kStorageAmountSpec rep_StorageAmountSpec
        (a @ [] @ b' @ [mk kStorageAmountSpec [?w]] @ f) (Some (length (a @ b), 0)) (merge_pvc_bound x y)"
      if "length b' = length b" for b' f
      using None 2(2) str deref_new [OF StorageAmountSpec.ok, of "a @ b'" "length (a @ b)" ?w f] that
      by (simp add: rep_ptr_def [of kStorageAmountSpec] merge_pvc_bound_def rep_StorageAmountSpec_def zero_mem)
    ultimately show ?thesis using None out by (intro that [of _ "[]"]) auto
  next
    case (Some xv)
    then obtain t0 u where t: "t = t0 @ [mk kStorageAmountSpec [u]]" "p = Some (length a + length t0, 0)"
      "lives rep_StorageAmountSpec (length a) t0 u xv"
      using out by (auto elim: cell_copy_SomeE)
    let ?w = "u\<lparr>h_sa_Storage := or_else (h_sa_Storage v) (h_sa_Storage u)\<rparr>"
    have "pvc_bound_mem p ov (a @ t @ b) = Some (p, a @ (t0 @ [mk kStorageAmountSpec [?w]]) @ b @ [])"
      using t 2(1) read [of "t @ b"]
        cell(1) [of "length a + length t0" "a @ t0" u b] cell(2) [of "length a + length t0" "a @ t0" ?w u b]
      by (cases "h_sa_Storage v") (auto simp: pvc_bound_mem_def bindM_def retM_def)
    moreover have "rep_ptr kStorageAmountSpec rep_StorageAmountSpec
        (a @ (t0 @ [mk kStorageAmountSpec [?w]]) @ b' @ [] @ f) p (merge_pvc_bound x y)" for b' f
    proof -
      have "rep_StorageAmountSpec (a @ t0 @ mk kStorageAmountSpec [?w] # b' @ f) u xv"
        using livesD [OF t(3) refl] by simp
      hence "rep_StorageAmountSpec (a @ t0 @ mk kStorageAmountSpec [?w] # b' @ f) ?w
          (xv\<lparr>sa_Storage := or_else (sa_Storage z) (sa_Storage xv)\<rparr>)"
        by (auto simp: rep_StorageAmountSpec_def intro: rep_or_else str)
      thus ?thesis
        using Some 2(2) t deref_new [OF StorageAmountSpec.ok, of "a @ t0" "length a + length t0" ?w "b' @ f"]
        by (simp add: rep_ptr_def [of kStorageAmountSpec] merge_pvc_bound_def)
    qed
    ultimately show ?thesis using t(1) by (intro that [of p "t0 @ [mk kStorageAmountSpec [?w]]" "[]"]) auto
  qed
qed

text \<open>The two bounds of the copy of the base are cells of their own.\<close>

lemma based_pvc:
  assumes "based rep_LimitRangePVCSpec DeepCopyInto_LimitRangePVCSpec kLimitRangePVCSpec
    zero_h_LimitRangePVCSpec zero_LimitRangePVCSpec h x t out xo"
  obtains t1 t2 e where "t = t1 @ t2 @ e"
    and "cell_copy rep_StorageAmountSpec kStorageAmountSpec (length h) t1 (h_lv_Min out) (lv_Min xo)"
    and "cell_copy rep_StorageAmountSpec kStorageAmountSpec (length h + length t1) t2 (h_lv_Max out) (lv_Max xo)"
proof (cases x)
  case None
  with assms show ?thesis by (intro that [of "[]" "[]" "[]"]) (auto simp: based_def zero_mem)
next
  case (Some y)
  then obtain v t0 where v: "rep_LimitRangePVCSpec h v y" "xo = y"
    "DeepCopyInto_LimitRangePVCSpec v h = Some (out, h @ t0)" "t = t0 @ [mk kLimitRangePVCSpec [out]]"
    using assms by (auto simp: based_def)
  obtain p s where p: "copy_ptr kStorageAmountSpec DeepCopyInto_StorageAmountSpec (h_lv_Min v) h = Some (p, h @ s)"
    "cell_copy rep_StorageAmountSpec kStorageAmountSpec (length h) s p (lv_Min y)"
    using v(1) by (auto simp: rep_LimitRangePVCSpec_def elim: StorageAmountSpec.cell)
  have "rep_ptr kStorageAmountSpec rep_StorageAmountSpec (h @ s) (h_lv_Max v) (lv_Max y)"
    using v(1) by (auto simp: rep_LimitRangePVCSpec_def intro: mem_mono)
  then obtain q u where q: "copy_ptr kStorageAmountSpec DeepCopyInto_StorageAmountSpec (h_lv_Max v) (h @ s)
      = Some (q, (h @ s) @ u)"
    "cell_copy rep_StorageAmountSpec kStorageAmountSpec (length (h @ s)) u q (lv_Max y)"
    by (rule StorageAmountSpec.cell)
  from p q v show ?thesis
    by (intro that [of s u "[mk kLimitRangePVCSpec [out]]"])
       (auto simp: DeepCopyInto_LimitRangePVCSpec_def bindM_def retM_def)
qed

lemma mergeLimitRangePVC_gives:
  assumes "rep_ptr kLimitRangePVCSpec rep_LimitRangePVCSpec h b x"
    and "rep_ptr kLimitRangePVCSpec rep_LimitRangePVCSpec h ov y"
  shows "gives (mergeLimitRangePVC_mem b ov) h (rep_ptr kLimitRangePVCSpec rep_LimitRangePVCSpec)
    (mergeLimitRangePVC x y)"
  unfolding mergeLimitRangePVC_mem_def mergeLimitRangePVC_def DeepCopy_LimitRangePVCSpec_def
proof (rule merge_frame_gives [OF LimitRangePVCSpec.deep_copy_kind_axioms _ assms])
  fix t out xo v yo
  assume out: "based rep_LimitRangePVCSpec DeepCopyInto_LimitRangePVCSpec kLimitRangePVCSpec
      zero_h_LimitRangePVCSpec zero_LimitRangePVCSpec h x t out xo"
    and v: "rep_LimitRangePVCSpec h v yo"
  obtain t1 t2 e where t: "t = t1 @ t2 @ e"
    "cell_copy rep_StorageAmountSpec kStorageAmountSpec (length h) t1 (h_lv_Min out) (lv_Min xo)"
    "cell_copy rep_StorageAmountSpec kStorageAmountSpec (length h + length t1) t2 (h_lv_Max out) (lv_Max xo)"
    by (rule based_pvc [OF out])
  have "rep_ptr kStorageAmountSpec rep_StorageAmountSpec h (h_lv_Min v) (lv_Min yo)"
    using v by (simp add: rep_LimitRangePVCSpec_def)
  then obtain q1 u1 e1 where b1: "pvc_bound_mem (h_lv_Min out) (h_lv_Min v) (h @ t1 @ t2 @ e)
      = Some (q1, h @ u1 @ (t2 @ e) @ e1)" "length u1 = length t1"
    "\<And>b' f. length b' = length (t2 @ e) \<Longrightarrow> rep_ptr kStorageAmountSpec rep_StorageAmountSpec
      (h @ u1 @ b' @ e1 @ f) q1 (merge_pvc_bound (lv_Min xo) (lv_Min yo))"
    by (rule pvc_bound_writes [OF t(2)]) blast
  have "rep_ptr kStorageAmountSpec rep_StorageAmountSpec (h @ u1) (h_lv_Max v) (lv_Max yo)"
    using v by (auto simp: rep_LimitRangePVCSpec_def intro: mem_mono)
  moreover have "cell_copy rep_StorageAmountSpec kStorageAmountSpec (length (h @ u1)) t2 (h_lv_Max out) (lv_Max xo)"
    using t(3) b1(2) by simp
  ultimately obtain q2 u2 e2 where b2: "pvc_bound_mem (h_lv_Max out) (h_lv_Max v) ((h @ u1) @ t2 @ e @ e1)
      = Some (q2, (h @ u1) @ u2 @ (e @ e1) @ e2)" "length u2 = length t2"
    "\<And>b' f. length b' = length (e @ e1) \<Longrightarrow> rep_ptr kStorageAmountSpec rep_StorageAmountSpec
      ((h @ u1) @ u2 @ b' @ e2 @ f) q2 (merge_pvc_bound (lv_Max xo) (lv_Max yo))"
    using pvc_bound_writes by blast
  show "\<exists>w t'. bindM (pvc_bound_mem (h_lv_Min out) (h_lv_Min v))
        (\<lambda>min'. bindM (pvc_bound_mem (h_lv_Max out) (h_lv_Max v))
           (\<lambda>max'. retM (out\<lparr>h_lv_Min := min', h_lv_Max := max'\<rparr>))) (h @ t) = Some (w, h @ t') \<and>
      rep_LimitRangePVCSpec (h @ t') w (xo\<lparr>lv_Min := merge_pvc_bound (lv_Min xo) (lv_Min yo),
        lv_Max := merge_pvc_bound (lv_Max xo) (lv_Max yo)\<rparr>)"
    by (rule exI [of _ "out\<lparr>h_lv_Min := q1, h_lv_Max := q2\<rparr>"],
        rule exI [of _ "u1 @ u2 @ e @ e1 @ e2"])
       (use b1(1) b1(3) [of "u2 @ e" e2] b2(1,2) b2(3) [of "e @ e1" "[]"] t(1) in
        \<open>simp add: bindM_def retM_def rep_LimitRangePVCSpec_def\<close>)
qed (simp add: rep_LimitRangePVCSpec_def zero_mem)

section \<open>The results share nothing\<close>

text \<open>
  A copy whose cell is then overwritten by \<open>w\<close>, with more memory \<open>u\<close> allocated in between, is
  still fresh if \<open>w\<close> is made of the copied parts and of \<open>u\<close>.
\<close>

lemma overwritten_copy:
  assumes ok: "kind_ok k" and copy: "lives r (length h) t v y"
    and parts: "\<And>g e. length g = length h + length t + 1 \<Longrightarrow> r (g @ u @ e) v y \<Longrightarrow> r (g @ u @ e) w z"
  shows "lives (rep_ptr k r) (length h) (t @ [mk k [w]] @ u) (Some (length h + length t, 0)) (Some z)"
  unfolding lives_def
proof (intro allI impI)
  fix g e :: "'a list" assume g: "length g = length h"
  have "r ((g @ t @ [mk k [w]]) @ u @ e) w z"
    by (rule parts) (use livesD [OF copy g, of "[mk k [w]] @ u @ e"] g in simp_all)
  moreover have "deref k (length h + length t, 0) ((g @ t) @ mk k [w] # u @ e) = Some w"
    by (rule deref_new [OF ok]) (use g in simp)
  ultimately show "rep_ptr k r (g @ (t @ [mk k [w]] @ u) @ e) (Some (length h + length t, 0)) (Some z)"
    by (simp add: rep_ptr_def)
qed

text \<open>Switching a copy on: the shape of both \<^verbatim>\<open>ensure\<close> functions.\<close>

lemma ensure_fresh:
  assumes dc: "deep_copy_kind r c k" and rep: "rep_ptr k r h p (Some y)"
    and enabled: "\<And>g v. r g v y \<Longrightarrow> enabled v = None \<longleftrightarrow> on"
    and set: "\<And>g v q. r g v y \<Longrightarrow> deref kBool q g = Some True \<Longrightarrow> r g (enable (Some q) v) z"
  shows "gives_fresh (bindM (copy_ptr k c p) (\<lambda>out. bindM (load k out) (\<lambda>cur.
      if enabled cur = None
      then bindM (new_cell kBool True) (\<lambda>yes. bindM (store k out (enable yes cur)) (\<lambda>_. retM out))
      else retM out))) h (rep_ptr k r) (Some (if on then z else y))"
proof -
  have ok: "kind_ok k" and dc': "deep_copy r c"
    using dc by (simp_all add: deep_copy_kind_def deep_copy_kind_axioms_def)
  obtain q v where q: "p = Some q" "deref k q h = Some v" "r h v y"
    using rep by (auto elim: rep_ptr_cases)
  obtain w t where w: "copy_ptr k c (Some q) h = Some (Some (length h + length t, 0), h @ t @ [mk k [w]])"
    "lives r (length h) t w y"
    by (rule copy_ptr_cell [OF dc' q(2,3)])
  note cell = load_new [OF ok, of "length h + length t" "h @ t"] store_new [OF ok, of "length h + length t" "h @ t"]
  have now: "r (h @ t) w y" using lives_now [OF w(2)] .
  show ?thesis
  proof (cases on)
    case True
    let ?yes = "Some (length h + length t + 1, 0)" and ?u = "[mk kBool [True]]"
    have "lives (rep_ptr k r) (length h) (t @ [mk k [enable ?yes w]] @ ?u) (Some (length h + length t, 0)) (Some z)"
      by (rule overwritten_copy [OF ok w(2)]) (auto intro!: set deref_new kinds)
    thus ?thesis
      using True q(1) w(1) enabled [OF now] cell(1) [of w "[]"] cell(2) [of "enable ?yes w" w ?u]
      by (intro gives_freshI [of _ _ "Some (length h + length t, 0)" "t @ [mk k [enable ?yes w]] @ ?u"])
         (auto simp: bindM_def new_cell_def retM_def)
  next
    case False
    have "lives (rep_ptr k r) (length h) (t @ [mk k [w]] @ []) (Some (length h + length t, 0)) (Some y)"
      by (rule overwritten_copy [OF ok w(2)])
    thus ?thesis
      using False q(1) w(1) enabled [OF now] cell(1) [of w "[]"]
      by (intro gives_freshI [of _ _ "Some (length h + length t, 0)" "t @ [mk k [w]]"])
         (auto simp: bindM_def retM_def)
  qed
qed

lemma rep_bool: "deref kBool q h = Some b \<Longrightarrow> rep_ptr kBool rep_val h (Some q) (Some b)"
  by (simp add: rep_ptr_def rep_val_def)

lemma ensureQuotaEnabled_fresh:
  assumes "rep_ptr kResourceQuotaSpec rep_ResourceQuotaSpec h q x"
  shows "gives_fresh (ensureQuotaEnabled_mem q) h (rep_ptr kResourceQuotaSpec rep_ResourceQuotaSpec)
    (ensureQuotaEnabled x)"
proof (cases x)
  case None
  with assms show ?thesis
    by (intro gives_freshI [of _ _ None "[]"])
       (auto simp: ensureQuotaEnabled_mem_def ensureQuotaEnabled_def retM_def lives_def)
next
  case (Some y)
  with assms have rep: "rep_ptr kResourceQuotaSpec rep_ResourceQuotaSpec h q (Some y)" and "q \<noteq> None"
    by (auto elim: rep_ptr_cases)
  have "gives_fresh (bindM (copy_ptr kResourceQuotaSpec DeepCopyInto_ResourceQuotaSpec q) (\<lambda>out.
      bindM (load kResourceQuotaSpec out) (\<lambda>cur. if h_rq_Enabled cur = None
        then bindM (new_cell kBool True) (\<lambda>yes.
             bindM (store kResourceQuotaSpec out (cur\<lparr>h_rq_Enabled := yes\<rparr>)) (\<lambda>_. retM out))
        else retM out))) h (rep_ptr kResourceQuotaSpec rep_ResourceQuotaSpec)
      (Some (if rq_Enabled y = None then y\<lparr>rq_Enabled := Some True\<rparr> else y))"
    by (rule ensure_fresh [OF ResourceQuotaSpec.deep_copy_kind_axioms rep])
       (auto simp: rep_ResourceQuotaSpec_def rep_bool elim: rep_ptr_cases)
  thus ?thesis
    using Some \<open>q \<noteq> None\<close>
    by (auto simp: ensureQuotaEnabled_mem_def ensureQuotaEnabled_def DeepCopy_ResourceQuotaSpec_def)
qed

lemma ensureLimitRangeEnabled_fresh:
  assumes "rep_ptr kLimitRangeSpec rep_LimitRangeSpec h q x"
  shows "gives_fresh (ensureLimitRangeEnabled_mem q) h (rep_ptr kLimitRangeSpec rep_LimitRangeSpec)
    (ensureLimitRangeEnabled x)"
proof (cases x)
  case None
  with assms show ?thesis
    by (intro gives_freshI [of _ _ None "[]"])
       (auto simp: ensureLimitRangeEnabled_mem_def ensureLimitRangeEnabled_def retM_def lives_def)
next
  case (Some y)
  with assms have rep: "rep_ptr kLimitRangeSpec rep_LimitRangeSpec h q (Some y)" and "q \<noteq> None"
    by (auto elim: rep_ptr_cases)
  have "gives_fresh (bindM (copy_ptr kLimitRangeSpec DeepCopyInto_LimitRangeSpec q) (\<lambda>out.
      bindM (load kLimitRangeSpec out) (\<lambda>cur. if h_lr_Enabled cur = None
        then bindM (new_cell kBool True) (\<lambda>yes.
             bindM (store kLimitRangeSpec out (cur\<lparr>h_lr_Enabled := yes\<rparr>)) (\<lambda>_. retM out))
        else retM out))) h (rep_ptr kLimitRangeSpec rep_LimitRangeSpec)
      (Some (if lr_Enabled y = None then y\<lparr>lr_Enabled := Some True\<rparr> else y))"
    by (rule ensure_fresh [OF LimitRangeSpec.deep_copy_kind_axioms rep])
       (auto simp: rep_LimitRangeSpec_def rep_bool elim: rep_ptr_cases)
  thus ?thesis
    using Some \<open>q \<noteq> None\<close>
    by (auto simp: ensureLimitRangeEnabled_mem_def ensureLimitRangeEnabled_def DeepCopy_LimitRangeSpec_def)
qed

text \<open>
  The frame of the two merges of whole blocks: the merged struct is put into a cell, and the copy
  that \<open>ensure\<close> makes of it is returned.
\<close>

lemma spec_merge_fresh:
  assumes dc: "deep_copy_kind r c k" and zero: "\<And>h. r h zero zx"
    and base: "rep_ptr k r h b x" and ov: "rep_ptr k r h ov y"
    and assign: "\<And>h out xo v yo. r h out xo \<Longrightarrow> r h v yo \<Longrightarrow> gives (assign out v) h r (f xo yo)"
    and ensure: "\<And>h q x. rep_ptr k r h q x \<Longrightarrow> gives_fresh (ensure q) h (rep_ptr k r) (en x)"
  shows "gives_fresh (if b = None \<and> ov = None then retM None
      else bindM (copy_of_base k (copy_ptr k c) zero b) (\<lambda>out.
        if ov = None then bindM (new_cell k out) ensure
        else bindM (load k ov) (\<lambda>v. bindM (bindM (assign out v) (new_cell k)) ensure))) h (rep_ptr k r)
    (if x = None \<and> y = None then None
     else let out = (case x of None \<Rightarrow> zx | Some z \<Rightarrow> z)
     in case y of None \<Rightarrow> en (Some out) | Some z \<Rightarrow> en (Some (f out z)))"
proof -
  have nil: "b = None \<longleftrightarrow> x = None" "ov = None \<longleftrightarrow> y = None"
    using base ov by (auto elim: rep_ptr_cases)
  have none: "gives_fresh (retM None) h (rep_ptr k r) None"
    unfolding gives_fresh_def by (rule exI [of _ None], rule exI [of _ "[]"]) (simp add: retM_def lives_def)
  let ?out = "case x of None \<Rightarrow> zx | Some z \<Rightarrow> z"
  have copy: "gives (copy_of_base k (copy_ptr k c) zero b) h r ?out"
  proof (rule copy_of_base [OF dc base])
    fix out t assume run: "copy_of_base k (copy_ptr k c) zero b h = Some (out, h @ t)"
      and out: "based r c k zero zx h x t out ?out"
    have "r (h @ t) out ?out" by (rule based_rep [where r = r, OF out]) (rule zero)
    with run show "gives (copy_of_base k (copy_ptr k c) zero b) h r ?out" by (simp add: gives_def)
  qed
  have put: "gives (new_cell k w) h' (rep_ptr k r) (Some z)" if "r h' w z" for h' w z
    by (rule gives_cell [OF dc that])
  show ?thesis
  proof (cases y)
    case None
    have "gives_fresh (bindM (copy_of_base k (copy_ptr k c) zero b) (\<lambda>out. bindM (new_cell k out) ensure)) h
        (rep_ptr k r) (en (Some ?out))"
      by (rule gives_bind_fresh [OF copy], rule gives_bind_fresh [OF put ensure])
    thus ?thesis using None nil none by (cases "x = None") auto
  next
    case (Some z)
    then obtain q v where q: "ov = Some q" "deref k q h = Some v" "r h v z"
      using ov by (auto elim: rep_ptr_cases)
    have "gives_fresh (bindM (load k ov) (\<lambda>v. bindM (bindM (assign out v) (new_cell k)) ensure)) (h @ s)
        (rep_ptr k r) (en (Some (f ?out z)))" if "r (h @ s) out ?out" for out s
    proof -
      have "load k ov (h @ s) = Some (v, h @ s)" using q by (simp add: load_def deref_append)
      moreover have "r (h @ s) v z" using dc q(3) by (auto intro: deep_copy.mono simp: deep_copy_kind_def)
      hence "gives_fresh (bindM (bindM (assign out v) (new_cell k)) ensure) (h @ s)
          (rep_ptr k r) (en (Some (f ?out z)))"
        by (intro gives_bind_fresh [OF gives_bind [OF assign [OF that] put] ensure])
      ultimately show ?thesis by (simp add: gives_fresh_def bindM_def)
    qed
    hence "gives_fresh (bindM (copy_of_base k (copy_ptr k c) zero b) (\<lambda>out.
        bindM (load k ov) (\<lambda>v. bindM (bindM (assign out v) (new_cell k)) ensure))) h
        (rep_ptr k r) (en (Some (f ?out z)))"
      by (rule gives_bind_fresh [OF copy])
    thus ?thesis using Some q(1) by simp
  qed
qed

lemma bindM_assoc: "bindM (bindM m f) g = bindM m (\<lambda>x. bindM (f x) g)"
  by (auto simp: bindM_def fun_eq_iff split: option.splits)

lemma bindM_ret: "bindM (retM x) f = f x"
  by (simp add: bindM_def retM_def)

lemma mergeLimitRangeSpec_fresh:
  assumes "rep_ptr kLimitRangeSpec rep_LimitRangeSpec h b x"
    and "rep_ptr kLimitRangeSpec rep_LimitRangeSpec h ov y"
  shows "gives_fresh (mergeLimitRangeSpec_mem b ov) h (rep_ptr kLimitRangeSpec rep_LimitRangeSpec)
    (mergeLimitRangeSpec x y)"
proof -
  let ?assign = "\<lambda>out ov. bindM (mergeLimitRangePod_mem (h_lr_Pod out) (h_lr_Pod ov)) (\<lambda>pod.
    bindM (mergeLimitRangeContainer_mem (h_lr_Container out) (h_lr_Container ov)) (\<lambda>container.
    bindM (mergeLimitRangePVC_mem (h_lr_PVC out) (h_lr_PVC ov)) (\<lambda>pvc.
    retM \<lparr>h_lr_Enabled = or_else (h_lr_Enabled ov) (h_lr_Enabled out),
          h_lr_Pod = pod, h_lr_Container = container, h_lr_PVC = pvc\<rparr>)))"
  let ?f = "\<lambda>xo yo. \<lparr>lr_Enabled = or_else (lr_Enabled yo) (lr_Enabled xo),
       lr_Pod = mergeLimitRangePod (lr_Pod xo) (lr_Pod yo),
       lr_Container = mergeLimitRangeContainer (lr_Container xo) (lr_Container yo),
       lr_PVC = mergeLimitRangePVC (lr_PVC xo) (lr_PVC yo)\<rparr>"
  have assign: "gives (?assign out v) h rep_LimitRangeSpec (?f xo yo)"
    if "rep_LimitRangeSpec h out xo" "rep_LimitRangeSpec h v yo" for h out v xo yo
    using that
    by (auto simp: rep_LimitRangeSpec_def intro!: gives_bind [OF mergeLimitRangePod_gives]
        gives_bind [OF mergeLimitRangeContainer_gives] gives_bind [OF mergeLimitRangePVC_gives] gives_ret
        rep_or_else intro: mem_mono simp del: append_assoc, simp_all add: mem_mono del: append_assoc)
  have zero: "rep_LimitRangeSpec h zero_h_LimitRangeSpec zero_LimitRangeSpec" for h :: "'a block heap"
    by (simp add: rep_LimitRangeSpec_def zero_mem)
  note fresh = spec_merge_fresh [OF LimitRangeSpec.deep_copy_kind_axioms zero assms,
      where assign = ?assign and f = ?f and ensure = ensureLimitRangeEnabled_mem
        and en = ensureLimitRangeEnabled, unfolded bindM_assoc bindM_ret]
  show ?thesis
    unfolding mergeLimitRangeSpec_mem_def mergeLimitRangeSpec_def DeepCopy_LimitRangeSpec_def
    by (rule fresh [OF assign ensureLimitRangeEnabled_fresh])
qed

lemma mergeResourceQuotaSpec_fresh:
  assumes "rep_ptr kResourceQuotaSpec rep_ResourceQuotaSpec h b x"
    and "rep_ptr kResourceQuotaSpec rep_ResourceQuotaSpec h ov y"
  shows "gives_fresh (mergeResourceQuotaSpec_mem iter b ov) h
    (rep_ptr kResourceQuotaSpec rep_ResourceQuotaSpec) (mergeResourceQuotaSpec iter x y)"
proof -
  let ?assign = "\<lambda>out ov. bindM (mergeResourceQuotaLimits_mem (h_rq_Limits out) (h_rq_Limits ov)) (\<lambda>limits.
    bindM (mergeResourceQuotaRequests_mem (h_rq_Requests out) (h_rq_Requests ov)) (\<lambda>requests.
    bindM (merge_storage_classes_mem iter (h_rq_StorageClasses out) (h_rq_StorageClasses ov)) (\<lambda>classes.
    retM \<lparr>h_rq_Enabled = or_else (h_rq_Enabled ov) (h_rq_Enabled out),
      h_rq_CPU = or_else (h_rq_CPU ov) (h_rq_CPU out),
      h_rq_Memory = or_else (h_rq_Memory ov) (h_rq_Memory out),
      h_rq_EphemeralStorage = or_else (h_rq_EphemeralStorage ov) (h_rq_EphemeralStorage out),
      h_rq_Pods = or_else (h_rq_Pods ov) (h_rq_Pods out),
      h_rq_ReplicationControllers = or_else (h_rq_ReplicationControllers ov) (h_rq_ReplicationControllers out),
      h_rq_ResourceQuotas = or_else (h_rq_ResourceQuotas ov) (h_rq_ResourceQuotas out),
      h_rq_Services = or_else (h_rq_Services ov) (h_rq_Services out),
      h_rq_Secrets = or_else (h_rq_Secrets ov) (h_rq_Secrets out),
      h_rq_ConfigMaps = or_else (h_rq_ConfigMaps ov) (h_rq_ConfigMaps out),
      h_rq_PersistentVolumeClaims = or_else (h_rq_PersistentVolumeClaims ov) (h_rq_PersistentVolumeClaims out),
      h_rq_Limits = limits, h_rq_Requests = requests, h_rq_StorageClasses = classes\<rparr>)))"
  let ?f = "\<lambda>out ov. \<lparr>rq_Enabled = or_else (rq_Enabled ov) (rq_Enabled out),
      rq_CPU = or_else (rq_CPU ov) (rq_CPU out), rq_Memory = or_else (rq_Memory ov) (rq_Memory out),
      rq_EphemeralStorage = or_else (rq_EphemeralStorage ov) (rq_EphemeralStorage out),
      rq_Pods = or_else (rq_Pods ov) (rq_Pods out),
      rq_ReplicationControllers = or_else (rq_ReplicationControllers ov) (rq_ReplicationControllers out),
      rq_ResourceQuotas = or_else (rq_ResourceQuotas ov) (rq_ResourceQuotas out),
      rq_Services = or_else (rq_Services ov) (rq_Services out), rq_Secrets = or_else (rq_Secrets ov) (rq_Secrets out),
      rq_ConfigMaps = or_else (rq_ConfigMaps ov) (rq_ConfigMaps out),
      rq_PersistentVolumeClaims = or_else (rq_PersistentVolumeClaims ov) (rq_PersistentVolumeClaims out),
      rq_Limits = mergeResourceQuotaLimits (rq_Limits out) (rq_Limits ov),
      rq_Requests = mergeResourceQuotaRequests (rq_Requests out) (rq_Requests ov),
      rq_StorageClasses = merge_storage_classes iter (rq_StorageClasses out) (rq_StorageClasses ov)\<rparr>"
  have assign: "gives (?assign out v) h rep_ResourceQuotaSpec (?f xo yo)"
    if "rep_ResourceQuotaSpec h out xo" "rep_ResourceQuotaSpec h v yo" for h out v xo yo
    using that
    by (auto simp: rep_ResourceQuotaSpec_def intro!: gives_bind [OF mergeResourceQuotaLimits_gives]
        gives_bind [OF mergeResourceQuotaRequests_gives] gives_bind [OF storageClassQuotas_gives] gives_ret
        rep_or_else intro: mem_mono simp del: append_assoc, simp_all add: mem_mono del: append_assoc)
  have zero: "rep_ResourceQuotaSpec h zero_h_ResourceQuotaSpec zero_ResourceQuotaSpec" for h :: "'a block heap"
    by (simp add: rep_ResourceQuotaSpec_def zero_mem rep_slice_def)
  note fresh = spec_merge_fresh [OF ResourceQuotaSpec.deep_copy_kind_axioms zero assms,
      where assign = ?assign and f = ?f and ensure = ensureQuotaEnabled_mem
        and en = ensureQuotaEnabled, unfolded bindM_assoc bindM_ret]
  show ?thesis
    unfolding mergeResourceQuotaSpec_mem_def mergeResourceQuotaSpec_def DeepCopy_ResourceQuotaSpec_def
    by (rule fresh [OF assign ensureQuotaEnabled_fresh])
qed

end
