(* ===== verification/Deep_Resolve.thy ===== *)
theory Deep_Resolve
  imports Deep_Merge
begin

text \<open>
  Two routines of the run on addresses: \<^verbatim>\<open>ResolveNamespaceSpec\<close> after the catalogue lookup, which
  gives an entry its sized blocks, and \<^verbatim>\<open>MergeClusterDefaults\<close>, which writes the cluster's GitOps
  settings into a deep copy of the resource.  Both leave the memory they start from as it is.
\<close>

section \<open>ResolveNamespaceSpec (tshirt\_merge.go)\<close>

definition isExplicitlyEnabled_mem :: "ptr \<Rightarrow> ('x block, bool) mem" where
  "isExplicitlyEnabled_mem enabled = (if enabled = None then retM False else load kBool enabled)"

definition IsOverwriteTshirt_mem :: "ptr \<Rightarrow> ('x block, bool) mem" where
  "IsOverwriteTshirt_mem overwrite = (if overwrite = None then retM False else load kBool overwrite)"

definition shouldApplyTshirtResourceQuotas_mem :: "h_NamespaceSpec \<Rightarrow> ('x block, bool) mem" where
  "shouldApplyTshirtResourceQuotas_mem nsSpec =
     (if h_ns_ProjectSize nsSpec = [] \<or> h_ns_ResourceQuotas nsSpec = None then retM False
      else bindM (load kResourceQuotaSpec (h_ns_ResourceQuotas nsSpec))
             (\<lambda>q. isExplicitlyEnabled_mem (h_rq_Enabled q)))"

definition shouldApplyTshirtLimitRanges_mem :: "h_NamespaceSpec \<Rightarrow> ('x block, bool) mem" where
  "shouldApplyTshirtLimitRanges_mem nsSpec =
     (if h_ns_ProjectSize nsSpec = [] \<or> h_ns_LimitRanges nsSpec = None then retM False
      else bindM (load kLimitRangeSpec (h_ns_LimitRanges nsSpec))
             (\<lambda>lr. isExplicitlyEnabled_mem (h_lr_Enabled lr)))"

text \<open>\<^verbatim>\<open>resolved := nsSpec\<close> copies the struct; only the two pointers are assigned.\<close>

definition resolve_with_mem :: "((string \<times> string) list \<Rightarrow> (string \<times> string) list) \<Rightarrow>
    h_NamespaceSpec \<Rightarrow> h_TShirtSizeSpec \<Rightarrow> ('x block, h_NamespaceSpec) mem" where
  "resolve_with_mem iter nsSpec tshirt =
     bindM (shouldApplyTshirtResourceQuotas_mem nsSpec) (\<lambda>applyTshirtQuota.
     bindM (shouldApplyTshirtLimitRanges_mem nsSpec) (\<lambda>applyTshirtLimits.
     bindM (IsOverwriteTshirt_mem (h_ns_OverwriteTshirt nsSpec)) (\<lambda>overrides.
     bindM (if \<not> applyTshirtQuota then retM None
            else if overrides
            then mergeResourceQuotaSpec_mem iter (h_ts_ResourceQuotas tshirt) (h_ns_ResourceQuotas nsSpec)
            else ensureQuotaEnabled_mem (h_ts_ResourceQuotas tshirt)) (\<lambda>quota.
     bindM (if \<not> applyTshirtLimits then retM None
            else if overrides
            then mergeLimitRangeSpec_mem (h_ts_LimitRanges tshirt) (h_ns_LimitRanges nsSpec)
            else ensureLimitRangeEnabled_mem (h_ts_LimitRanges tshirt)) (\<lambda>limits.
     retM (nsSpec\<lparr>h_ns_ResourceQuotas := quota, h_ns_LimitRanges := limits\<rparr>))))))"

section \<open>MergeClusterDefaults (defaults.go)\<close>

definition slice_len :: "slice \<Rightarrow> nat" where
  "slice_len s = (case s of None \<Rightarrow> 0 | Some (a, off, n) \<Rightarrow> n)"

text \<open>\<^verbatim>\<open>append([]T(nil), s...)\<close>: an empty source leaves nil.\<close>

definition append_to_nil :: "('b, 'c) kind \<Rightarrow> slice \<Rightarrow> ('b, slice) mem" where
  "append_to_nil k s = bindM (load_slice k s) (\<lambda>vs. if vs = [] then retM None else new_array k vs)"

definition fill_slice :: "('b, 'c) kind \<Rightarrow> slice \<Rightarrow> slice \<Rightarrow> ('b, slice) mem" where
  "fill_slice k target defaults = (if slice_len target = 0 then append_to_nil k defaults else retM target)"

text \<open>The five assignments through \<^verbatim>\<open>target\<close>, each to a field of its own, as one write.\<close>

definition mergeGitOpsDefaults_mem :: "ptr \<Rightarrow> ptr \<Rightarrow> ('x block, unit) mem" where
  "mergeGitOpsDefaults_mem target defaults =
     bindM (load kGitOpsSpec target) (\<lambda>t.
     bindM (load kGitOpsSpec defaults) (\<lambda>d.
     bindM (fill_slice kGitOpsDestinationSpec (h_go_Destinations t) (h_go_Destinations d)) (\<lambda>destinations.
     bindM (fill_slice kString (h_go_AllowedSourceRepos t) (h_go_AllowedSourceRepos d)) (\<lambda>repos.
     bindM (fill_slice kString (h_go_AllowedOIDCGroups t) (h_go_AllowedOIDCGroups d)) (\<lambda>groups.
     bindM (fill_slice kString (h_go_AllowedSourceNamespaces t) (h_go_AllowedSourceNamespaces d)) (\<lambda>namespaces.
     store kGitOpsSpec target
       \<lparr>h_go_ApplicationNamespace = (if trim_space (h_go_ApplicationNamespace t) = []
           then h_go_ApplicationNamespace d else h_go_ApplicationNamespace t),
        h_go_Destinations = destinations, h_go_AllowedSourceRepos = repos,
        h_go_AllowedOIDCGroups = groups, h_go_AllowedSourceNamespaces = namespaces\<rparr>))))))"

definition MergeClusterDefaults_mem :: "'x machinery \<Rightarrow> ptr \<Rightarrow> ptr \<Rightarrow> ('x block, ptr) mem" where
  "MergeClusterDefaults_mem M defaults po = (if defaults = None then retM po
     else bindM (DeepCopy_ProjectOnboarding M po) (\<lambda>out.
          bindM (load kProjectOnboarding out) (\<lambda>cur.
          if h_ps_GitOps (h_po_Spec cur) = None
          then bindM (DeepCopy_GitOpsSpec defaults) (\<lambda>g.
               bindM (store kProjectOnboarding out
                       (cur\<lparr>h_po_Spec := (h_po_Spec cur)\<lparr>h_ps_GitOps := g\<rparr>\<rparr>)) (\<lambda>_. retM out))
          else bindM (mergeGitOpsDefaults_mem (h_ps_GitOps (h_po_Spec cur)) defaults) (\<lambda>_. retM out))))"

section \<open>Resolving an entry\<close>

lemma flag_reads:
  assumes "rep_ptr kBool rep_val h p x"
  shows "isExplicitlyEnabled_mem p h = Some (isExplicitlyEnabled x, h)"
    and "IsOverwriteTshirt_mem p h = Some (IsOverwriteTshirt x, h)"
  using assms
  by (auto simp: isExplicitlyEnabled_mem_def isExplicitlyEnabled_def IsOverwriteTshirt_mem_def
      IsOverwriteTshirt_def load_def retM_def rep_val_def elim!: rep_ptr_cases)

lemma shouldApply_reads:
  assumes "rep_NamespaceSpec R h ns x"
  shows "shouldApplyTshirtResourceQuotas_mem ns h = Some (shouldApplyTshirtResourceQuotas x, h)"
    and "shouldApplyTshirtLimitRanges_mem ns h = Some (shouldApplyTshirtLimitRanges x, h)"
proof -
  have q: "rep_ptr kResourceQuotaSpec rep_ResourceQuotaSpec h (h_ns_ResourceQuotas ns) (ns_ResourceQuotas x)"
    and l: "rep_ptr kLimitRangeSpec rep_LimitRangeSpec h (h_ns_LimitRanges ns) (ns_LimitRanges x)"
    and size: "h_ns_ProjectSize ns = ns_ProjectSize x"
    using assms by (simp_all add: rep_NamespaceSpec_def)
  show "shouldApplyTshirtResourceQuotas_mem ns h = Some (shouldApplyTshirtResourceQuotas x, h)"
    using q
    by (rule rep_ptr_cases) (auto simp: shouldApplyTshirtResourceQuotas_mem_def retM_def bindM_def size
        shouldApplyTshirtResourceQuotas_def load_def rep_ResourceQuotaSpec_def flag_reads)
  show "shouldApplyTshirtLimitRanges_mem ns h = Some (shouldApplyTshirtLimitRanges x, h)"
    using l
    by (rule rep_ptr_cases) (auto simp: shouldApplyTshirtLimitRanges_mem_def retM_def bindM_def size
        shouldApplyTshirtLimitRanges_def load_def rep_LimitRangeSpec_def flag_reads)
qed

lemma fresh_nil: "gives_fresh (retM None) h (rep_ptr k r) None"
  unfolding gives_fresh_def by (rule exI [of _ None], rule exI [of _ "[]"]) (simp add: retM_def lives_def)

context apimachinery begin

lemma resolve_fresh:
  assumes ns: "rep_NamespaceSpec R h ns x" and size: "rep_TShirtSizeSpec h sz t"
  obtains ns' s where "resolve_with_mem iter ns sz h = Some (ns', h @ s)"
    and "rep_NamespaceSpec R (h @ s) ns' (resolve_with iter x t)"
    and "lives (rep_ptr kResourceQuotaSpec rep_ResourceQuotaSpec) (length h) s
      (h_ns_ResourceQuotas ns') (ns_ResourceQuotas (resolve_with iter x t))"
    and "lives (rep_ptr kLimitRangeSpec rep_LimitRangeSpec) (length h) s
      (h_ns_LimitRanges ns') (ns_LimitRanges (resolve_with iter x t))"
proof -
  define quota limits where "quota = ns_ResourceQuotas (resolve_with iter x t)"
    and "limits = ns_LimitRanges (resolve_with iter x t)"
  have result: "resolve_with iter x t = x\<lparr>ns_ResourceQuotas := quota, ns_LimitRanges := limits\<rparr>"
    by (auto simp: resolve_with_def quota_def limits_def Let_def)
  have fields: "rep_ptr kResourceQuotaSpec rep_ResourceQuotaSpec h (h_ns_ResourceQuotas ns) (ns_ResourceQuotas x)"
    "rep_ptr kLimitRangeSpec rep_LimitRangeSpec h (h_ns_LimitRanges ns) (ns_LimitRanges x)"
    "rep_ptr kBool rep_val h (h_ns_OverwriteTshirt ns) (ns_OverwriteTshirt x)"
    using ns by (simp_all add: rep_NamespaceSpec_def)
  have entry: "rep_ptr kResourceQuotaSpec rep_ResourceQuotaSpec h (h_ts_ResourceQuotas sz) (ts_ResourceQuotas t)"
    "rep_ptr kLimitRangeSpec rep_LimitRangeSpec h (h_ts_LimitRanges sz) (ts_LimitRanges t)"
    using size by (simp_all add: rep_TShirtSizeSpec_def)
  let ?q = "shouldApplyTshirtResourceQuotas x" and ?l = "shouldApplyTshirtLimitRanges x"
    and ?o = "IsOverwriteTshirt (ns_OverwriteTshirt x)"
  let ?quota = "if \<not> ?q then retM None
    else if ?o then mergeResourceQuotaSpec_mem iter (h_ts_ResourceQuotas sz) (h_ns_ResourceQuotas ns)
    else ensureQuotaEnabled_mem (h_ts_ResourceQuotas sz)"
  let ?limits = "if \<not> ?l then retM None
    else if ?o then mergeLimitRangeSpec_mem (h_ts_LimitRanges sz) (h_ns_LimitRanges ns)
    else ensureLimitRangeEnabled_mem (h_ts_LimitRanges sz)"
  have "gives_fresh ?quota h (rep_ptr kResourceQuotaSpec rep_ResourceQuotaSpec) quota"
    using mergeResourceQuotaSpec_fresh [OF entry(1) fields(1), of iter]
      ensureQuotaEnabled_fresh [OF entry(1)] fresh_nil
    by (auto simp: quota_def resolve_with_def shouldMergeTshirtOverrides_def)
  then obtain p s where p: "?quota h = Some (p, h @ s)"
    "lives (rep_ptr kResourceQuotaSpec rep_ResourceQuotaSpec) (length h) s p quota"
    by (auto simp: gives_fresh_def)
  have "gives_fresh ?limits (h @ s) (rep_ptr kLimitRangeSpec rep_LimitRangeSpec) limits"
    using mergeLimitRangeSpec_fresh [OF LimitRangeSpec.ptr.mono [OF entry(2)] LimitRangeSpec.ptr.mono [OF fields(2)]]
      ensureLimitRangeEnabled_fresh [OF LimitRangeSpec.ptr.mono [OF entry(2)]] fresh_nil
    by (auto simp: limits_def resolve_with_def shouldMergeTshirtOverrides_def)
  then obtain q u where q: "?limits (h @ s) = Some (q, (h @ s) @ u)"
    "lives (rep_ptr kLimitRangeSpec rep_LimitRangeSpec) (length (h @ s)) u q limits"
    by (auto simp: gives_fresh_def)
  have lives: "lives (rep_ptr kResourceQuotaSpec rep_ResourceQuotaSpec) (length h) (s @ u) p quota"
    "lives (rep_ptr kLimitRangeSpec rep_LimitRangeSpec) (length h) (s @ u) q limits"
    using lives_append [OF p(2)] lives_prepend q(2) by auto
  have "rep_NamespaceSpec R (h @ s @ u) ns x" by (rule NamespaceSpec.mono [OF ns])
  hence "rep_NamespaceSpec R (h @ s @ u) (ns\<lparr>h_ns_ResourceQuotas := p, h_ns_LimitRanges := q\<rparr>)
      (resolve_with iter x t)"
    unfolding result using lives_now [OF lives(1)] lives_now [OF lives(2)]
    by (simp add: rep_NamespaceSpec_def)
  moreover have "resolve_with_mem iter ns sz h =
      Some (ns\<lparr>h_ns_ResourceQuotas := p, h_ns_LimitRanges := q\<rparr>, h @ s @ u)"
    using p(1) q(1) shouldApply_reads [OF ns] flag_reads(2) [OF fields(3)]
    by (simp add: resolve_with_mem_def bindM_def retM_def)
  ultimately show thesis
    using lives by (intro that [of "ns\<lparr>h_ns_ResourceQuotas := p, h_ns_LimitRanges := q\<rparr>" "s @ u"])
      (simp_all add: quota_def limits_def)
qed

end

section \<open>Filling a copy with the defaults\<close>

text \<open>Wherever the slice \<open>s\<close> still reads \<open>ys\<close> below the new blocks \<open>u\<close>, \<open>s'\<close> reads \<open>zs\<close>.\<close>

definition fills :: "('b, 'c) kind \<Rightarrow> 'b heap \<Rightarrow> 'b list \<Rightarrow> slice \<Rightarrow> 'c list \<Rightarrow> slice \<Rightarrow> 'c list \<Rightarrow> bool" where
  "fills k h u s ys s' zs \<longleftrightarrow> (\<forall>g e. length g = length h \<longrightarrow>
     rep_slice k rep_val (g @ u @ e) s ys \<longrightarrow> rep_slice k rep_val (g @ u @ e) s' zs)"

lemma fillsD:
  "fills k h u s ys s' zs \<Longrightarrow> length g = length h \<Longrightarrow> rep_slice k rep_val (g @ u @ e) s ys \<Longrightarrow>
   rep_slice k rep_val (g @ u @ e) s' zs"
  by (simp add: fills_def)

lemma fill_slice_run:
  assumes ok: "kind_ok k" and dflt: "rep_slice k rep_val h d xs" and cur: "rep_slice k rep_val h s ys"
  obtains s' u where "fill_slice k s d h = Some (s', h @ u)"
    and "fills k h u s ys s' (if ys = [] then xs else ys)"
proof -
  have all: "list_all2 (rep_val h) vs zs \<longleftrightarrow> vs = zs" for vs zs :: "'b list" and h :: "'a heap"
    by (auto simp: list_all2_conv_all_nth rep_val_def intro: nth_equalityI)
  have len: "slice_len s = length ys"
    using cur by (auto simp: slice_len_def rep_slice_def all split: option.splits)
  have read: "load_slice k d h = Some (xs, h)"
    using dflt by (auto simp: load_slice_def rep_slice_def all split: option.splits)
  show thesis
  proof (cases "ys = []")
    case False
    thus thesis using len by (intro that [of s "[]"]) (auto simp: fills_def fill_slice_def retM_def)
  next
    case True
    show thesis
    proof (cases "xs = []")
      case True
      thus thesis using \<open>ys = []\<close> len read
        by (intro that [of None "[]"])
           (auto simp: fills_def fill_slice_def append_to_nil_def bindM_def retM_def rep_slice_def)
    next
      case False
      thus thesis using \<open>ys = []\<close> len read
        by (intro that [of "Some (length h, 0, length xs)" "[mk k xs]"])
           (auto simp: fills_def fill_slice_def append_to_nil_def bindM_def new_array_def rep_slice_def all
             array_at_new [OF ok])
    qed
  qed
qed

text \<open>
  The write through \<^verbatim>\<open>target\<close>: the cell is replaced, new slices are appended, and whatever still
  represents the old settings around the cell represents the merged ones with the new cell.
\<close>

lemma mergeGitOpsDefaults_writes:
  assumes tgt: "rep_GitOpsSpec a t x" and dflt: "rep_ptr kGitOpsSpec rep_GitOpsSpec a dp (Some d)"
  obtains t' u where "mergeGitOpsDefaults_mem (Some (length a, 0)) dp (a @ mk kGitOpsSpec [t] # b)
      = Some ((), a @ mk kGitOpsSpec [t'] # b @ u)"
    and "\<And>g e. length g = length (a @ mk kGitOpsSpec [t] # b) \<Longrightarrow> rep_GitOpsSpec (g @ u @ e) t x \<Longrightarrow>
      rep_GitOpsSpec (g @ u @ e) t' (mergeGitOpsDefaults x d)"
proof -
  let ?h = "a @ mk kGitOpsSpec [t] # b"
  obtain q v where q: "dp = Some q" "deref kGitOpsSpec q a = Some v" "rep_GitOpsSpec a v d"
    using dflt by (auto elim: rep_ptr_cases)
  have T: "rep_GitOpsSpec (?h @ e) t x" and D: "rep_GitOpsSpec (?h @ e) v d" for e
    using GitOpsSpec.mono [OF tgt, of "mk kGitOpsSpec [t] # b @ e"]
      GitOpsSpec.mono [OF q(3), of "mk kGitOpsSpec [t] # b @ e"] by simp_all
  have reads: "rep_slice kGitOpsDestinationSpec rep_val (?h @ e) (h_go_Destinations t) (go_Destinations x)"
    "rep_slice kString rep_val (?h @ e) (h_go_AllowedSourceRepos t) (go_AllowedSourceRepos x)"
    "rep_slice kString rep_val (?h @ e) (h_go_AllowedOIDCGroups t) (go_AllowedOIDCGroups x)"
    "rep_slice kString rep_val (?h @ e) (h_go_AllowedSourceNamespaces t) (go_AllowedSourceNamespaces x)"
    "rep_slice kGitOpsDestinationSpec rep_val (?h @ e) (h_go_Destinations v) (go_Destinations d)"
    "rep_slice kString rep_val (?h @ e) (h_go_AllowedSourceRepos v) (go_AllowedSourceRepos d)"
    "rep_slice kString rep_val (?h @ e) (h_go_AllowedOIDCGroups v) (go_AllowedOIDCGroups d)"
    "rep_slice kString rep_val (?h @ e) (h_go_AllowedSourceNamespaces v) (go_AllowedSourceNamespaces d)" for e
    using T [of e] D [of e] by (simp_all add: rep_GitOpsSpec_def)
  note fill = fill_slice_run [OF GitOpsDestinationSpec.ok] fill_slice_run [OF go_string.ok]
  obtain s1 u1 where 1: "fill_slice kGitOpsDestinationSpec (h_go_Destinations t) (h_go_Destinations v) ?h
      = Some (s1, ?h @ u1)"
    "fills kGitOpsDestinationSpec ?h u1 (h_go_Destinations t) (go_Destinations x) s1
      (if go_Destinations x = [] then go_Destinations d else go_Destinations x)"
    by (rule fill(1) [OF reads(5,1) [of "[]", simplified append_Nil2]])
  obtain s2 u2 where 2: "fill_slice kString (h_go_AllowedSourceRepos t) (h_go_AllowedSourceRepos v) (?h @ u1)
      = Some (s2, (?h @ u1) @ u2)"
    "fills kString (?h @ u1) u2 (h_go_AllowedSourceRepos t) (go_AllowedSourceRepos x) s2
      (if go_AllowedSourceRepos x = [] then go_AllowedSourceRepos d else go_AllowedSourceRepos x)"
    by (rule fill(2) [OF reads(6,2)])
  obtain s3 u3 where 3: "fill_slice kString (h_go_AllowedOIDCGroups t) (h_go_AllowedOIDCGroups v) (?h @ u1 @ u2)
      = Some (s3, (?h @ u1 @ u2) @ u3)"
    "fills kString (?h @ u1 @ u2) u3 (h_go_AllowedOIDCGroups t) (go_AllowedOIDCGroups x) s3
      (if go_AllowedOIDCGroups x = [] then go_AllowedOIDCGroups d else go_AllowedOIDCGroups x)"
    by (rule fill(2) [OF reads(7,3)])
  obtain s4 u4 where 4: "fill_slice kString (h_go_AllowedSourceNamespaces t) (h_go_AllowedSourceNamespaces v)
      (?h @ u1 @ u2 @ u3) = Some (s4, (?h @ u1 @ u2 @ u3) @ u4)"
    "fills kString (?h @ u1 @ u2 @ u3) u4 (h_go_AllowedSourceNamespaces t) (go_AllowedSourceNamespaces x) s4
      (if go_AllowedSourceNamespaces x = [] then go_AllowedSourceNamespaces d else go_AllowedSourceNamespaces x)"
    by (rule fill(2) [OF reads(8,4)])
  define t' where "t' = \<lparr>h_go_ApplicationNamespace = (if trim_space (h_go_ApplicationNamespace t) = []
           then h_go_ApplicationNamespace v else h_go_ApplicationNamespace t),
        h_go_Destinations = s1, h_go_AllowedSourceRepos = s2,
        h_go_AllowedOIDCGroups = s3, h_go_AllowedSourceNamespaces = s4\<rparr>"
  have "load kGitOpsSpec dp ?h = Some (v, ?h)" using q by (simp add: load_def deref_append)
  hence "mergeGitOpsDefaults_mem (Some (length a, 0)) dp ?h
      = Some ((), a @ mk kGitOpsSpec [t'] # b @ (u1 @ u2 @ u3 @ u4))"
    using 1(1) 2(1) 3(1) 4(1) load_new [OF GitOpsSpec.ok refl, of a t b]
      store_new [OF GitOpsSpec.ok refl, of a t' t "b @ u1 @ u2 @ u3 @ u4"]
    by (simp add: mergeGitOpsDefaults_mem_def bindM_def t'_def)
  moreover have "rep_GitOpsSpec (g @ (u1 @ u2 @ u3 @ u4) @ e) t' (mergeGitOpsDefaults x d)"
    if len: "length g = length ?h" and now: "rep_GitOpsSpec (g @ (u1 @ u2 @ u3 @ u4) @ e) t x" for g e
    using fillsD [OF 1(2) len, of "u2 @ u3 @ u4 @ e"] fillsD [OF 2(2), of "g @ u1" "u3 @ u4 @ e"]
      fillsD [OF 3(2), of "g @ u1 @ u2" "u4 @ e"] fillsD [OF 4(2), of "g @ u1 @ u2 @ u3" e] now len q(3) tgt
    by (simp add: rep_GitOpsSpec_def t'_def mergeGitOpsDefaults_def)
  ultimately show thesis by (rule that)
qed

text \<open>
  The segments of a copied resource \<open>w\<close>, from address \<open>n\<close> on: metadata, GitOps settings, entries,
  status.  The GitOps settings are a cell of their own.
\<close>

definition copied_parts :: "'x readings \<Rightarrow> nat \<Rightarrow> 'x h_ProjectOnboarding \<Rightarrow> TypeMeta \<times> ProjectOnboarding \<Rightarrow>
    'x block list \<Rightarrow> 'x block list \<Rightarrow> 'x block list \<Rightarrow> 'x block list \<Rightarrow> bool" where
  "copied_parts R n w x s1 s2 s3 s4 \<longleftrightarrow> h_po_TypeMeta w = fst x \<and>
     lives (ObjectMeta_rep R) n s1 (h_po_ObjectMeta w) (po_meta (snd x)) \<and>
     cell_copy rep_GitOpsSpec kGitOpsSpec (n + length s1) s2 (h_ps_GitOps (h_po_Spec w))
       (ps_GitOps (po_Spec (snd x))) \<and>
     lives (rep_slice kNamespaceSpec (rep_NamespaceSpec R)) (n + length s1 + length s2) s3
       (h_ps_Namespaces (h_po_Spec w)) (ps_Namespaces (po_Spec (snd x))) \<and>
     lives (rep_ProjectOnboardingStatus R) (n + length s1 + length s2 + length s3) s4
       (h_po_Status w) (po_Status (snd x))"

definition with_gitops :: "ptr \<Rightarrow> 'x h_ProjectOnboarding \<Rightarrow> 'x h_ProjectOnboarding" where
  "with_gitops p w = w\<lparr>h_po_Spec := (h_po_Spec w)\<lparr>h_ps_GitOps := p\<rparr>\<rparr>"

lemma with_gitops_same: "h_ps_GitOps (h_po_Spec w) = p \<Longrightarrow> with_gitops p w = w"
  by (auto simp: with_gitops_def)

context apimachinery begin

lemma copied_layout:
  assumes "rep_ProjectOnboarding R h v x"
  obtains w s1 s2 s3 s4 where "DeepCopyInto_ProjectOnboarding M v h = Some (w, h @ s1 @ s2 @ s3 @ s4)"
    and "copied_parts R (length h) w x s1 s2 s3 s4"
proof -
  have parts: "ObjectMeta_rep R h (h_po_ObjectMeta v) (po_meta (snd x))"
    "rep_ptr kGitOpsSpec rep_GitOpsSpec h (h_ps_GitOps (h_po_Spec v)) (ps_GitOps (po_Spec (snd x)))"
    "rep_slice kNamespaceSpec (rep_NamespaceSpec R) h (h_ps_Namespaces (h_po_Spec v)) (ps_Namespaces (po_Spec (snd x)))"
    "rep_ProjectOnboardingStatus R h (h_po_Status v) (po_Status (snd x))"
    using assms by (simp_all add: rep_ProjectOnboarding_def rep_ProjectOnboardingSpec_def)
  obtain om s1 where 1: "ObjectMeta_into M (h_po_ObjectMeta v) h = Some (om, h @ s1)"
    "lives (ObjectMeta_rep R) (length h) s1 om (po_meta (snd x))"
    by (rule ObjectMeta.copy [OF parts(1)])
  obtain g s2 where 2: "copy_ptr kGitOpsSpec DeepCopyInto_GitOpsSpec (h_ps_GitOps (h_po_Spec v)) (h @ s1)
      = Some (g, (h @ s1) @ s2)"
    "cell_copy rep_GitOpsSpec kGitOpsSpec (length (h @ s1)) s2 g (ps_GitOps (po_Spec (snd x)))"
    by (rule GitOpsSpec.cell [OF GitOpsSpec.ptr.mono [OF parts(2)]])
  obtain ns s3 where 3: "copy_slice kNamespaceSpec (DeepCopyInto_NamespaceSpec M) (h_ps_Namespaces (h_po_Spec v))
      (h @ s1 @ s2) = Some (ns, (h @ s1 @ s2) @ s3)"
    "lives (rep_slice kNamespaceSpec (rep_NamespaceSpec R)) (length (h @ s1 @ s2)) s3 ns (ps_Namespaces (po_Spec (snd x)))"
    by (rule NamespaceSpec.slice.copy [OF NamespaceSpec.slice.mono [OF parts(3)]])
  obtain st s4 where 4: "DeepCopyInto_ProjectOnboardingStatus M (h_po_Status v) (h @ s1 @ s2 @ s3)
      = Some (st, (h @ s1 @ s2 @ s3) @ s4)"
    "lives (rep_ProjectOnboardingStatus R) (length (h @ s1 @ s2 @ s3)) s4 st (po_Status (snd x))"
    by (rule ProjectOnboardingStatus.copy [OF ProjectOnboardingStatus.mono [OF parts(4)]])
  let ?w = "v\<lparr>h_po_ObjectMeta := om, h_po_Spec := (h_po_Spec v)\<lparr>h_ps_GitOps := g, h_ps_Namespaces := ns\<rparr>,
    h_po_Status := st\<rparr>"
  have "DeepCopyInto_ProjectOnboarding M v h = Some (?w, h @ s1 @ s2 @ s3 @ s4)"
    using 1(1) 2(1) 3(1) 4(1)
    by (simp add: DeepCopyInto_ProjectOnboarding_def DeepCopyInto_ProjectOnboardingSpec_def bindM_def retM_def)
  moreover have "copied_parts R (length h) ?w x s1 s2 s3 s4"
    using assms 1(2) 2(2) 3(2) 4(2) by (simp add: copied_parts_def rep_ProjectOnboarding_def add.assoc)
  ultimately show thesis by (rule that)
qed

text \<open>The copy with other GitOps settings, wherever they live.\<close>

lemma reassembled:
  assumes parts: "copied_parts R (length h) w x s1 s2 s3 s4" and len: "length s2' = length s2"
    and gitops: "\<And>g e. length g = length h \<Longrightarrow> rep_ptr kGitOpsSpec rep_GitOpsSpec
      (g @ s1 @ s2' @ s3 @ s4 @ [mk kProjectOnboarding [with_gitops p w]] @ u @ e) p y"
  shows "lives (rep_ptr kProjectOnboarding (rep_ProjectOnboarding R)) (length h)
    (s1 @ s2' @ s3 @ s4 @ [mk kProjectOnboarding [with_gitops p w]] @ u)
    (Some (length (h @ s1 @ s2 @ s3 @ s4), 0))
    (Some (fst x, (snd x)\<lparr>po_Spec := (po_Spec (snd x))\<lparr>ps_GitOps := y\<rparr>\<rparr>))"
  unfolding lives_def
proof (intro allI impI)
  fix g e :: "'x block list" assume g: "length g = length h"
  let ?c = "[mk kProjectOnboarding [with_gitops p w]]"
  have "ObjectMeta_rep R (g @ s1 @ s2' @ s3 @ s4 @ ?c @ u @ e) (h_po_ObjectMeta w) (po_meta (snd x))"
    by (rule livesD) (use parts g in \<open>simp_all add: copied_parts_def\<close>)
  moreover have "rep_slice kNamespaceSpec (rep_NamespaceSpec R) ((g @ s1 @ s2') @ s3 @ s4 @ ?c @ u @ e)
      (h_ps_Namespaces (h_po_Spec w)) (ps_Namespaces (po_Spec (snd x)))"
    by (rule livesD) (use parts g len in \<open>simp_all add: copied_parts_def add.assoc\<close>)
  moreover have "rep_ProjectOnboardingStatus R ((g @ s1 @ s2' @ s3) @ s4 @ ?c @ u @ e) (h_po_Status w) (po_Status (snd x))"
    by (rule livesD) (use parts g len in \<open>simp_all add: copied_parts_def add.assoc\<close>)
  moreover have "deref kProjectOnboarding (length (h @ s1 @ s2 @ s3 @ s4), 0)
      ((g @ s1 @ s2' @ s3 @ s4) @ mk kProjectOnboarding [with_gitops p w] # u @ e) = Some (with_gitops p w)"
    by (rule deref_new [OF ProjectOnboarding.ok]) (simp add: g len)
  ultimately show "rep_ptr kProjectOnboarding (rep_ProjectOnboarding R) (g @ (s1 @ s2' @ s3 @ s4 @ ?c @ u) @ e)
      (Some (length (h @ s1 @ s2 @ s3 @ s4), 0)) (Some (fst x, (snd x)\<lparr>po_Spec := (po_Spec (snd x))\<lparr>ps_GitOps := y\<rparr>\<rparr>))"
    using parts gitops [OF g, of e]
    by (simp add: rep_ptr_def [of kProjectOnboarding] rep_ProjectOnboarding_def rep_ProjectOnboardingSpec_def
        copied_parts_def with_gitops_def)
qed

text \<open>A resource without GitOps settings gets a copy of the defaults.\<close>

lemma defaults_copied:
  assumes parts: "copied_parts R (length h) w (tm, po) s1 s2 s3 s4" and none: "ps_GitOps (po_Spec po) = None"
    and dflt: "rep_ptr kGitOpsSpec rep_GitOpsSpec h dp (Some d)"
  obtains g u where "DeepCopy_GitOpsSpec dp (h @ s1 @ s2 @ s3 @ s4 @ [mk kProjectOnboarding [w]])
      = Some (g, h @ s1 @ s2 @ s3 @ s4 @ [mk kProjectOnboarding [w]] @ u)"
    and "lives (rep_ptr kProjectOnboarding (rep_ProjectOnboarding R)) (length h)
      (s1 @ s2 @ s3 @ s4 @ [mk kProjectOnboarding [with_gitops g w]] @ u)
      (Some (length (h @ s1 @ s2 @ s3 @ s4), 0)) (Some (tm, MergeClusterDefaults (Some d) po))"
proof -
  let ?h = "h @ s1 @ s2 @ s3 @ s4 @ [mk kProjectOnboarding [w]]"
  obtain g u where g: "DeepCopy_GitOpsSpec dp ?h = Some (g, ?h @ u)"
    "lives (rep_ptr kGitOpsSpec rep_GitOpsSpec) (length ?h) u g (Some d)"
    unfolding DeepCopy_GitOpsSpec_def by (rule GitOpsSpec.ptr.copy [OF GitOpsSpec.ptr.mono [OF dflt]])
  have "rep_ptr kGitOpsSpec rep_GitOpsSpec
      (k @ s1 @ s2 @ s3 @ s4 @ [mk kProjectOnboarding [with_gitops g w]] @ u @ e) g (Some d)"
    if "length k = length h" for k e
    using livesD [OF g(2), of "k @ s1 @ s2 @ s3 @ s4 @ [mk kProjectOnboarding [with_gitops g w]]" e] that by simp
  from reassembled [OF parts refl this] g(1) none show thesis
    by (intro that [of g u]) (simp_all add: MergeClusterDefaults_def)
qed

text \<open>Settings of the resource are filled in the cell that the copy made.\<close>

lemma defaults_filled:
  assumes parts: "copied_parts R (length h) w (tm, po) s1 s2 s3 s4" and some: "ps_GitOps (po_Spec po) = Some x"
    and dflt: "rep_ptr kGitOpsSpec rep_GitOpsSpec h dp (Some d)"
  obtains s2' u where "mergeGitOpsDefaults_mem (h_ps_GitOps (h_po_Spec w)) dp
      (h @ s1 @ s2 @ s3 @ s4 @ [mk kProjectOnboarding [w]])
      = Some ((), h @ s1 @ s2' @ s3 @ s4 @ [mk kProjectOnboarding [w]] @ u)"
    and "lives (rep_ptr kProjectOnboarding (rep_ProjectOnboarding R)) (length h)
      (s1 @ s2' @ s3 @ s4 @ [mk kProjectOnboarding [w]] @ u)
      (Some (length (h @ s1 @ s2 @ s3 @ s4), 0)) (Some (tm, MergeClusterDefaults (Some d) po))"
proof -
  obtain t0 t where t: "s2 = t0 @ [mk kGitOpsSpec [t]]" "h_ps_GitOps (h_po_Spec w) = Some (length (h @ s1 @ t0), 0)"
    "lives rep_GitOpsSpec (length (h @ s1)) t0 t x"
    using parts some by (auto simp: copied_parts_def add.assoc elim!: cell_copy_SomeE)
  let ?b = "s3 @ s4 @ [mk kProjectOnboarding [w]]"
  have "rep_GitOpsSpec (h @ s1 @ t0) t x" using livesD [OF t(3), of "h @ s1" "[]"] by simp
  moreover have "rep_ptr kGitOpsSpec rep_GitOpsSpec (h @ s1 @ t0) dp (Some d)"
    by (rule GitOpsSpec.ptr.mono [OF dflt])
  ultimately obtain t' u where t': "mergeGitOpsDefaults_mem (Some (length (h @ s1 @ t0), 0)) dp
      ((h @ s1 @ t0) @ mk kGitOpsSpec [t] # ?b) = Some ((), (h @ s1 @ t0) @ mk kGitOpsSpec [t'] # ?b @ u)"
    "\<And>g e. length g = length ((h @ s1 @ t0) @ mk kGitOpsSpec [t] # ?b) \<Longrightarrow> rep_GitOpsSpec (g @ u @ e) t x \<Longrightarrow>
      rep_GitOpsSpec (g @ u @ e) t' (mergeGitOpsDefaults x d)"
    using mergeGitOpsDefaults_writes [of "h @ s1 @ t0" t x dp d ?b] by blast
  let ?s2 = "t0 @ [mk kGitOpsSpec [t']]"
  note same = with_gitops_same [OF t(2)]
  have "rep_ptr kGitOpsSpec rep_GitOpsSpec (g @ s1 @ ?s2 @ s3 @ s4 @
      [mk kProjectOnboarding [with_gitops (Some (length (h @ s1 @ t0), 0)) w]] @ u @ e)
      (Some (length (h @ s1 @ t0), 0)) (Some (mergeGitOpsDefaults x d))"
    if g: "length g = length h" for g e
  proof -
    have "rep_GitOpsSpec ((g @ s1 @ ?s2 @ ?b) @ u @ e) t x"
      using livesD [OF t(3), of "g @ s1" "[mk kGitOpsSpec [t']] @ ?b @ u @ e"] g by simp
    hence "rep_GitOpsSpec ((g @ s1 @ ?s2 @ ?b) @ u @ e) t' (mergeGitOpsDefaults x d)"
      by (intro t'(2)) (simp_all add: g)
    moreover have "deref kGitOpsSpec (length (h @ s1 @ t0), 0) ((g @ s1 @ t0) @ mk kGitOpsSpec [t'] # ?b @ u @ e) = Some t'"
      by (rule deref_new [OF GitOpsSpec.ok]) (simp add: g)
    ultimately show ?thesis unfolding same by (simp add: rep_ptr_def [of kGitOpsSpec])
  qed
  from reassembled [OF parts _ this, unfolded same] t'(1) t some show thesis
    by (intro that [of ?s2 u]) (simp_all add: MergeClusterDefaults_def)
qed

lemma MergeClusterDefaults_fresh:
  assumes po: "rep_ptr kProjectOnboarding (rep_ProjectOnboarding R) h p (Some (tm, po))"
    and dflt: "rep_ptr kGitOpsSpec rep_GitOpsSpec h dp (Some d)"
  shows "gives_fresh (MergeClusterDefaults_mem M dp p) h (rep_ptr kProjectOnboarding (rep_ProjectOnboarding R))
    (Some (tm, MergeClusterDefaults (Some d) po))"
proof -
  obtain q v where q: "p = Some q" "deref kProjectOnboarding q h = Some v" "rep_ProjectOnboarding R h v (tm, po)"
    using po by (auto elim: rep_ptr_cases)
  obtain w s1 s2 s3 s4 where into: "DeepCopyInto_ProjectOnboarding M v h = Some (w, h @ s1 @ s2 @ s3 @ s4)"
    and parts: "copied_parts R (length h) w (tm, po) s1 s2 s3 s4"
    by (rule copied_layout [OF q(3)])
  let ?a = "h @ s1 @ s2 @ s3 @ s4" and ?out = "Some (length (h @ s1 @ s2 @ s3 @ s4), 0)"
  have copy: "DeepCopy_ProjectOnboarding M p h = Some (?out, ?a @ [mk kProjectOnboarding [w]])"
    "load kProjectOnboarding ?out (?a @ [mk kProjectOnboarding [w]]) = Some (w, ?a @ [mk kProjectOnboarding [w]])"
    using q(1,2) into load_new [OF ProjectOnboarding.ok refl, of ?a w "[]"]
    by (simp_all add: DeepCopy_ProjectOnboarding_def copy_ptr_def bindM_def load_def new_cell_def)
  have dp: "dp \<noteq> None" using dflt by (auto elim: rep_ptr_cases)
  show ?thesis
  proof (cases "ps_GitOps (po_Spec po)")
    case None
    hence "h_ps_GitOps (h_po_Spec w) = None" using parts by (simp add: copied_parts_def)
    with copy dp store_new [OF ProjectOnboarding.ok refl, of ?a _ w] show ?thesis
      by (rule_tac defaults_copied [OF parts None dflt], rule_tac gives_freshI)
         (auto simp: MergeClusterDefaults_mem_def bindM_def retM_def with_gitops_def)
  next
    case (Some x)
    hence "h_ps_GitOps (h_po_Spec w) \<noteq> None" using parts by (auto simp: copied_parts_def elim: cell_copy_SomeE)
    with copy dp show ?thesis
      by (rule_tac defaults_filled [OF parts Some dflt], rule_tac gives_freshI)
         (auto simp: MergeClusterDefaults_mem_def bindM_def retM_def)
  qed
qed

end

end
