(* ===== verification/Machinery.thy ===== *)
theory Machinery
  imports Deep_Resources
begin

text \<open>
  An instance of the locale \<open>apimachinery\<close>: the structs of apimachinery with the pointers, slices
  and maps their documentation gives them, and their deep copies, field by field as in the
  operator's own generated code.  Only the fields that the records of \<open>Api_Types\<close> keep are there.
\<close>

section \<open>The structs\<close>

datatype ext =
    X_Int64 int
  | X_Time nat
  | X_Requirement string string slice
  | X_LabelSelector ptr slice
  | X_Owner string string string ptr
  | X_ObjectMeta string string string ptr ptr slice slice ptr int
  | X_ListMeta string string string ptr
  | X_Condition condition

fun rep_Int64 :: "(ext block, ext, int) reads" where
  "rep_Int64 h (X_Int64 i) x \<longleftrightarrow> i = x"
| "rep_Int64 h _ x \<longleftrightarrow> False"

fun rep_Time :: "(ext block, ext, nat) reads" where
  "rep_Time h (X_Time t) x \<longleftrightarrow> t = x"
| "rep_Time h _ x \<longleftrightarrow> False"

fun rep_Condition :: "(ext block, ext, condition) reads" where
  "rep_Condition h (X_Condition c) x \<longleftrightarrow> c = x"
| "rep_Condition h _ x \<longleftrightarrow> False"

fun rep_Requirement :: "(ext block, ext, string \<times> string \<times> string list) reads" where
  "rep_Requirement h (X_Requirement key oper values) x \<longleftrightarrow>
     key = fst x \<and> oper = fst (snd x) \<and> rep_slice kString rep_val h values (snd (snd x))"
| "rep_Requirement h _ x \<longleftrightarrow> False"

fun rep_LabelSelector :: "(ext block, ext, LabelSelector) reads" where
  "rep_LabelSelector h (X_LabelSelector labels exprs) x \<longleftrightarrow>
     rep_map kMap h labels (matchLabels x) \<and> rep_slice kExtern rep_Requirement h exprs (matchExpressions x)"
| "rep_LabelSelector h _ x \<longleftrightarrow> False"

text \<open>A nil \<^verbatim>\<open>Controller\<close> flag counts as false.\<close>

definition rep_flag :: "(ext block, ptr, bool) reads" where
  "rep_flag h p b = (case p of None \<Rightarrow> \<not> b | Some q \<Rightarrow> deref kBool q h = Some b)"

fun rep_Owner :: "(ext block, ext, owner_ref) reads" where
  "rep_Owner h (X_Owner kind' name uid controller) x \<longleftrightarrow>
     kind' = or_kind x \<and> name = or_name x \<and> uid = or_uid x \<and> rep_flag h controller (or_controller x)"
| "rep_Owner h _ x \<longleftrightarrow> False"

fun rep_ObjectMeta :: "(ext block, ext, objmeta) reads" where
  "rep_ObjectMeta h (X_ObjectMeta name ns uid labels annots owners fins del gen) x \<longleftrightarrow>
     name = om_name x \<and> ns = om_namespace x \<and> uid = om_uid x \<and> gen = om_generation x \<and>
     rep_map kMap h labels (om_labels x) \<and> rep_map kMap h annots (om_annotations x) \<and>
     rep_slice kExtern rep_Owner h owners (om_ownerRefs x) \<and>
     rep_slice kString rep_val h fins (om_finalizers x) \<and>
     rep_ptr kExtern rep_Time h del (om_deletionTimestamp x)"
| "rep_ObjectMeta h _ x \<longleftrightarrow> False"

fun rep_ListMeta :: "(ext block, ext, ListMeta) reads" where
  "rep_ListMeta h (X_ListMeta link version cont remaining) x \<longleftrightarrow>
     link = lm_SelfLink x \<and> version = lm_ResourceVersion x \<and> cont = lm_Continue x \<and>
     rep_ptr kExtern rep_Int64 h remaining (lm_RemainingItemCount x)"
| "rep_ListMeta h _ x \<longleftrightarrow> False"

section \<open>Their deep copies\<close>

fun copy_Requirement :: "ext \<Rightarrow> (ext block, ext) mem" where
  "copy_Requirement (X_Requirement key oper values) =
     bindM (copy_slice kString retM values) (\<lambda>values'. retM (X_Requirement key oper values'))"
| "copy_Requirement _ = faultM"

fun copy_LabelSelector :: "ext \<Rightarrow> (ext block, ext) mem" where
  "copy_LabelSelector (X_LabelSelector labels exprs) =
     bindM (copy_ptr kMap retM labels) (\<lambda>labels'.
     bindM (copy_slice kExtern copy_Requirement exprs) (\<lambda>exprs'. retM (X_LabelSelector labels' exprs')))"
| "copy_LabelSelector _ = faultM"

fun copy_Owner :: "ext \<Rightarrow> (ext block, ext) mem" where
  "copy_Owner (X_Owner kind' name uid controller) =
     bindM (copy_ptr kBool retM controller) (\<lambda>controller'. retM (X_Owner kind' name uid controller'))"
| "copy_Owner _ = faultM"

fun copy_ObjectMeta :: "ext \<Rightarrow> (ext block, ext) mem" where
  "copy_ObjectMeta (X_ObjectMeta name ns uid labels annots owners fins del gen) =
     bindM (copy_ptr kExtern retM del) (\<lambda>del'.
     bindM (copy_ptr kMap retM labels) (\<lambda>labels'.
     bindM (copy_ptr kMap retM annots) (\<lambda>annots'.
     bindM (copy_slice kExtern copy_Owner owners) (\<lambda>owners'.
     bindM (copy_slice kString retM fins) (\<lambda>fins'.
     retM (X_ObjectMeta name ns uid labels' annots' owners' fins' del' gen))))))"
| "copy_ObjectMeta _ = faultM"

fun copy_ListMeta :: "ext \<Rightarrow> (ext block, ext) mem" where
  "copy_ListMeta (X_ListMeta link version cont remaining) =
     bindM (copy_ptr kExtern retM remaining) (\<lambda>remaining'. retM (X_ListMeta link version cont remaining'))"
| "copy_ListMeta _ = faultM"

definition ext_machinery :: "ext machinery" where
  "ext_machinery = \<lparr>LabelSelector_into = copy_LabelSelector, ObjectMeta_into = copy_ObjectMeta,
     ListMeta_into = copy_ListMeta, Condition_into = retM\<rparr>"

definition ext_readings :: "ext readings" where
  "ext_readings = \<lparr>LabelSelector_rep = rep_LabelSelector, ObjectMeta_rep = rep_ObjectMeta,
     ListMeta_rep = rep_ListMeta, Condition_rep = rep_Condition\<rparr>"

section \<open>They keep the contract\<close>

interpretation X_Int64: deep_copy_kind rep_Int64 retM kExtern
  by (rule deep_copy_kindI, rule kinds) (auto elim!: rep_Int64.elims simp: lives_def)

interpretation X_Time: deep_copy_kind rep_Time retM kExtern
  by (rule deep_copy_kindI, rule kinds) (auto elim!: rep_Time.elims simp: lives_def)

interpretation X_Condition: deep_copy_kind rep_Condition retM kExtern
  by (rule deep_copy_kindI, rule kinds) (auto elim!: rep_Condition.elims simp: lives_def)

interpretation X_Requirement: deep_copy_kind rep_Requirement copy_Requirement kExtern
  by (rule deep_copy_kindI, rule kinds)
    (auto elim!: rep_Requirement.elims copy_step simp: lives_def intro: mem_mono)

interpretation X_LabelSelector: deep_copy rep_LabelSelector copy_LabelSelector
  by (rule deep_copyI) (auto elim!: rep_LabelSelector.elims copy_step simp: lives_def intro: mem_mono)

interpretation X_flag: deep_copy rep_flag "copy_ptr kBool retM"
proof (rule deep_copyI)
  show "rep_flag h p b \<Longrightarrow> rep_flag (h @ e) p b" for h p b e
    by (auto simp: rep_flag_def deref_append split: option.splits)
next
  fix h :: "ext block heap" and p b assume rep: "rep_flag h p b"
  show "allocates (copy_ptr kBool retM p) h [] (\<lambda>s y. lives rep_flag (length h) s y b)"
  proof (cases p)
    case None
    thus ?thesis using rep by (simp add: copy_ptr_def rep_flag_def lives_def)
  next
    case (Some q)
    hence "rep_ptr kBool rep_val h p (Some b)" using rep by (simp add: rep_flag_def rep_ptr_def rep_val_def)
    then obtain q' s where "copy_ptr kBool retM p h = Some (q', h @ s)"
      "lives (rep_ptr kBool rep_val) (length h) s q' (Some b)" by (rule go_bool.ptr.copy)
    moreover have "rep_flag g q' b" if "rep_ptr kBool rep_val g q' (Some b)" for g
      using that by (auto simp: rep_flag_def rep_ptr_def rep_val_def split: option.splits)
    ultimately show ?thesis by (intro allocatesI) (auto simp: lives_def)
  qed
qed

interpretation X_Owner: deep_copy_kind rep_Owner copy_Owner kExtern
  by (rule deep_copy_kindI, rule kinds)
    (auto elim!: rep_Owner.elims X_flag.step simp: lives_def intro: X_flag.mono)

interpretation X_ObjectMeta: deep_copy rep_ObjectMeta copy_ObjectMeta
  by (rule deep_copyI)
    (auto elim!: rep_ObjectMeta.elims copy_step simp: lives_def intro: mem_mono)

interpretation X_ListMeta: deep_copy rep_ListMeta copy_ListMeta
  by (rule deep_copyI) (auto elim!: rep_ListMeta.elims copy_step simp: lives_def intro: mem_mono)

interpretation ext: apimachinery ext_readings ext_machinery
  unfolding apimachinery_def ext_readings_def ext_machinery_def
  using X_LabelSelector.deep_copy_axioms X_ObjectMeta.deep_copy_axioms
    X_ListMeta.deep_copy_axioms X_Condition.deep_copy_axioms
  by simp

end
