(* ===== verification/Deep_Correct.thy ===== *)
theory Deep_Correct
  imports Deep_Resolve Machinery
begin

text \<open>
  Properties of the copies and of the merges on Go memory.  That the rest of the development
  treats resources as values rests on them: what a routine changes is memory of its own.
\<close>

section \<open>A memory to try them on\<close>

text \<open>
  One resource with one entry, the entry of the catalogue it names and the cluster's GitOps
  defaults.  Flags, strings and storage bounds are shared on purpose.
\<close>

definition ex_labels :: str_map where
  "ex_labels = [''app'' \<mapsto> ''web'']"

definition h_ex_entry :: h_NamespaceSpec where
  "h_ex_entry = \<lparr>h_ns_Name = ''team_a'', h_ns_Enabled = None, h_ns_Offboard = None,
     h_ns_AdditionalSettings = None, h_ns_OverwriteTshirt = Some (1, 0), h_ns_ResourceQuotas = Some (2, 0),
     h_ns_LimitRanges = Some (10, 0), h_ns_DefaultPolicies = None, h_ns_NetworkPolicies = Some (8, 0, 1),
     h_ns_LocalAdminGroup = None, h_ns_EgressIPs = None, h_ns_ApplicationGitOpsNamespace = [],
     h_ns_ArgoCDProjects = None, h_ns_ProjectSize = ''small'', h_ns_Labels = Some (6, 0),
     h_ns_Annotations = None\<rparr>"

definition h_ex_resource :: "ext h_ProjectOnboarding" where
  "h_ex_resource = \<lparr>h_po_TypeMeta = \<lparr>tm_Kind = ''ProjectOnboarding'', tm_APIVersion = []\<rparr>,
     h_po_ObjectMeta = X_ObjectMeta ''acme'' [] [] (Some (6, 0)) None None None None 1,
     h_po_Spec = \<lparr>h_ps_GitOps = Some (13, 0), h_ps_Namespaces = Some (9, 0, 1)\<rparr>,
     h_po_Status = \<lparr>h_pst_ObservedGeneration = 0, h_pst_Phase = [], h_pst_Conditions = None,
       h_pst_Namespaces = None\<rparr>\<rparr>"

definition h_ex_list :: "ext h_ProjectOnboardingList" where
  "h_ex_list = \<lparr>h_pol_TypeMeta = \<lparr>tm_Kind = [], tm_APIVersion = []\<rparr>,
     h_pol_ListMeta = X_ListMeta [] ''7'' [] None, h_pol_Items = Some (14, 0, 1)\<rparr>"

definition h_ex_size :: h_TShirtSizeSpec where
  "h_ex_size = \<lparr>h_ts_Description = [], h_ts_ResourceQuotas = None, h_ts_LimitRanges = Some (5, 0)\<rparr>"

definition ex_memory :: "ext block heap" where
  "ex_memory =
    [Strings [''2'', ''8''],
     Bools [True],
     B_ResourceQuotaSpec [zero_h_ResourceQuotaSpec\<lparr>h_rq_Enabled := Some (1, 0), h_rq_CPU := Some (0, 0)\<rparr>],
     B_StorageAmountSpec [\<lparr>h_sa_Storage = Some (0, 1)\<rparr>],
     B_LimitRangePVCSpec [\<lparr>h_lv_Min = Some (3, 0), h_lv_Max = Some (3, 0)\<rparr>],
     B_LimitRangeSpec [zero_h_LimitRangeSpec\<lparr>h_lr_PVC := Some (4, 0)\<rparr>],
     Maps [ex_labels],
     Externs [X_LabelSelector (Some (6, 0)) None],
     B_CustomNetworkPolicySpec [\<lparr>h_cnp_Name = ''web'', h_cnp_Active = Some (1, 0),
       h_cnp_PodSelector = Some (7, 0), h_cnp_IngressRules = None, h_cnp_EgressRules = None\<rparr>],
     B_NamespaceSpec [h_ex_entry],
     B_LimitRangeSpec [zero_h_LimitRangeSpec\<lparr>h_lr_Enabled := Some (1, 0), h_lr_PVC := Some (11, 0)\<rparr>],
     B_LimitRangePVCSpec [\<lparr>h_lv_Min = Some (12, 0), h_lv_Max = None\<rparr>],
     B_StorageAmountSpec [\<lparr>h_sa_Storage = Some (0, 0)\<rparr>],
     B_GitOpsSpec [\<lparr>h_go_ApplicationNamespace = [], h_go_Destinations = None,
       h_go_AllowedSourceRepos = Some (0, 1, 1), h_go_AllowedOIDCGroups = None, h_go_AllowedSourceNamespaces = None\<rparr>],
     B_ProjectOnboarding [h_ex_resource],
     B_GitOpsSpec [\<lparr>h_go_ApplicationNamespace = ''argocd'', h_go_Destinations = None,
       h_go_AllowedSourceRepos = Some (0, 0, 1), h_go_AllowedOIDCGroups = Some (0, 0, 2),
       h_go_AllowedSourceNamespaces = None\<rparr>],
     B_ProjectOnboardingList [h_ex_list]]"

text \<open>What it represents.\<close>

definition sized_quota :: ResourceQuotaSpec where
  "sized_quota = zero_ResourceQuotaSpec\<lparr>rq_Enabled := Some True, rq_CPU := Some ''2''\<rparr>"

definition sized_entry :: NamespaceSpec where
  "sized_entry = zero_NamespaceSpec\<lparr>ns_Name := ''team_a'', ns_OverwriteTshirt := Some True,
     ns_ResourceQuotas := Some sized_quota,
     ns_LimitRanges := Some (zero_LimitRangeSpec\<lparr>lr_Enabled := Some True,
       lr_PVC := Some \<lparr>lv_Min = Some \<lparr>sa_Storage = Some ''2''\<rparr>, lv_Max = None\<rparr>\<rparr>),
     ns_NetworkPolicies := [\<lparr>cnp_Name = ''web'', cnp_Active = Some True,
       cnp_PodSelector = Some \<lparr>matchLabels = ex_labels, matchExpressions = []\<rparr>,
       cnp_IngressRules = [], cnp_EgressRules = []\<rparr>],
     ns_ProjectSize := ''small'', ns_Labels := ex_labels\<rparr>"

definition sized_catalogue :: TShirtSizeSpec where
  "sized_catalogue = \<lparr>ts_Description = [], ts_ResourceQuotas = None,
     ts_LimitRanges = Some (zero_LimitRangeSpec\<lparr>lr_PVC := Some
       \<lparr>lv_Min = Some \<lparr>sa_Storage = Some ''8''\<rparr>, lv_Max = Some \<lparr>sa_Storage = Some ''8''\<rparr>\<rparr>\<rparr>)\<rparr>"

definition sized_po :: ProjectOnboarding where
  "sized_po = \<lparr>po_meta = zero_objmeta\<lparr>om_name := ''acme'', om_labels := ex_labels, om_generation := 1\<rparr>,
     po_Spec = \<lparr>ps_GitOps = Some \<lparr>go_ApplicationNamespace = [], go_Destinations = [],
         go_AllowedSourceRepos = [''8''], go_AllowedOIDCGroups = [], go_AllowedSourceNamespaces = []\<rparr>,
       ps_Namespaces = [sized_entry]\<rparr>,
     po_Status = zero_ProjectOnboardingStatus\<rparr>"

definition cluster_gitops :: GitOpsSpec where
  "cluster_gitops = \<lparr>go_ApplicationNamespace = ''argocd'', go_Destinations = [],
     go_AllowedSourceRepos = [''2''], go_AllowedOIDCGroups = [''2'', ''8''], go_AllowedSourceNamespaces = []\<rparr>"

lemmas mem_eval = array_at_def deref_def rep_ptr_def rep_slice_def rep_map_def rep_val_def
  kBool_def kString_def kMap_def kExtern_def kResourceQuotaSpec_def kStorageAmountSpec_def
  kLimitRangePVCSpec_def kLimitRangeSpec_def kCustomNetworkPolicySpec_def kNamespaceSpec_def
  kGitOpsSpec_def kGitOpsDestinationSpec_def kProjectOnboarding_def kProjectOnboardingList_def

lemma ex_entry_rep: "rep_NamespaceSpec ext_readings ex_memory h_ex_entry sized_entry"
  by (simp add: mem_eval rep_NamespaceSpec_def rep_ResourceQuotaSpec_def rep_LimitRangeSpec_def
      rep_LimitRangePVCSpec_def rep_StorageAmountSpec_def rep_CustomNetworkPolicySpec_def ext_readings_def
      ex_memory_def h_ex_entry_def sized_entry_def sized_quota_def zero_mem zero_NamespaceSpec_def)

lemma ex_size_rep: "rep_TShirtSizeSpec ex_memory h_ex_size sized_catalogue"
  by (simp add: mem_eval rep_TShirtSizeSpec_def rep_LimitRangeSpec_def rep_LimitRangePVCSpec_def
      rep_StorageAmountSpec_def ex_memory_def h_ex_size_def sized_catalogue_def zero_mem)

lemma ex_gitops_rep: "rep_ptr kGitOpsSpec rep_GitOpsSpec ex_memory (Some (15, 0)) (Some cluster_gitops)"
  by (simp add: mem_eval rep_GitOpsSpec_def ex_memory_def cluster_gitops_def)

lemma ex_resource_rep:
  "rep_ProjectOnboarding ext_readings ex_memory h_ex_resource
     (\<lparr>tm_Kind = ''ProjectOnboarding'', tm_APIVersion = []\<rparr>, sized_po)"
proof -
  have "array_at kNamespaceSpec 9 ex_memory = Some [h_ex_entry]"
    by (simp add: array_at_def kNamespaceSpec_def ex_memory_def)
  hence "rep_slice kNamespaceSpec (rep_NamespaceSpec ext_readings) ex_memory (Some (9, 0, 1)) [sized_entry]"
    using ex_entry_rep by (simp add: rep_slice_def)
  moreover have "rep_ptr kGitOpsSpec rep_GitOpsSpec ex_memory (Some (13, 0)) (ps_GitOps (po_Spec sized_po))"
    by (simp add: mem_eval rep_GitOpsSpec_def ex_memory_def sized_po_def)
  moreover have "rep_ObjectMeta ex_memory (X_ObjectMeta ''acme'' [] [] (Some (6, 0)) None None None None 1)
      (po_meta sized_po)"
    by (simp add: mem_eval ex_memory_def sized_po_def zero_objmeta_def)
  moreover have "ps_Namespaces (po_Spec sized_po) = [sized_entry]" "po_Status sized_po = zero_ProjectOnboardingStatus"
    by (simp_all add: sized_po_def)
  ultimately show ?thesis
    by (simp add: rep_ProjectOnboarding_def rep_ProjectOnboardingSpec_def rep_ProjectOnboardingStatus_def
        ext_readings_def h_ex_resource_def zero_ProjectOnboardingStatus_def rep_slice_def [of kExtern]
        rep_slice_def [of kNamespaceStatus])
qed

lemma ex_resource_ptr:
  "rep_ptr kProjectOnboarding (rep_ProjectOnboarding ext_readings) ex_memory (Some (14, 0))
     (Some (\<lparr>tm_Kind = ''ProjectOnboarding'', tm_APIVersion = []\<rparr>, sized_po))"
proof -
  have "deref kProjectOnboarding (14, 0) ex_memory = Some h_ex_resource"
    by (simp add: deref_def array_at_def kProjectOnboarding_def ex_memory_def)
  with ex_resource_rep show ?thesis by (simp add: rep_ptr_def)
qed

lemma ex_list_ptr:
  "rep_ptr kProjectOnboardingList (rep_ProjectOnboardingList ext_readings) ex_memory (Some (16, 0))
     (Some (\<lparr>tm_Kind = [], tm_APIVersion = []\<rparr>,
       \<lparr>lm_SelfLink = [], lm_ResourceVersion = ''7'', lm_Continue = [], lm_RemainingItemCount = None\<rparr>,
       [(\<lparr>tm_Kind = ''ProjectOnboarding'', tm_APIVersion = []\<rparr>, sized_po)]))"
proof -
  have "deref kProjectOnboardingList (16, 0) ex_memory = Some h_ex_list"
    "array_at kProjectOnboarding 14 ex_memory = Some [h_ex_resource]"
    by (simp_all add: deref_def array_at_def kProjectOnboardingList_def kProjectOnboarding_def ex_memory_def)
  with ex_resource_rep show ?thesis
    by (simp add: rep_ptr_def [of kProjectOnboardingList] rep_ProjectOnboardingList_def h_ex_list_def
        rep_slice_def ext_readings_def)
qed

section \<open>Deep copies\<close>

text \<open>
  C20: On memory in which a pointer represents a ProjectOnboarding, its deep copy returns without
  a panic, is nil only for nil, represents the same resource and shares nothing: no later write
  to memory that was there before reaches the copy, and none to the new memory the original.
\<close>

theorem resource_copy_unshared:
  assumes "apimachinery R M" and "rep_ptr kProjectOnboarding (rep_ProjectOnboarding R) h p x"
  shows "\<exists>q h'. DeepCopy_ProjectOnboarding M p h = Some (q, h') \<and> (q = None \<longleftrightarrow> p = None) \<and>
    unshared (rep_ptr kProjectOnboarding (rep_ProjectOnboarding R)) h h' q x \<and>
    (\<forall>g. take (length h) g = h \<longrightarrow> rep_ptr kProjectOnboarding (rep_ProjectOnboarding R) g p x)"
proof -
  obtain q h' where "DeepCopy_ProjectOnboarding M p h = Some (q, h')"
    "unshared (rep_ptr kProjectOnboarding (rep_ProjectOnboarding R)) h h' q x"
    "\<forall>g. take (length h) g = h \<longrightarrow> rep_ptr kProjectOnboarding (rep_ProjectOnboarding R) g p x"
    by (rule deep_copy.unshared_copy [OF apimachinery.DeepCopy_ProjectOnboarding [OF assms(1)] assms(2)])
  moreover from this(1) have "q = None \<longleftrightarrow> p = None"
    unfolding DeepCopy_ProjectOnboarding_def by (rule copy_nil)
  ultimately show ?thesis by blast
qed

lemma resource_copy_unshared_witness:
  "\<exists>q h'. DeepCopy_ProjectOnboarding ext_machinery (Some (14, 0)) ex_memory = Some (Some q, h') \<and>
    rep_ptr kProjectOnboarding (rep_ProjectOnboarding ext_readings) h' (Some q)
      (Some (\<lparr>tm_Kind = ''ProjectOnboarding'', tm_APIVersion = []\<rparr>, sized_po))"
  using resource_copy_unshared [OF ext.apimachinery_axioms ex_resource_ptr] by (auto simp: unshared_def)

lemma object_unshared:
  assumes "deep_copy (rep_ptr k r) c" and "rep_ptr k r h p x"
  shows "\<exists>q h'. bindM (c p) (\<lambda>q. retM (if q \<noteq> None then Some (tag q) else None)) h
      = Some (if x = None then None else Some (tag q), h') \<and> unshared (rep_ptr k r) h h' q x"
proof -
  obtain q h' where q: "c p h = Some (q, h')" "unshared (rep_ptr k r) h h' q x"
    by (rule deep_copy.unshared_copy [OF assms])
  moreover have "q = None \<longleftrightarrow> x = None" using q(2) by (auto simp: unshared_def elim!: rep_ptr_cases)
  ultimately show ?thesis by (intro exI [of _ q] exI [of _ h']) (auto simp: bindM_def retM_def)
qed

text \<open>
  C21: \<^verbatim>\<open>DeepCopyObject\<close> of a resource, of a catalogue entry and of a list of either is the nil
  interface for nil, never an interface around a nil pointer, and otherwise a pointer of the
  same type to a copy that represents the same object and shares nothing with the original.
\<close>

theorem objects_unshared:
  assumes "apimachinery R M"
    and "rep_ptr kProjectOnboarding (rep_ProjectOnboarding R) h p x"
    and "rep_ptr kProjectOnboardingList (rep_ProjectOnboardingList R) h ps xs"
    and "rep_ptr kTShirtSize (rep_TShirtSize R) h t y"
    and "rep_ptr kTShirtSizeList (rep_TShirtSizeList R) h ts ys"
  shows "(\<exists>q h'. DeepCopyObject_ProjectOnboarding M p h = Some (if x = None then None else Some (Obj_ProjectOnboarding q), h') \<and>
      unshared (rep_ptr kProjectOnboarding (rep_ProjectOnboarding R)) h h' q x) \<and>
    (\<exists>q h'. DeepCopyObject_ProjectOnboardingList M ps h = Some (if xs = None then None else Some (Obj_ProjectOnboardingList q), h') \<and>
      unshared (rep_ptr kProjectOnboardingList (rep_ProjectOnboardingList R)) h h' q xs) \<and>
    (\<exists>q h'. DeepCopyObject_TShirtSize M t h = Some (if y = None then None else Some (Obj_TShirtSize q), h') \<and>
      unshared (rep_ptr kTShirtSize (rep_TShirtSize R)) h h' q y) \<and>
    (\<exists>q h'. DeepCopyObject_TShirtSizeList M ts h = Some (if ys = None then None else Some (Obj_TShirtSizeList q), h') \<and>
      unshared (rep_ptr kTShirtSizeList (rep_TShirtSizeList R)) h h' q ys)"
  unfolding DeepCopyObject_ProjectOnboarding_def DeepCopyObject_ProjectOnboardingList_def
    DeepCopyObject_TShirtSize_def DeepCopyObject_TShirtSizeList_def
  using object_unshared [OF apimachinery.DeepCopy_ProjectOnboarding [OF assms(1)] assms(2)]
    object_unshared [OF apimachinery.DeepCopy_ProjectOnboardingList [OF assms(1)] assms(3)]
    object_unshared [OF apimachinery.DeepCopy_TShirtSize [OF assms(1)] assms(4)]
    object_unshared [OF apimachinery.DeepCopy_TShirtSizeList [OF assms(1)] assms(5)]
  by (intro conjI)

lemma objects_unshared_witness:
  "(\<exists>q h'. DeepCopyObject_ProjectOnboardingList ext_machinery (Some (16, 0)) ex_memory
      = Some (Some (Obj_ProjectOnboardingList q), h')) \<and>
   (\<exists>h'. DeepCopyObject_TShirtSize ext_machinery None ex_memory = Some (None, h'))"
  using objects_unshared [OF ext.apimachinery_axioms ex_resource_ptr ex_list_ptr, of None None None None]
  by auto

section \<open>The merges\<close>

text \<open>
  C18: Giving an entry its sized blocks, on memory: the result represents what the merge of values
  gives, the memory of the entry and of the catalogue is unchanged, and the two blocks share
  nothing with either, although the merges on the way pass on pointers of the entry.
\<close>

theorem sized_blocks_unshared:
  assumes "apimachinery R M" and "rep_NamespaceSpec R h ns x" and "rep_TShirtSizeSpec h sz t"
  shows "\<exists>ns' h'. resolve_with_mem iter ns sz h = Some (ns', h') \<and> take (length h) h' = h \<and>
    rep_NamespaceSpec R h' ns' (resolve_with iter x t) \<and>
    unshared (rep_ptr kResourceQuotaSpec rep_ResourceQuotaSpec) h h'
      (h_ns_ResourceQuotas ns') (ns_ResourceQuotas (resolve_with iter x t)) \<and>
    unshared (rep_ptr kLimitRangeSpec rep_LimitRangeSpec) h h'
      (h_ns_LimitRanges ns') (ns_LimitRanges (resolve_with iter x t))"
proof -
  obtain ns' s where run: "resolve_with_mem iter ns sz h = Some (ns', h @ s)"
    and rep: "rep_NamespaceSpec R (h @ s) ns' (resolve_with iter x t)"
    and "lives (rep_ptr kResourceQuotaSpec rep_ResourceQuotaSpec) (length h) s
      (h_ns_ResourceQuotas ns') (ns_ResourceQuotas (resolve_with iter x t))"
    and "lives (rep_ptr kLimitRangeSpec rep_LimitRangeSpec) (length h) s
      (h_ns_LimitRanges ns') (ns_LimitRanges (resolve_with iter x t))"
    by (rule apimachinery.resolve_fresh [OF assms])
  from this(3,4) [THEN lives_unshared] run rep show ?thesis
    by (intro exI [of _ ns'] exI [of _ "h @ s"]) simp
qed

lemma sized_blocks_unshared_witness:
  "\<exists>ns' h'. resolve_with_mem (\<lambda>xs. xs) h_ex_entry h_ex_size ex_memory = Some (ns', h') \<and>
    take (length ex_memory) h' = ex_memory \<and>
    rep_NamespaceSpec ext_readings h' ns' (resolve_with (\<lambda>xs. xs) sized_entry sized_catalogue)"
  using sized_blocks_unshared [OF ext.apimachinery_axioms ex_entry_rep ex_size_rep, of "\<lambda>xs. xs"] by blast

text \<open>
  C19: Applying the cluster defaults, on memory: without defaults the resource itself is returned
  and nothing happens; otherwise the result represents what the merge of values gives and shares
  nothing with the resource or the defaults, both of which are unchanged.
\<close>

theorem cluster_defaults_unshared:
  assumes "apimachinery R M"
    and po: "rep_ptr kProjectOnboarding (rep_ProjectOnboarding R) h p (Some (tm, po))"
    and dflt: "rep_ptr kGitOpsSpec rep_GitOpsSpec h dp d"
  shows "\<exists>q h'. MergeClusterDefaults_mem M dp p h = Some (q, h') \<and> take (length h) h' = h \<and>
    rep_ptr kProjectOnboarding (rep_ProjectOnboarding R) h' q (Some (tm, MergeClusterDefaults d po)) \<and>
    (if d = None then q = p \<and> h' = h
     else unshared (rep_ptr kProjectOnboarding (rep_ProjectOnboarding R)) h h' q
            (Some (tm, MergeClusterDefaults d po)))"
proof (cases d)
  case None
  with dflt po show ?thesis
    by (intro exI [of _ p] exI [of _ h]) (auto simp: MergeClusterDefaults_mem_def MergeClusterDefaults_def retM_def)
next
  case (Some e)
  obtain q h' where "MergeClusterDefaults_mem M dp p h = Some (q, h')"
    and "unshared (rep_ptr kProjectOnboarding (rep_ProjectOnboarding R)) h h' q
      (Some (tm, MergeClusterDefaults (Some e) po))"
    by (rule gives_fresh_unshared [OF apimachinery.MergeClusterDefaults_fresh [OF assms(1) po dflt [unfolded Some]]])
  with Some show ?thesis by (intro exI [of _ q] exI [of _ h']) (simp add: unshared_def)
qed

lemma cluster_defaults_unshared_witness:
  "\<exists>q h'. MergeClusterDefaults_mem ext_machinery (Some (15, 0)) (Some (14, 0)) ex_memory = Some (q, h') \<and>
    take (length ex_memory) h' = ex_memory \<and>
    rep_ptr kProjectOnboarding (rep_ProjectOnboarding ext_readings) h' q
      (Some (\<lparr>tm_Kind = ''ProjectOnboarding'', tm_APIVersion = []\<rparr>,
        MergeClusterDefaults (Some cluster_gitops) sized_po))"
  using cluster_defaults_unshared [OF ext.apimachinery_axioms ex_resource_ptr ex_gitops_rep] by blast

end
