(* ===== verification/Settle_Correct.thy ===== *)
theory Settle_Correct
  imports Mem_Cluster
begin

text \<open>
  Reconciling an entry a second time changes nothing, for entries whose policies and AppProjects
  have names of their own; and a run on which this does not hold, with two policies of one name.
\<close>

text \<open>
  C11: A successful reconciliation of an entry whose active policies (the standard ones
  included) and enabled AppProjects have names of their own comes to rest.  Run again on the
  store that it left, with the same resource and the same resolved entry, it creates nothing,
  patches no object to another content and deletes no live object, whether it succeeds or a call
  fails on the way; if nothing in the store is on its way out, the store stays exactly as it is.
\<close>

theorem reconcile_comes_to_rest:
  assumes "settling_client c view stored_as" and "settled_scheme sch"
    and "distinct_names po ns" and "po_Name po \<noteq> []"
    and "ReconcileNamespace lb c sch po ns s = (Ok u, s')" and "ResolveNamespaceSpec lb c ns s = (Ok resolved, s1)"
    and "view t = view s'" and "\<forall>again t1. ResolveNamespaceSpec lb c ns t = (Ok again, t1) \<longrightarrow> again = resolved"
    and "ReconcileNamespace lb c sch po ns t = (r, t')"
  shows "quiet (view t) (view t') \<and>
    ((\<forall>k key x. view t k key = Some x \<longrightarrow> \<not> is_deleting x) \<longrightarrow> view t' = view t)"
proof -
  have "settling_client.settled stored_as lb sch po ns resolved (view t)"
    using settling_client.ReconcileNamespace_settles [OF assms(1-6)] assms(7) by simp
  then have "quiet (view t) (view t')"
    by (rule settling_client.settled_fixed [OF assms(1-4)]) (use assms(8,9) in blast)+
  then show ?thesis using quiet_live by blast
qed

definition ex_web :: CustomNetworkPolicySpec where
  "ex_web = \<lparr>cnp_Name = ''web'', cnp_Active = Some True, cnp_PodSelector = None, cnp_IngressRules = [], cnp_EgressRules = []\<rparr>"

definition ex_team :: NamespaceSpec where
  "ex_team = ex_min\<lparr>ns_NetworkPolicies := [ex_web], ns_LocalAdminGroup := Some \<lparr>lag_Enabled = Some True,
     lag_GroupName = ''g'', lag_ClusterRole = [], lag_Users = [''u'']\<rparr>\<rparr>"

theorem reconcile_comes_to_rest_witness:
  "\<exists>s' r t'. ReconcileNamespace mem_libs mem_client (Some mem_scheme) ex_po ex_team empty_world = (Ok (), s') \<and>
     ReconcileNamespace mem_libs mem_client (Some mem_scheme) ex_po ex_team s' = (r, t') \<and>
     quiet (lookup s') (lookup t')"
proof -
  let ?run = "ReconcileNamespace mem_libs mem_client (Some mem_scheme) ex_po ex_team"
  have "succeeds ?run empty_world" by code_simp
  then obtain s' where run: "?run empty_world = (Ok (), s')"
    by (metis (full_types) old.unit.exhaust succeedsE)
  obtain r t' where again: "?run s' = (r, t')" by fastforce
  have d: "distinct_names ex_po ex_team" by code_simp
  have n: "po_Name ex_po \<noteq> []" by (simp add: ex_po_def)
  have res: "ResolveNamespaceSpec mem_libs mem_client ex_team s = (Ok ex_team, s)" for s
    by (simp add: ResolveNamespaceSpec_def ex_team_def ex_min_def zero_NamespaceSpec_def eff_run)
  have "quiet (lookup s') (lookup t')"
    using reconcile_comes_to_rest [OF mem_settling mem_settled_scheme d n run res refl _ again] res by simp
  with run again show ?thesis by blast
qed

text \<open>
  Without names of their own there is no rest: of two active policies of one name each run
  writes both, so that the second run, too, patches the object twice, to other rules each time.
\<close>

definition ex_web_egress :: CustomNetworkPolicySpec where
  "ex_web_egress = ex_web\<lparr>cnp_EgressRules := [\<lparr>npr_Selectors = [], npr_Ports = []\<rparr>]\<rparr>"

fun policy_types :: "payload \<Rightarrow> string list" where
  "policy_types (PNetworkPolicy p) = np_PolicyTypes p"
| "policy_types p = []"

text \<open>The types of the policies before and after each patch of a NetworkPolicy.\<close>

fun policy_writes :: "api_call list \<Rightarrow> (string list \<times> string list) list" where
  "policy_writes [] = []"
| "policy_writes (CallPatch base obj # calls) = (if kind_of obj = KNetworkPolicy
     then (policy_types (ko_payload base), policy_types (ko_payload obj)) # policy_writes calls else policy_writes calls)"
| "policy_writes (call # calls) = policy_writes calls"

definition ex_two :: NamespaceSpec where
  "ex_two = ex_min\<lparr>ns_NetworkPolicies := [ex_web, ex_web_egress]\<rparr>"

lemma same_name_never_rests:
  "(let run = ReconcileNamespace mem_libs (logged mem_client) None ex_po ex_two;
        second = snd (snd (run (fst (snd (run (empty_world, []))), [])))
    in policy_writes second = [([''Egress''], []), ([], [''Egress''])])"
  by code_simp

text \<open>
  C10: A successful run of the controller comes to rest.  Take a resource that is not being
  deleted and has its finalizer, whose entries have names of their own (\<open>restable\<close>, with the
  cluster defaults as they are loaded), and a run that returns no error and asks for no requeue.
  The next run on what it left, at any later time and whether its calls succeed or fail, creates
  nothing, patches no object to another content and deletes no live object, neither for active
  nor for offboarded entries; if nothing in the store is on its way out, the store stays
  exactly as it is.
\<close>

theorem run_comes_to_rest:
  assumes "resting_operator r view m stored stored_as inputs"
    and "stored s n = Some po" and "om_deletionTimestamp (po_meta po) = None" and "has_finalizer po"
    and "\<forall>u d u'. inputs u = inputs s \<longrightarrow> LoadClusterDefaults lb (por_Client r) (operatorNamespace lb r) u = (Ok d, u') \<longrightarrow>
      restable (por_Scheme r) (MergeClusterDefaults d po)"
    and "Reconcile lb m r (projectOnboardingRequest n) s = (Ok (zero_ctrl_result, None), s')"
    and "view t = view s'" and "stored t = stored s'" and "inputs t = inputs s'"
    and "Reconcile (later now lb) m r (projectOnboardingRequest n) t = (x, t')"
  shows "quiet (view t) (view t') \<and>
    ((\<forall>k key y. view t k key = Some y \<longrightarrow> \<not> is_deleting y) \<longrightarrow> view t' = view t)"
proof -
  have "resting_operator.restable_with r inputs lb (inputs s) po"
    using assms(5) unfolding resting_operator.restable_with_def [OF assms(1)] by blast
  then have "quiet (view t) (view t')"
    by (rule resting_operator.Reconcile_comes_to_rest [OF assms(1-4) _ assms(6-10)])
  then show ?thesis using quiet_live by blast
qed

definition ex_one :: ProjectOnboarding where
  "ex_one = ex_po\<lparr>po_Spec := \<lparr>ps_GitOps = None, ps_Namespaces = [ex_min]\<rparr>\<rparr>"

definition ex_one_world :: world where
  "ex_one_world = empty_world\<lparr>w_pos := [ex_one]\<rparr>"

definition leaves_calm :: "(world, unit) eff \<Rightarrow> world \<Rightarrow> bool" where
  "leaves_calm f s = (case f s of (Ok x, s') \<Rightarrow> w_faults s' = [] | _ \<Rightarrow> False)"

lemma ex_one_simps [simp]:
  "po_Namespaces ex_one = [ex_min]" "po_Name ex_one = ''po1''" "om_deletionTimestamp (po_meta ex_one) = None" "has_finalizer ex_one"
  by (simp_all add: ex_one_def ex_po_def zero_objmeta_def has_finalizer_def)

lemma ex_one_runs:
  "\<exists>s'. Reconcile mem_libs mem_metrics mem_reconciler (projectOnboardingRequest ''po1'') ex_one_world = (Ok (zero_ctrl_result, None), s')"
proof -
  have "leaves_calm (ReconcileNamespace mem_libs mem_client (Some mem_scheme) ex_one ex_min) ex_one_world" by code_simp
  then obtain s1 where one: "ReconcileNamespace mem_libs mem_client (Some mem_scheme) ex_one ex_min ex_one_world = (Ok (), s1)"
    and calm: "w_faults s1 = []"
    by (auto simp: leaves_calm_def split: prod.splits result.splits)
  have live: "\<not> IsReconciliationPaused (Some ex_one)" by code_simp
  have active: "\<not> IsOptInEnabled (ns_Offboard ex_min)" "IsEnabled (ns_Enabled ex_min)" by code_simp+
  have get: "cl_GetPO mem_client ''po1'' ex_one_world = (Ok ex_one, ex_one_world)"
    by (simp add: mem_client_def faulty_def ex_one_world_def empty_world_def)
  have defaults: "LoadClusterDefaults mem_libs mem_client n ex_one_world = (Ok None, ex_one_world)" for n
    by (simp add: LoadClusterDefaults_def Let_def eff_run mem_client_def faulty_def ex_one_world_def empty_world_def)
  have prune: "PruneRemovedNamespaces mem_client ex_one ex_one_world = (Ok (), ex_one_world)"
    by (simp add: PruneRemovedNamespaces_def listManagedNamespaces_def eff_run mem_client_def mem_list_def faulty_def
        ex_one_world_def empty_world_def)
  have status: "w_faults s = [] \<Longrightarrow> cl_StatusPO mem_client po s = (Ok (), s\<lparr>w_pos := map (put_status po) (w_pos s)\<rparr>)" for po s
    by (simp add: mem_client_def faulty_def)
  have records: "w_faults (rec_Event mem_recorder obj ty reason msg s) = w_faults s" for obj ty reason msg s
    by (simp add: mem_recorder_def)
  show ?thesis
    by (simp add: Reconcile_def projectOnboardingRequest_def run_orReturn get EnsureFinalizer_def run_retE live reconcileActive_def
        Let_def defaults MergeClusterDefaults_def prune reconcileTenants_def run_bindE reconcileEntry_def active one
        run_thenE record_outcome_def recordNormal_def run_effectE SetActiveTenantCount_def status records calm)
qed

theorem run_comes_to_rest_witness:
  "\<exists>s' x t'. Reconcile mem_libs mem_metrics mem_reconciler (projectOnboardingRequest ''po1'') ex_one_world = (Ok (zero_ctrl_result, None), s') \<and>
     Reconcile (later 9 mem_libs) mem_metrics mem_reconciler (projectOnboardingRequest ''po1'') s' = (x, t') \<and>
     quiet (lookup s') (lookup t')"
proof -
  obtain s' where run: "Reconcile mem_libs mem_metrics mem_reconciler (projectOnboardingRequest ''po1'') ex_one_world =
      (Ok (zero_ctrl_result, None), s')"
    using ex_one_runs by blast
  obtain x t' where again: "Reconcile (later 9 mem_libs) mem_metrics mem_reconciler (projectOnboardingRequest ''po1'') s' = (x, t')"
    by fastforce
  have po: "stored_po ex_one_world ''po1'' = Some ex_one" "om_deletionTimestamp (po_meta ex_one) = None" "has_finalizer ex_one"
    by (simp_all add: stored_po_def ex_one_world_def)
  have "tenants_apart ex_one" by code_simp
  then have "restable (Some mem_scheme) ex_one" by (simp add: restable_def mem_settled_scheme)
  moreover have "d = None" if "mem_inputs u = mem_inputs ex_one_world" "LoadClusterDefaults mem_libs mem_client n u = (Ok d, u')" for u n d u'
  proof -
    have "cl_GetConfigMap mem_client key u = (Ok data, v) \<Longrightarrow> False" for key data v
      using that(1) by (auto simp: mem_client_def mem_inputs_def ex_one_world_def empty_world_def elim!: faulty_cases)
    with that(2) show ?thesis
      by (auto simp: LoadClusterDefaults_def Let_def eff_run split: result.splits prod.splits if_splits)
  qed
  ultimately have "\<forall>u d u'. mem_inputs u = mem_inputs ex_one_world \<longrightarrow>
      LoadClusterDefaults mem_libs (por_Client mem_reconciler) (operatorNamespace mem_libs mem_reconciler) u = (Ok d, u') \<longrightarrow>
      restable (por_Scheme mem_reconciler) (MergeClusterDefaults d ex_one)"
    by (fastforce simp: MergeClusterDefaults_def)
  from run_comes_to_rest [OF mem_rest.resting_operator_axioms po this run refl refl refl again]
  show ?thesis using run again by blast
qed

end
