(* ===== verification/Test_Utils.thy ===== *)
theory Test_Utils
  imports Kube "HOL-Library.AList"
begin

text \<open>
  \<^verbatim>\<open>test/utils/utils.go\<close>: what the end-to-end tests do with the host they run on.  The
  operating system is the parameter \<open>h\<close>: files, environment, clock, commands.  A command gives
  its output and an error, both; the texts of the standard library are functions on strings.
  \<^verbatim>\<open>waitForCertManagerAPI\<close> polls until a deadline: it is partial, and its termination is proved
  for a host whose clock goes forward.
\<close>

section \<open>Texts\<close>

text \<open>\<^verbatim>\<open>strings.ReplaceAll(s, old, "")\<close> for a text that is not empty.\<close>

function remove_all :: "string \<Rightarrow> string \<Rightarrow> string" where
  "remove_all old [] = []"
| "remove_all old (c # s) = (if old \<noteq> [] \<and> take (length old) (c # s) = old
     then remove_all old (drop (length old - 1) s) else c # remove_all old s)"
  by pat_completeness auto
termination by (relation "measure (\<lambda>(old, s). length s)") auto

fun index_of :: "string \<Rightarrow> string \<Rightarrow> nat option" where
  "index_of s target = (if take (length target) s = target then Some 0
     else case s of [] \<Rightarrow> None | c # t \<Rightarrow> map_option Suc (index_of t target))"

definition trim_prefix :: "string \<Rightarrow> string \<Rightarrow> string" where
  "trim_prefix pre s = (if take (length pre) s = pre then drop (length pre) s else s)"

definition newline :: char where
  "newline = CHR 0x0A"

text \<open>\<^verbatim>\<open>strings.Split(s, "\n")\<close>: always one element more than there are line breaks.\<close>

fun split_lines :: "string \<Rightarrow> string list" where
  "split_lines [] = [[]]"
| "split_lines (c # s) = (if c = newline then [] # split_lines s
     else (c # hd (split_lines s)) # tl (split_lines s))"

text \<open>
  The lines of a \<^verbatim>\<open>bufio.Scanner\<close>: a trailing line break opens no line, a carriage return before
  a line break or the end is dropped, and a line of 64 KiB or more ends the scan.
\<close>

definition drop_cr :: "string \<Rightarrow> string" where
  "drop_cr l = (if l \<noteq> [] \<and> last l = CHR 0x0D then butlast l else l)"

definition scan_lines :: "string \<Rightarrow> string list" where
  "scan_lines s = (let ls = split_lines s; ls = (if last ls = [] then butlast ls else ls)
     in map drop_cr (takeWhile (\<lambda>l. length l < 64 * 1024) ls))"

section \<open>The host\<close>

record command =
  cmd_Args :: "string list"
  cmd_Dir :: string
  cmd_Env :: "string list"
  cmd_Stdin :: string

definition Command :: "string list \<Rightarrow> command" where
  "Command args = \<lparr>cmd_Args = args, cmd_Dir = [], cmd_Env = [], cmd_Stdin = []\<rparr>"

record 's host =
  ho_Getwd :: "'s \<Rightarrow> (string \<times> go_error option) \<times> 's"
  ho_Chdir :: "string \<Rightarrow> 's \<Rightarrow> go_error option \<times> 's"
  ho_Environ :: "'s \<Rightarrow> string list \<times> 's"
  ho_LookupEnv :: "string \<Rightarrow> 's \<Rightarrow> string option \<times> 's"
  ho_LookPath :: "string \<Rightarrow> 's \<Rightarrow> go_error option \<times> 's"
  ho_CombinedOutput :: "command \<Rightarrow> 's \<Rightarrow> (string \<times> go_error option) \<times> 's"
  ho_Exec :: "command \<Rightarrow> 's \<Rightarrow> go_error option \<times> 's"
  ho_CreateTemp :: "string \<Rightarrow> 's \<Rightarrow> (go_error + string) \<times> 's"
  ho_Remove :: "string \<Rightarrow> 's \<Rightarrow> go_error option \<times> 's"
  ho_IsNotExist :: "go_error \<Rightarrow> bool"
  ho_ReadFile :: "string \<Rightarrow> 's \<Rightarrow> (go_error + string) \<times> 's"
  ho_WriteFile :: "string \<Rightarrow> string \<Rightarrow> 's \<Rightarrow> go_error option \<times> 's"
  ho_Now :: "'s \<Rightarrow> int \<times> 's"
  ho_Sleep :: "int \<Rightarrow> 's \<Rightarrow> 's"
  ho_Log :: "string \<Rightarrow> 's \<Rightarrow> 's"

text \<open>A call of the host that returns a value, and one that returns an error or nothing.\<close>

definition hostE :: "('s \<Rightarrow> 'a \<times> 's) \<Rightarrow> ('s, 'a) eff" where
  "hostE f s = (case f s of (x, s') \<Rightarrow> (Ok x, s'))"

definition orFail :: "go_error option \<Rightarrow> ('s, unit) eff" where
  "orFail err = (case err of None \<Rightarrow> retE () | Some e \<Rightarrow> failE e)"

definition Getenv :: "'s host \<Rightarrow> string \<Rightarrow> ('s, string) eff" where
  "Getenv h v = bindE (hostE (ho_LookupEnv h v)) (\<lambda>x. retE (case x of None \<Rightarrow> [] | Some t \<Rightarrow> t))"

section \<open>utils.go: running commands\<close>

definition warnError :: "'s host \<Rightarrow> go_error \<Rightarrow> ('s, unit) eff" where
  "warnError h err = effectE (ho_Log h (''warning: '' @ error_string err @ [newline]))"

definition GetProjectDir :: "'s host \<Rightarrow> ('s, string \<times> go_error option) eff" where
  "GetProjectDir h = bindE (hostE (ho_Getwd h)) (\<lambda>(wd, err). case err of
     Some e \<Rightarrow> retE (wd, Some (WrapError ''failed to get current working directory: '' e))
   | None \<Rightarrow> retE (remove_all ''/test/e2e'' wd, None))"

definition Run :: "'s host \<Rightarrow> command \<Rightarrow> ('s, string \<times> go_error option) eff" where
  "Run h cmd = bindE (GetProjectDir h) (\<lambda>(dir, _). let cmd = cmd\<lparr>cmd_Dir := dir\<rparr> in
     bindE (hostE (ho_Chdir h (cmd_Dir cmd))) (\<lambda>err.
     thenE (case err of None \<Rightarrow> retE ()
            | Some e \<Rightarrow> effectE (ho_Log h (''chdir dir: '' @ go_quote (error_string e) @ [newline]))) (
     bindE (hostE (ho_Environ h)) (\<lambda>env.
       let cmd = cmd\<lparr>cmd_Env := env @ [''GO111MODULE=on'']\<rparr>; command = join_str '' '' (cmd_Args cmd) in
     thenE (effectE (ho_Log h (''running: '' @ go_quote command @ [newline]))) (
     bindE (hostE (ho_CombinedOutput h cmd)) (\<lambda>(output, err). case err of
         Some e \<Rightarrow> retE (output, Some (WrapError (go_quote command @ '' failed with error '' @ go_quote output @ '': '') e))
       | None \<Rightarrow> retE (output, None)))))))"

text \<open>\<^verbatim>\<open>_, err := Run(cmd); return err\<close>\<close>

definition run_cmd :: "'s host \<Rightarrow> command \<Rightarrow> ('s, unit) eff" where
  "run_cmd h cmd = bindE (Run h cmd) (\<lambda>(_, err). orFail err)"

text \<open>\<^verbatim>\<open>if _, err := Run(cmd); err != nil { warnError(err) }\<close>\<close>

definition run_warn :: "'s host \<Rightarrow> command \<Rightarrow> ('s, unit) eff" where
  "run_warn h cmd = bindE (Run h cmd) (\<lambda>(_, err). case err of None \<Rightarrow> retE () | Some e \<Rightarrow> warnError h e)"

definition prometheusOperatorURL :: string where
  "prometheusOperatorURL = ''https://github.com/prometheus-operator/prometheus-operator/releases/download/v0.77.1/bundle.yaml''"

definition certmanagerURL :: string where
  "certmanagerURL = ''https://github.com/cert-manager/cert-manager/releases/download/v1.16.3/cert-manager.yaml''"

definition InstallPrometheusOperator :: "'s host \<Rightarrow> ('s, unit) eff" where
  "InstallPrometheusOperator h = run_cmd h (Command [''kubectl'', ''create'', ''-f'', prometheusOperatorURL])"

definition UninstallPrometheusOperator :: "'s host \<Rightarrow> ('s, unit) eff" where
  "UninstallPrometheusOperator h = run_warn h (Command [''kubectl'', ''delete'', ''-f'', prometheusOperatorURL])"

definition UninstallCertManager :: "'s host \<Rightarrow> ('s, unit) eff" where
  "UninstallCertManager h = run_warn h (Command [''kubectl'', ''delete'', ''-f'', certmanagerURL])"

definition GetNonEmptyLines :: "string \<Rightarrow> string list" where
  "GetNonEmptyLines output = filter (\<lambda>element. element \<noteq> []) (split_lines output)"

text \<open>The loops over the names and the lines of a listing.\<close>

definition lists_any :: "string list \<Rightarrow> string \<Rightarrow> bool" where
  "lists_any crds output = list_ex (\<lambda>crd. list_ex (\<lambda>line. contains_str line crd) (GetNonEmptyLines output)) crds"

definition IsPrometheusCRDsInstalled :: "'s host \<Rightarrow> ('s, bool) eff" where
  "IsPrometheusCRDsInstalled h =
     bindE (Run h (Command [''kubectl'', ''get'', ''crds'', ''-o'', ''custom-columns=NAME:.metadata.name''])) (\<lambda>(output, err).
       retE (err = None \<and> lists_any [''prometheuses.monitoring.coreos.com'', ''prometheusrules.monitoring.coreos.com'',
         ''prometheusagents.monitoring.coreos.com''] output))"

definition IsCertManagerCRDsInstalled :: "'s host \<Rightarrow> ('s, bool) eff" where
  "IsCertManagerCRDsInstalled h = bindE (Run h (Command [''kubectl'', ''get'', ''crds''])) (\<lambda>(output, err).
       retE (err = None \<and> lists_any [''certificates.cert-manager.io'', ''issuers.cert-manager.io'', ''clusterissuers.cert-manager.io'',
         ''certificaterequests.cert-manager.io'', ''orders.acme.cert-manager.io'', ''challenges.acme.cert-manager.io''] output))"

definition IsCRDInstalled :: "'s host \<Rightarrow> string \<Rightarrow> ('s, bool) eff" where
  "IsCRDInstalled h crdName = bindE (Run h (Command [''kubectl'', ''get'', ''crd'', crdName])) (\<lambda>(_, err). retE (err = None))"

section \<open>utils.go: images, files, waiting\<close>

text \<open>The container tool that the environment names or the path has; empty if there is none.\<close>

definition container_tool :: "'s host \<Rightarrow> ('s, string) eff" where
  "container_tool h = bindE (Getenv h ''CONTAINER_TOOL'') (\<lambda>tool. if tool \<noteq> [] then retE tool
     else bindE (hostE (ho_LookPath h ''docker'')) (\<lambda>err. if err = None then retE ''docker''
     else bindE (hostE (ho_LookPath h ''podman'')) (\<lambda>err. if err = None then retE ''podman'' else retE [])))"

definition EnsureContainerImage :: "'s host \<Rightarrow> string \<Rightarrow> ('s, unit) eff" where
  "EnsureContainerImage h name = bindE (container_tool h) (\<lambda>containerTool.
     if containerTool = [] then failE (PlainError ''no container tool found (docker or podman)'')
     else bindE (hostE (ho_Exec h (Command [containerTool, ''image'', ''exists'', name]))) (\<lambda>err. if err = None then retE ()
     else wrapE (containerTool @ '' pull '' @ name @ '': '') (run_cmd h (Command [containerTool, ''pull'', name]))))"

text \<open>A deferred call runs whether the rest succeeds or fails.\<close>

definition deferE :: "('s, unit) eff \<Rightarrow> ('s, 'a) eff \<Rightarrow> ('s, 'a) eff" where
  "deferE d m = bindE (tryE m) (\<lambda>r. thenE d (case r of Inl e \<Rightarrow> failE e | Inr x \<Rightarrow> retE x))"

definition remove_temp :: "'s host \<Rightarrow> string \<Rightarrow> ('s, unit) eff" where
  "remove_temp h path = bindE (hostE (ho_Remove h path)) (\<lambda>err. case err of None \<Rightarrow> retE ()
     | Some e \<Rightarrow> if ho_IsNotExist h e then retE () else warnError h (WrapError (''remove temp archive '' @ path @ '': '') e))"

definition LoadImageToKindClusterWithName :: "'s host \<Rightarrow> string \<Rightarrow> ('s, unit) eff" where
  "LoadImageToKindClusterWithName h name =
     bindE (hostE (ho_LookupEnv h ''KIND_CLUSTER'')) (\<lambda>v. let cluster = (case v of None \<Rightarrow> ''kind'' | Some c \<Rightarrow> c) in
     bindE (container_tool h) (\<lambda>containerTool.
       if containerTool = ''podman'' then bindE (hostE (ho_CreateTemp h ''kind-image-*.tar'')) (\<lambda>tmp. case tmp of
           Inl e \<Rightarrow> failE (WrapError ''create temp archive: '' e)
         | Inr tmpPath \<Rightarrow> deferE (remove_temp h tmpPath)
             (thenE (wrapE ''podman save: '' (run_cmd h (Command [''podman'', ''save'', ''-o'', tmpPath, name])))
               (run_cmd h (Command [''kind'', ''load'', ''image-archive'', tmpPath, ''--name'', cluster]))))
       else run_cmd h (Command [''kind'', ''load'', ''docker-image'', name, ''--name'', cluster])))"

text \<open>The text with its first occurrence of the target uncommented; an empty target changes nothing.\<close>

definition uncomment :: "string \<Rightarrow> string \<Rightarrow> string \<Rightarrow> nat \<Rightarrow> string" where
  "uncomment content target pre idx = take idx content @ join_str [newline] (map (trim_prefix pre) (scan_lines target)) @
     drop (idx + length target) content"

definition UncommentCode :: "'s host \<Rightarrow> string \<Rightarrow> string \<Rightarrow> string \<Rightarrow> ('s, unit) eff" where
  "UncommentCode h filename target pre = bindE (hostE (ho_ReadFile h filename)) (\<lambda>r. case r of
       Inl e \<Rightarrow> failE (WrapError (''failed to read file '' @ go_quote filename @ '': '') e)
     | Inr content \<Rightarrow> (case index_of content target of
         None \<Rightarrow> failE (PlainError (''unable to find the code '' @ go_quote target @ '' to be uncomment''))
       | Some idx \<Rightarrow> if scan_lines target = [] then retE ()
           else bindE (hostE (ho_WriteFile h filename (uncomment content target pre idx))) (\<lambda>err. case err of
               Some e \<Rightarrow> failE (WrapError (''failed to write file '' @ go_quote filename @ '': '') e)
             | None \<Rightarrow> retE ())))"

definition readiness_probe :: string where
  "readiness_probe = join_str [newline] [''apiVersion: cert-manager.io/v1'', ''kind: Issuer'', ''metadata:'',
     ''  name: cert-manager-ready-probe'', ''  namespace: cert-manager'', ''spec:'', ''  selfSigned: {}'', []]"

definition probe_cmd :: command where
  "probe_cmd = (Command [''kubectl'', ''apply'', ''-f'', ''-'', ''--dry-run=server''])\<lparr>cmd_Stdin := readiness_probe\<rparr>"

text \<open>The loop up to the deadline; \<open>None\<close> stands for a loop that does not end.\<close>

partial_function (option) poll :: "'s host \<Rightarrow> int \<Rightarrow> go_error option \<Rightarrow> 's \<Rightarrow> (go_error option \<times> 's) option" where
  "poll h deadline lastErr s = (case ho_Now h s of (now, s1) \<Rightarrow>
     if \<not> now < deadline then Some (Some (case lastErr of
         None \<Rightarrow> PlainError ''cert-manager API not ready: %!w(<nil>)'' | Some e \<Rightarrow> WrapError ''cert-manager API not ready: '' e), s1)
     else (case run_cmd h probe_cmd s1 of
         (Ok u, s2) \<Rightarrow> Some (None, s2)
       | (Err e, s2) \<Rightarrow> poll h deadline (Some e) (ho_Sleep h (2 * time_Second) s2)
       | (Panic p, s2) \<Rightarrow> Some (Some (PlainError p), s2)))"

definition waitForCertManagerAPI :: "'s host \<Rightarrow> 's \<Rightarrow> (go_error option \<times> 's) option" where
  "waitForCertManagerAPI h s = (case ho_Now h s of (now, s1) \<Rightarrow> poll h (now + 2 * 60 * time_Second) None s1)"

definition wait_available :: "string \<Rightarrow> command" where
  "wait_available deployment = Command [''kubectl'', ''wait'', ''deployment.apps/'' @ deployment,
     ''--for'', ''condition=Available'', ''--namespace'', ''cert-manager'', ''--timeout'', ''5m'']"

definition InstallCertManager :: "'s host \<Rightarrow> 's \<Rightarrow> (go_error option \<times> 's) option" where
  "InstallCertManager h s = (case thenE (run_cmd h (Command [''kubectl'', ''apply'', ''-f'', certmanagerURL]))
       (forE [''cert-manager'', ''cert-manager-cainjector'', ''cert-manager-webhook''] (\<lambda>deployment. run_cmd h (wait_available deployment))) s of
     (Ok u, s') \<Rightarrow> waitForCertManagerAPI h s'
   | (Err e, s') \<Rightarrow> Some (Some e, s')
   | (Panic p, s') \<Rightarrow> Some (Some (PlainError p), s'))"

section \<open>Waiting ends\<close>

text \<open>
  A host whose clock does not go back and that sleeps at least as long as it is asked to;
  \<open>runs\<close> counts the commands.
\<close>

locale ticking_host =
  fixes h :: "'s host" and clock :: "'s \<Rightarrow> int" and runs :: "'s \<Rightarrow> nat"
  assumes getwd_ticks: "ho_Getwd h s = (rd, s') \<Longrightarrow> clock s \<le> clock s' \<and> runs s' = runs s"
    and chdir_ticks: "ho_Chdir h dir s = (re, s') \<Longrightarrow> clock s \<le> clock s' \<and> runs s' = runs s"
    and environ_ticks: "ho_Environ h s = (rl, s') \<Longrightarrow> clock s \<le> clock s' \<and> runs s' = runs s"
    and log_ticks: "s' = ho_Log h l s \<Longrightarrow> clock s \<le> clock s' \<and> runs s' = runs s"
    and command_ticks: "ho_CombinedOutput h cmd s = (ro, s') \<Longrightarrow> clock s \<le> clock s' \<and> runs s' = Suc (runs s)"
    and now_ticks: "ho_Now h s = (t, s') \<Longrightarrow> clock s \<le> t \<and> t \<le> clock s' \<and> runs s' = runs s"
    and sleep_ticks: "s' = ho_Sleep h d s \<Longrightarrow> clock s + d \<le> clock s' \<and> runs s' = runs s"
begin

lemma run_ticks:
  assumes "run_cmd h cmd s = (r, s')"
  shows "clock s \<le> clock s' \<and> runs s' = Suc (runs s) \<and> (\<forall>p. r \<noteq> Panic p)"
proof -
  obtain wd e1 s1 where g: "ho_Getwd h s = ((wd, e1), s1)" by (metis prod.exhaust)
  define dir where "dir = (if e1 = None then remove_all ''/test/e2e'' wd else wd)"
  obtain e2 s2 where c: "ho_Chdir h dir s1 = (e2, s2)" by fastforce
  define s3 where "s3 = (case e2 of None \<Rightarrow> s2 | Some e \<Rightarrow> ho_Log h (''chdir dir: '' @ go_quote (error_string e) @ [newline]) s2)"
  obtain env s4 where v: "ho_Environ h s3 = (env, s4)" by fastforce
  define s5 where "s5 = ho_Log h (''running: '' @ go_quote (join_str '' '' (cmd_Args cmd)) @ [newline]) s4"
  obtain out e3 s6 where o: "ho_CombinedOutput h (cmd\<lparr>cmd_Dir := dir, cmd_Env := env @ [''GO111MODULE=on'']\<rparr>) s5 = ((out, e3), s6)"
    by (metis prod.exhaust)
  have "s' = s6 \<and> (\<forall>p. r \<noteq> Panic p)"
    using assms g c v o unfolding dir_def s3_def s5_def
    by (cases e1; cases e2; cases e3)
      (auto simp: run_cmd_def Run_def GetProjectDir_def hostE_def orFail_def Let_def eff_run run_effectE)
  moreover have "clock s2 \<le> clock s3 \<and> runs s3 = runs s2"
    unfolding s3_def using log_ticks by (cases e2) simp_all
  moreover note getwd_ticks [OF g] chdir_ticks [OF c] environ_ticks [OF v] log_ticks [OF s5_def] command_ticks [OF o]
  ultimately show ?thesis by auto
qed

lemma poll_ends:
  assumes "deadline - clock s \<le> int n * (2 * time_Second)"
  shows "\<exists>r s'. poll h deadline e s = Some (r, s') \<and> runs s' \<le> runs s + n \<and> (r = None \<or> deadline \<le> clock s')"
  using assms
proof (induction n arbitrary: e s)
  case 0
  obtain t s1 where t: "ho_Now h s = (t, s1)" by fastforce
  with 0 now_ticks [OF t] show ?case by (subst poll.simps) auto
next
  case (Suc n)
  obtain t s1 where t: "ho_Now h s = (t, s1)" by fastforce
  note n = now_ticks [OF t]
  obtain r s2 where run: "run_cmd h probe_cmd s1 = (r, s2)" by fastforce
  note k = run_ticks [OF run]
  let ?s3 = "ho_Sleep h (2 * time_Second) s2"
  note sl = sleep_ticks [OF refl, of s2 "2 * time_Second"]
  have "deadline - clock ?s3 \<le> int n * (2 * time_Second)"
    using Suc.prems n k sl by (simp add: algebra_simps)
  from Suc.IH [OF this] show ?case
    using t n run k sl by (cases "t < deadline"; cases r; subst poll.simps; fastforce)
qed

lemma waiting_ends:
  "\<exists>r s'. waitForCertManagerAPI h s = Some (r, s') \<and> runs s' \<le> runs s + 60 \<and>
     (r = None \<or> clock s + 2 * 60 * time_Second \<le> clock s')"
proof -
  obtain t s1 where t: "ho_Now h s = (t, s1)" by fastforce
  note n = now_ticks [OF t]
  have "t + 2 * 60 * time_Second - clock s1 \<le> int 60 * (2 * time_Second)" using n by simp
  from poll_ends [OF this, of None] show ?thesis
    using t n by (auto simp: waitForCertManagerAPI_def)
qed

lemma sequence_ticks:
  assumes "forE cmds (run_cmd h) s = (r, s')"
  shows "clock s \<le> clock s' \<and> runs s' \<le> runs s + length cmds \<and> (\<forall>p. r \<noteq> Panic p)"
  using assms
proof (induction cmds arbitrary: s)
  case (Cons cmd cmds)
  obtain r1 s1 where one: "run_cmd h cmd s = (r1, s1)" by fastforce
  note k = run_ticks [OF one]
  show ?case
  proof (cases r1)
    case (Ok u)
    with Cons.prems one have "forE cmds (run_cmd h) s1 = (r, s')" by (simp add: run_bindE)
    from Cons.IH [OF this] k show ?thesis by auto
  qed (use Cons.prems one k in \<open>auto simp: run_bindE\<close>)
qed (auto simp: run_retE)

lemma install_ends:
  "\<exists>r s'. InstallCertManager h s = Some (r, s') \<and> runs s' \<le> runs s + 64"
proof -
  let ?cmds = "Command [''kubectl'', ''apply'', ''-f'', certmanagerURL] #
    map wait_available [''cert-manager'', ''cert-manager-cainjector'', ''cert-manager-webhook'']"
  obtain r1 s1 where c: "forE ?cmds (run_cmd h) s = (r1, s1)" by fastforce
  note k = sequence_ticks [OF c]
  have i: "InstallCertManager h s = (case (r1, s1) of (Ok u, s') \<Rightarrow> waitForCertManagerAPI h s'
     | (Err e, s') \<Rightarrow> Some (Some e, s') | (Panic p, s') \<Rightarrow> Some (Some (PlainError p), s'))"
    unfolding InstallCertManager_def c [symmetric] by (simp add: thenE_def)
  show ?thesis
  proof (cases r1)
    case (Ok u)
    obtain r s' where "waitForCertManagerAPI h s1 = Some (r, s')" "runs s' \<le> runs s1 + 60" using waiting_ends by blast
    with Ok i k show ?thesis by auto
  qed (use i k in auto)
qed

end

section \<open>A host in memory\<close>

record os =
  os_Clock :: int
  os_Runs :: nat
  os_Wd :: string
  os_Environ :: "(string \<times> string) list"
  os_Files :: "(string \<times> string) list"
  os_Failing :: nat
  os_Log :: "string list"

text \<open>Commands take a second each; the next \<open>os_Failing\<close> of them fail.\<close>

definition os_run :: "os \<Rightarrow> go_error option \<times> os" where
  "os_run s = (if os_Failing s = 0 then None else Some (PlainError ''exit status 1''),
     s\<lparr>os_Clock := os_Clock s + time_Second, os_Runs := Suc (os_Runs s), os_Failing := os_Failing s - 1\<rparr>)"

definition os_missing :: go_error where
  "os_missing = PlainError ''no such file or directory''"

definition mem_host :: "os host" where
  "mem_host = \<lparr>ho_Getwd = (\<lambda>s. ((os_Wd s, None), s)), ho_Chdir = (\<lambda>d s. (None, s\<lparr>os_Wd := d\<rparr>)),
     ho_Environ = (\<lambda>s. (map (\<lambda>(k, v). k @ ''='' @ v) (os_Environ s), s)),
     ho_LookupEnv = (\<lambda>v s. (map_of (os_Environ s) v, s)),
     ho_LookPath = (\<lambda>tool s. (if tool = ''podman'' then None else Some os_missing, s)),
     ho_CombinedOutput = (\<lambda>cmd s. case os_run s of (e, s') \<Rightarrow> (([], e), s')),
     ho_Exec = (\<lambda>cmd s. os_run s),
     ho_CreateTemp = (\<lambda>pat s. (Inr ''/tmp/kind-image.tar'', s\<lparr>os_Files := AList.update ''/tmp/kind-image.tar'' [] (os_Files s)\<rparr>)),
     ho_Remove = (\<lambda>f s. (if map_of (os_Files s) f = None then Some os_missing else None, s\<lparr>os_Files := AList.delete f (os_Files s)\<rparr>)),
     ho_IsNotExist = (\<lambda>e. e = os_missing),
     ho_ReadFile = (\<lambda>f s. (case map_of (os_Files s) f of None \<Rightarrow> Inl os_missing | Some t \<Rightarrow> Inr t, s)),
     ho_WriteFile = (\<lambda>f t s. (None, s\<lparr>os_Files := AList.update f t (os_Files s)\<rparr>)),
     ho_Now = (\<lambda>s. (os_Clock s, s)), ho_Sleep = (\<lambda>d s. s\<lparr>os_Clock := os_Clock s + max 0 d\<rparr>),
     ho_Log = (\<lambda>l s. s\<lparr>os_Log := os_Log s @ [l]\<rparr>)\<rparr>"

interpretation mem_os: ticking_host mem_host os_Clock os_Runs
  by unfold_locales (auto simp: mem_host_def os_run_def time_Second_def split: if_splits)

text \<open>
  C35: Installing cert-manager for the tests ends.  On a host whose clock does not go back and
  which sleeps as long as it is told, the polling loop comes to a result after at most 60
  probes, gives up no earlier than two minutes after it began, and the whole installation
  returns after at most 64 commands, whatever they answer.
\<close>

theorem install_cert_manager_ends:
  assumes "ticking_host h clock runs"
  shows "(\<exists>r s'. waitForCertManagerAPI h s = Some (r, s') \<and> runs s' \<le> runs s + 60 \<and>
      (r = None \<or> clock s + 2 * 60 * time_Second \<le> clock s')) \<and>
    (\<exists>r s'. InstallCertManager h s = Some (r, s') \<and> runs s' \<le> runs s + 64)"
  using ticking_host.waiting_ends [OF assms] ticking_host.install_ends [OF assms] by blast

definition ex_os :: os where
  "ex_os = \<lparr>os_Clock = 0, os_Runs = 0, os_Wd = ''/src/test/e2e'', os_Environ = [], os_Files = [], os_Failing = 100, os_Log = []\<rparr>"

theorem install_cert_manager_ends_witness:
  "\<exists>r s'. waitForCertManagerAPI mem_host ex_os = Some (r, s') \<and> os_Runs s' \<le> 60 \<and> (r = None \<or> 120 * time_Second \<le> os_Clock s')"
  using conjunct1 [OF install_cert_manager_ends [OF mem_os.ticking_host_axioms, of ex_os]] by (simp add: ex_os_def)

section \<open>Uncommenting\<close>

lemma split_joined: "xs \<noteq> [] \<Longrightarrow> \<forall>x \<in> set xs. newline \<notin> set x \<Longrightarrow> split_lines (join_str [newline] xs) = xs"
proof (induction "[newline]" xs rule: join_str.induct)
  case (2 x)
  then show ?case by (induction x) auto
next
  case (3 x y ys)
  have "split_lines (z @ newline # t) = z # split_lines t" if "newline \<notin> set z" for z t
    using that by (induction z) auto
  with 3 show ?case by simp
qed simp

lemma scan_joined:
  assumes "xs \<noteq> []" "last xs \<noteq> []" "\<forall>x \<in> set xs. newline \<notin> set x \<and> CHR 0x0D \<notin> set x \<and> length x < 64 * 1024"
  shows "scan_lines (join_str [newline] xs) = xs"
proof -
  have "drop_cr x = x" if "x \<in> set xs" for x using assms(3) that last_in_set [of x] unfolding drop_cr_def by metis
  then have cr: "map drop_cr xs = xs" by (simp add: map_idI)
  have all: "takeWhile (\<lambda>l. length l < 64 * 1024) xs = xs" using assms(3) by (simp add: takeWhile_eq_all_conv)
  have lines: "split_lines (join_str [newline] xs) = xs" using assms(1,3) by (intro split_joined) auto
  show ?thesis unfolding scan_lines_def Let_def lines by (simp only: assms(2) if_False all cr)
qed

text \<open>Code that was commented line by line gets its old text back, and the rest of the file stays.\<close>

lemma uncomment_restores:
  assumes "xs \<noteq> []" "pre \<noteq> []" "\<forall>x \<in> set xs. newline \<notin> set (pre @ x) \<and> CHR 0x0D \<notin> set (pre @ x) \<and> length (pre @ x) < 64 * 1024"
    and "target = join_str [newline] (map (\<lambda>x. pre @ x) xs)"
  shows "uncomment (a @ target @ b) target pre (length a) = a @ join_str [newline] xs @ b"
proof -
  have "scan_lines target = map (\<lambda>x. pre @ x) xs"
    unfolding assms(4) using assms(1-3) by (intro scan_joined) (auto simp: last_map)
  then show ?thesis by (simp add: uncomment_def comp_def trim_prefix_def)
qed

end
