(* ===== verification/Spec2Isabelle.thy ===== *)
theory Spec2Isabelle
  imports Sizing_Correct Helpers_Correct Policy_Correct Tenant_Correct Life_Correct Deep_Correct
    Settle_Correct Test_Utils
begin

text \<open>
  A model of the project onboarding operator, a Kubernetes operator in Go.  A cluster-scoped
  resource \<^verbatim>\<open>ProjectOnboarding\<close> lists tenant namespaces; for each entry the operator keeps a
  Namespace with labels and quota, limit range, network policies, an admin group with its
  role binding, an egress IP and Argo CD projects.  A second resource, \<^verbatim>\<open>TShirtSize\<close>, is a
  catalogue of quota presets.  Validating webhooks check both.

  How the parts interact.  The controller (\<^verbatim>\<open>internal/controller\<close>) reads a resource.  If it is
  being deleted, the guarded deletion of \<^verbatim>\<open>internal/onboarding/deletion.go\<close> runs, and the
  finalizer goes only when that is complete.  Otherwise it adds the finalizer, stops if the
  resource is paused, loads the cluster defaults, prunes given-up namespaces and works on the
  entries one after the other: clean-up of an offboarded entry, nothing for a disabled one, and
  \<^verbatim>\<open>ReconcileNamespace\<close> otherwise, which resolves the size, writes the objects and prunes what
  is no longer wanted.  The status, an event and the metrics report the outcome.

  Theories and code.
  \<^item> \<open>Prelude\<close>: texts of Go (\<^verbatim>\<open>strings\<close>, \<^verbatim>\<open>fmt\<close> verbs), shared collections.
    \<open>Go_Effects\<close>: errors, panics, and code that calls the cluster, as functions on a state,
    with the rules by which an invariant is carried through such code.
  \<^item> \<open>Api_Types\<close>: \<^verbatim>\<open>api/v1beta1\<close>, a record per struct, an option per pointer.
  \<^item> \<open>Helpers\<close>: \<^verbatim>\<open>helpers.go\<close>, \<^verbatim>\<open>errors.go\<close>, \<^verbatim>\<open>pause.go\<close>, \<^verbatim>\<open>monitoring.go\<close>,
    \<^verbatim>\<open>namespace_settings.go\<close>.  \<open>Tshirt_Merge\<close>: \<^verbatim>\<open>tshirt_merge.go\<close>, with the locale \<open>overlay\<close> of a
    pointer merge and its interpretations.  \<open>Quota_Build\<close>: the builders of \<^verbatim>\<open>reconcile_quota.go\<close>.
    \<open>Netpol_Build\<close>: those of \<^verbatim>\<open>reconcile_netpol.go\<close>.  \<open>Gitops\<close>: the pure parts of
    \<^verbatim>\<open>argocd.go\<close> and \<^verbatim>\<open>defaults.go\<close>.  \<open>Quantity_Validation\<close> and \<open>Admission\<close>:
    \<^verbatim>\<open>internal/validation\<close> and \<^verbatim>\<open>internal/webhook\<close>.
  \<^item> \<open>Kube\<close>: objects and the client interface, with the locales \<open>selecting_client\<close> (what a read
    or a list returns) and \<open>guarded_client\<close> (calls that keep an invariant).  \<open>Cleanup\<close>:
    \<^verbatim>\<open>cleanup.go\<close>.  \<open>Reconcile_Ns\<close>: \<^verbatim>\<open>reconcile.go\<close> and what it calls.  \<open>Lifecycle\<close>:
    \<^verbatim>\<open>deletion.go\<close>, \<^verbatim>\<open>prune.go\<close>, the finalizer.  \<open>Controller\<close>: \<^verbatim>\<open>Reconcile\<close>, events, metrics and
    watches, with the locale \<open>guarded_operator\<close>.  \<open>Tshirt_Controller\<close>: the catalogue controller.
    \<open>Watches\<close>: \<^verbatim>\<open>SetupWithManager\<close> of both controllers as a table of watches, and the requests that
    an object is mapped to.  \<open>Startup\<close>: \<^verbatim>\<open>main\<close> of \<^verbatim>\<open>cmd/main.go\<close>, the calls and options by which
    the flags put the operator together.  \<open>Command_Line\<close>: the rest of the process, that is the
    registrations of the \<^verbatim>\<open>init\<close> functions (types with the scheme, metrics with the registry), the
    flags with their defaults, the parsing of the arguments, and the exit status.
    \<open>Test_Utils\<close>: \<^verbatim>\<open>test/utils/utils.go\<close> over a host of files, environment, clock and commands,
    with the locale \<open>ticking_host\<close> and its interpretation on a host in memory.
  \<^item> \<open>Store\<close>: the locale \<open>store_client\<close>, calls that read and write one store of objects, and a
    calculus of what a run leaves there; \<open>Store_Reconcile\<close> applies it to the reconciliation of
    an entry.  \<open>Settle\<close>: the locale \<open>settling_client\<close> extends that contract by what lets a run be
    repeated without effect, and shows that the store which a run of an entry leaves is a fixed
    point of it.  \<open>Settle_Run\<close>: the locale \<open>resting_operator\<close>, in which
    the same follows for a whole run of the controller, with its status and events.
    \<open>Resource_Life\<close>: the step relation \<open>life_step\<close> of runs and steps of others, with the
    locales \<open>resource_operator\<close> (the store of the resources), of which \<open>guarded_operator\<close> is a
    sublocale twice, and \<open>reliable_operator\<close> (calls do not fail while the cluster is calm).
    \<open>Mem_Cluster\<close>: an executable cluster with faults, on which every locale of the
    client is interpreted and the concrete runs are evaluated.
  \<^item> \<open>Go_Heap\<close>: memory as a list of blocks, pointers, slices and maps, what an address stands for,
    and the locales \<open>deep_copy\<close> and \<open>deep_copy_kind\<close>, the contract of a copying function and of
    those for pointers and slices that it gives.  \<open>Deep_Types\<close>: the structs of \<^verbatim>\<open>api/v1beta1\<close> with
    addresses for fields.  \<open>Deep_Copy\<close> and \<open>Deep_Resources\<close>: \<^verbatim>\<open>zz_generated.deepcopy.go\<close>, an
    interpretation of the contract per type, over the locale \<open>apimachinery\<close> where a struct embeds
    one of that library.  \<open>Deep_Merge\<close> and \<open>Deep_Resolve\<close>: \<^verbatim>\<open>tshirt_merge.go\<close> and
    \<^verbatim>\<open>MergeClusterDefaults\<close> once more, on memory, with the pointers they share and the fields they
    overwrite, as refinements of \<open>Tshirt_Merge\<close> and \<open>Gitops\<close>.  \<open>Machinery\<close>: the structs of
    apimachinery as an instance of \<open>apimachinery\<close>.
  \<^item> Properties: \<open>Sizing_Correct\<close> (sizing, builders, quantity checks), \<open>Helpers_Correct\<close>
    (labels, conditions, names, watches, retries), \<open>Policy_Correct\<close> (network policies and
    GitOps), \<open>Tenant_Correct\<close> (deletions, writes, offboarding, status, what a run leaves; the
    predicates \<open>switched_on\<close>, \<open>entry_object\<close> and \<open>leftover\<close> say what an entry asks for, may own and
    no longer asks for, and \<open>left_behind\<close> and \<open>overlooked\<close> name what the code does not look for),
    \<open>Life_Correct\<close> (no tenant without its resource over any sequence of runs, the end of a deleted
    resource, the start of the operator and its command line), \<open>Deep_Correct\<close> (copies and merges
    on memory share nothing), \<open>Settle_Correct\<close> (a second run of an entry and of the controller
    changes nothing), \<open>Test_Utils\<close> (waiting for cert-manager ends).

  State and errors.  The state of the cluster is a type variable: a Go function that takes a
  \<^verbatim>\<open>client.Client\<close> takes a \<open>client\<close> record and returns an effect, a function from the state to a
  result (a value, an error or a panic) and the new state.  A returned error, an early return
  and a panic are branches.  Counts are 32-bit words where the code has \<^verbatim>\<open>int32\<close>; durations are
  integers in nanoseconds.  There is no fuel: the loops are over lists, but for the
  polling of \<open>Test_Utils\<close>, a \<^verbatim>\<open>partial_function\<close> whose end is proved.  Resources are
  values, except in the theories on memory: there a nil dereference or an index out of range is
  the result \<open>None\<close>, and their properties justify the values elsewhere, since what a routine
  changes is its own copy.

  Parameters for code outside the repository: the client; the scheme (owner references); the
  quantity grammar, of which \<open>quantity_grammar\<close> says that a quantity is not empty, has no white
  space around it and no misspelt suffix, and that numbers are quantities; the visiting order of
  a map; whether \<^verbatim>\<open>GetLabels()\<close> of an unstructured object aliases the object; the clock; the YAML
  parser; the name check; the environment; the deep copies of four structs of apimachinery; the flags that other packages
  register; what registering a type or a metric returns; the host of the test helpers.

  Not modelled: the order of fresh addresses (a block is appended once its contents are known) and
  the spare capacity of slices; the generation in a condition, which the code never sets; that a
  status update refreshes the object it is given, which no later code of a run looks at; what
  controller-runtime makes of a result (with an error it ignores it and backs off); log output and the two version strings; the assertions of the
  end-to-end tests (\<^verbatim>\<open>test/e2e\<close>), which wrap single \<^verbatim>\<open>kubectl\<close> commands in Gomega.
  A run is one step: the work queue of controller-runtime serialises runs for one resource, and
  other actors move between runs (\<open>life_step\<close>).  Writes of other clients between two calls of a
  run and a stale cache are not in the model, except that the theorems with \<open>selecting_client\<close>
  alone hold for any answers of the server; that the server adds metadata and fills in defaults
  is allowed for in \<open>Store\<close> and \<open>Settle\<close>.
\<close>

end
